(* ===== verification/Prelude.thy ===== *)
theory Prelude
  imports Main "HOL-Library.Word"
begin

text \<open>
  Shared vocabulary of the development.

  \<^item> \<open>('e, 'a) res\<close> is the outcome of a Rust function: \<open>Ok\<close> and \<open>Err\<close> are the two
    constructors of \<open>Result\<close>; \<open>Panic\<close> is an unwinding panic (\<open>unwrap\<close> of an error, an
    index out of range, \<open>unreachable!\<close>), which is neither.
  \<^item> \<open>rbind\<close> is the \<open>?\<close> operator.
  \<^item> byte strings are lists of 8-bit words; \<open>to_be_bytes\<close>, \<open>from_be_bytes\<close> and their
    little-endian variants are the integer conversions of the Rust standard library, the
    integer kept as a natural number together with its width in bytes.
  \<^item> \<open>read_exact\<close> is \<open>std::io::Read::read_exact\<close> on an in-memory reader: the bytes asked
    for and what is left, or nothing when the reader ends early.
\<close>

section \<open>Outcomes\<close>

datatype ('e, 'a) res = Ok 'a | Err 'e | Panic

fun rbind :: "('e, 'a) res \<Rightarrow> ('a \<Rightarrow> ('e, 'b) res) \<Rightarrow> ('e, 'b) res" where
  "rbind (Ok x) f = f x"
| "rbind (Err e) f = Err e"
| "rbind Panic f = Panic"

fun rmap :: "('a \<Rightarrow> 'b) \<Rightarrow> ('e, 'a) res \<Rightarrow> ('e, 'b) res" where
  "rmap f (Ok x) = Ok (f x)"
| "rmap f (Err e) = Err e"
| "rmap f Panic = Panic"

text \<open>\<open>Result::map_err\<close>.\<close>

fun rmap_err :: "('e \<Rightarrow> 'f) \<Rightarrow> ('e, 'a) res \<Rightarrow> ('f, 'a) res" where
  "rmap_err f (Ok x) = Ok x"
| "rmap_err f (Err e) = Err (f e)"
| "rmap_err f Panic = Panic"

text \<open>\<open>Option::ok_or\<close>.\<close>

fun ok_or :: "'a option \<Rightarrow> 'e \<Rightarrow> ('e, 'a) res" where
  "ok_or (Some x) e = Ok x"
| "ok_or None e = Err e"

text \<open>\<open>Result::unwrap\<close> and \<open>Option::unwrap\<close>.\<close>

fun unwrap :: "('f, 'a) res \<Rightarrow> ('e, 'a) res" where
  "unwrap (Ok x) = Ok x"
| "unwrap (Err e) = Panic"
| "unwrap Panic = Panic"

fun unwrap_opt :: "'a option \<Rightarrow> ('e, 'a) res" where
  "unwrap_opt (Some x) = Ok x"
| "unwrap_opt None = Panic"

text \<open>The \<open>collect::<Result<Vec<_>, _>>()\<close> of a list of fallible computations: the first
  failure ends it.\<close>

fun rtraverse :: "('a \<Rightarrow> ('e, 'b) res) \<Rightarrow> 'a list \<Rightarrow> ('e, 'b list) res" where
  "rtraverse f [] = Ok []"
| "rtraverse f (x # xs) = rbind (f x) (\<lambda>y. rbind (rtraverse f xs) (\<lambda>ys. Ok (y # ys)))"

named_theorems res_simps \<open>characterisations of successful outcomes\<close>

lemma rbind_Ok_iff [res_simps]:
  "rbind m f = Ok y \<longleftrightarrow> (\<exists>x. m = Ok x \<and> f x = Ok y)"
  by (cases m) auto

lemma rbind_Err_iff:
  "rbind m f = Err e \<longleftrightarrow> m = Err e \<or> (\<exists>x. m = Ok x \<and> f x = Err e)"
  by (cases m) auto

lemma rbind_Panic_iff:
  "rbind m f = Panic \<longleftrightarrow> m = Panic \<or> (\<exists>x. m = Ok x \<and> f x = Panic)"
  by (cases m) auto

lemma rbind_assoc: "rbind (rbind m f) g = rbind m (\<lambda>x. rbind (f x) g)"
  by (cases m) auto

lemma rbind_Ok_right [simp]: "rbind m Ok = m"
  by (cases m) auto

lemma rbind_cong [fundef_cong]:
  assumes "m = m'" and "\<And>x. m' = Ok x \<Longrightarrow> f x = g x"
  shows "rbind m f = rbind m' g"
  using assms by (cases m') auto

lemma rmap_Ok_iff [res_simps]: "rmap f m = Ok y \<longleftrightarrow> (\<exists>x. m = Ok x \<and> y = f x)"
  by (cases m) auto

lemma rmap_err_Ok_iff [res_simps]: "rmap_err f m = Ok y \<longleftrightarrow> m = Ok y"
  by (cases m) auto

lemma rmap_err_Err_iff: "rmap_err f m = Err e \<longleftrightarrow> (\<exists>e'. m = Err e' \<and> e = f e')"
  by (cases m) auto

lemma rmap_err_Panic_iff [simp]: "rmap_err f m = Panic \<longleftrightarrow> m = Panic"
  by (cases m) auto

lemma ok_or_Ok_iff [res_simps]: "ok_or m e = Ok y \<longleftrightarrow> m = Some y"
  by (cases m) auto

lemma ok_or_not_Panic [simp]: "ok_or m e \<noteq> Panic"
  by (cases m) auto

lemma unwrap_Ok_iff [res_simps]: "unwrap m = Ok y \<longleftrightarrow> m = Ok y"
  by (cases m) auto

lemma unwrap_not_Err [simp]: "unwrap m \<noteq> Err e"
  by (cases m) auto

lemma unwrap_opt_Ok_iff [res_simps]: "unwrap_opt m = Ok y \<longleftrightarrow> m = Some y"
  by (cases m) auto

lemma unwrap_opt_not_Err [simp]: "unwrap_opt m \<noteq> Err e"
  by (cases m) auto

lemma case_list_Ok_iff:
  "(case xs of [] \<Rightarrow> Err e | y # ys \<Rightarrow> f y ys) = Ok z \<longleftrightarrow> (\<exists>y ys. xs = y # ys \<and> f y ys = Ok z)"
  by (cases xs) auto

lemma rtraverse_Ok_iff:
  "rtraverse f xs = Ok ys \<longleftrightarrow> list_all2 (\<lambda>x y. f x = Ok y) xs ys"
  by (induction xs arbitrary: ys) (auto simp: rbind_Ok_iff list_all2_Cons1)

lemma rtraverse_map_Ok:
  assumes "\<And>x. x \<in> set xs \<Longrightarrow> f x = Ok (g x)"
  shows "rtraverse f xs = Ok (map g xs)"
  using assms by (induction xs) auto

section \<open>Computations with state\<close>

text \<open>A fallible computation on a state \<open>'s\<close>: the state may have changed before a failure. \<open>sbind\<close> is
  sequencing with \<open>?\<close>, \<open>lift\<close> embeds a computation that does not touch the state.\<close>

type_synonym ('s, 'e, 'a) st = "'s \<Rightarrow> 's \<times> ('e, 'a) res"

definition sbind :: "('s, 'e, 'a) st \<Rightarrow> ('a \<Rightarrow> ('s, 'e, 'b) st) \<Rightarrow> ('s, 'e, 'b) st" where
  "sbind m f s = (case m s of (s', Ok x) \<Rightarrow> f x s' | (s', Err e) \<Rightarrow> (s', Err e) | (s', Panic) \<Rightarrow> (s', Panic))"

definition lift :: "('e, 'a) res \<Rightarrow> ('s, 'e, 'a) st" where
  "lift r s = (s, r)"

definition smap_err :: "('e \<Rightarrow> 'f) \<Rightarrow> ('s, 'e, 'a) st \<Rightarrow> ('s, 'f, 'a) st" where
  "smap_err g m s = (case m s of (s', r) \<Rightarrow> (s', rmap_err g r))"

lemma lift_simps [simp]: "lift r s = (s', r') \<longleftrightarrow> s' = s \<and> r = r'"
  by (auto simp: lift_def)

lemma sbind_Ok_iff [res_simps]:
  "sbind m f s = (s', Ok y) \<longleftrightarrow> (\<exists>s1 x. m s = (s1, Ok x) \<and> f x s1 = (s', Ok y))"
  by (auto simp: sbind_def split: prod.splits res.splits)

lemma sbind_lift: "sbind (lift r) f s = (case r of Ok x \<Rightarrow> f x s | Err e \<Rightarrow> (s, Err e) | Panic \<Rightarrow> (s, Panic))"
  by (auto simp: sbind_def lift_def split: res.splits)

lemma sbind_lift_simps [simp]:
  "sbind (lift (Ok x)) f s = f x s" "sbind (lift (Err e)) f s = (s, Err e)" "sbind (lift Panic) f s = (s, Panic)"
  by (simp_all add: sbind_lift)

lemma smap_err_Ok_iff [res_simps]: "smap_err g m s = (s', Ok y) \<longleftrightarrow> m s = (s', Ok y)"
  by (auto simp: smap_err_def rmap_err_Ok_iff split: prod.splits)

text \<open>\<open>preserves P m\<close>: the computation \<open>m\<close> preserves the property \<open>P\<close> of the state, whether it succeeds or
  not.\<close>

definition preserves :: "('s \<Rightarrow> bool) \<Rightarrow> ('s, 'e, 'a) st \<Rightarrow> bool" where
  "preserves P m \<longleftrightarrow> (\<forall>s. P s \<longrightarrow> P (fst (m s)))"

named_theorems preserves_intros \<open>preservation of state properties by computations\<close>

lemma preserves_lift [preserves_intros]: "preserves P (lift r)"
  by (simp add: preserves_def lift_def)

lemma preserves_sbind [preserves_intros]: "preserves P m \<Longrightarrow> (\<And>x. preserves P (f x)) \<Longrightarrow> preserves P (sbind m f)"
  unfolding preserves_def sbind_def by (auto split: prod.splits res.splits)

lemma preserves_sbind_lift: "(\<And>x. r = Ok x \<Longrightarrow> preserves P (f x)) \<Longrightarrow> preserves P (sbind (lift r) f)"
  unfolding preserves_def sbind_lift by (cases r) auto

lemma preserves_smap_err [preserves_intros]: "preserves P m \<Longrightarrow> preserves P (smap_err g m)"
  unfolding preserves_def smap_err_def by (auto split: prod.splits)

lemma preserves_if [preserves_intros]: "(b \<Longrightarrow> preserves P m) \<Longrightarrow> (\<not> b \<Longrightarrow> preserves P m') \<Longrightarrow> preserves P (if b then m else m')"
  by simp

lemma preserves_case_option [preserves_intros]:
  "preserves P m \<Longrightarrow> (\<And>x. preserves P (f x)) \<Longrightarrow> preserves P (case y of None \<Rightarrow> m | Some x \<Rightarrow> f x)"
  by (cases y) simp_all

lemma preserves_case_prod [preserves_intros]: "(\<And>x y. preserves P (f x y)) \<Longrightarrow> preserves P (case p of (x, y) \<Rightarrow> f x y)"
  by (cases p) simp

lemma preservesD: "preserves P m \<Longrightarrow> m s = (s', r) \<Longrightarrow> P s \<Longrightarrow> P s'"
  by (metis fst_conv preserves_def)

section \<open>Bytes and integers\<close>

type_synonym u8 = "8 word"
type_synonym u16 = "16 word"
type_synonym u32 = "32 word"
type_synonym u64 = "64 word"
type_synonym bytes = "8 word list"

text \<open>\<open>uN::to_be_bytes\<close> of an integer of \<open>k\<close> bytes, and \<open>uN::from_be_bytes\<close>.\<close>

fun to_be_bytes :: "nat \<Rightarrow> nat \<Rightarrow> bytes" where
  "to_be_bytes 0 n = []"
| "to_be_bytes (Suc k) n = to_be_bytes k (n div 256) @ [word_of_nat (n mod 256)]"

definition from_be_bytes :: "bytes \<Rightarrow> nat" where
  "from_be_bytes bs = foldl (\<lambda>a b. a * 256 + unat b) 0 bs"

definition to_le_bytes :: "nat \<Rightarrow> nat \<Rightarrow> bytes" where
  "to_le_bytes k n = rev (to_be_bytes k n)"

definition from_le_bytes :: "bytes \<Rightarrow> nat" where
  "from_le_bytes bs = from_be_bytes (rev bs)"

lemma length_to_be_bytes [simp]: "length (to_be_bytes k n) = k"
  by (induction k arbitrary: n) auto

lemma from_be_bytes_Nil [simp]: "from_be_bytes [] = 0"
  by (simp add: from_be_bytes_def)

lemma from_be_bytes_snoc [simp]: "from_be_bytes (bs @ [b]) = from_be_bytes bs * 256 + unat b"
  by (simp add: from_be_bytes_def)

lemma from_be_bytes_singleton [simp]: "from_be_bytes [b] = unat b"
  using from_be_bytes_snoc [of "[]" b] by simp

lemma unat_byte_less [simp]: "unat (b :: u8) < 256"
  using unsigned_less [of b, where ?'a = nat] by simp

lemma unat_byte_of_nat [simp]: "unat (word_of_nat n :: u8) = n mod 256"
  by (simp add: unat_of_nat)

lemma from_be_bytes_bound: "from_be_bytes bs < 256 ^ length bs"
proof (induction bs rule: rev_induct)
  case (snoc b bs)
  have "from_be_bytes bs * 256 + unat b < Suc (from_be_bytes bs) * 256"
    by simp
  also have "\<dots> \<le> 256 ^ length bs * 256"
    using snoc.IH by (intro mult_le_mono1) simp
  finally show ?case by (simp add: mult.commute)
qed simp

lemma from_to_be_bytes: "from_be_bytes (to_be_bytes k n) = n mod 256 ^ k"
proof (induction k arbitrary: n)
  case (Suc k)
  have "from_be_bytes (to_be_bytes (Suc k) n) = (n div 256 mod 256 ^ k) * 256 + n mod 256"
    using Suc by simp
  also have "\<dots> = n mod (256 * 256 ^ k)"
    by (simp only: mod_mult2_eq)
  finally show ?case by simp
qed simp

lemma from_to_be_bytes_id: "n < 256 ^ k \<Longrightarrow> from_be_bytes (to_be_bytes k n) = n"
  by (simp add: from_to_be_bytes)

lemma to_from_be_bytes: "to_be_bytes (length bs) (from_be_bytes bs) = bs"
proof (induction bs rule: rev_induct)
  case (snoc b bs)
  have "(from_be_bytes bs * 256 + unat b) div 256 = from_be_bytes bs"
    by simp
  moreover have "(from_be_bytes bs * 256 + unat b) mod 256 = unat b"
    by simp
  ultimately show ?case using snoc.IH by simp
qed simp

lemma length_to_le_bytes [simp]: "length (to_le_bytes k n) = k"
  by (simp add: to_le_bytes_def)

lemma from_to_le_bytes_id: "n < 256 ^ k \<Longrightarrow> from_le_bytes (to_le_bytes k n) = n"
  by (simp add: to_le_bytes_def from_le_bytes_def from_to_be_bytes_id)

text \<open>The bytes of an ASCII string.\<close>

definition ascii :: "string \<Rightarrow> bytes" where
  "ascii s = map (\<lambda>c. word_of_nat (of_char c)) s"

lemma ascii_simps [simp]:
  "ascii [] = []" "ascii (c # s) = word_of_nat (of_char c) # ascii s" "ascii (s @ t) = ascii s @ ascii t"
  by (simp_all add: ascii_def)

section \<open>Readers\<close>

definition read_exact :: "nat \<Rightarrow> bytes \<Rightarrow> (bytes \<times> bytes) option" where
  "read_exact n r = (if n \<le> length r then Some (take n r, drop n r) else None)"

lemma read_exact_Some_iff:
  "read_exact n r = Some (bs, r') \<longleftrightarrow> r = bs @ r' \<and> length bs = n"
  by (auto simp: read_exact_def)

lemma read_exact_append [simp]: "read_exact (length bs) (bs @ r) = Some (bs, r)"
  by (simp add: read_exact_def)

lemma read_exact_append_eq: "length bs = n \<Longrightarrow> read_exact n (bs @ r) = Some (bs, r)"
  by auto

end
