(* ===== verification/Errors.thy ===== *)
theory Errors
  imports Prelude
begin

text \<open>
  The error values of the crate \<open>fdo-data-formats\<close> (\<open>data-formats/src/errors.rs\<close>), with
  the two enumerations they mention. The payloads that belong to third-party crates (an
  OpenSSL error stack, a serde error, an I/O error) are dropped: a constructor says which
  library failed. \<open>&'static str\<close> and \<open>String\<close> payloads are kept.
\<close>

datatype protocol_version = Version1_0 | Version1_1

datatype major_type =
  Unsigned | Negative | ByteString | TextString | Array | Map | Tag | Special

datatype array_parse_error =
  InvalidTopLevelType major_type
| LengthParseFailure
| InvalidMajorType u8
| ParseFailure string
| UnsupportedMajorType u8
| InvalidNumberOfElements nat nat
| NoData

datatype chain_error =
  ChainEmpty | InvalidSignedCert nat | NoTrustedRoot | NonIssuer nat

datatype error =
  CryptoStack
| Kdf
| SerdeCborError
| CiboriumDeError
| CiboriumSerError
| Cose
| IncorrectHash
| IncorrectNonce
| UnsupportedAlgorithm
| NonOwnerKey
| NotImplemented string
| InconsistentValue string
| InvalidTransition
| InvalidProtocolVersion protocol_version
| InvalidSuiteName string
| InvalidEntryNum
| KeyExchangeError string
| InvalidChain chain_error
| ArrayParseError array_parse_error
| PemError
| InvalidPemTag string
| IoError
| HexError
| AddrError
| UnsupportedVersion "protocol_version option"
| TssError
| EmptyData

type_synonym 'a result = "(error, 'a) res"

text \<open>The discriminants of \<open>#[repr(u16)] enum ProtocolVersion\<close>, and its derived order.\<close>

fun protocol_version_u16 :: "protocol_version \<Rightarrow> u16" where
  "protocol_version_u16 Version1_0 = 100"
| "protocol_version_u16 Version1_1 = 101"

instantiation protocol_version :: linorder
begin

definition less_eq_protocol_version :: "protocol_version \<Rightarrow> protocol_version \<Rightarrow> bool" where
  "less_eq_protocol_version v w \<longleftrightarrow> protocol_version_u16 v \<le> protocol_version_u16 w"

definition less_protocol_version :: "protocol_version \<Rightarrow> protocol_version \<Rightarrow> bool" where
  "less_protocol_version v w \<longleftrightarrow> protocol_version_u16 v < protocol_version_u16 w"

instance
proof
  fix x y z :: protocol_version
  show "(x < y) = (x \<le> y \<and> \<not> y \<le> x)"
    by (auto simp: less_eq_protocol_version_def less_protocol_version_def)
  show "x \<le> x" by (simp add: less_eq_protocol_version_def)
  show "x \<le> y \<Longrightarrow> y \<le> z \<Longrightarrow> x \<le> z" by (simp add: less_eq_protocol_version_def)
  show "x \<le> y \<Longrightarrow> y \<le> x \<Longrightarrow> x = y"
    by (cases x; cases y) (simp_all add: less_eq_protocol_version_def)
  show "x \<le> y \<or> y \<le> x" by (auto simp: less_eq_protocol_version_def)
qed

end

lemma Version1_0_less_Version1_1 [simp]: "Version1_0 < Version1_1"
  by (simp add: less_protocol_version_def)

lemma not_Version1_1_less [simp]: "\<not> Version1_1 < v"
  by (cases v) (simp_all add: less_protocol_version_def)

end
