(* ===== verification/Constants.thy ===== *)
theory Constants
  imports Errors
begin

text \<open>
  The enumerations of \<open>data-formats/src/constants/mod.rs\<close> and the service-info module names
  of \<open>constants/serviceinfo_names.rs\<close>: the values with their discriminants (the numbers that
  \<open>serde_repr\<close> puts on the wire), the parsers of their textual names, and
  \<open>MessageType::try_from\<close>. Strings are ASCII; \<open>to_lowercase\<close> is \<open>str::to_lowercase\<close> there.
  Variants whose names two enumerations share carry the enumeration's initials.
\<close>

definition to_lowercase :: "string \<Rightarrow> string" where
  "to_lowercase s = map (\<lambda>c. if 65 \<le> (of_char c :: nat) \<and> (of_char c :: nat) \<le> 90
     then char_of (of_char c + 32 :: nat) else c) s"

section \<open>Hashes, keys and header labels\<close>

datatype hash_type = Sha256 | Sha384 | HmacSha256 | HmacSha384

fun hash_type_i8 :: "hash_type \<Rightarrow> int" where
  "hash_type_i8 Sha256 = -16"
| "hash_type_i8 Sha384 = -43"
| "hash_type_i8 HmacSha256 = 5"
| "hash_type_i8 HmacSha384 = 6"

definition hash_type_from_str :: "string \<Rightarrow> hash_type result" where
  "hash_type_from_str s =
     (if s = ''sha256'' then Ok Sha256
      else if s = ''sha384'' then Ok Sha384
      else Err (InconsistentValue ''Invalid digest name''))"

text \<open>\<open>openssl::hash::MessageDigest\<close>, as far as the code names it.\<close>

datatype message_digest = MdSha256 | MdSha384

fun message_digest_try_from :: "hash_type \<Rightarrow> message_digest result" where
  "message_digest_try_from Sha256 = Ok MdSha256"
| "message_digest_try_from Sha384 = Ok MdSha384"
| "message_digest_try_from _ = Err UnsupportedAlgorithm"

fun get_md :: "hash_type \<Rightarrow> message_digest" where
  "get_md Sha256 = MdSha256"
| "get_md Sha384 = MdSha384"
| "get_md HmacSha256 = MdSha256"
| "get_md HmacSha384 = MdSha384"

fun digest_size :: "hash_type \<Rightarrow> nat" where
  "digest_size Sha256 = 32"
| "digest_size Sha384 = 48"
| "digest_size HmacSha256 = 32"
| "digest_size HmacSha384 = 48"

fun inner_hash :: "hash_type \<Rightarrow> hash_type" where
  "inner_hash Sha256 = Sha256"
| "inner_hash Sha384 = Sha384"
| "inner_hash HmacSha256 = Sha256"
| "inner_hash HmacSha384 = Sha384"

datatype device_sig_type =
  StSECP256R1 | StSECP384R1 | StRSA2048 | StRSA3072 | StEPID10 | StEPID11 | StEPID20

text \<open>ES256 and ES384 have the COSE algorithm numbers -7 and -35.\<close>

fun device_sig_type_i16 :: "device_sig_type \<Rightarrow> int" where
  "device_sig_type_i16 StSECP256R1 = -7"
| "device_sig_type_i16 StSECP384R1 = -35"
| "device_sig_type_i16 StRSA2048 = -257"
| "device_sig_type_i16 StRSA3072 = -258"
| "device_sig_type_i16 StEPID10 = 90"
| "device_sig_type_i16 StEPID11 = 91"
| "device_sig_type_i16 StEPID20 = 92"

datatype public_key_type = Rsa2048RESTR | RsaPkcs | RsaPss | SECP256R1 | SECP384R1

fun public_key_type_i16 :: "public_key_type \<Rightarrow> int" where
  "public_key_type_i16 Rsa2048RESTR = 1"
| "public_key_type_i16 RsaPkcs = 5"
| "public_key_type_i16 RsaPss = 6"
| "public_key_type_i16 SECP256R1 = 10"
| "public_key_type_i16 SECP384R1 = 11"

datatype public_key_encoding = EncCrypto | EncX509 | EncX5CHAIN | EncCosekey

fun public_key_encoding_u8 :: "public_key_encoding \<Rightarrow> int" where
  "public_key_encoding_u8 EncCrypto = 0"
| "public_key_encoding_u8 EncX509 = 1"
| "public_key_encoding_u8 EncX5CHAIN = 2"
| "public_key_encoding_u8 EncCosekey = 3"

datatype header_keys = EatNonce | EatUeid | CUPHNonce | CUPHOwnerPubKey | EUPHNonce | EatFDO

fun header_keys_i64 :: "header_keys \<Rightarrow> int" where
  "header_keys_i64 EatNonce = 10"
| "header_keys_i64 EatUeid = 11"
| "header_keys_i64 CUPHNonce = 256"
| "header_keys_i64 CUPHOwnerPubKey = 257"
| "header_keys_i64 EUPHNonce = -259"
| "header_keys_i64 EatFDO = -257"

datatype transport_protocol = TpTcp | TpTls | TpHttp | TpCoAP | TpHttps | TpCoAPS

fun transport_protocol_u8 :: "transport_protocol \<Rightarrow> int" where
  "transport_protocol_u8 TpTcp = 1"
| "transport_protocol_u8 TpTls = 2"
| "transport_protocol_u8 TpHttp = 3"
| "transport_protocol_u8 TpCoAP = 4"
| "transport_protocol_u8 TpHttps = 5"
| "transport_protocol_u8 TpCoAPS = 6"

section \<open>Rendezvous variables\<close>

datatype rendezvous_variable =
  DeviceOnly | OwnerOnly | IPAddress | DevicePort | OwnerPort | Dns | ServerCertHash | CaCertHash
| UserInput | WifiSsid | WifiPw | Medium | Protocol | Delaysec | Bypass

fun rendezvous_variable_u8 :: "rendezvous_variable \<Rightarrow> int" where
  "rendezvous_variable_u8 DeviceOnly = 0"
| "rendezvous_variable_u8 OwnerOnly = 1"
| "rendezvous_variable_u8 IPAddress = 2"
| "rendezvous_variable_u8 DevicePort = 3"
| "rendezvous_variable_u8 OwnerPort = 4"
| "rendezvous_variable_u8 Dns = 5"
| "rendezvous_variable_u8 ServerCertHash = 6"
| "rendezvous_variable_u8 CaCertHash = 7"
| "rendezvous_variable_u8 UserInput = 8"
| "rendezvous_variable_u8 WifiSsid = 9"
| "rendezvous_variable_u8 WifiPw = 10"
| "rendezvous_variable_u8 Medium = 11"
| "rendezvous_variable_u8 Protocol = 12"
| "rendezvous_variable_u8 Delaysec = 13"
| "rendezvous_variable_u8 Bypass = 14"

fun rv_name :: "rendezvous_variable \<Rightarrow> string" where
  "rv_name DeviceOnly = ''device-only''"
| "rv_name OwnerOnly = ''owner-only''"
| "rv_name IPAddress = ''ip-address''"
| "rv_name DevicePort = ''device-port''"
| "rv_name OwnerPort = ''owner-port''"
| "rv_name Dns = ''dns''"
| "rv_name ServerCertHash = ''server-cert-hash''"
| "rv_name CaCertHash = ''ca-cert-hash''"
| "rv_name UserInput = ''user-input''"
| "rv_name WifiSsid = ''wifi-ssid''"
| "rv_name WifiPw = ''wifi-pw''"
| "rv_name Medium = ''medium''"
| "rv_name Protocol = ''protocol''"
| "rv_name Delaysec = ''delay-sec''"
| "rv_name Bypass = ''bypass''"

definition rv_from_str :: "string \<Rightarrow> rendezvous_variable result" where
  "rv_from_str str =
     (let s = to_lowercase str in
      if s \<in> {''deviceonly'', ''device_only''} then Ok DeviceOnly
      else if s \<in> {''owneronly'', ''owner_only''} then Ok OwnerOnly
      else if s \<in> {''ipaddress'', ''ip_address'', ''ip''} then Ok IPAddress
      else if s \<in> {''deviceport'', ''device_port''} then Ok DevicePort
      else if s \<in> {''ownerport'', ''owner_port''} then Ok OwnerPort
      else if s = ''dns'' then Ok Dns
      else if s \<in> {''servercerthash'', ''server_cert_hash''} then Ok ServerCertHash
      else if s \<in> {''cacerthash'', ''ca_cert_hash''} then Ok CaCertHash
      else if s \<in> {''userinput'', ''user_input''} then Ok UserInput
      else if s \<in> {''wifissid'', ''wifi_ssid''} then Ok WifiSsid
      else if s \<in> {''wifipw'', ''wifi_pw''} then Ok WifiPw
      else if s = ''medium'' then Ok Medium
      else if s = ''protocol'' then Ok Protocol
      else if s \<in> {''delaysec'', ''delay_sec'', ''delay''} then Ok Delaysec
      else if s = ''bypass'' then Ok Bypass
      else Err (InconsistentValue ''variable-name''))"

datatype rendezvous_protocol_value =
  RvRest | RvHttp | RvHttps | RvTcp | RvTls | RvCoAPTCP | RvCoAPUDP

fun rendezvous_protocol_value_u8 :: "rendezvous_protocol_value \<Rightarrow> int" where
  "rendezvous_protocol_value_u8 RvRest = 0"
| "rendezvous_protocol_value_u8 RvHttp = 1"
| "rendezvous_protocol_value_u8 RvHttps = 2"
| "rendezvous_protocol_value_u8 RvTcp = 3"
| "rendezvous_protocol_value_u8 RvTls = 4"
| "rendezvous_protocol_value_u8 RvCoAPTCP = 5"
| "rendezvous_protocol_value_u8 RvCoAPUDP = 6"

definition rpv_from_str :: "string \<Rightarrow> rendezvous_protocol_value result" where
  "rpv_from_str str =
     (let s = to_lowercase str in
      if s = ''rest'' then Ok RvRest
      else if s = ''http'' then Ok RvHttp
      else if s = ''https'' then Ok RvHttps
      else if s = ''tcp'' then Ok RvTcp
      else if s = ''tls'' then Ok RvTls
      else if s = ''coaptcp'' then Ok RvCoAPTCP
      else if s = ''coapudp'' then Ok RvCoAPUDP
      else Err (InconsistentValue ''protocol''))"

fun default_port :: "rendezvous_protocol_value \<Rightarrow> nat option" where
  "default_port RvHttp = Some 80"
| "default_port RvHttps = Some 443"
| "default_port _ = None"

section \<open>Messages and errors\<close>

datatype message_type =
  Invalid
| DIAppStart | DISetCredentials | DISetHMAC | DIDone
| TO0Hello | TO0HelloAck | TO0OwnerSign | TO0AcceptOwner
| TO1HelloRV | TO1HelloRVAck | TO1ProveToRV | TO1RVRedirect
| TO2HelloDevice | TO2ProveOVHdr | TO2GetOVNextEntry | TO2OVNextEntry | TO2ProveDevice
| TO2SetupDevice | TO2DeviceServiceInfoReady | TO2OwnerServiceInfoReady | TO2DeviceServiceInfo
| TO2OwnerServiceInfo | TO2Done | TO2Done2
| DIUNConnect | DIUNAccept | DIUNRequestKeyParameters | DIUNProvideKeyParameters | DIUNProvideKey
| DIUNDone
| Error

fun message_type_u8 :: "message_type \<Rightarrow> u8" where
  "message_type_u8 Invalid = 0"
| "message_type_u8 DIAppStart = 10"
| "message_type_u8 DISetCredentials = 11"
| "message_type_u8 DISetHMAC = 12"
| "message_type_u8 DIDone = 13"
| "message_type_u8 TO0Hello = 20"
| "message_type_u8 TO0HelloAck = 21"
| "message_type_u8 TO0OwnerSign = 22"
| "message_type_u8 TO0AcceptOwner = 23"
| "message_type_u8 TO1HelloRV = 30"
| "message_type_u8 TO1HelloRVAck = 31"
| "message_type_u8 TO1ProveToRV = 32"
| "message_type_u8 TO1RVRedirect = 33"
| "message_type_u8 TO2HelloDevice = 60"
| "message_type_u8 TO2ProveOVHdr = 61"
| "message_type_u8 TO2GetOVNextEntry = 62"
| "message_type_u8 TO2OVNextEntry = 63"
| "message_type_u8 TO2ProveDevice = 64"
| "message_type_u8 TO2SetupDevice = 65"
| "message_type_u8 TO2DeviceServiceInfoReady = 66"
| "message_type_u8 TO2OwnerServiceInfoReady = 67"
| "message_type_u8 TO2DeviceServiceInfo = 68"
| "message_type_u8 TO2OwnerServiceInfo = 69"
| "message_type_u8 TO2Done = 70"
| "message_type_u8 TO2Done2 = 71"
| "message_type_u8 DIUNConnect = 210"
| "message_type_u8 DIUNAccept = 211"
| "message_type_u8 DIUNRequestKeyParameters = 212"
| "message_type_u8 DIUNProvideKeyParameters = 213"
| "message_type_u8 DIUNProvideKey = 214"
| "message_type_u8 DIUNDone = 215"
| "message_type_u8 Error = 255"

definition all_message_types :: "message_type list" where
  "all_message_types =
     [Invalid, DIAppStart, DISetCredentials, DISetHMAC, DIDone, TO0Hello, TO0HelloAck, TO0OwnerSign,
      TO0AcceptOwner, TO1HelloRV, TO1HelloRVAck, TO1ProveToRV, TO1RVRedirect, TO2HelloDevice,
      TO2ProveOVHdr, TO2GetOVNextEntry, TO2OVNextEntry, TO2ProveDevice, TO2SetupDevice,
      TO2DeviceServiceInfoReady, TO2OwnerServiceInfoReady, TO2DeviceServiceInfo, TO2OwnerServiceInfo,
      TO2Done, TO2Done2, DIUNConnect, DIUNAccept, DIUNRequestKeyParameters,
      DIUNProvideKeyParameters, DIUNProvideKey, DIUNDone, Error]"

text \<open>The derived \<open>FromPrimitive::from_u8\<close>: the variant with that discriminant, if any; and
  \<open>TryFrom<u8>\<close>, whose error is the unit.\<close>

definition message_type_from_u8 :: "u8 \<Rightarrow> message_type option" where
  "message_type_from_u8 n = find (\<lambda>m. message_type_u8 m = n) all_message_types"

definition message_type_try_from :: "u8 \<Rightarrow> (unit, message_type) res" where
  "message_type_try_from value = (case message_type_from_u8 value of Some v \<Rightarrow> Ok v | None \<Rightarrow> Err ())"

datatype error_code =
  InvalidOwnershipVoucher | InvalidOwnerSignBody | InvalidIPAddress | InvalidGUID | ResourceNotFound
| MessageBodyError | InvalidMessageError | CredReuseError | InternalServerError

fun error_code_u16 :: "error_code \<Rightarrow> int" where
  "error_code_u16 InvalidOwnershipVoucher = 2"
| "error_code_u16 InvalidOwnerSignBody = 3"
| "error_code_u16 InvalidIPAddress = 4"
| "error_code_u16 InvalidGUID = 5"
| "error_code_u16 ResourceNotFound = 6"
| "error_code_u16 MessageBodyError = 100"
| "error_code_u16 InvalidMessageError = 101"
| "error_code_u16 CredReuseError = 102"
| "error_code_u16 InternalServerError = 500"

datatype mfg_string_type = SerialNumber | MACAddress

definition mfg_string_type_from_str :: "string \<Rightarrow> mfg_string_type result" where
  "mfg_string_type_from_str str =
     (let s = to_lowercase str in
      if s \<in> {''serialnumber'', ''serial_number''} then Ok SerialNumber
      else if s \<in> {''macaddress'', ''mac_address''} then Ok MACAddress
      else Err (InconsistentValue ''mfg-string-type''))"

datatype key_storage_type = FileSystem | Tpm

definition key_storage_type_from_str :: "string \<Rightarrow> key_storage_type result" where
  "key_storage_type_from_str str =
     (let s = to_lowercase str in
      if s = ''filesystem'' then Ok FileSystem
      else if s = ''tpm'' then Ok Tpm
      else Err (InconsistentValue ''storage-type''))"

section \<open>Service-info module names\<close>

datatype standard_service_info_module = DevMod

datatype fedora_iot_service_info_module =
  Command | SSHKey | BinaryFile | DiskEncryptionClevis | Reboot

datatype red_hat_com_service_info_module = SubscriptionManager

datatype service_info_module =
  Standard standard_service_info_module
| FedoraIot fedora_iot_service_info_module
| RedHatCom red_hat_com_service_info_module
| Unsupported string

definition service_info_module_from_str :: "string \<Rightarrow> service_info_module result" where
  "service_info_module_from_str s =
     Ok (if s = ''org.fedoraiot.binaryfile'' then FedoraIot BinaryFile
         else if s = ''org.fedoraiot.command'' then FedoraIot Command
         else if s = ''org.fedoraiot.sshkey'' then FedoraIot SSHKey
         else if s = ''org.fedoraiot.diskencryption-clevis'' then FedoraIot DiskEncryptionClevis
         else if s = ''org.fedoraiot.reboot'' then FedoraIot Reboot
         else if s = ''com.redhat.subscriptionmanager'' then RedHatCom SubscriptionManager
         else if s = ''devmod'' then Standard DevMod
         else Unsupported s)"

fun standard_fmt :: "standard_service_info_module \<Rightarrow> string" where
  "standard_fmt DevMod = ''devmod''"

fun fedora_iot_fmt :: "fedora_iot_service_info_module \<Rightarrow> string" where
  "fedora_iot_fmt Command = ''command''"
| "fedora_iot_fmt SSHKey = ''sshkey''"
| "fedora_iot_fmt BinaryFile = ''binaryfile''"
| "fedora_iot_fmt DiskEncryptionClevis = ''diskencryption-clevis''"
| "fedora_iot_fmt Reboot = ''reboot''"

fun red_hat_com_fmt :: "red_hat_com_service_info_module \<Rightarrow> string" where
  "red_hat_com_fmt SubscriptionManager = ''subscriptionmanager''"

fun service_info_module_fmt :: "service_info_module \<Rightarrow> string" where
  "service_info_module_fmt (Standard module) = standard_fmt module"
| "service_info_module_fmt (FedoraIot module) = ''org.fedoraiot.'' @ fedora_iot_fmt module"
| "service_info_module_fmt (RedHatCom module) = ''com.redhat.'' @ red_hat_com_fmt module"
| "service_info_module_fmt (Unsupported other) = other"

section \<open>Lemmas\<close>

lemma all_message_types_complete: "m \<in> set all_message_types"
  by (cases m) (simp_all add: all_message_types_def)

lemma message_types_distinct: "distinct (map message_type_u8 all_message_types)"
  by code_simp

lemma message_type_u8_eq_iff [simp]: "message_type_u8 m = message_type_u8 m' \<longleftrightarrow> m = m'"
  using message_types_distinct all_message_types_complete
  by (metis distinct_map inj_on_eq_iff)

lemma find_unique:
  assumes "x \<in> set xs" "\<And>y. y \<in> set xs \<Longrightarrow> P y \<longleftrightarrow> y = x"
  shows "find P xs = Some x"
  using assms by (induction xs) auto

lemma service_info_names_known:
  "service_info_module_from_str (service_info_module_fmt (Standard m)) = Ok (Standard m)"
  "service_info_module_from_str (service_info_module_fmt (FedoraIot f)) = Ok (FedoraIot f)"
  "service_info_module_from_str (service_info_module_fmt (RedHatCom r)) = Ok (RedHatCom r)"
  by (cases m, simp add: service_info_module_from_str_def,
      cases f, simp_all add: service_info_module_from_str_def,
      cases r, simp)


text \<open>C29: service-info module names round-trip: parsing never fails, printing the parsed module
  gives the name back for every string, and parsing the printed name of a known module gives
  that module.\<close>

theorem service_info_module_roundtrip:
  "(\<exists>m. service_info_module_from_str s = Ok m \<and> service_info_module_fmt m = s) \<and>
   service_info_module_from_str (service_info_module_fmt (Standard d)) = Ok (Standard d) \<and>
   service_info_module_from_str (service_info_module_fmt (FedoraIot f)) = Ok (FedoraIot f) \<and>
   service_info_module_from_str (service_info_module_fmt (RedHatCom r)) = Ok (RedHatCom r)"
  by (simp only: service_info_names_known simp_thms) (simp add: service_info_module_from_str_def)

end
