(* ===== verification/Cbor_Parser.thy ===== *)
theory Cbor_Parser
  imports Errors
begin

unbundle bit_operations_syntax

text \<open>
  The top-level CBOR array parser of \<open>data-formats/src/cborparser.rs\<close>: item headers
  (\<open>encode_item_start\<close>, \<open>read_len\<close>), the type \<open>ParsedArray<N>\<close> with its reader, its
  writer and its accessors, and \<open>ParsedArrayBuilder<N>\<close>.

  The type parameter \<open>N\<close> is the argument \<open>sz\<close>: \<open>Some n\<close> for \<open>ParsedArraySizeN\<close>,
  \<open>None\<close> for \<open>ParsedArraySizeDynamic\<close>. The three writers of the crate \<open>byteorder\<close>
  are a parameter \<open>L\<close>; \<open>byteorder_doc\<close> states their documented behaviour. Unsigned
  64-bit counters are natural numbers with the one place that can wrap, the doubling of a
  map's length, taken modulo \<open>2 ^ 64\<close> (a release build; a debug build panics there).
\<close>

section \<open>Item headers\<close>

record byteorder =
  write_u16 :: "bytes \<Rightarrow> u16 \<Rightarrow> bytes option"
  write_u32 :: "bytes \<Rightarrow> u32 \<Rightarrow> bytes option"
  write_u64 :: "bytes \<Rightarrow> u64 \<Rightarrow> bytes option"

text \<open>Documented behaviour of \<open>BigEndian::write_uN(buf, n)\<close>: it writes the big-endian bytes
  at the start of \<open>buf\<close>, and panics (here \<open>None\<close>) when \<open>buf\<close> is too short.\<close>

definition byteorder_doc :: "'z byteorder_scheme \<Rightarrow> bool" where
  "byteorder_doc L \<longleftrightarrow>
     (\<forall>buf n. write_u16 L buf n =
        (if length buf < 2 then None else Some (to_be_bytes 2 (unat n) @ drop 2 buf))) \<and>
     (\<forall>buf n. write_u32 L buf n =
        (if length buf < 4 then None else Some (to_be_bytes 4 (unat n) @ drop 4 buf))) \<and>
     (\<forall>buf n. write_u64 L buf n =
        (if length buf < 8 then None else Some (to_be_bytes 8 (unat n) @ drop 8 buf)))"

text \<open>An instance with that behaviour.\<close>

definition write_be :: "nat \<Rightarrow> bytes \<Rightarrow> nat \<Rightarrow> bytes option" where
  "write_be k buf n = (if length buf < k then None else Some (to_be_bytes k n @ drop k buf))"

definition big_endian :: byteorder where
  "big_endian = \<lparr>write_u16 = (\<lambda>buf n. write_be 2 buf (unat n)),
     write_u32 = (\<lambda>buf n. write_be 4 buf (unat n)), write_u64 = (\<lambda>buf n. write_be 8 buf (unat n))\<rparr>"

lemma byteorder_doc_big_endian: "byteorder_doc big_endian"
  by (simp add: byteorder_doc_def big_endian_def write_be_def)

definition MASK_TYPE :: u8 where "MASK_TYPE = 0b11100000"

definition MASK_VAL :: u8 where "MASK_VAL = 0b00011111"

fun major_type_u8 :: "major_type \<Rightarrow> u8" where
  "major_type_u8 Unsigned = 0"
| "major_type_u8 Negative = 1"
| "major_type_u8 ByteString = 2"
| "major_type_u8 TextString = 3"
| "major_type_u8 Array = 4"
| "major_type_u8 Map = 5"
| "major_type_u8 Tag = 6"
| "major_type_u8 Special = 7"

definition maybe_from_u8 :: "u8 \<Rightarrow> (array_parse_error, major_type) res" where
  "maybe_from_u8 val =
     (let n = drop_bit 5 val in
      if n = 0 then Ok Unsigned
      else if n = 1 then Ok Negative
      else if n = 2 then Ok ByteString
      else if n = 3 then Ok TextString
      else if n = 4 then Ok Array
      else if n = 5 then Ok Map
      else if n = 6 then Ok Tag
      else if n = 7 then Ok Special
      else Err (InvalidMajorType n))"

text \<open>A call \<open>BigEndian::write_uN(&mut buf[1..], v)\<close> followed by \<open>buf\<close>.\<close>

fun write_after_head :: "(bytes \<Rightarrow> 'n \<Rightarrow> bytes option) \<Rightarrow> bytes \<Rightarrow> 'n \<Rightarrow> bytes result" where
  "write_after_head w [] v = Panic"
| "write_after_head w (h # buf) v = (case w buf v of None \<Rightarrow> Panic | Some buf' \<Rightarrow> Ok (h # buf'))"

definition encode_item_start :: "'z byteorder_scheme \<Rightarrow> major_type \<Rightarrow> nat \<Rightarrow> bytes result" where
  "encode_item_start L major_type val =
     (let h = push_bit 5 (major_type_u8 major_type) in
      if val \<le> 23 then Ok [h OR (word_of_nat val AND MASK_VAL)]
      else if val \<le> 255 then Ok [h OR 24, word_of_nat val]
      else if val \<le> 65535 then write_after_head (write_u16 L) [h OR 25, 0, 0] (word_of_nat val)
      else if val \<le> 4294967295 then
        write_after_head (write_u32 L) [h OR 26, 0, 0, 0] (word_of_nat val)
      else write_after_head (write_u64 L) [h OR 27, 0, 0, 0, 0] (word_of_nat val))"

text \<open>\<open>read_len(reader, header)\<close>: the length, the bytes that encoded it, and the rest of the
  reader. The \<open>unwrap\<close> of \<open>read_exact\<close> makes a truncated length a panic.\<close>

definition length_size_of :: "u8 \<Rightarrow> nat option" where
  "length_size_of minor =
     (if minor \<le> 23 then Some 0
      else if minor = 24 then Some 1
      else if minor = 25 then Some 2
      else if minor = 26 then Some 4
      else if minor = 27 then Some 8
      else None)"

definition read_len :: "bytes \<Rightarrow> u8 \<Rightarrow> (array_parse_error, nat \<times> bytes \<times> bytes) res" where
  "read_len reader header =
     (let minor = header AND MASK_VAL in
      case length_size_of minor of
        None \<Rightarrow> Err LengthParseFailure
      | Some length_size \<Rightarrow>
          if length_size = 0 then Ok (unat minor, [], reader)
          else (case read_exact length_size reader of
                  None \<Rightarrow> Panic
                | Some (buf, reader') \<Rightarrow> Ok (from_be_bytes buf, buf, reader')))"

section \<open>Parsed arrays\<close>

type_synonym array_size = "nat option"

record parsed_array =
  tag :: "nat option"
  header :: "bytes option"
  contents :: "bytes list"

fun write_all_items :: "bytes list \<Rightarrow> bytes" where
  "write_all_items [] = []"
| "write_all_items (item # items) = item @ write_all_items items"

definition serialize_to_writer :: "'z byteorder_scheme \<Rightarrow> parsed_array \<Rightarrow> bytes result" where
  "serialize_to_writer L a =
     rbind (case tag a of None \<Rightarrow> Ok [] | Some t \<Rightarrow> encode_item_start L Tag t) (\<lambda>tag_header.
     rbind (encode_item_start L Array (length (contents a))) (\<lambda>array_header.
     Ok (tag_header @ array_header @ write_all_items (contents a))))"

text \<open>\<open>vec![0; length as usize]; reader.read_exact(&mut buf)?\<close>: an allocation beyond
  \<open>isize::MAX\<close> bytes panics; the reader ending early is an I/O error.\<close>

definition read_vec :: "nat \<Rightarrow> bytes \<Rightarrow> (bytes \<times> bytes) result" where
  "read_vec len reader =
     (if 2 ^ 63 \<le> len then Panic else ok_or (read_exact len reader) IoError)"

abbreviation array_err :: "(array_parse_error, 'a) res \<Rightarrow> 'a result" where
  "array_err \<equiv> rmap_err ArrayParseError"

text \<open>The tail of the loop body, run for every item that is not a tag: record the item when it
  ends at the top level, and count it.\<close>

definition finish_item ::
  "nat list \<Rightarrow> bytes \<Rightarrow> bytes list \<Rightarrow> bytes \<Rightarrow> (nat list \<times> bytes \<times> bytes list \<times> bytes) result" where
  "finish_item left_at_depth toplevel_buf parsed_items reader =
     (let (items', buf') =
        (if length left_at_depth = 1 then (parsed_items @ [toplevel_buf], [])
         else (parsed_items, toplevel_buf))
      in case left_at_depth of
           [] \<Rightarrow> Panic
         | l # ls \<Rightarrow>
             if l = 1 then Ok (ls, buf', items', reader)
             else if l = 0 then Err (ArrayParseError (ParseFailure ''Array parse encountered 0 items left''))
             else Ok ((l - 1) # ls, buf', items', reader))"

text \<open>One round of the loop of \<open>deserialize_from_reader\<close>.\<close>

definition parse_step ::
  "nat list \<Rightarrow> bytes \<Rightarrow> bytes list \<Rightarrow> bytes \<Rightarrow> (nat list \<times> bytes \<times> bytes list \<times> bytes) result" where
  "parse_step left_at_depth toplevel_buf parsed_items reader =
     (case reader of
        [] \<Rightarrow> Err IoError
      | b # reader1 \<Rightarrow>
          rbind (array_err (maybe_from_u8 (b AND MASK_TYPE))) (\<lambda>major_type.
          let minor = b AND MASK_VAL; buf = toplevel_buf @ [b] in
          if major_type = Tag then
            rbind (array_err (read_len reader1 minor)) (\<lambda>(_, tag_bytes, reader2).
            Ok (left_at_depth, buf @ tag_bytes, parsed_items, reader2))
          else (case major_type of
            Unsigned \<Rightarrow>
              rbind (array_err (read_len reader1 minor)) (\<lambda>(_, val_bytes, reader2).
              finish_item left_at_depth (buf @ val_bytes) parsed_items reader2)
          | Negative \<Rightarrow>
              rbind (array_err (read_len reader1 minor)) (\<lambda>(_, val_bytes, reader2).
              finish_item left_at_depth (buf @ val_bytes) parsed_items reader2)
          | ByteString \<Rightarrow>
              rbind (array_err (read_len reader1 minor)) (\<lambda>(len, len_bytes, reader2).
              rbind (read_vec len reader2) (\<lambda>(payload, reader3).
              finish_item left_at_depth (buf @ len_bytes @ payload) parsed_items reader3))
          | TextString \<Rightarrow>
              rbind (array_err (read_len reader1 minor)) (\<lambda>(len, len_bytes, reader2).
              rbind (read_vec len reader2) (\<lambda>(payload, reader3).
              finish_item left_at_depth (buf @ len_bytes @ payload) parsed_items reader3))
          | Array \<Rightarrow>
              rbind (array_err (read_len reader1 minor)) (\<lambda>(len, len_bytes, reader2).
              finish_item (if len \<noteq> 0 then len # left_at_depth else left_at_depth)
                (buf @ len_bytes) parsed_items reader2)
          | Map \<Rightarrow>
              rbind (array_err (read_len reader1 minor)) (\<lambda>(len, len_bytes, reader2).
              finish_item (if len \<noteq> 0 then (len * 2) mod 2 ^ 64 # left_at_depth else left_at_depth)
                (buf @ len_bytes) parsed_items reader2)
          | n \<Rightarrow> Err (ArrayParseError (UnsupportedMajorType (major_type_u8 n))))))"

subsection \<open>What one round reads\<close>

text \<open>\<open>arg_of b bs\<close> is the argument of an item header: the initial byte \<open>b\<close> followed by the
  argument bytes \<open>bs\<close>, when \<open>bs\<close> has the length that \<open>b\<close> announces.\<close>

definition arg_of :: "u8 \<Rightarrow> bytes \<Rightarrow> nat option" where
  "arg_of b bs =
     (if length_size_of (b AND MASK_VAL) = Some (length bs)
      then Some (if bs = [] then unat (b AND MASK_VAL) else from_be_bytes bs) else None)"

lemma read_len_mask [simp]: "read_len r (b AND MASK_VAL) = read_len r b"
  by (simp add: read_len_def and.assoc)

lemma read_len_iff: "read_len r b = Ok (n, bs, r') \<longleftrightarrow> r = bs @ r' \<and> arg_of b bs = Some n"
  by (auto simp: read_len_def arg_of_def Let_def read_exact_Some_iff split: option.splits if_splits)

lemma read_vec_Ok_iff:
  "read_vec n r = Ok (bs, r') \<longleftrightarrow> n < 2 ^ 63 \<and> r = bs @ r' \<and> length bs = n"
  by (auto simp: read_vec_def ok_or_Ok_iff read_exact_Some_iff)

lemma read_len_arg: "arg_of b bs = Some n \<Longrightarrow> read_len (bs @ r) b = Ok (n, bs, r)"
  by (simp add: read_len_iff)

lemma read_vec_append: "length p < 2 ^ 63 \<Longrightarrow> read_vec (length p) (p @ r) = Ok (p, r)"
  by (simp add: read_vec_Ok_iff)

definition major_of :: "u8 \<Rightarrow> major_type \<Rightarrow> bool" where
  "major_of b m \<longleftrightarrow> maybe_from_u8 (b AND MASK_TYPE) = Ok m"

text \<open>\<open>item_done\<close>: the effect of counting one item whose bytes complete \<open>buf\<close>.\<close>

definition item_done ::
  "nat list \<Rightarrow> bytes \<Rightarrow> bytes list \<Rightarrow> nat list \<Rightarrow> bytes \<Rightarrow> bytes list \<Rightarrow> bool" where
  "item_done left buf items left' buf' items' \<longleftrightarrow>
     (\<exists>l ls. left = l # ls \<and> l \<noteq> 0 \<and>
        left' = (if l = 1 then ls else (l - 1) # ls) \<and>
        items' = (if ls = [] then items @ [buf] else items) \<and>
        buf' = (if ls = [] then [] else buf))"

lemma finish_item_iff:
  "finish_item left buf items r = Ok (left', buf', items', r') \<longleftrightarrow>
     r' = r \<and> item_done left buf items left' buf' items'"
  by (auto simp: finish_item_def item_done_def Let_def split: list.splits if_splits)

text \<open>\<open>round left buf items q left' buf' items'\<close>: one round of the loop that reads exactly the
  bytes \<open>q\<close>. \<open>parse_step_iff\<close> below shows that the loop body does this and nothing else.\<close>

inductive round ::
  "nat list \<Rightarrow> bytes \<Rightarrow> bytes list \<Rightarrow> bytes \<Rightarrow> nat list \<Rightarrow> bytes \<Rightarrow> bytes list \<Rightarrow> bool" where
  round_tag: "major_of b Tag \<Longrightarrow> arg_of b bs = Some n \<Longrightarrow>
     round left buf items (b # bs) left (buf @ b # bs) items"
| round_int: "major_of b m \<Longrightarrow> m = Unsigned \<or> m = Negative \<Longrightarrow> arg_of b bs = Some n \<Longrightarrow>
     item_done left (buf @ b # bs) items left' buf' items' \<Longrightarrow>
     round left buf items (b # bs) left' buf' items'"
| round_string: "major_of b m \<Longrightarrow> m = ByteString \<or> m = TextString \<Longrightarrow> arg_of b bs = Some n \<Longrightarrow>
     n < 2 ^ 63 \<Longrightarrow> length p = n \<Longrightarrow>
     item_done left (buf @ b # bs @ p) items left' buf' items' \<Longrightarrow>
     round left buf items (b # bs @ p) left' buf' items'"
| round_array: "major_of b Array \<Longrightarrow> arg_of b bs = Some n \<Longrightarrow>
     item_done (if n \<noteq> 0 then n # left else left) (buf @ b # bs) items left' buf' items' \<Longrightarrow>
     round left buf items (b # bs) left' buf' items'"
| round_map: "major_of b Map \<Longrightarrow> arg_of b bs = Some n \<Longrightarrow>
     item_done (if n \<noteq> 0 then (n * 2) mod 2 ^ 64 # left else left) (buf @ b # bs) items left' buf' items' \<Longrightarrow>
     round left buf items (b # bs) left' buf' items'"

inductive_cases round_NilE [elim!]: "round left buf items [] left' buf' items'"

lemma maybe_from_u8_not_Panic [simp]: "maybe_from_u8 b \<noteq> Panic"
  by (simp add: maybe_from_u8_def Let_def)

lemma major_of_unique: "major_of b m \<Longrightarrow> major_of b m' \<Longrightarrow> m = m'"
  by (simp add: major_of_def)

lemmas step_simps = parse_step_def major_of_def Let_def rbind_Ok_iff rmap_err_Ok_iff
  read_len_iff read_vec_Ok_iff finish_item_iff

lemma parse_step_round:
  assumes "round left buf items q left' buf' items'"
  shows "parse_step left buf items (q @ r) = Ok (left', buf', items', r)"
  using assms
  by (cases rule: round.cases)
     (auto simp: parse_step_def major_of_def Let_def read_len_arg read_vec_append finish_item_iff)

lemma round_parse_step:
  assumes "parse_step left buf items r = Ok (left', buf', items', r')"
  shows "\<exists>q. r = q @ r' \<and> round left buf items q left' buf' items'"
proof (cases r)
  case (Cons b r1)
  with assms obtain m where m: "major_of b m"
    by (auto simp: parse_step_def major_of_def rbind_Ok_iff rmap_err_Ok_iff)
  show ?thesis
  proof (cases m)
    case Tag
    with assms m Cons show ?thesis by (force simp: step_simps intro: round.intros)
  next
    case Unsigned
    with assms m Cons show ?thesis by (force simp: step_simps intro: round_int [of b Unsigned])
  next
    case Negative
    with assms m Cons show ?thesis by (force simp: step_simps intro: round_int [of b Negative])
  next
    case ByteString
    with assms m Cons show ?thesis by (force simp: step_simps intro: round_string [of b ByteString])
  next
    case TextString
    with assms m Cons show ?thesis by (force simp: step_simps intro: round_string [of b TextString])
  next
    case Array
    with assms m Cons show ?thesis by (force simp: step_simps intro: round_array)
  next
    case Map
    with assms m Cons show ?thesis by (force simp: step_simps intro: round_map)
  next
    case Special
    with assms m Cons show ?thesis by (simp add: step_simps)
  qed
qed (use assms in \<open>simp add: parse_step_def\<close>)

lemma parse_step_iff:
  "parse_step left buf items r = Ok (left', buf', items', r') \<longleftrightarrow>
     (\<exists>q. r = q @ r' \<and> round left buf items q left' buf' items')"
  using parse_step_round round_parse_step by blast

lemma round_nonempty: "round left buf items q left' buf' items' \<Longrightarrow> q \<noteq> []"
  by auto

text \<open>Every round consumes at least the initial byte of an item, so the loop ends.\<close>

lemma parse_step_shorter:
  "parse_step left buf items r = Ok (left', buf', items', r') \<Longrightarrow> length r' < length r"
  by (auto simp: parse_step_iff dest: round_nonempty)

function parse_loop :: "nat list \<Rightarrow> bytes \<Rightarrow> bytes list \<Rightarrow> bytes \<Rightarrow> (bytes list \<times> bytes) result" where
  "parse_loop left_at_depth toplevel_buf parsed_items reader =
     (if left_at_depth = [] then Ok (parsed_items, reader)
      else rbind (parse_step left_at_depth toplevel_buf parsed_items reader)
             (\<lambda>(left', buf', items', reader'). parse_loop left' buf' items' reader'))"
  by pat_completeness auto
termination
  by (relation "measure (\<lambda>(_, _, _, reader). length reader)")
     (auto dest!: parse_step_shorter)

declare parse_loop.simps [simp del]

text \<open>After the header: the loop over \<open>map_len\<close> items, and the two checks that follow it.\<close>

definition finish_array ::
  "array_size \<Rightarrow> nat option \<Rightarrow> bytes \<Rightarrow> nat \<Rightarrow> bytes \<Rightarrow> (parsed_array \<times> bytes) result" where
  "finish_array sz tg header_buf map_len reader =
     rbind (parse_loop [map_len] [] [] reader) (\<lambda>(parsed_items, reader').
     if (case sz of None \<Rightarrow> False | Some expected_size \<Rightarrow> length parsed_items \<noteq> expected_size)
     then Err (ArrayParseError (ParseFailure ''Too many items in array''))
     else Ok (\<lparr>tag = tg, header = (if sz \<noteq> None then Some header_buf else None),
               contents = parsed_items\<rparr>, reader'))"

text \<open>The optional tag and the first byte of the array: the tag's value, that byte, the header
  read so far and the rest of the reader.\<close>

definition read_tag :: "u8 \<Rightarrow> bytes \<Rightarrow> (nat option \<times> u8 \<times> bytes \<times> bytes) result" where
  "read_tag b reader =
     rbind (array_err (maybe_from_u8 (b AND MASK_TYPE))) (\<lambda>first_major_type.
     if first_major_type = Tag then
       rbind (array_err (read_len reader b)) (\<lambda>(tag_val, tag_bytes, reader1).
       case reader1 of
         [] \<Rightarrow> Err IoError
       | b2 # reader2 \<Rightarrow> Ok (Some tag_val, b2, [b] @ tag_bytes @ [b2], reader2))
     else if first_major_type = Array then Ok (None, b, [b], reader)
     else Err (ArrayParseError (InvalidTopLevelType first_major_type)))"

definition deserialize_from_reader :: "array_size \<Rightarrow> bytes \<Rightarrow> (parsed_array \<times> bytes) result" where
  "deserialize_from_reader sz reader =
     (case reader of
        [] \<Rightarrow> Err (ArrayParseError NoData)
      | b0 # reader0 \<Rightarrow>
          rbind (read_tag b0 reader0) (\<lambda>(tg, b, header_buf, reader1).
          rbind (array_err (maybe_from_u8 (b AND MASK_TYPE))) (\<lambda>first_major_type.
          if first_major_type \<noteq> Array then
            Err (ArrayParseError (InvalidTopLevelType first_major_type))
          else
            rbind (array_err (read_len reader1 b)) (\<lambda>(map_len, map_len_bytes, reader2).
            case sz of
              Some expected_len \<Rightarrow>
                if map_len \<noteq> expected_len
                then Err (ArrayParseError (InvalidNumberOfElements map_len expected_len))
                else finish_array sz tg (header_buf @ map_len_bytes) map_len reader2
            | None \<Rightarrow>
                if map_len = 0 then Ok (\<lparr>tag = tg, header = None, contents = []\<rparr>, reader2)
                else finish_array sz tg (header_buf @ map_len_bytes) map_len reader2))))"

definition is_nodata_error :: "error \<Rightarrow> bool" where
  "is_nodata_error err \<longleftrightarrow> err = ArrayParseError NoData"

subsection \<open>Accessors and the builder\<close>

text \<open>\<open>check_bounds!\<close>: a panic above the static size. It lets \<open>n = SIZE\<close> through; the
  \<open>Vec\<close> index that always follows then panics, as \<open>nth_or_panic\<close> does.\<close>

definition check_bounds :: "array_size \<Rightarrow> nat \<Rightarrow> unit result" where
  "check_bounds sz n =
     (case sz of None \<Rightarrow> Ok () | Some expected_len \<Rightarrow> if n > expected_len then Panic else Ok ())"

definition nth_or_panic :: "'a list \<Rightarrow> nat \<Rightarrow> ('e, 'a) res" where
  "nth_or_panic xs n = (if n < length xs then Ok (xs ! n) else Panic)"

definition set_or_panic :: "'a list \<Rightarrow> nat \<Rightarrow> 'a \<Rightarrow> ('e, 'a list) res" where
  "set_or_panic xs n x = (if n < length xs then Ok (xs[n := x]) else Panic)"

definition new_empty :: parsed_array where
  "new_empty = \<lparr>tag = None, header = None, contents = []\<rparr>"

definition array_len :: "parsed_array \<Rightarrow> nat" where
  "array_len a = length (contents a)"

definition array_is_empty :: "parsed_array \<Rightarrow> bool" where
  "array_is_empty a \<longleftrightarrow> array_len a = 0"

text \<open>\<open>push\<close>, \<open>set\<close> and \<open>get\<close> take the outcome of the item's own \<open>serialize_data\<close>, or its
  \<open>deserialize_data\<close>.\<close>

definition array_push :: "parsed_array \<Rightarrow> bytes result \<Rightarrow> parsed_array result" where
  "array_push a item = rbind item (\<lambda>bs. Ok (a\<lparr>contents := contents a @ [bs]\<rparr>))"

definition array_get_raw :: "array_size \<Rightarrow> parsed_array \<Rightarrow> nat \<Rightarrow> bytes result" where
  "array_get_raw sz a n = rbind (check_bounds sz n) (\<lambda>_. nth_or_panic (contents a) n)"

definition array_get :: "array_size \<Rightarrow> parsed_array \<Rightarrow> nat \<Rightarrow> (bytes \<Rightarrow> 'a result) \<Rightarrow> 'a result" where
  "array_get sz a n deserialize_data =
     rbind (check_bounds sz n) (\<lambda>_. rbind (nth_or_panic (contents a) n) deserialize_data)"

definition array_set :: "array_size \<Rightarrow> parsed_array \<Rightarrow> nat \<Rightarrow> bytes result \<Rightarrow> parsed_array result" where
  "array_set sz a n value =
     rbind (check_bounds sz n) (\<lambda>_.
     rbind value (\<lambda>bs.
     rbind (set_or_panic (contents a) n bs) (\<lambda>cs. Ok (a\<lparr>contents := cs\<rparr>))))"

definition set_tag :: "parsed_array \<Rightarrow> nat option \<Rightarrow> parsed_array" where
  "set_tag a new_tag = a\<lparr>tag := new_tag\<rparr>"

type_synonym array_builder = "bytes option list"

definition builder_new :: "nat \<Rightarrow> array_builder" where
  "builder_new n = replicate n None"

definition builder_set :: "nat \<Rightarrow> array_builder \<Rightarrow> nat \<Rightarrow> bytes result \<Rightarrow> array_builder result" where
  "builder_set sz b n value =
     rbind (check_bounds (Some sz) n) (\<lambda>_. rbind value (\<lambda>bs. set_or_panic b n (Some bs)))"

definition builder_build :: "array_builder \<Rightarrow> parsed_array result" where
  "builder_build b =
     (if None \<in> set b then Panic
      else Ok \<lparr>tag = None, header = None, contents = map the b\<rparr>)"

text \<open>The constructor pattern of the crate: \<open>new()\<close>, then \<open>set(0, \<dots>)?\<close> up to
  \<open>set(n - 1, \<dots>)?\<close> in order, then \<open>build()\<close>.\<close>

fun builder_set_from :: "nat \<Rightarrow> array_builder \<Rightarrow> nat \<Rightarrow> bytes result list \<Rightarrow> array_builder result" where
  "builder_set_from sz b i [] = Ok b"
| "builder_set_from sz b i (v # vs) =
     rbind (builder_set sz b i v) (\<lambda>b'. builder_set_from sz b' (Suc i) vs)"

definition build_array :: "bytes result list \<Rightarrow> parsed_array result" where
  "build_array vs =
     rbind (builder_set_from (length vs) (builder_new (length vs)) 0 vs) builder_build"

end
