(* ===== verification/Serializable.thy ===== *)
theory Serializable
  imports Errors
begin

text \<open>
  The traits of \<open>data-formats/src/serializable.rs\<close>. An implementation of \<open>Serializable\<close> is a
  pair of functions: \<open>ser\<close> (\<open>serialize_to_writer\<close>, the bytes written) and \<open>rd\<close>
  (\<open>deserialize_from_reader\<close>, the value and what is left in the reader). The provided methods
  of the traits are functions of these. The contract that callers rely on is the locale
  \<open>serializable\<close> and its extension \<open>deserializable_many\<close>; they are interpreted on parsed arrays
  in \<open>Cbor_Correct\<close> and on vouchers in \<open>OwnershipVoucher\<close>.
\<close>

section \<open>Provided methods\<close>

definition deserialize_data :: "(bytes \<Rightarrow> ('a \<times> bytes) result) \<Rightarrow> bytes \<Rightarrow> 'a result" where
  "deserialize_data rd data = rmap fst (rd data)"

text \<open>\<open>MaybeSerializable::maybe_deserialize_from_reader\<close>: the value with the rest of the reader,
  or nothing when the implementation says that there was no data.\<close>

fun maybe_deserialize_from_reader ::
  "(error \<Rightarrow> bool) \<Rightarrow> (bytes \<Rightarrow> ('a \<times> bytes) result) \<Rightarrow> bytes \<Rightarrow> ('a \<times> bytes) option result" where
  "maybe_deserialize_from_reader nodata rd reader =
     (case rd reader of
        Ok x \<Rightarrow> Ok (Some x)
      | Err e \<Rightarrow> if nodata e then Ok None else Err e
      | Panic \<Rightarrow> Panic)"

text \<open>\<open>DeserializableMany::deserialize_many_from_reader\<close>. The \<open>while\<close> loop need not end for an
  arbitrary implementation (one that reads nothing and succeeds), so the outer option is
  \<open>None\<close> when it does not.\<close>

partial_function (option) many_loop ::
  "(error \<Rightarrow> bool) \<Rightarrow> (bytes \<Rightarrow> ('a \<times> bytes) result) \<Rightarrow> 'a list \<Rightarrow> bytes \<Rightarrow> 'a list result option" where
  "many_loop nodata rd out reader =
     (case maybe_deserialize_from_reader nodata rd reader of
        Ok None \<Rightarrow> Some (Ok out)
      | Ok (Some (item, reader')) \<Rightarrow> many_loop nodata rd (out @ [item]) reader'
      | Err e \<Rightarrow> Some (Err e)
      | Panic \<Rightarrow> Some Panic)"

definition deserialize_many_from_reader ::
  "(error \<Rightarrow> bool) \<Rightarrow> (bytes \<Rightarrow> ('a \<times> bytes) result) \<Rightarrow> bytes \<Rightarrow> 'a list result option" where
  "deserialize_many_from_reader nodata rd reader = many_loop nodata rd [] reader"

section \<open>The contracts\<close>

text \<open>\<open>sendable\<close> holds of the values whose serialisation can be read back, and \<open>same\<close> relates a
  value to what is read back: the caches of raw bytes may differ.\<close>

locale serializable =
  fixes ser :: "'a \<Rightarrow> bytes result"
    and rd :: "bytes \<Rightarrow> ('a \<times> bytes) result"
    and sendable :: "'a \<Rightarrow> bool"
    and same :: "'a \<Rightarrow> 'a \<Rightarrow> bool"
  assumes sendable_ser: "sendable x \<Longrightarrow> \<exists>bs. ser x = Ok bs \<and> (\<forall>r. \<exists>x'. rd (bs @ r) = Ok (x', r) \<and> same x x')"
begin

lemma send_receive:
  assumes "sendable x"
  shows "\<exists>bs x'. ser x = Ok bs \<and> deserialize_data rd bs = Ok x' \<and> same x x'"
proof -
  obtain bs where bs: "ser x = Ok bs" "\<forall>r. \<exists>x'. rd (bs @ r) = Ok (x', r) \<and> same x x'"
    using sendable_ser [OF assms] by blast
  from bs(2) obtain x' where "rd (bs @ []) = Ok (x', [])" "same x x'" by blast
  with bs(1) show ?thesis by (simp add: deserialize_data_def)
qed

end

locale deserializable_many = serializable +
  fixes nodata :: "error \<Rightarrow> bool"
  assumes read_empty: "\<exists>e. rd [] = Err e \<and> nodata e"
    and read_progress: "rd r = Ok (x, r') \<Longrightarrow> length r' < length r"
begin

text \<open>Because every value takes at least one byte, the loop ends on every input.\<close>

lemma many_loop_terminates: "\<exists>res. many_loop nodata rd out r = Some res"
proof (induction "length r" arbitrary: r out rule: less_induct)
  case less
  show ?case
  proof (cases "rd r")
    case (Ok xr)
    obtain x r' where xr: "xr = (x, r')" by fastforce
    with Ok less [of r' "out @ [x]"] read_progress show ?thesis by (subst many_loop.simps) simp
  qed (simp_all add: many_loop.simps [of _ _ _ r])
qed

lemma many_terminates: "\<exists>res. deserialize_many_from_reader nodata rd r = Some res"
  by (simp add: deserialize_many_from_reader_def many_loop_terminates)

lemma many_loop_concat:
  assumes "list_all sendable xs" "rtraverse ser xs = Ok bss"
  shows "\<exists>xs'. many_loop nodata rd out (concat bss) = Some (Ok (out @ xs')) \<and> list_all2 same xs xs'"
  using assms
proof (induction xs arbitrary: bss out)
  case Nil
  then show ?case using read_empty by (subst many_loop.simps) auto
next
  case (Cons x xs)
  from Cons.prems obtain bs bss' where bs: "ser x = Ok bs" "rtraverse ser xs = Ok bss'" "bss = bs # bss'"
    by (auto simp: rbind_Ok_iff)
  with Cons.prems sendable_ser [of x] obtain x' where x': "rd (bs @ concat bss') = Ok (x', concat bss')" "same x x'"
    by fastforce
  from Cons.IH [OF _ bs(2), of "out @ [x']"] Cons.prems(1) obtain xs' where
    "many_loop nodata rd (out @ [x']) (concat bss') = Some (Ok ((out @ [x']) @ xs'))" "list_all2 same xs xs'"
    by auto
  with x' show ?case unfolding bs(3)
    by (subst many_loop.simps) (auto intro!: exI [of _ "x' # xs'"])
qed

lemma sendable_rtraverse: "list_all sendable xs \<Longrightarrow> \<exists>bss. rtraverse ser xs = Ok bss"
proof (induction xs)
  case (Cons x xs)
  then show ?case using sendable_ser [of x] by auto
qed simp

lemma many_concat:
  assumes "list_all sendable xs"
  shows "\<exists>bss xs'. rtraverse ser xs = Ok bss \<and>
    deserialize_many_from_reader nodata rd (concat bss) = Some (Ok xs') \<and> list_all2 same xs xs'"
proof -
  obtain bss where "rtraverse ser xs = Ok bss" using sendable_rtraverse [OF assms] by blast
  with many_loop_concat [OF assms this, of "[]"] show ?thesis
    by (simp add: deserialize_many_from_reader_def)
qed

text \<open>An item that cannot be read makes the whole call fail with its error: what was read before
  it is dropped.\<close>

lemma many_loop_garbage:
  assumes "list_all sendable xs" "rtraverse ser xs = Ok bss" "rd r = Err e" "\<not> nodata e"
  shows "many_loop nodata rd out (concat bss @ r) = Some (Err e)"
  using assms
proof (induction xs arbitrary: bss out)
  case Nil
  then show ?case by (subst many_loop.simps) simp
next
  case (Cons x xs)
  from Cons.prems obtain bs bss' where bs: "ser x = Ok bs" "rtraverse ser xs = Ok bss'" "bss = bs # bss'"
    by (auto simp: rbind_Ok_iff)
  with Cons.prems sendable_ser [of x] obtain x' where "rd (bs @ concat bss' @ r) = Ok (x', concat bss' @ r)"
    by fastforce
  with Cons.IH [OF _ bs(2) Cons.prems(3,4)] Cons.prems(1) show ?case unfolding bs(3)
    by (subst many_loop.simps) simp
qed

lemma many_garbage:
  assumes "list_all sendable xs" "rtraverse ser xs = Ok bss" "rd r = Err e" "\<not> nodata e"
  shows "deserialize_many_from_reader nodata rd (concat bss @ r) = Some (Err e)"
  unfolding deserialize_many_from_reader_def by (rule many_loop_garbage [OF assms])

end

end
