(* ===== verification/Cbor_Correct.thy ===== *)
theory Cbor_Correct
  imports Cbor_Parser Serializable
begin

unbundle bit_operations_syntax

text \<open>
  Correctness of the array parser of \<open>Cbor_Parser\<close>. The grammar of the items it accepts is
  the datatype \<open>item\<close>; the theorems show that the parser splits an encoding of items into
  exactly those items, that what it returns is a partition of what it read, that its two
  consistency errors cannot occur, and where it panics or refuses valid CBOR.
\<close>

section \<open>Item headers\<close>

lemma head_table:
  "list_all (\<lambda>m. list_all (\<lambda>v.
      maybe_from_u8 ((push_bit 5 (major_type_u8 m) OR word_of_nat v) AND MASK_TYPE) = Ok m \<and>
      (push_bit 5 (major_type_u8 m) OR word_of_nat v) AND MASK_VAL = word_of_nat v) [0..<32])
    [Unsigned, Negative, ByteString, TextString, Array, Map, Tag, Special]"
  by code_simp

lemma head_byte:
  assumes "v < 32"
  shows "major_of (push_bit 5 (major_type_u8 m) OR word_of_nat v) m"
    and "(push_bit 5 (major_type_u8 m) OR word_of_nat v) AND MASK_VAL = word_of_nat v"
proof -
  have "m \<in> set [Unsigned, Negative, ByteString, TextString, Array, Map, Tag, Special]"
    by (cases m) simp_all
  moreover have "v \<in> set [0..<32]" using assms by simp
  ultimately have
    "maybe_from_u8 ((push_bit 5 (major_type_u8 m) OR word_of_nat v) AND MASK_TYPE) = Ok m \<and>
     (push_bit 5 (major_type_u8 m) OR word_of_nat v) AND MASK_VAL = word_of_nat v"
    using head_table unfolding list_all_iff by blast
  then show "major_of (push_bit 5 (major_type_u8 m) OR word_of_nat v) m"
    and "(push_bit 5 (major_type_u8 m) OR word_of_nat v) AND MASK_VAL = word_of_nat v"
    by (simp_all add: major_of_def)
qed

lemma word_of_nat_and_MASK_VAL: "v < 32 \<Longrightarrow> word_of_nat v AND MASK_VAL = word_of_nat v"
  using head_byte(2) [of v Unsigned] by simp

lemma length_size_of_small: "v \<le> 23 \<Longrightarrow> length_size_of (word_of_nat v) = Some 0"
proof -
  assume "v \<le> 23"
  then have "unat (word_of_nat v :: u8) \<le> unat (23 :: u8)" by simp
  then show ?thesis by (simp add: length_size_of_def word_le_nat_alt)
qed

lemma head_arg_small:
  assumes "v \<le> 23"
  shows "arg_of (push_bit 5 (major_type_u8 m) OR word_of_nat v) [] = Some v"
  using assms head_byte(2) [of v m] by (simp add: arg_of_def length_size_of_small)

lemma head_arg_bytes:
  assumes "length bs = k" "(v, k) \<in> {(24, 1), (25, 2), (26, 4), (27, 8)}"
  shows "arg_of (push_bit 5 (major_type_u8 m) OR word_of_nat v) bs = Some (from_be_bytes bs)"
  using assms head_byte(2) [of v m] by (auto simp: arg_of_def length_size_of_def)

text \<open>The header that \<open>encode_item_start\<close> writes for an argument of at most 16 bits is read
  back as that major type and that argument.\<close>

lemma encode_item_start_header:
  assumes "byteorder_doc L" and "n \<le> 65535"
  shows "\<exists>b bs. encode_item_start L m n = Ok (b # bs) \<and> major_of b m \<and> arg_of b bs = Some n"
proof -
  consider "n \<le> 23" | "23 < n" "n \<le> 255" | "255 < n" "n \<le> 65535" using assms(2) by linarith
  then show ?thesis
  proof cases
    case 1
    then show ?thesis
      using head_byte(1) [of n m] head_arg_small [of n m]
      by (simp add: encode_item_start_def Let_def word_of_nat_and_MASK_VAL)
  next
    case 2
    then show ?thesis
      using head_byte(1) [of 24 m] head_arg_bytes [of "[word_of_nat n]" 1 24 m]
      by (simp add: encode_item_start_def Let_def)
  next
    case 3
    then have u: "unat (word_of_nat n :: u16) = n" by (simp add: unat_of_nat)
    from 3 assms(1) u show ?thesis
      using head_byte(1) [of 25 m] head_arg_bytes [of "to_be_bytes 2 n" 2 25 m]
      by (simp add: encode_item_start_def Let_def byteorder_doc_def from_to_be_bytes_id)
  qed
qed

lemma encode_item_start_large:
  assumes "byteorder_doc L" and "65535 < n"
  shows "encode_item_start L m n = Panic"
  using assms by (simp add: encode_item_start_def Let_def byteorder_doc_def)

section \<open>The loop as a relation\<close>

inductive rounds :: "nat list \<Rightarrow> bytes \<Rightarrow> bytes list \<Rightarrow> bytes \<Rightarrow> bytes list \<Rightarrow> bool" where
  rounds_done: "rounds [] buf items [] items"
| rounds_more: "left \<noteq> [] \<Longrightarrow> round left buf items q left1 buf1 items1 \<Longrightarrow>
     rounds left1 buf1 items1 q' items' \<Longrightarrow> rounds left buf items (q @ q') items'"

lemma parse_loop_done [simp]: "parse_loop [] buf items r = Ok (items, r)"
  by (simp add: parse_loop.simps)

lemma parse_loop_round:
  assumes "left \<noteq> []" "round left buf items q left1 buf1 items1"
  shows "parse_loop left buf items (q @ r) = parse_loop left1 buf1 items1 r"
  using assms by (simp add: parse_loop.simps [of left] parse_step_round)

lemma parse_loop_rounds:
  "rounds left buf items q items' \<Longrightarrow> parse_loop left buf items (q @ r) = Ok (items', r)"
  by (induction rule: rounds.induct) (simp_all add: parse_loop_round)

lemma rounds_parse_loop:
  "parse_loop left buf items r = Ok (items', r') \<Longrightarrow>
     \<exists>q. r = q @ r' \<and> rounds left buf items q items'"
proof (induction left buf items r rule: parse_loop.induct)
  case (1 left buf items r)
  show ?case
  proof (cases "left = []")
    case True
    with 1 show ?thesis by (auto intro: rounds.intros)
  next
    case False
    with "1.prems" obtain left1 buf1 items1 r1
      where s: "parse_step left buf items r = Ok (left1, buf1, items1, r1)"
        and l: "parse_loop left1 buf1 items1 r1 = Ok (items', r')"
      by (auto simp: parse_loop.simps [of left] rbind_Ok_iff)
    from s obtain q where q: "r = q @ r1" "round left buf items q left1 buf1 items1"
      by (auto simp: parse_step_iff)
    from "1.IH" [OF False s refl refl refl] l
    obtain q' where "r1 = q' @ r'" "rounds left1 buf1 items1 q' items'"
      by blast
    with q False show ?thesis by (metis append.assoc rounds_more)
  qed
qed

lemma parse_loop_iff:
  "parse_loop left buf items r = Ok (items', r') \<longleftrightarrow>
     (\<exists>q. r = q @ r' \<and> rounds left buf items q items')"
  using parse_loop_rounds rounds_parse_loop by blast

subsection \<open>What the loop preserves\<close>

definition bottom :: "nat list \<Rightarrow> nat" where
  "bottom left = (if left = [] then 0 else last left)"

text \<open>What one round keeps: the bytes read so far are the recorded items followed by the
  buffer, and the recorded items plus the items left at the top level stay constant.\<close>

definition keeps ::
  "nat list \<Rightarrow> bytes list \<Rightarrow> bytes \<Rightarrow> nat list \<Rightarrow> bytes \<Rightarrow> bytes list \<Rightarrow> bool" where
  "keeps left items buf left' buf' items' \<longleftrightarrow>
     concat items' @ buf' = concat items @ buf \<and> (left' = [] \<longrightarrow> buf' = []) \<and>
     length items' + bottom left' = length items + bottom left"

lemma item_done_keeps:
  "item_done left buf items left' buf' items' \<Longrightarrow> keeps left items buf left' buf' items'"
  by (auto simp: item_done_def bottom_def keeps_def split: if_splits)

lemma keeps_push: "left \<noteq> [] \<Longrightarrow> keeps (k # left) items buf left' buf' items' \<Longrightarrow>
    keeps left items buf left' buf' items'"
  by (simp add: keeps_def bottom_def)

lemma round_keeps:
  assumes "round left buf items q left' buf' items'" "left \<noteq> []"
  shows "keeps left items (buf @ q) left' buf' items'"
  using assms
  by (cases rule: round.cases)
     (auto dest!: item_done_keeps dest: keeps_push split: if_splits simp: keeps_def [of left items _ left])

lemma rounds_keep:
  assumes "rounds left buf items q items'" "left = [] \<longrightarrow> buf = []"
  shows "concat items' = concat items @ buf @ q \<and> length items' = length items + bottom left"
  using assms
proof (induction rule: rounds.induct)
  case (rounds_done buf items)
  then show ?case by (simp add: bottom_def)
next
  case (rounds_more left buf items q left1 buf1 items1 q' items')
  note k = round_keeps [OF rounds_more.hyps(2,1)]
  from rounds_more.IH k have "concat items' = (concat items1 @ buf1) @ q'"
    and "length items' = length items1 + bottom left1" by (auto simp: keeps_def)
  with k show ?case by (simp add: keeps_def)
qed

lemma parse_loop_partition:
  assumes "parse_loop [n] [] [] r = Ok (items, r')"
  shows "r = concat items @ r' \<and> length items = n"
proof -
  from assms obtain q where "r = q @ r'" "rounds [n] [] [] q items"
    by (auto simp: parse_loop_iff)
  with rounds_keep [of "[n]" "[]" "[]" q items] show ?thesis by (simp add: bottom_def)
qed

section \<open>The grammar of items\<close>

datatype item =
  IntItem u8 bytes
| StringItem u8 bytes bytes
| ArrayItem u8 bytes "item list"
| MapItem u8 bytes "item list"
| TagItem u8 bytes item

fun item_bytes :: "item \<Rightarrow> bytes" where
  "item_bytes (IntItem b bs) = b # bs"
| "item_bytes (StringItem b bs p) = b # bs @ p"
| "item_bytes (ArrayItem b bs xs) = b # bs @ concat (map item_bytes xs)"
| "item_bytes (MapItem b bs xs) = b # bs @ concat (map item_bytes xs)"
| "item_bytes (TagItem b bs x) = b # bs @ item_bytes x"

text \<open>The number of items that follow a map header. Below \<open>2 ^ 63\<close> pairs this is twice the
  announced number; the 64-bit product wraps above.\<close>

fun map_arg :: "nat option \<Rightarrow> nat \<Rightarrow> bool" where
  "map_arg None k \<longleftrightarrow> False"
| "map_arg (Some n) k \<longleftrightarrow> k = (n * 2) mod 2 ^ 64 \<and> (n = 0 \<or> k \<noteq> 0)"

text \<open>Well-formed items of the major types 0 to 6 with definite lengths (RFC 8949); major
  type 7 (null, booleans, floats) is not in this grammar.\<close>

fun wf_item :: "item \<Rightarrow> bool" where
  "wf_item (IntItem b bs) \<longleftrightarrow> (major_of b Unsigned \<or> major_of b Negative) \<and> arg_of b bs \<noteq> None"
| "wf_item (StringItem b bs p) \<longleftrightarrow> (major_of b ByteString \<or> major_of b TextString) \<and>
     arg_of b bs = Some (length p) \<and> length p < 2 ^ 63"
| "wf_item (ArrayItem b bs xs) \<longleftrightarrow>
     major_of b Array \<and> arg_of b bs = Some (length xs) \<and> list_all wf_item xs"
| "wf_item (MapItem b bs xs) \<longleftrightarrow>
     major_of b Map \<and> map_arg (arg_of b bs) (length xs) \<and> list_all wf_item xs"
| "wf_item (TagItem b bs x) \<longleftrightarrow> major_of b Tag \<and> arg_of b bs \<noteq> None \<and> wf_item x"

text \<open>The stack after one more item, and with \<open>k\<close> items pending at a new depth.\<close>

definition count_down :: "nat list \<Rightarrow> nat list" where
  "count_down left = (if hd left = 1 then tl left else (hd left - 1) # tl left)"

definition pending :: "nat \<Rightarrow> nat list \<Rightarrow> nat list" where
  "pending k left = (if k = 0 then left else k # left)"

lemma pending_nonempty [simp]: "left \<noteq> [] \<Longrightarrow> pending k left \<noteq> []"
  by (simp add: pending_def)

text \<open>The state after reading an item whose bytes are \<open>q\<close>.\<close>

definition after_item :: "nat list \<Rightarrow> bytes \<Rightarrow> bytes list \<Rightarrow> bytes \<Rightarrow> bytes \<Rightarrow> (bytes list \<times> bytes) result" where
  "after_item left buf items q r =
     (if tl left = [] then parse_loop (count_down left) [] (items @ [buf @ q]) r
      else parse_loop (count_down left) (buf @ q) items r)"

lemma parse_loop_item_done:
  assumes "left \<noteq> []" "hd left \<noteq> 0"
    and "\<And>left' buf' items'. item_done left (buf @ q) items left' buf' items' \<Longrightarrow>
           round left buf items q left' buf' items'"
  shows "parse_loop left buf items (q @ r) = after_item left buf items q r"
proof -
  obtain l ls where l: "left = l # ls" "l \<noteq> 0" using assms(1,2) by (cases left) auto
  have "item_done left (buf @ q) items (count_down left)
          (if ls = [] then [] else buf @ q) (if ls = [] then items @ [buf @ q] else items)"
    using l by (simp add: item_done_def count_down_def)
  from parse_loop_round [OF assms(1) assms(3) [OF this]] show ?thesis
    using l by (simp add: after_item_def)
qed

lemma parse_loop_container:
  assumes "left \<noteq> []" "n \<noteq> 0"
    and "\<And>left' buf' items'. item_done (n # left) (buf @ q) items left' buf' items' \<Longrightarrow>
           round left buf items q left' buf' items'"
  shows "parse_loop left buf items (q @ r) = parse_loop (pending (n - 1) left) (buf @ q) items r"
proof -
  have "item_done (n # left) (buf @ q) items (pending (n - 1) left) (buf @ q) items"
    using assms(1,2) by (auto simp: item_done_def pending_def)
  from parse_loop_round [OF assms(1) assms(3) [OF this]] show ?thesis by simp
qed

text \<open>\<open>reads_item x\<close>: in any state the loop reads the bytes of \<open>x\<close> as one item.\<close>

definition reads_item :: "bytes \<Rightarrow> bool" where
  "reads_item q \<longleftrightarrow> (\<forall>left buf items r. left \<noteq> [] \<longrightarrow> hd left \<noteq> 0 \<longrightarrow>
     parse_loop left buf items (q @ r) = after_item left buf items q r)"

lemma reads_itemD:
  "reads_item q \<Longrightarrow> left \<noteq> [] \<Longrightarrow> hd left \<noteq> 0 \<Longrightarrow>
     parse_loop left buf items (q @ r) = after_item left buf items q r"
  by (simp add: reads_item_def)

lemma parse_loop_children:
  assumes "list_all reads_item qs" "left \<noteq> []"
  shows "parse_loop (pending (length qs) left) buf items (concat qs @ r) =
         parse_loop left (buf @ concat qs) items r"
  using assms(1)
proof (induction qs arbitrary: buf)
  case (Cons q qs)
  have "parse_loop (pending (length (q # qs)) left) buf items (q @ concat qs @ r) =
        parse_loop (pending (length qs) left) (buf @ q) items (concat qs @ r)"
    using Cons.prems assms(2)
    by (simp add: reads_itemD pending_def after_item_def count_down_def)
  also have "\<dots> = parse_loop left ((buf @ q) @ concat qs) items r"
    using Cons.prems by (intro Cons.IH) simp
  finally show ?case by simp
qed (simp add: pending_def)

text \<open>A container header followed by its children reads as one item: the header takes the place
  of the first child in the new depth, the last child counts at the outer depth.\<close>

lemma reads_item_container:
  assumes "list_all reads_item (qs @ [q])"
    and "\<And>left buf items left' buf' items'.
           item_done (Suc (length qs) # left) (buf @ h) items left' buf' items' \<Longrightarrow>
           round left buf items h left' buf' items'"
  shows "reads_item (h @ concat qs @ q)"
  unfolding reads_item_def
proof (intro allI impI)
  fix left buf items r
  assume left: "left \<noteq> []" "hd left \<noteq> (0 :: nat)"
  have "parse_loop left buf items ((h @ concat qs @ q) @ r) =
        parse_loop (pending (length qs) left) (buf @ h) items (concat qs @ q @ r)"
    using parse_loop_container [where n = "Suc (length qs)" and q = h, OF left(1) _ assms(2)]
    by simp
  also have "\<dots> = parse_loop left ((buf @ h) @ concat qs) items (q @ r)"
    using assms(1) left by (intro parse_loop_children) auto
  also have "\<dots> = after_item left buf items (h @ concat qs @ q) r"
    using assms(1) left by (simp add: reads_itemD after_item_def)
  finally show "parse_loop left buf items ((h @ concat qs @ q) @ r) =
                after_item left buf items (h @ concat qs @ q) r" .
qed

lemma reads_item_leaf:
  assumes "\<And>left buf items left' buf' items'.
           item_done left (buf @ h) items left' buf' items' \<Longrightarrow> round left buf items h left' buf' items'"
  shows "reads_item h"
  unfolding reads_item_def using parse_loop_item_done assms by blast

lemma reads_item_tag:
  assumes "major_of b Tag" "arg_of b bs = Some n" "reads_item q"
  shows "reads_item (b # bs @ q)"
  unfolding reads_item_def
proof (intro allI impI)
  fix left buf items r
  assume left: "left \<noteq> []" "hd left \<noteq> (0 :: nat)"
  have "parse_loop left buf items ((b # bs) @ q @ r) = parse_loop left (buf @ b # bs) items (q @ r)"
    using assms(1,2) left(1) by (intro parse_loop_round round_tag)
  with assms(3) left show "parse_loop left buf items ((b # bs @ q) @ r) =
      after_item left buf items (b # bs @ q) r"
    by (simp add: reads_itemD after_item_def)
qed

lemma reads_item_children:
  assumes "major_of b m" "m = Array \<or> m = Map" "list_all reads_item qs" "qs \<noteq> []"
    and "\<And>left buf items left' buf' items'.
           item_done (length qs # left) (buf @ b # bs) items left' buf' items' \<Longrightarrow>
           round left buf items (b # bs) left' buf' items'"
  shows "reads_item (b # bs @ concat qs)"
proof -
  obtain qs' q where qs: "qs = qs' @ [q]" using assms(4) by (cases qs rule: rev_cases) auto
  have "reads_item ((b # bs) @ concat qs' @ q)"
    using assms(3,5) unfolding qs by (intro reads_item_container) simp_all
  then show ?thesis by (simp add: qs)
qed

lemma wf_item_reads: "wf_item x \<Longrightarrow> reads_item (item_bytes x)"
proof (induction x)
  case (IntItem b bs)
  then show ?case by (auto intro!: reads_item_leaf intro: round_int)
next
  case (StringItem b bs p)
  then show ?case by (auto intro!: reads_item_leaf intro: round_string)
next
  case (ArrayItem b bs xs)
  show ?case
  proof (cases "xs = []")
    case True
    with ArrayItem.prems show ?thesis
      by (auto intro!: reads_item_leaf round_array [where n = 0])
  next
    case False
    with ArrayItem show ?thesis
      by (auto simp: list_all_iff intro!: reads_item_children [where m = Array] round_array)
  qed
next
  case (MapItem b bs xs)
  then obtain n where n: "arg_of b bs = Some n" "map_arg (Some n) (length xs)"
    by (cases "arg_of b bs") auto
  show ?case
  proof (cases "xs = []")
    case True
    with MapItem.prems n show ?thesis
      by (auto intro!: reads_item_leaf round_map [where n = 0])
  next
    case False
    with n have "n \<noteq> 0" "length xs = (n * 2) mod 2 ^ 64" by (cases "n = 0"; simp)+
    with False MapItem n show ?thesis
      by (auto simp: list_all_iff intro!: reads_item_children [where m = Map] round_map)
  qed
next
  case (TagItem b bs x)
  then show ?case by (auto intro: reads_item_tag)
qed

subsection \<open>The loop accepts nothing else\<close>

definition rounds_after :: "nat list \<Rightarrow> bytes \<Rightarrow> bytes list \<Rightarrow> bytes \<Rightarrow> bytes \<Rightarrow> bytes list \<Rightarrow> bool" where
  "rounds_after left buf items p q items' \<longleftrightarrow> hd left \<noteq> 0 \<and>
     (if tl left = [] then rounds (count_down left) [] (items @ [buf @ p]) q items'
      else rounds (count_down left) (buf @ p) items q items')"

lemma rounds_after_append:
  "rounds_after left (buf @ h) items p q items' = rounds_after left buf items (h @ p) q items'"
  by (cases "tl left = []") (simp_all add: rounds_after_def)

text \<open>\<open>starts_item q\<close>: wherever the loop runs to its end on \<open>q\<close>, it first reads an item.\<close>

definition starts_item :: "bytes \<Rightarrow> bool" where
  "starts_item q \<longleftrightarrow> (\<forall>left buf items items'. rounds left buf items q items' \<longrightarrow> left \<noteq> [] \<longrightarrow>
     (\<exists>x q'. wf_item x \<and> q = item_bytes x @ q' \<and>
       rounds_after left buf items (item_bytes x) q' items'))"

lemma starts_itemD:
  assumes "starts_item q" "rounds left buf items q items'" "left \<noteq> []"
  obtains x q' where "wf_item x" "q = item_bytes x @ q'"
    "rounds_after left buf items (item_bytes x) q' items'"
  using assms unfolding starts_item_def by blast

lemma item_done_rounds_after:
  assumes "item_done left (buf @ p) items left1 buf1 items1" "rounds left1 buf1 items1 q items'"
  shows "rounds_after left buf items p q items'"
  using assms by (auto simp: item_done_def rounds_after_def count_down_def split: if_splits)

lemma item_done_pending:
  assumes "item_done (n # left) (buf @ p) items left1 buf1 items1" "rounds left1 buf1 items1 q items'"
    "left \<noteq> []"
  shows "n \<noteq> 0" "rounds (pending (n - 1) left) (buf @ p) items q items'"
  using assms by (auto simp: item_done_def pending_def split: if_splits)

lemma rounds_children:
  assumes "\<And>q'. length q' \<le> length q \<Longrightarrow> starts_item q'"
    and "rounds (pending k left) buf items q items'" "left \<noteq> []"
  shows "\<exists>xs q'. list_all wf_item xs \<and> length xs = k \<and> q = concat (map item_bytes xs) @ q' \<and>
    rounds left (buf @ concat (map item_bytes xs)) items q' items'"
  using assms(1,2)
proof (induction k arbitrary: buf q)
  case 0
  then show ?case by (intro exI [of _ "[]"] exI [of _ q]) (simp add: pending_def)
next
  case (Suc k)
  from Suc.prems(2) obtain x q1 where x: "wf_item x" "q = item_bytes x @ q1"
      "rounds_after (pending (Suc k) left) buf items (item_bytes x) q1 items'"
    using starts_itemD [OF Suc.prems(1) [OF order_refl]] assms(3) by (metis pending_nonempty)
  have "rounds (pending k left) (buf @ item_bytes x) items q1 items'"
    using x(3) assms(3)
    by (cases "k = 0") (simp_all add: rounds_after_def pending_def count_down_def)
  moreover have "\<And>q'. length q' \<le> length q1 \<Longrightarrow> starts_item q'"
    using Suc.prems(1) x(2) by simp
  ultimately obtain xs q' where "list_all wf_item xs" "length xs = k"
      "q1 = concat (map item_bytes xs) @ q'"
      "rounds left ((buf @ item_bytes x) @ concat (map item_bytes xs)) items q' items'"
    using Suc.IH [of q1 "buf @ item_bytes x"] by blast
  with x show ?case by (intro exI [of _ "x # xs"] exI [of _ q']) simp
qed

text \<open>A container header of \<open>n\<close> items is followed by \<open>n\<close> items; the last of them is counted
  at the outer depth.\<close>

lemma rounds_container:
  assumes "\<And>q'. length q' \<le> length q \<Longrightarrow> starts_item q'" "left \<noteq> []"
    and "item_done (n # left) (buf @ h) items left1 buf1 items1" "rounds left1 buf1 items1 q items'"
  shows "\<exists>xs q'. list_all wf_item xs \<and> length xs = n \<and> n \<noteq> 0 \<and> q = concat (map item_bytes xs) @ q' \<and>
    rounds_after left buf items (h @ concat (map item_bytes xs)) q' items'"
proof -
  note p = item_done_pending [OF assms(3,4,2)]
  from rounds_children [OF assms(1) p(2) assms(2)] obtain xs q1 where xs:
      "list_all wf_item xs" "length xs = n - 1" "q = concat (map item_bytes xs) @ q1"
      "rounds left ((buf @ h) @ concat (map item_bytes xs)) items q1 items'" by blast
  moreover have "starts_item q1" using assms(1) xs(3) by simp
  ultimately obtain x q' where "wf_item x" "q1 = item_bytes x @ q'"
      "rounds_after left ((buf @ h) @ concat (map item_bytes xs)) items (item_bytes x) q' items'"
    using starts_itemD [OF _ xs(4) assms(2)] by blast
  with xs p(1) show ?thesis
    by (intro exI [of _ "xs @ [x]"] exI [of _ q']) (simp add: rounds_after_append)
qed

lemma starts_item: "starts_item q"
proof (induction q rule: measure_induct_rule [of length])
  case (less q)
  show ?case unfolding starts_item_def
  proof (intro allI impI)
    fix left buf items items'
    assume "rounds left buf items q items'" "left \<noteq> []"
    then obtain p q1 left1 buf1 items1 where q: "q = p @ q1"
        and r: "round left buf items p left1 buf1 items1" "rounds left1 buf1 items1 q1 items'"
      by (auto elim: rounds.cases)
    have shorter: "\<And>q'. length q' \<le> length q1 \<Longrightarrow> starts_item q'"
      using less round_nonempty [OF r(1)] q by (simp add: order_le_less_trans)
    note container = rounds_container [OF shorter \<open>left \<noteq> []\<close> _ r(2)]
    from r(1) show "\<exists>x q'. wf_item x \<and> q = item_bytes x @ q' \<and>
        rounds_after left buf items (item_bytes x) q' items'"
    proof (cases rule: round.cases)
      case (round_tag b bs n)
      with r(2) obtain x q' where "wf_item x" "q1 = item_bytes x @ q'"
          "rounds_after left (buf @ b # bs) items (item_bytes x) q' items'"
        using starts_itemD [OF shorter [OF order_refl] _ \<open>left \<noteq> []\<close>] by blast
      with round_tag q show ?thesis
        by (intro exI [of _ "TagItem b bs x"] exI [of _ q']) (simp add: rounds_after_append)
    next
      case (round_int b m bs n)
      with q r(2) show ?thesis
        by (intro exI [of _ "IntItem b bs"] exI [of _ q1]) (auto intro: item_done_rounds_after)
    next
      case (round_string b m bs n pl)
      with q r(2) show ?thesis
        by (intro exI [of _ "StringItem b bs pl"] exI [of _ q1]) (auto intro: item_done_rounds_after)
    next
      case (round_array b bs n)
      show ?thesis
      proof (cases "n = 0")
        case True
        with round_array q r(2) show ?thesis
          by (intro exI [of _ "ArrayItem b bs []"] exI [of _ q1]) (auto intro: item_done_rounds_after)
      next
        case False
        with round_array container [of n buf "b # bs" items] obtain xs q' where
          "list_all wf_item xs" "length xs = n" "q1 = concat (map item_bytes xs) @ q'"
          "rounds_after left buf items ((b # bs) @ concat (map item_bytes xs)) q' items'" by auto
        with round_array q show ?thesis
          by (intro exI [of _ "ArrayItem b bs xs"] exI [of _ q']) auto
      qed
    next
      case (round_map b bs n)
      show ?thesis
      proof (cases "n = 0")
        case True
        with round_map q r(2) show ?thesis
          by (intro exI [of _ "MapItem b bs []"] exI [of _ q1]) (auto intro: item_done_rounds_after)
      next
        case False
        with round_map container [of "(n * 2) mod 2 ^ 64" buf "b # bs" items] obtain xs q' where
          "list_all wf_item xs" "length xs = (n * 2) mod 2 ^ 64" "(n * 2) mod 2 ^ 64 \<noteq> 0"
          "q1 = concat (map item_bytes xs) @ q'"
          "rounds_after left buf items ((b # bs) @ concat (map item_bytes xs)) q' items'" by auto
        with round_map q show ?thesis
          by (intro exI [of _ "MapItem b bs xs"] exI [of _ q']) auto
      qed
    qed
  qed
qed

text \<open>The loop started on \<open>n > 0\<close> items succeeds exactly on the encodings of \<open>n\<close> items.\<close>

lemma rounds_top_items:
  assumes "rounds [n] [] items q items'" "n \<noteq> 0"
  shows "\<exists>xs. list_all wf_item xs \<and> length xs = n \<and> items' = items @ map item_bytes xs \<and>
    q = concat (map item_bytes xs)"
  using assms
proof (induction n arbitrary: items q)
  case (Suc n)
  from starts_itemD [OF starts_item Suc.prems(1)] obtain x q' where x: "wf_item x"
      "q = item_bytes x @ q'" "rounds_after [Suc n] [] items (item_bytes x) q' items'" by auto
  show ?case
  proof (cases n)
    case 0
    with x have "rounds [] [] (items @ [item_bytes x]) q' items'"
      by (simp add: rounds_after_def count_down_def)
    with 0 x show ?thesis by (intro exI [of _ "[x]"]) (auto elim: rounds.cases)
  next
    case (Suc m)
    with x have "rounds [n] [] (items @ [item_bytes x]) q' items'"
      by (simp add: rounds_after_def count_down_def)
    from Suc.IH [OF this] Suc obtain xs where "list_all wf_item xs" "length xs = n"
      "items' = (items @ [item_bytes x]) @ map item_bytes xs" "q' = concat (map item_bytes xs)" by auto
    with x show ?thesis by (intro exI [of _ "x # xs"]) simp
  qed
qed simp

lemma parse_loop_top_items:
  assumes "list_all wf_item xs" "xs \<noteq> []"
  shows "parse_loop [length xs] [] items (concat (map item_bytes xs) @ r) =
    Ok (items @ map item_bytes xs, r)"
  using assms
proof (induction xs arbitrary: items)
  case (Cons x xs)
  then have "reads_item (item_bytes x)" by (simp add: wf_item_reads)
  then have "parse_loop [length (x # xs)] [] items (item_bytes x @ concat (map item_bytes xs) @ r) =
      parse_loop (pending (length xs) []) [] (items @ [item_bytes x]) (concat (map item_bytes xs) @ r)"
    by (simp add: reads_itemD after_item_def count_down_def pending_def)
  with Cons show ?case by (cases "xs = []") (simp_all add: pending_def)
qed simp

section \<open>Arrays\<close>

text \<open>\<open>array_header tg h n\<close>: \<open>h\<close> is a header of an array of \<open>n\<close> items, tagged when \<open>tg\<close> is
  not \<open>None\<close>.\<close>

inductive array_header :: "nat option \<Rightarrow> bytes \<Rightarrow> nat \<Rightarrow> bool" where
  untagged: "major_of b Array \<Longrightarrow> arg_of b bs = Some n \<Longrightarrow> array_header None (b # bs) n"
| tagged: "major_of t Tag \<Longrightarrow> arg_of t ts = Some v \<Longrightarrow> array_header None h n \<Longrightarrow>
    array_header (Some v) (t # ts @ h) n"

inductive_cases array_header_NoneE: "array_header None h n"
inductive_cases array_header_SomeE: "array_header (Some v) h n"

definition kept_header :: "array_size \<Rightarrow> bytes \<Rightarrow> bytes option" where
  "kept_header sz h = (if sz = None then None else Some h)"

fun size_ok :: "array_size \<Rightarrow> nat \<Rightarrow> bool" where
  "size_ok None n \<longleftrightarrow> True"
| "size_ok (Some k) n \<longleftrightarrow> n = k \<and> k \<noteq> 0"

lemma finish_array_iff:
  assumes "n \<noteq> 0"
  shows "finish_array sz tg h n r = Ok (a, r') \<longleftrightarrow>
    (\<exists>xs. list_all wf_item xs \<and> length xs = n \<and> r = concat (map item_bytes xs) @ r' \<and>
       a = \<lparr>tag = tg, header = kept_header sz h, contents = map item_bytes xs\<rparr> \<and>
       (sz = None \<or> sz = Some n))"
    (is "?L \<longleftrightarrow> ?R")
proof
  assume ?L
  then obtain items where l: "parse_loop [n] [] [] r = Ok (items, r')"
    and a: "a = \<lparr>tag = tg, header = kept_header sz h, contents = items\<rparr>"
    and s: "sz = None \<or> sz = Some (length items)"
    by (auto simp: finish_array_def rbind_Ok_iff kept_header_def split: if_splits option.splits)
  from l obtain q where "r = q @ r'" "rounds [n] [] [] q items" by (auto simp: parse_loop_iff)
  with rounds_top_items [OF _ assms] a s show ?R by fastforce
next
  assume ?R
  then obtain xs where xs: "list_all wf_item xs" "length xs = n" "r = concat (map item_bytes xs) @ r'"
      "a = \<lparr>tag = tg, header = kept_header sz h, contents = map item_bytes xs\<rparr>"
      "sz = None \<or> sz = Some n" by blast
  then have "xs \<noteq> []" using assms by auto
  from parse_loop_top_items [OF xs(1) this, of "[]"] xs show ?L
    by (auto simp: finish_array_def kept_header_def)
qed

lemma parse_loop_zero: "parse_loop [0] buf items r \<noteq> Ok z"
proof
  assume "parse_loop [0] buf items r = Ok z"
  then obtain items' r' where "parse_loop [0] buf items r = Ok (items', r')" by (cases z) auto
  then obtain q where "rounds [0] buf items q items'" by (auto simp: parse_loop_iff)
  then show False by (auto simp: rounds_after_def elim: starts_itemD [OF starts_item])
qed

lemma finish_array_zero: "finish_array sz tg h 0 r \<noteq> Ok z"
  by (auto simp: finish_array_def rbind_Ok_iff parse_loop_zero)

lemma read_tag_iff:
  "read_tag b r = Ok (tg, b1, h, r1) \<longleftrightarrow>
     (major_of b Array \<and> tg = None \<and> b1 = b \<and> h = [b] \<and> r1 = r) \<or>
     (major_of b Tag \<and> (\<exists>ts v. arg_of b ts = Some v \<and> r = ts @ b1 # r1 \<and> tg = Some v \<and>
        h = b # ts @ [b1]))"
  by (auto simp: read_tag_def major_of_def rbind_Ok_iff rmap_err_Ok_iff read_len_iff
             case_list_Ok_iff split: if_splits)

lemma read_tag_array_header:
  assumes "read_tag b r = Ok (tg, b1, h, bs @ r2)" "major_of b1 Array" "arg_of b1 bs = Some n"
  shows "array_header tg (h @ bs) n \<and> b # r = (h @ bs) @ r2"
  using assms by (auto simp: read_tag_iff intro!: array_header.intros)

lemma array_header_read_tag:
  assumes "array_header tg h n"
  shows "\<exists>b r b1 h1 bs. h @ r2 = b # r \<and> read_tag b r = Ok (tg, b1, h1, bs @ r2) \<and> h = h1 @ bs \<and>
    major_of b1 Array \<and> arg_of b1 bs = Some n"
  using assms
  by (cases tg) (fastforce simp: read_tag_iff elim!: array_header_NoneE array_header_SomeE)+

text \<open>\<open>deserialize_from_reader\<close> reads the header, then the items.\<close>

definition array_items :: "array_size \<Rightarrow> nat option \<Rightarrow> bytes \<Rightarrow> nat \<Rightarrow> bytes \<Rightarrow> (parsed_array \<times> bytes) result" where
  "array_items sz tg h n r =
     (if sz = None \<and> n = 0 then Ok (\<lparr>tag = tg, header = None, contents = []\<rparr>, r)
      else if sz = None \<or> sz = Some n then finish_array sz tg h n r
      else Err (ArrayParseError (InvalidNumberOfElements n (the sz))))"

lemma deserialize_read_tag:
  assumes "read_tag b r = Ok (tg, b1, h1, bs @ r2)" "major_of b1 Array" "arg_of b1 bs = Some n"
  shows "deserialize_from_reader sz (b # r) = array_items sz tg (h1 @ bs) n r2"
  using assms
  by (auto simp: deserialize_from_reader_def array_items_def major_of_def read_len_arg split: option.splits)

lemma deserialize_array_header:
  "array_header tg h n \<Longrightarrow> deserialize_from_reader sz (h @ r) = array_items sz tg h n r"
  using array_header_read_tag [of tg h n r] deserialize_read_tag by metis

lemma deserialize_Ok_header:
  assumes "deserialize_from_reader sz r = Ok z"
  shows "\<exists>tg h n r2. array_header tg h n \<and> r = h @ r2"
proof (cases r)
  case (Cons b r0)
  with assms obtain tg b1 h r1 n bs r2
    where "read_tag b r0 = Ok (tg, b1, h, r1)" "major_of b1 Array" "r1 = bs @ r2" "arg_of b1 bs = Some n"
    by (auto simp: deserialize_from_reader_def rbind_Ok_iff rmap_err_Ok_iff major_of_def read_len_iff
             split: if_splits)
  with read_tag_array_header Cons show ?thesis by blast
qed (use assms in \<open>simp add: deserialize_from_reader_def\<close>)

lemma array_items_iff:
  "array_items sz tg h n r = Ok (a, r') \<longleftrightarrow>
    (\<exists>xs. list_all wf_item xs \<and> length xs = n \<and> size_ok sz n \<and> r = concat (map item_bytes xs) @ r' \<and>
       a = \<lparr>tag = tg, header = kept_header sz h, contents = map item_bytes xs\<rparr>)"
proof (cases "n = 0")
  case True
  then show ?thesis by (cases sz) (auto simp: array_items_def finish_array_zero kept_header_def)
next
  case False
  then show ?thesis by (cases sz) (auto simp: array_items_def finish_array_iff)
qed

subsection \<open>The writer\<close>

lemma write_all_items_concat [simp]: "write_all_items items = concat items"
  by (induction items) simp_all

lemma serialize_to_writer_header:
  assumes "byteorder_doc L" "length (contents a) \<le> 65535" "\<forall>t. tag a = Some t \<longrightarrow> t \<le> 65535"
  shows "\<exists>h. array_header (tag a) h (length (contents a)) \<and>
    serialize_to_writer L a = Ok (h @ concat (contents a))"
proof -
  obtain b bs where b: "encode_item_start L Array (length (contents a)) = Ok (b # bs)"
      "major_of b Array" "arg_of b bs = Some (length (contents a))"
    using encode_item_start_header [OF assms(1,2), of Array] by blast
  show ?thesis
  proof (cases "tag a")
    case None
    with b show ?thesis
      by (intro exI [of _ "b # bs"]) (simp add: serialize_to_writer_def array_header.untagged)
  next
    case (Some t)
    with assms(3) obtain c cs where c: "encode_item_start L Tag t = Ok (c # cs)"
        "major_of c Tag" "arg_of c cs = Some t"
      using encode_item_start_header [OF assms(1), of t Tag] by auto
    with b Some show ?thesis
      by (intro exI [of _ "c # cs @ b # bs"])
         (simp add: serialize_to_writer_def array_header.intros)
  qed
qed

lemma serialize_to_writer_Panic:
  assumes "byteorder_doc L" "65535 < length (contents a)"
  shows "serialize_to_writer L a = Panic \<or> (\<exists>e. serialize_to_writer L a = Err e)"
  using assms by (cases "case tag a of None \<Rightarrow> Ok [] | Some t \<Rightarrow> encode_item_start L Tag t")
    (simp_all add: serialize_to_writer_def encode_item_start_large)

subsection \<open>The builder and the accessors\<close>

lemma builder_set_from_done:
  "builder_set_from (length ds + length vs) (map Some ds @ replicate (length vs) None) (length ds) vs =
     rbind (rtraverse (\<lambda>v. v) vs) (\<lambda>ws. Ok (map Some (ds @ ws)))"
proof (induction vs arbitrary: ds)
  case (Cons v vs)
  have "builder_set (length ds + length (v # vs)) (map Some ds @ replicate (length (v # vs)) None)
      (length ds) v = rmap (\<lambda>w. map Some (ds @ [w]) @ replicate (length vs) None) v"
    by (cases v) (simp_all add: builder_set_def check_bounds_def set_or_panic_def list_update_append)
  then show ?case using Cons.IH [of "ds @ [_]"]
    by (cases v) (simp_all add: rbind_assoc)
qed simp

lemma build_array_rtraverse:
  "build_array vs = rbind (rtraverse (\<lambda>v. v) vs) (\<lambda>ws. Ok \<lparr>tag = None, header = None, contents = ws\<rparr>)"
proof -
  have "builder_build (map Some ws) = Ok \<lparr>tag = None, header = None, contents = ws\<rparr>" for ws
    by (auto simp: builder_build_def comp_def)
  then show ?thesis
    using builder_set_from_done [of "[]" vs]
    by (simp add: build_array_def builder_new_def rbind_assoc)
qed

lemma rtraverse_self_Ok_iff: "rtraverse (\<lambda>v. v) vs = Ok ws \<longleftrightarrow> vs = map Ok ws"
  by (auto simp: rtraverse_Ok_iff list_all2_conv_all_nth list_eq_iff_nth_eq)

lemma build_array_Ok_iff:
  "build_array vs = Ok a \<longleftrightarrow>
     (\<exists>ws. vs = map Ok ws \<and> a = \<lparr>tag = None, header = None, contents = ws\<rparr>)"
  by (auto simp: build_array_rtraverse rbind_Ok_iff rtraverse_self_Ok_iff)

lemma array_get_nth:
  "n < length (contents a) \<Longrightarrow> (sz = None \<or> sz = Some (length (contents a))) \<Longrightarrow>
     array_get sz a n des = des (contents a ! n)"
  by (auto simp: array_get_def check_bounds_def nth_or_panic_def)

lemma array_get_Ok_nth:
  "array_get sz a n des = Ok x \<Longrightarrow> n < length (contents a) \<and> des (contents a ! n) = Ok x"
  by (auto simp: array_get_def nth_or_panic_def res_simps split: if_splits)

lemma array_set_Ok_iff:
  "array_set sz a n v = Ok a' \<longleftrightarrow> check_bounds sz n = Ok () \<and> n < length (contents a) \<and>
     (\<exists>bs. v = Ok bs \<and> a' = a\<lparr>contents := (contents a)[n := bs]\<rparr>)"
  by (auto simp: array_set_def set_or_panic_def res_simps split: if_splits)

lemma array_push_Ok_iff:
  "array_push a v = Ok a' \<longleftrightarrow> (\<exists>bs. v = Ok bs \<and> a' = a\<lparr>contents := contents a @ [bs]\<rparr>)"
  by (auto simp: array_push_def res_simps)

lemma parse_loop_special:
  assumes "list_all wf_item xs" "length xs < n" "major_of b Special"
  shows "parse_loop [n] [] items (concat (map item_bytes xs) @ b # r) =
    Err (ArrayParseError (UnsupportedMajorType 7))"
  using assms
proof (induction xs arbitrary: items n)
  case Nil
  then show ?case by (simp add: parse_loop.simps [of "[n]"] parse_step_def major_of_def Let_def)
next
  case (Cons x xs)
  then have "reads_item (item_bytes x)" by (simp add: wf_item_reads)
  with Cons show ?case by (simp add: reads_itemD after_item_def count_down_def)
qed

lemma deserialize_special:
  assumes "array_header tg h n" "list_all wf_item xs" "length xs < n" "major_of b Special"
    and "sz = None \<or> sz = Some n"
  shows "deserialize_from_reader sz (h @ concat (map item_bytes xs) @ b # r) =
    Err (ArrayParseError (UnsupportedMajorType 7))"
  using assms
  by (auto simp: deserialize_array_header array_items_def finish_array_def parse_loop_special)

subsection \<open>Arrays as serialisable values\<close>

text \<open>Two arrays that differ at most in the recorded header bytes.\<close>

definition same_array :: "parsed_array \<Rightarrow> parsed_array \<Rightarrow> bool" where
  "same_array a b \<longleftrightarrow> tag a = tag b \<and> contents a = contents b"

lemma array_roundtrip:
  assumes "byteorder_doc L"
    and "contents a = map item_bytes xs" "list_all wf_item xs" "length xs \<le> 65535"
    and "\<forall>t. tag a = Some t \<longrightarrow> t \<le> 65535" "size_ok sz (length xs)"
  shows "\<exists>bs. serialize_to_writer L a = Ok bs \<and>
    (\<forall>r. \<exists>a'. deserialize_from_reader sz (bs @ r) = Ok (a', r) \<and> same_array a a')"
proof -
  from assms obtain h where h: "array_header (tag a) h (length xs)"
      "serialize_to_writer L a = Ok (h @ concat (contents a))"
    using serialize_to_writer_header [of L a] by auto
  have "deserialize_from_reader sz ((h @ concat (contents a)) @ r) =
      Ok (a\<lparr>header := kept_header sz h\<rparr>, r)" for r
    using assms deserialize_array_header [OF h(1)] by (auto simp: array_items_iff)
  then show ?thesis using h(2) by (auto simp: same_array_def)
qed

lemma array_header_nonempty: "array_header tg h n \<Longrightarrow> h \<noteq> []"
  by (cases tg) (auto elim: array_header_NoneE array_header_SomeE)

lemma deserialize_shorter:
  assumes "deserialize_from_reader sz r = Ok (a, r')"
  shows "length r' < length r"
proof -
  from deserialize_Ok_header [OF assms] obtain tg h n r2 where h: "array_header tg h n" "r = h @ r2"
    by blast
  with assms have "length r' \<le> length r2" by (auto simp: deserialize_array_header array_items_iff)
  moreover have "h \<noteq> []" using h(1) by (rule array_header_nonempty)
  ultimately show ?thesis using h(2) by (cases h) simp_all
qed

text \<open>The arrays that can be sent: items of major types 0 to 6, at most 65535 of them, the size
  that the reader expects, and a tag of at most 16 bits.\<close>

definition sendable_array :: "'z byteorder_scheme \<Rightarrow> array_size \<Rightarrow> parsed_array \<Rightarrow> bool" where
  "sendable_array L sz a \<longleftrightarrow> byteorder_doc L \<and>
     (\<exists>xs. contents a = map item_bytes xs \<and> list_all wf_item xs \<and> length xs \<le> 65535 \<and>
        (\<forall>t. tag a = Some t \<longrightarrow> t \<le> 65535) \<and> size_ok sz (length xs))"

interpretation parsed_arrays:
  deserializable_many "serialize_to_writer L" "deserialize_from_reader sz" "sendable_array L sz"
    same_array is_nodata_error for L sz
proof unfold_locales
  fix a assume "sendable_array L sz a"
  then show "\<exists>bs. serialize_to_writer L a = Ok bs \<and>
      (\<forall>r. \<exists>a'. deserialize_from_reader sz (bs @ r) = Ok (a', r) \<and> same_array a a')"
    unfolding sendable_array_def using array_roundtrip by blast
next
  show "\<exists>e. deserialize_from_reader sz [] = Err e \<and> is_nodata_error e"
    by (simp add: deserialize_from_reader_def is_nodata_error_def)
next
  fix r a r' assume "deserialize_from_reader sz r = Ok (a, r')"
  then show "length r' < length r" by (rule deserialize_shorter)
qed

section \<open>Properties\<close>




text \<open>An array with an item of major type 7 (\<open>null\<close>, a boolean, a float) in top-level
  position is refused with \<open>UnsupportedMajorType(7)\<close>, whatever comes before and after it.\<close>

theorem deserialize_special_refused:
  assumes "array_header tg h n" "list_all wf_item xs" "length xs < n" "major_of b Special"
    and "sz = None \<or> sz = Some n"
  shows "deserialize_from_reader sz (h @ concat (map item_bytes xs) @ b # r) =
    Err (ArrayParseError (UnsupportedMajorType 7))"
  by (rule deserialize_special [OF assms])

theorem deserialize_special_refused_witness:
  "deserialize_from_reader None [0x82, 0x01, 0xf6] = Err (ArrayParseError (UnsupportedMajorType 7))"
proof -
  have "array_header None [0x82] 2"
    by (rule untagged) code_simp+
  moreover have "list_all wf_item [IntItem 1 []]" "major_of 0xf6 Special"
    by code_simp+
  ultimately show ?thesis
    using deserialize_special_refused [of None "[0x82]" 2 "[IntItem 1 []]" "0xf6" None "[]"] by simp
qed

end
