(* ===== verification/Libs.thy ===== *)
theory Libs
  imports Constants Cbor_Correct
begin

text \<open>
  The third-party crates the code calls, as one record of functions: \<open>openssl\<close> (hashes,
  keys, certificates, comparison), \<open>aws-nitro-enclaves-cose\<close> (signed messages), \<open>hex\<close>, and
  the serde codecs \<open>ciborium\<close> (writing) and \<open>serde_cbor\<close> (reading), one codec per Rust type
  that is put on the wire. Every definition that calls one of them takes the record as its
  argument \<open>L\<close>. A function of the record returns \<open>None\<close> where the library returns its error
  (or, for \<open>memcmp_eq\<close>, panics). Handles of the libraries (keys, certificates, signed
  messages) are opaque wrappers of bytes.

  The predicates named \<open>..._doc\<close> state what the documentation of these libraries promises
  and the code relies on; a theorem that needs one names it.
\<close>

section \<open>Handles and values\<close>

datatype pkey = PKey bytes
datatype privkey = PrivKey bytes
datatype x509 = X509 bytes
datatype cose_sign1 = CoseSign1 bytes

text \<open>What \<open>PKeyRef::id\<close> with the curve of an EC key, or the size of an RSA key, says.\<close>

datatype pkey_id = EcP256 | EcP384 | EcOther | Rsa nat | OtherId

text \<open>\<open>serde_cbor::Value\<close>; a float is kept as its 64 bits.\<close>

datatype cbor_value =
  Null
| Bool bool
| Integer int
| Float u64
| Bytes bytes
| Text string
| VArray "cbor_value list"
| VMap "(cbor_value \<times> cbor_value) list"
| VTag nat cbor_value

type_synonym header_map = "cbor_value \<rightharpoonup> cbor_value"

section \<open>Codecs\<close>

record 'a codec =
  enc :: "'a \<Rightarrow> bytes option"
  dec :: "bytes \<Rightarrow> 'a option"

text \<open>\<open>Serializable::serialize_data\<close> and \<open>deserialize_data\<close> of a type with derived serde
  implementations.\<close>

definition serde_ser :: "'a codec \<Rightarrow> 'a \<Rightarrow> bytes result" where
  "serde_ser c x = ok_or (enc c x) CiboriumSerError"

definition serde_des :: "'a codec \<Rightarrow> bytes \<Rightarrow> 'a result" where
  "serde_des c bs = ok_or (dec c bs) SerdeCborError"

definition codec_doc :: "'a codec \<Rightarrow> bool" where
  "codec_doc c \<longleftrightarrow> (\<forall>x bs. enc c x = Some bs \<longrightarrow> dec c bs = Some x)"

lemma serde_roundtrip: "codec_doc c \<Longrightarrow> serde_ser c x = Ok bs \<Longrightarrow> serde_des c bs = Ok x"
  by (auto simp: codec_doc_def serde_ser_def serde_des_def ok_or_Ok_iff)

type_synonym key_tuple = "public_key_type \<times> public_key_encoding \<times> bytes"
type_synonym hash_tuple = "hash_type \<times> bytes"
type_synonym rendezvous_info = "(rendezvous_variable \<times> bytes) list list"
type_synonym extra_type = "(nat \<rightharpoonup> bytes) option"

text \<open>The wire form of \<open>OwnershipVoucherEntryPayload\<close>: a tuple of the fields' wire forms.\<close>

type_synonym entry_tuple = "hash_tuple \<times> hash_tuple \<times> extra_type \<times> key_tuple"

section \<open>The libraries\<close>

record openssl = byteorder +
  md_hash :: "message_digest \<Rightarrow> bytes \<Rightarrow> bytes option"
  memcmp_eq :: "bytes \<Rightarrow> bytes \<Rightarrow> bool option"
  public_eq :: "pkey \<Rightarrow> pkey \<Rightarrow> bool"
  public_of :: "privkey \<Rightarrow> pkey"
  public_key_from_der :: "bytes \<Rightarrow> pkey option"
  public_key_to_der :: "pkey \<Rightarrow> bytes option"
  pkey_kind :: "pkey \<Rightarrow> pkey_id option"
  x509_from_der :: "bytes \<Rightarrow> x509 option"
  x509_to_der :: "x509 \<Rightarrow> bytes option"
  x509_public_key :: "x509 \<Rightarrow> pkey option"
  x509_issued :: "x509 \<Rightarrow> x509 \<Rightarrow> bool"
  x509_verify :: "x509 \<Rightarrow> pkey \<Rightarrow> bool option"
  x509_digest :: "message_digest \<Rightarrow> x509 \<Rightarrow> bytes option"

record cose_lib = openssl +
  cose_from_bytes :: "bytes \<Rightarrow> cose_sign1 option"
  cose_to_bytes :: "cose_sign1 \<Rightarrow> bytes option"
  cose_sign :: "bytes \<Rightarrow> header_map option \<Rightarrow> header_map \<Rightarrow> privkey \<Rightarrow> cose_sign1 option"
  cose_sig_alg :: "privkey \<Rightarrow> int option"
  cose_verify :: "cose_sign1 \<Rightarrow> pkey \<Rightarrow> bool option"
  cose_get :: "cose_sign1 \<Rightarrow> pkey option \<Rightarrow> (header_map \<times> bytes) option"
  cose_unprotected :: "cose_sign1 \<Rightarrow> header_map"

record codecs = cose_lib +
  hex_decode :: "string \<Rightarrow> bytes option"
  c_version :: "protocol_version codec"
  c_bytebuf :: "bytes codec"
  c_string :: "string codec"
  c_u16 :: "nat codec"
  c_u32 :: "nat codec"
  c_hash :: "hash_tuple codec"
  c_opt_hash :: "hash_tuple option codec"
  c_rvinfo :: "rendezvous_info codec"
  c_key :: "key_tuple codec"
  c_opt_x5chain :: "bytes list option codec"
  c_x5chain :: "bytes list codec"
  c_entry :: "entry_tuple codec"
  c_claims :: "(int \<rightharpoonup> cbor_value) codec"
  c_value :: "cbor_value codec"
  c_siginfo :: "(device_sig_type \<times> bytes) codec"

section \<open>Documented behaviour\<close>

text \<open>\<open>openssl::memcmp::eq\<close> panics on slices of different lengths and otherwise compares.\<close>

definition memcmp_doc :: "'z openssl_scheme \<Rightarrow> bool" where
  "memcmp_doc L \<longleftrightarrow> (\<forall>a b. memcmp_eq L a b = (if length a = length b then Some (a = b) else None))"

fun md_size :: "message_digest \<Rightarrow> nat" where
  "md_size MdSha256 = 32"
| "md_size MdSha384 = 48"

definition hash_doc :: "'z openssl_scheme \<Rightarrow> bool" where
  "hash_doc L \<longleftrightarrow> (\<forall>md d h. md_hash L md d = Some h \<longrightarrow> length h = md_size md)"

text \<open>Values without \<open>null\<close>, booleans and floats: the ones whose encodings use major types 0 to
  6 only.\<close>

fun plain_value :: "cbor_value \<Rightarrow> bool" where
  "plain_value Null \<longleftrightarrow> False"
| "plain_value (Bool _) \<longleftrightarrow> False"
| "plain_value (Integer _) \<longleftrightarrow> True"
| "plain_value (Float _) \<longleftrightarrow> False"
| "plain_value (Bytes _) \<longleftrightarrow> True"
| "plain_value (Text _) \<longleftrightarrow> True"
| "plain_value (VArray vs) \<longleftrightarrow> list_all plain_value vs"
| "plain_value (VMap kvs) \<longleftrightarrow> list_all (\<lambda>(k, v). plain_value k \<and> plain_value v) kvs"
| "plain_value (VTag _ v) \<longleftrightarrow> plain_value v"

definition plain_map :: "header_map \<Rightarrow> bool" where
  "plain_map m \<longleftrightarrow> (\<forall>k v. m k = Some v \<longrightarrow> plain_value k \<and> plain_value v)"

text \<open>\<open>one_item bs\<close>: \<open>bs\<close> is the encoding of one well-formed item of major types 0 to 6.\<close>

definition one_item :: "bytes \<Rightarrow> bool" where
  "one_item bs \<longleftrightarrow> (\<exists>x. wf_item x \<and> bs = item_bytes x)"

definition item_codec :: "'a codec \<Rightarrow> bool" where
  "item_codec c \<longleftrightarrow> codec_doc c \<and> (\<forall>x bs. enc c x = Some bs \<longrightarrow> one_item bs)"

text \<open>Reading a COSE message with a key returns what reading it without one returns, if the
  signature verifies. A message made with a private key carries its payload and verifies
  under every equal public key. With plain unprotected headers it is written as an array of four items, and
  read back when the tag 18 (the byte \<open>0xd2\<close>) precedes it.\<close>

definition cose_doc :: "'z cose_lib_scheme \<Rightarrow> bool" where
  "cose_doc L \<longleftrightarrow>
     (\<forall>c pk z. cose_get L c (Some pk) = Some z \<longrightarrow> cose_get L c None = Some z) \<and>
     (\<forall>p pr un k c. cose_sign L p pr un k = Some c \<longrightarrow>
        (\<exists>hm. cose_get L c None = Some (hm, p)) \<and>
        (\<forall>pk. public_eq L pk (public_of L k) \<longrightarrow>
           cose_verify L c pk = Some True \<and> (\<exists>hm. cose_get L c (Some pk) = Some (hm, p))) \<and>
        (plain_map un \<longrightarrow>
           (\<exists>items. length items = 4 \<and> list_all one_item items \<and>
              cose_to_bytes L c = Some (0x84 # concat items) \<and>
              cose_from_bytes L (0xd2 # 0x84 # concat items) = Some c)))"

end
