(* ===== verification/Types.thy ===== *)
theory Types
  imports Libs
begin

text \<open>
  Value types of \<open>data-formats/src/types.rs\<close>: hashes, nonces, GUIDs, signature infos,
  rendezvous instructions, the accessors of CBOR values, service info, cipher and key
  exchange suites, and remote connections. Key exchange and signed messages have theories of
  their own.
\<close>

section \<open>Hash\<close>

record hash =
  hash_type :: hash_type
  hash_value :: bytes

definition hash_tuple :: "hash \<Rightarrow> hash_tuple" where
  "hash_tuple h = (hash_type h, hash_value h)"

fun tuple_hash :: "hash_tuple \<Rightarrow> hash" where
  "tuple_hash (t, v) = \<lparr>hash_type = t, hash_value = v\<rparr>"

lemma tuple_hash_inverse [simp]: "tuple_hash (hash_tuple h) = h"
  by (simp add: hash_tuple_def)

definition hash_ser :: "'z codecs_scheme \<Rightarrow> hash \<Rightarrow> bytes result" where
  "hash_ser L h = serde_ser (c_hash L) (hash_tuple h)"

definition hash_des :: "'z codecs_scheme \<Rightarrow> bytes \<Rightarrow> hash result" where
  "hash_des L bs = rmap tuple_hash (serde_des (c_hash L) bs)"

definition hash_from_data :: "'z openssl_scheme \<Rightarrow> hash_type \<Rightarrow> bytes \<Rightarrow> hash result" where
  "hash_from_data L alg data =
     rbind (message_digest_try_from alg) (\<lambda>md.
     rbind (ok_or (md_hash L md data) CryptoStack) (\<lambda>v.
     Ok \<lparr>hash_type = alg, hash_value = v\<rparr>))"

definition hash_from_digest :: "hash_type \<Rightarrow> bytes \<Rightarrow> hash result" where
  "hash_from_digest ht value =
     (if length value \<noteq> digest_size ht then Err (InconsistentValue ''Digest string is invalid length'')
      else Ok \<lparr>hash_type = ht, hash_value = value\<rparr>)"

text \<open>\<open>str::find(':')\<close> followed by \<open>split_at\<close>: the part before the first colon and the part
  from the colon on.\<close>

definition split_colon :: "string \<Rightarrow> (string \<times> string) option" where
  "split_colon s = (if CHR '':'' \<in> set s
     then Some (takeWhile (\<lambda>c. c \<noteq> CHR '':'') s, dropWhile (\<lambda>c. c \<noteq> CHR '':'') s) else None)"

definition hash_from_str :: "'z codecs_scheme \<Rightarrow> string \<Rightarrow> hash result" where
  "hash_from_str L s =
     (case split_colon s of
        None \<Rightarrow> Err (InconsistentValue ''Hash string is missing ':' separator'')
      | Some (alg, val) \<Rightarrow>
          rbind (hash_type_from_str alg) (\<lambda>alg.
          rbind (ok_or (hex_decode L (tl val)) HexError) (\<lambda>val.
          hash_from_digest alg val)))"

text \<open>\<open>PartialEq for Hash\<close>: only the values are compared, and values of different lengths make
  \<open>openssl::memcmp::eq\<close> panic.\<close>

definition memcmp :: "'z openssl_scheme \<Rightarrow> bytes \<Rightarrow> bytes \<Rightarrow> ('e, bool) res" where
  "memcmp L a b = unwrap_opt (memcmp_eq L a b)"

definition hash_eq :: "'z openssl_scheme \<Rightarrow> hash \<Rightarrow> hash \<Rightarrow> bool result" where
  "hash_eq L h other = memcmp L (hash_value h) (hash_value other)"

definition hash_compare :: "'z openssl_scheme \<Rightarrow> hash \<Rightarrow> hash \<Rightarrow> unit result" where
  "hash_compare L h other =
     rbind (hash_eq L h other) (\<lambda>b. if b then Ok () else Err IncorrectHash)"

definition hash_compare_data :: "'z openssl_scheme \<Rightarrow> hash \<Rightarrow> bytes \<Rightarrow> unit result" where
  "hash_compare_data L h other =
     rbind (message_digest_try_from (hash_type h)) (\<lambda>md.
     rbind (ok_or (md_hash L md other) CryptoStack) (\<lambda>other_digest.
     rbind (memcmp L (hash_value h) other_digest) (\<lambda>b.
     if b then Ok () else Err IncorrectHash)))"

text \<open>\<open>ParsedArray::get_hash\<close> of \<open>cborparser.rs\<close>.\<close>

definition array_get_hash ::
  "'z openssl_scheme \<Rightarrow> array_size \<Rightarrow> parsed_array \<Rightarrow> nat \<Rightarrow> hash_type \<Rightarrow> hash result" where
  "array_get_hash L sz a n ht =
     rbind (check_bounds sz n) (\<lambda>_. rbind (nth_or_panic (contents a) n) (hash_from_data L ht))"

section \<open>SigInfo, Nonce and Guid\<close>

record sig_info =
  sig_type :: device_sig_type
  sig_info_bytes :: bytes

datatype nonce = Nonce (nonce_bytes: bytes)
datatype guid = Guid (guid_bytes: bytes)

text \<open>\<open>Bstr16::check\<close>, the two \<open>TryFrom<Bstr16>\<close>, and deserialisation through them; serde
  reports a failing \<open>try_from\<close> as its own error.\<close>

definition bstr16_check :: "bytes \<Rightarrow> unit result" where
  "bstr16_check v = (if length v \<noteq> 16 then Err (InconsistentValue ''Bstr16 is not 16 bytes'') else Ok ())"

definition nonce_try_from :: "bytes \<Rightarrow> nonce result" where
  "nonce_try_from v = rbind (bstr16_check v) (\<lambda>_. Ok (Nonce v))"

definition guid_try_from :: "bytes \<Rightarrow> guid result" where
  "guid_try_from v = rbind (bstr16_check v) (\<lambda>_. Ok (Guid v))"

definition nonce_ser :: "'z codecs_scheme \<Rightarrow> nonce \<Rightarrow> bytes result" where
  "nonce_ser L n = serde_ser (c_bytebuf L) (nonce_bytes n)"

definition nonce_des :: "'z codecs_scheme \<Rightarrow> bytes \<Rightarrow> nonce result" where
  "nonce_des L bs = rbind (serde_des (c_bytebuf L) bs) (\<lambda>v. rmap_err (\<lambda>_. SerdeCborError) (nonce_try_from v))"

definition guid_ser :: "'z codecs_scheme \<Rightarrow> guid \<Rightarrow> bytes result" where
  "guid_ser L g = serde_ser (c_bytebuf L) (guid_bytes g)"

definition guid_des :: "'z codecs_scheme \<Rightarrow> bytes \<Rightarrow> guid result" where
  "guid_des L bs = rbind (serde_des (c_bytebuf L) bs) (\<lambda>v. rmap_err (\<lambda>_. SerdeCborError) (guid_try_from v))"

text \<open>\<open>new_nonce_or_guid_val\<close>, with the outcome of \<open>rand_bytes\<close> on a 16-byte buffer as the
  argument: the bytes, or \<open>None\<close> for its error.\<close>

definition new_nonce_or_guid_val :: "bytes option \<Rightarrow> bytes result" where
  "new_nonce_or_guid_val rnd = ok_or rnd CryptoStack"

definition nonce_new :: "bytes option \<Rightarrow> nonce result" where
  "nonce_new rnd = rbind (new_nonce_or_guid_val rnd) (\<lambda>v. Ok (Nonce v))"

definition guid_new :: "bytes option \<Rightarrow> guid result" where
  "guid_new rnd = rbind (new_nonce_or_guid_val rnd) (\<lambda>v. Ok (Guid v))"

definition nonce_from_value :: "bytes \<Rightarrow> nonce result" where
  "nonce_from_value val = Ok (Nonce val)"

definition nonce_eq :: "'z openssl_scheme \<Rightarrow> nonce \<Rightarrow> nonce \<Rightarrow> bool result" where
  "nonce_eq L n m = memcmp L (nonce_bytes n) (nonce_bytes m)"

definition nonce_from_str :: "'z codecs_scheme \<Rightarrow> string \<Rightarrow> nonce result" where
  "nonce_from_str L s =
     rbind (unwrap_opt (hex_decode L s)) (\<lambda>decoded.
     if length decoded \<noteq> 16 then Panic else Ok (Nonce decoded))"

definition EAT_RAND :: u8 where "EAT_RAND = 0x01"

definition as_ueid :: "guid \<Rightarrow> bytes" where
  "as_ueid g = EAT_RAND # guid_bytes g"

fun from_ueid :: "bytes \<Rightarrow> guid result" where
  "from_ueid [] = Panic"
| "from_ueid (b # data) =
     (if b \<noteq> EAT_RAND then Err (InconsistentValue ''Invalid UEID'') else Ok (Guid data))"

section \<open>Addresses\<close>

text \<open>\<open>std::net::IpAddr\<close> as its octets: 4 or 16 of them.\<close>

datatype ip_address = IpV4 bytes | IpV6 bytes

fun ip_octets :: "ip_address \<Rightarrow> bytes" where
  "ip_octets (IpV4 os) = os"
| "ip_octets (IpV6 os) = os"

definition ip_address_visit_bytes :: "bytes \<Rightarrow> ip_address result" where
  "ip_address_visit_bytes v =
     (if length v = 4 then Ok (IpV4 v)
      else if length v = 16 then Ok (IpV6 v)
      else Err SerdeCborError)"

section \<open>Rendezvous info\<close>

definition rendezvous_info_new ::
  "'z codecs_scheme \<Rightarrow> (rendezvous_variable \<times> cbor_value) list list \<Rightarrow> rendezvous_info result" where
  "rendezvous_info_new L directives =
     rtraverse (rtraverse (\<lambda>(variable, value).
       rmap (\<lambda>bs. (variable, bs)) (serde_ser (c_value L) value))) directives"

section \<open>Accessors of CBOR values\<close>

text \<open>The casts \<open>as u32\<close>, \<open>as u64\<close>, \<open>as i64\<close> truncate.\<close>

fun as_bool :: "cbor_value \<Rightarrow> bool option" where
  "as_bool (Bool b) = Some b"
| "as_bool _ = None"

fun as_bytes :: "cbor_value \<Rightarrow> bytes option" where
  "as_bytes (Bytes b) = Some b"
| "as_bytes _ = None"

fun as_u32 :: "cbor_value \<Rightarrow> u32 option" where
  "as_u32 (Integer u) = Some (word_of_int u)"
| "as_u32 _ = None"

fun as_u64 :: "cbor_value \<Rightarrow> u64 option" where
  "as_u64 (Integer u) = Some (word_of_int u)"
| "as_u64 _ = None"

fun as_i64 :: "cbor_value \<Rightarrow> int option" where
  "as_i64 (Integer i) = Some (sint (word_of_int i :: u64))"
| "as_i64 _ = None"

fun as_f64 :: "cbor_value \<Rightarrow> u64 option" where
  "as_f64 (Float f) = Some f"
| "as_f64 _ = None"

fun as_str :: "cbor_value \<Rightarrow> string option" where
  "as_str (Text s) = Some s"
| "as_str _ = None"

fun str_items :: "cbor_value list \<Rightarrow> string list option" where
  "str_items [] = Some []"
| "str_items (Text s # vs) = map_option ((#) s) (str_items vs)"
| "str_items (_ # vs) = None"

fun as_str_array :: "cbor_value \<Rightarrow> string list option" where
  "as_str_array (VArray a) = str_items a"
| "as_str_array _ = None"

section \<open>Service info\<close>

type_synonym service_info = "(string \<times> bytes) list"

text \<open>\<open>ServiceInfo::add\<close>, with the outcome of \<open>ciborium::ser::into_writer\<close> on the value as
  the last argument.\<close>

definition service_info_add ::
  "service_info \<Rightarrow> service_info_module \<Rightarrow> string \<Rightarrow> bytes option \<Rightarrow> service_info result" where
  "service_info_add si module key value =
     rbind (ok_or value CiboriumSerError) (\<lambda>buffer.
     Ok (si @ [(service_info_module_fmt module @ '':'' @ key, buffer)]))"

definition service_info_add_modules ::
  "'z codecs_scheme \<Rightarrow> service_info \<Rightarrow> service_info_module list \<Rightarrow> service_info result" where
  "service_info_add_modules L si modules =
     rbind (service_info_add si (Standard DevMod) ''nummodules''
              (enc (c_value L) (Integer (int (length modules))))) (\<lambda>si.
     service_info_add si (Standard DevMod) ''modules''
       (enc (c_value L) (VArray ([Integer 0, Integer (int (length modules))] @
          map (\<lambda>m. Text (service_info_module_fmt m)) modules))))"

definition service_info_values ::
  "'z codecs_scheme \<Rightarrow> service_info \<Rightarrow> (string \<times> string \<times> cbor_value) list result" where
  "service_info_values L si =
     rtraverse (\<lambda>(k, v).
       case split_colon k of
         None \<Rightarrow> Err (InconsistentValue ''ServiceInfo key missing module separation'')
       | Some (module, key) \<Rightarrow>
           rbind (serde_des (c_value L) v) (\<lambda>value. Ok (module, key, value))) si"

text \<open>\<open>ServiceInfoIter::next\<close> at position \<open>pos\<close>: the item and the new position, or the end of
  the iteration. A key without a colon, or a value that does not decode, ends it early.\<close>

definition service_info_next ::
  "'z codecs_scheme \<Rightarrow> service_info \<Rightarrow> nat \<Rightarrow>
     ((service_info_module \<times> string \<times> cbor_value) \<times> nat) option" where
  "service_info_next L info pos =
     (if pos \<ge> length info then None
      else let (module_key, val) = info ! pos in
        case split_colon module_key of
          None \<Rightarrow> None
        | Some (module, key) \<Rightarrow>
            (case dec (c_value L) val of
               None \<Rightarrow> None
             | Some value \<Rightarrow>
                 (case service_info_module_from_str module of
                    Ok module \<Rightarrow> Some ((module, tl key, value), pos + 1)
                  | _ \<Rightarrow> None)))"

text \<open>A \<open>for\<close> loop over the iterator.\<close>

function service_info_items ::
  "'z codecs_scheme \<Rightarrow> service_info \<Rightarrow> nat \<Rightarrow> (service_info_module \<times> string \<times> cbor_value) list" where
  "service_info_items L info pos =
     (case service_info_next L info pos of
        None \<Rightarrow> []
      | Some (item, pos') \<Rightarrow> item # service_info_items L info pos')"
  by pat_completeness auto
termination
  by (relation "measure (\<lambda>(L, info, pos). length info - pos)")
     (auto simp: service_info_next_def Let_def split: if_splits option.splits prod.splits res.splits)

declare service_info_items.simps [simp del]

section \<open>Suites\<close>

datatype kex_suite = Ecdh256 | Ecdh384 | DhkexId14 | DhkexId15

definition kex_suite_from_str :: "string \<Rightarrow> kex_suite result" where
  "kex_suite_from_str s =
     (if s = ''ECDH256'' then Ok Ecdh256
      else if s = ''ECDH384'' then Ok Ecdh384
      else if s = ''DHKEXid14'' then Ok DhkexId14
      else if s = ''DHKEXid15'' then Ok DhkexId15
      else Err (InvalidSuiteName s))"

fun kex_suite_fmt :: "kex_suite \<Rightarrow> string" where
  "kex_suite_fmt Ecdh256 = ''ECDH256''"
| "kex_suite_fmt Ecdh384 = ''ECDH384''"
| "kex_suite_fmt DhkexId14 = ''DHKEXid14''"
| "kex_suite_fmt DhkexId15 = ''DHKEXid15''"

datatype cipher_suite = A128Gcm | A256Gcm

fun uses_combined_key :: "cipher_suite \<Rightarrow> bool" where
  "uses_combined_key A128Gcm = True"
| "uses_combined_key A256Gcm = True"

fun split_key_split_pos :: "cipher_suite \<Rightarrow> nat result" where
  "split_key_split_pos _ = Panic"

fun required_keylen :: "cipher_suite \<Rightarrow> nat" where
  "required_keylen A128Gcm = 16"
| "required_keylen A256Gcm = 32"

fun kdf_digest :: "cipher_suite \<Rightarrow> message_digest" where
  "kdf_digest A128Gcm = MdSha256"
| "kdf_digest A256Gcm = MdSha256"

definition cipher_suite_from_str :: "string \<Rightarrow> cipher_suite result" where
  "cipher_suite_from_str s =
     (if s = ''A128GCM'' then Ok A128Gcm
      else if s = ''A256GCM'' then Ok A256Gcm
      else Err (InvalidSuiteName s))"

fun cipher_suite_fmt :: "cipher_suite \<Rightarrow> string" where
  "cipher_suite_fmt A128Gcm = ''A128GCM''"
| "cipher_suite_fmt A256Gcm = ''A256GCM''"

section \<open>Lemmas\<close>

lemma memcmp_same_length:
  "memcmp_doc L \<Longrightarrow> length a = length b \<Longrightarrow> memcmp L a b = Ok (a = b)"
  by (simp add: memcmp_doc_def memcmp_def)

lemma memcmp_other_length:
  "memcmp_doc L \<Longrightarrow> length a \<noteq> length b \<Longrightarrow> memcmp L a b = Panic"
  by (simp add: memcmp_doc_def memcmp_def)

lemma hash_from_data_Ok:
  assumes "hash_from_data L t d = Ok h"
  shows "hash_type h = t"
    and "\<exists>md. message_digest_try_from t = Ok md \<and> md_hash L md d = Some (hash_value h)"
  using assms by (auto simp: hash_from_data_def res_simps)

lemma hash_from_data_length:
  assumes "hash_doc L" "hash_from_data L t d = Ok h"
  shows "length (hash_value h) = digest_size t"
proof -
  from hash_from_data_Ok(2) [OF assms(2)] obtain md where
    md: "message_digest_try_from t = Ok md" "md_hash L md d = Some (hash_value h)" by blast
  then have "length (hash_value h) = md_size md" using assms(1) by (simp add: hash_doc_def)
  with md(1) show ?thesis by (cases t) auto
qed

lemma hash_compare_same_type:
  assumes "memcmp_doc L" "length (hash_value h) = length (hash_value h')" "hash_type h = hash_type h'"
  shows "hash_compare L h h' = (if h = h' then Ok () else Err IncorrectHash)"
  using assms by (auto simp: hash_compare_def hash_eq_def memcmp_same_length)

lemma hash_compare_refl:
  "memcmp_doc L \<Longrightarrow> hash_compare L h h = Ok ()"
  by (simp add: hash_compare_def hash_eq_def memcmp_same_length)

lemma nonce_des_length: "nonce_des L bs = Ok n \<Longrightarrow> length (nonce_bytes n) = 16"
  by (auto simp: nonce_des_def nonce_try_from_def bstr16_check_def res_simps split: if_splits)

lemma guid_des_length: "guid_des L bs = Ok g \<Longrightarrow> length (guid_bytes g) = 16"
  by (auto simp: guid_des_def guid_try_from_def bstr16_check_def res_simps split: if_splits)

lemma nonce_roundtrip:
  assumes "codec_doc (c_bytebuf L)" "length (nonce_bytes n) = 16" "nonce_ser L n = Ok bs"
  shows "nonce_des L bs = Ok n"
  using assms serde_roundtrip [of "c_bytebuf L"]
  by (simp add: nonce_ser_def nonce_des_def nonce_try_from_def bstr16_check_def)

lemma guid_roundtrip:
  assumes "codec_doc (c_bytebuf L)" "length (guid_bytes g) = 16" "guid_ser L g = Ok bs"
  shows "guid_des L bs = Ok g"
  using assms serde_roundtrip [of "c_bytebuf L"]
  by (simp add: guid_ser_def guid_des_def guid_try_from_def bstr16_check_def)

lemma hash_roundtrip:
  assumes "codec_doc (c_hash L)" "hash_ser L h = Ok bs"
  shows "hash_des L bs = Ok h"
  using assms serde_roundtrip [of "c_hash L"] by (simp add: hash_ser_def hash_des_def)

lemma split_colon_append:
  "CHR '':'' \<notin> set a \<Longrightarrow> split_colon (a @ CHR '':'' # b) = Some (a, CHR '':'' # b)"
  by (simp add: split_colon_def takeWhile_append dropWhile_append)

text \<open>A module whose name the iterator reads back: no colon in it, and not an \<open>Unsupported\<close> with
  the name of a known module.\<close>

definition readable_module :: "service_info_module \<Rightarrow> bool" where
  "readable_module m \<longleftrightarrow> CHR '':'' \<notin> set (service_info_module_fmt m) \<and>
     service_info_module_from_str (service_info_module_fmt m) = Ok m"

fun add_all ::
  "'z codecs_scheme \<Rightarrow> service_info \<Rightarrow> (service_info_module \<times> string \<times> cbor_value) list \<Rightarrow> service_info result" where
  "add_all L si [] = Ok si"
| "add_all L si ((m, k, v) # xs) =
     rbind (service_info_add si m k (enc (c_value L) v)) (\<lambda>si'. add_all L si' xs)"

definition entry_of :: "'z codecs_scheme \<Rightarrow> (service_info_module \<times> string \<times> cbor_value) \<Rightarrow> (string \<times> bytes) \<Rightarrow> bool" where
  "entry_of L x e \<longleftrightarrow> (case x of (m, k, v) \<Rightarrow>
     fst e = service_info_module_fmt m @ '':'' @ k \<and> enc (c_value L) v = Some (snd e))"

lemma add_all_entries:
  "add_all L si xs = Ok si' \<Longrightarrow> \<exists>es. si' = si @ es \<and> list_all2 (entry_of L) xs es"
proof (induction xs arbitrary: si)
  case (Cons x xs)
  obtain m k v where x: "x = (m, k, v)" by (cases x)
  from Cons.prems obtain bs where bs: "enc (c_value L) v = Some bs"
      "add_all L (si @ [(service_info_module_fmt m @ '':'' @ k, bs)]) xs = Ok si'"
    by (auto simp: x service_info_add_def res_simps)
  from Cons.IH [OF bs(2)] bs(1) show ?case by (auto simp: x entry_of_def)
qed simp

lemma service_info_items_drop:
  assumes "codec_doc (c_value L)" "list_all2 (entry_of L) xs (drop pos si)" "pos \<le> length si"
    and "\<forall>(m, k, v)\<in>set xs. readable_module m"
  shows "service_info_items L si pos = xs"
  using assms(2-)
proof (induction xs arbitrary: pos)
  case Nil
  then show ?case by (simp add: service_info_items.simps [of L si pos] service_info_next_def)
next
  case (Cons x xs)
  obtain m k v where x: "x = (m, k, v)" by (cases x)
  from Cons.prems(1) have pos: "pos < length si"
    by (metis drop_all leI list_all2_Cons1 list.distinct(1))
  then have d: "drop pos si = si ! pos # drop (Suc pos) si" by (simp add: Cons_nth_drop_Suc)
  with Cons.prems(1) have e: "entry_of L x (si ! pos)" and r: "list_all2 (entry_of L) xs (drop (Suc pos) si)"
    by simp_all
  from e assms(1) Cons.prems(3) have "service_info_next L si pos = Some (x, pos + 1)"
    using pos by (cases "si ! pos")
      (auto simp: x service_info_next_def entry_of_def split_colon_append readable_module_def codec_doc_def)
  with Cons.IH [OF r] pos Cons.prems(3) show ?case
    by (subst service_info_items.simps) simp
qed

section \<open>Properties\<close>

text \<open>C23: comparing two hashes that were computed with the same algorithm never panics, and
  succeeds exactly when the two values are equal; a hash of another length makes the
  comparison panic instead of failing.\<close>

theorem hash_compare_computed:
  assumes "memcmp_doc L" "hash_doc L"
    and "hash_from_data L t d = Ok h" "hash_from_data L t d' = Ok h'"
  shows "hash_compare L h h' = (if h = h' then Ok () else Err IncorrectHash) \<and>
    (\<forall>v. length v \<noteq> digest_size t \<longrightarrow> hash_compare L h \<lparr>hash_type = t, hash_value = v\<rparr> = Panic)"
proof
  have len: "length (hash_value h) = digest_size t" "length (hash_value h') = digest_size t"
    using assms by (auto intro: hash_from_data_length)
  show "hash_compare L h h' = (if h = h' then Ok () else Err IncorrectHash)"
    using assms(1) len hash_from_data_Ok(1) [OF assms(3)] hash_from_data_Ok(1) [OF assms(4)]
    by (simp add: hash_compare_same_type)
  show "\<forall>v. length v \<noteq> digest_size t \<longrightarrow> hash_compare L h \<lparr>hash_type = t, hash_value = v\<rparr> = Panic"
    using assms(1) len by (simp add: hash_compare_def hash_eq_def memcmp_other_length)
qed



text \<open>A GUID survives its encoding as a UEID, and the decoder accepts nothing else: it
  succeeds exactly on the byte \<open>EAT_RAND\<close> followed by the GUID, and panics on no bytes.\<close>

theorem ueid_roundtrip:
  "(from_ueid data = Ok g \<longleftrightarrow> data = as_ueid g) \<and> (from_ueid data = Panic \<longleftrightarrow> data = [])"
  by (cases data; cases g) (auto simp: as_ueid_def)

text \<open>The names of the key exchange and cipher suites round-trip, and every other name is
  refused with \<open>InvalidSuiteName\<close> of that name.\<close>

theorem suite_names_roundtrip:
  "(kex_suite_from_str s = Ok k \<longleftrightarrow> s = kex_suite_fmt k) \<and>
   (cipher_suite_from_str s = Ok c \<longleftrightarrow> s = cipher_suite_fmt c) \<and>
   (s \<notin> range kex_suite_fmt \<longleftrightarrow> kex_suite_from_str s = Err (InvalidSuiteName s)) \<and>
   (s \<notin> range cipher_suite_fmt \<longleftrightarrow> cipher_suite_from_str s = Err (InvalidSuiteName s))"
proof -
  have k: "kex_suite_from_str s = Ok k \<longleftrightarrow> s = kex_suite_fmt k" for k
    by (cases k) (auto simp: kex_suite_from_str_def)
  moreover have c: "cipher_suite_from_str s = Ok c \<longleftrightarrow> s = cipher_suite_fmt c" for c
    by (cases c) (auto simp: cipher_suite_from_str_def)
  moreover have "(\<exists>k. kex_suite_from_str s = Ok k) \<noteq> (kex_suite_from_str s = Err (InvalidSuiteName s))"
    by (simp add: kex_suite_from_str_def)
  moreover have "(\<exists>c. cipher_suite_from_str s = Ok c) \<noteq> (cipher_suite_from_str s = Err (InvalidSuiteName s))"
    by (simp add: cipher_suite_from_str_def)
  ultimately show ?thesis by (auto simp: image_iff)
qed

end
