(* ===== verification/KeyExchange.thy ===== *)
theory KeyExchange
  imports Types
begin

text \<open>
  The key exchange of \<open>data-formats/src/types.rs\<close> (\<open>KeyExchange\<close>, \<open>KeyDeriveSide\<close>,
  \<open>DerivedKeys\<close>, \<open>KexSuite\<close>, \<open>CipherSuite\<close>): the exchanged byte string, the shared
  secret and the derived session keys. Big numbers, Diffie-Hellman, elliptic curves and the
  KDF belong to OpenSSL and are fields of the library record; big numbers are naturals.
\<close>

section \<open>Library functions\<close>

datatype ec_curve = Prime256v1 | Secp384r1
datatype ec_point = EcPoint nat nat | EcInfinity
datatype ec_priv = EcPriv bytes

datatype kdf_argument =
  KbModeCounter | MacHmac message_digest | Salt bytes | KbInfo bytes | KdfKey bytes | UseL bool | KdfR nat

record kex_lib = codecs +
  bn_from_slice :: "bytes \<Rightarrow> nat option"
  bn_to_vec :: "nat \<Rightarrow> bytes"
  dh_public :: "nat \<Rightarrow> nat \<Rightarrow> nat \<Rightarrow> nat option"
  dh_compute_key :: "nat \<Rightarrow> nat \<Rightarrow> nat \<Rightarrow> nat \<Rightarrow> bytes option"
  ec_private_from_der :: "bytes \<Rightarrow> ec_priv option"
  ec_public :: "ec_priv \<Rightarrow> ec_point"
  ec_from_affine :: "ec_curve \<Rightarrow> nat \<Rightarrow> nat \<Rightarrow> ec_point option"
  ec_check_key :: "ec_curve \<Rightarrow> ec_point \<Rightarrow> bool"
  ec_mul :: "ec_curve \<Rightarrow> ec_point \<Rightarrow> ec_priv \<Rightarrow> ec_point option"
  ec_is_infinity :: "ec_curve \<Rightarrow> ec_point \<Rightarrow> bool"
  ec_is_on_curve :: "ec_curve \<Rightarrow> ec_point \<Rightarrow> bool option"
  ec_affine :: "ec_curve \<Rightarrow> ec_point \<Rightarrow> (nat \<times> nat) option"
  perform_kdf :: "kdf_argument list \<Rightarrow> nat \<Rightarrow> bytes option"
  use_noninteroperable_kdf_feature :: bool
  force_noninteroperable_kdf_env :: bool

text \<open>\<open>interoperable_kdf_available\<close> of \<open>data-formats/src/lib.rs\<close>: a cargo feature and an
  environment variable can switch it off.\<close>

definition interoperable_kdf_available :: "'z kex_lib_scheme \<Rightarrow> bool" where
  "interoperable_kdf_available L =
     (if use_noninteroperable_kdf_feature L then False
      else if force_noninteroperable_kdf_env L then False else True)"

text \<open>Big numbers survive their conversion to bytes, which has no leading zeros; a public key
  survives the conversion to affine coordinates, of at most 48 bytes, and is valid; Diffie-Hellman commutes in both groups.\<close>

definition bn_doc :: "'z kex_lib_scheme \<Rightarrow> bool" where
  "bn_doc L \<longleftrightarrow> (\<forall>n. bn_from_slice L (bn_to_vec L n) = Some n) \<and>
     (\<forall>n k. n < 256 ^ k \<longrightarrow> length (bn_to_vec L n) \<le> k)"

definition ec_doc :: "'z kex_lib_scheme \<Rightarrow> bool" where
  "ec_doc L \<longleftrightarrow>
     (\<forall>g k x y. ec_affine L g (ec_public L k) = Some (x, y) \<longrightarrow>
        x < 256 ^ 48 \<and> y < 256 ^ 48 \<and>
        ec_from_affine L g x y = Some (ec_public L k) \<and> ec_check_key L g (ec_public L k)) \<and>
     (\<forall>g k k'. ec_mul L g (ec_public L k) k' = ec_mul L g (ec_public L k') k)"

definition dh_doc :: "'z kex_lib_scheme \<Rightarrow> bool" where
  "dh_doc L \<longleftrightarrow>
     (\<forall>p g x. dh_public L p g x = Some (g ^ x mod p)) \<and>
     (\<forall>p g x y. dh_compute_key L p g x y = Some (bn_to_vec L (y ^ x mod p)))"

section \<open>The model\<close>

datatype derived_keys = Combined (sevk: bytes) | Split (sek: bytes) (svk: bytes)

datatype key_derive_side = OwnerService | Device

datatype key_exchange = Ecdh kex_suite bytes bytes | Dhkex kex_suite bytes

definition KEY_DERIVE_LABEL :: bytes where "KEY_DERIVE_LABEL = ascii ''FIDO-KDF''"

definition KEY_DERIVE_CONTEXT_PREFIX :: bytes where
  "KEY_DERIVE_CONTEXT_PREFIX = ascii ''AutomaticOnboardTunnel''"

fun get_ecdh_random_size :: "kex_suite \<Rightarrow> nat result" where
  "get_ecdh_random_size Ecdh256 = Ok 16"
| "get_ecdh_random_size Ecdh384 = Ok 48"
| "get_ecdh_random_size _ = Panic"

fun get_ecdh_group :: "kex_suite \<Rightarrow> ec_curve result" where
  "get_ecdh_group Ecdh256 = Ok Prime256v1"
| "get_ecdh_group Ecdh384 = Ok Secp384r1"
| "get_ecdh_group _ = Panic"

text \<open>The MODP groups of RFC 3526: the prime and the generator 2.\<close>

definition modp14 :: nat where
  "modp14 = 0xFFFFFFFFFFFFFFFFC90FDAA22168C234C4C6628B80DC1CD129024E088A67CC74020BBEA63B139B22514A08798E3404DDEF9519B3CD3A431B302B0A6DF25F14374FE1356D6D51C245E485B576625E7EC6F44C42E9A637ED6B0BFF5CB6F406B7EDEE386BFB5A899FA5AE9F24117C4B1FE649286651ECE45B3DC2007CB8A163BF0598DA48361C55D39A69163FA8FD24CF5F83655D23DCA3AD961C62F356208552BB9ED529077096966D670C354E4ABC9804F1746C08CA18217C32905E462E36CE3BE39E772C180E86039B2783A2EC07A28FB5C55DF06F4C52C9DE2BCBF6955817183995497CEA956AE515D2261898FA051015728E5A8AACAA68FFFFFFFFFFFFFFFF"

definition modp15 :: nat where
  "modp15 = 0xFFFFFFFFFFFFFFFFC90FDAA22168C234C4C6628B80DC1CD129024E088A67CC74020BBEA63B139B22514A08798E3404DDEF9519B3CD3A431B302B0A6DF25F14374FE1356D6D51C245E485B576625E7EC6F44C42E9A637ED6B0BFF5CB6F406B7EDEE386BFB5A899FA5AE9F24117C4B1FE649286651ECE45B3DC2007CB8A163BF0598DA48361C55D39A69163FA8FD24CF5F83655D23DCA3AD961C62F356208552BB9ED529077096966D670C354E4ABC9804F1746C08CA18217C32905E462E36CE3BE39E772C180E86039B2783A2EC07A28FB5C55DF06F4C52C9DE2BCBF6955817183995497CEA956AE515D2261898FA051015728E5A8AAAC42DAD33170D04507A33A85521ABDF1CBA64ECFB850458DBEF0A8AEA71575D060C7DB3970F85A6E1E4C7ABF5AE8CDB0933D71E8C94E04A25619DCEE3D2261AD2EE6BF12FFA06D98A0864D87602733EC86A64521F2B18177B200CBBE117577A615D6C770988C0BAD946E208E24FA074E5AB3143DB5BFCE0FD108E4B82D120A93AD2CAFFFFFFFFFFFFFFFF"

fun get_dh_params :: "kex_suite \<Rightarrow> (nat \<times> nat) result" where
  "get_dh_params DhkexId14 = Ok (modp14, 2)"
| "get_dh_params DhkexId15 = Ok (modp15, 2)"
| "get_dh_params _ = Panic"

text \<open>\<open>KeyExchange::new\<close>: \<open>gen\<close> is the outcome of the library's key generation (the private
  key's bytes, or its DER form), \<open>rnd\<close> that of \<open>rand_bytes\<close> for the requested size.\<close>

definition key_exchange_new :: "kex_suite \<Rightarrow> bytes option \<Rightarrow> (nat \<Rightarrow> bytes option) \<Rightarrow> key_exchange result" where
  "key_exchange_new suite gen rnd =
     (if suite = DhkexId14 \<or> suite = DhkexId15 then
        rbind (get_dh_params suite) (\<lambda>_.
        rbind (ok_or gen CryptoStack) (\<lambda>key. Ok (Dhkex suite key)))
      else
        rbind (get_ecdh_group suite) (\<lambda>_.
        rbind (ok_or gen CryptoStack) (\<lambda>key.
        rbind (get_ecdh_random_size suite) (\<lambda>n.
        rbind (ok_or (rnd n) CryptoStack) (\<lambda>our_random. Ok (Ecdh suite key our_random))))))"

definition encode_ecdh_bstr :: "bytes \<Rightarrow> bytes \<Rightarrow> bytes \<Rightarrow> bytes" where
  "encode_ecdh_bstr ax ay random =
     to_be_bytes 2 (length ax) @ ax @ to_be_bytes 2 (length ay) @ ay @
     to_be_bytes 2 (length random) @ random"

definition split_at :: "nat \<Rightarrow> bytes \<Rightarrow> (bytes \<times> bytes) result" where
  "split_at n bs = (if n \<le> length bs then Ok (take n bs, drop n bs) else Panic)"

definition decode_ecdh_bstr :: "bytes \<Rightarrow> (bytes \<times> bytes \<times> bytes) result" where
  "decode_ecdh_bstr bstr =
     rbind (split_at 2 bstr) (\<lambda>(ax_len, bstr).
     rbind (split_at (from_be_bytes ax_len) bstr) (\<lambda>(ax, bstr).
     rbind (split_at 2 bstr) (\<lambda>(ay_len, bstr).
     rbind (split_at (from_be_bytes ay_len) bstr) (\<lambda>(ay, bstr).
     rbind (split_at 2 bstr) (\<lambda>(random_len, bstr).
     rbind (split_at (from_be_bytes random_len) bstr) (\<lambda>(random, bstr).
     if bstr \<noteq> [] then Err (KeyExchangeError ''Invalid ecdh bstr received'')
     else Ok (ax, ay, random)))))))"

definition ossl :: "'a option \<Rightarrow> 'a result" where
  "ossl m = ok_or m CryptoStack"

fun get_public :: "'z kex_lib_scheme \<Rightarrow> key_exchange \<Rightarrow> bytes result" where
  "get_public L (Dhkex suite key) =
     rbind (ossl (bn_from_slice L key)) (\<lambda>key.
     rbind (get_dh_params suite) (\<lambda>(p, g).
     rbind (ossl (dh_public L p g key)) (\<lambda>pub. Ok (bn_to_vec L pub))))"
| "get_public L (Ecdh suite key our_random) =
     rbind (get_ecdh_group suite) (\<lambda>ec_group.
     rbind (ossl (ec_private_from_der L key)) (\<lambda>key.
     rbind (ossl (ec_affine L ec_group (ec_public L key))) (\<lambda>(public_x, public_y).
     Ok (encode_ecdh_bstr (bn_to_vec L public_x) (bn_to_vec L public_y) our_random))))"

fun derive_key_dh :: "'z kex_lib_scheme \<Rightarrow> key_exchange \<Rightarrow> bytes \<Rightarrow> (bytes \<times> bytes) result" where
  "derive_key_dh L (Dhkex suite key) other =
     rbind (ossl (bn_from_slice L other)) (\<lambda>other.
     rbind (ossl (bn_from_slice L key)) (\<lambda>key.
     rbind (get_dh_params suite) (\<lambda>(p, g).
     rbind (ossl (dh_public L p g key)) (\<lambda>_.
     rbind (ossl (dh_compute_key L p g key other)) (\<lambda>secret. Ok (secret, []))))))"
| "derive_key_dh L (Ecdh _ _ _) other = Panic"

fun derive_key_ecdh ::
  "'z kex_lib_scheme \<Rightarrow> key_exchange \<Rightarrow> key_derive_side \<Rightarrow> bytes \<Rightarrow> (bytes \<times> bytes) result" where
  "derive_key_ecdh L (Ecdh suite key our_random) our_side other =
     rbind (get_ecdh_group suite) (\<lambda>ec_group.
     rbind (decode_ecdh_bstr other) (\<lambda>(other_x, other_y, other_random).
     rbind (get_ecdh_random_size suite) (\<lambda>n.
     if length other_random \<noteq> n then Err (KeyExchangeError ''Other random is invalid size'')
     else
       rbind (ossl (bn_from_slice L other_x)) (\<lambda>other_x.
       rbind (ossl (bn_from_slice L other_y)) (\<lambda>other_y.
       rbind (ossl (ec_from_affine L ec_group other_x other_y)) (\<lambda>other_pub.
       if \<not> ec_check_key L ec_group other_pub then Err CryptoStack
       else
         rbind (ossl (ec_private_from_der L key)) (\<lambda>our_key.
         rbind (ossl (ec_mul L ec_group other_pub our_key)) (\<lambda>derived.
         rbind (if ec_is_infinity L ec_group derived then Ok True
                else rmap Not (ossl (ec_is_on_curve L ec_group derived))) (\<lambda>bad.
         if bad then Err (KeyExchangeError ''Invalid key derived'')
         else
           rbind (ossl (ec_affine L ec_group derived)) (\<lambda>(derived_x, _).
           Ok (bn_to_vec L derived_x @
               (case our_side of
                  Device \<Rightarrow> our_random @ other_random
                | OwnerService \<Rightarrow> other_random @ our_random), [])))))))))))"
| "derive_key_ecdh L (Dhkex _ _) our_side other = Panic"

definition derive_key ::
  "'z kex_lib_scheme \<Rightarrow> key_exchange \<Rightarrow> key_derive_side \<Rightarrow> cipher_suite \<Rightarrow> bytes \<Rightarrow> bool \<Rightarrow> derived_keys result" where
  "derive_key L kex our_side cipher other use_noninteroperable_kdf =
     rbind (case kex of Dhkex _ _ \<Rightarrow> derive_key_dh L kex other
            | Ecdh _ _ _ \<Rightarrow> derive_key_ecdh L kex our_side other) (\<lambda>(shared_secret, context_rand).
     let salt = KEY_DERIVE_CONTEXT_PREFIX @ context_rand @ to_be_bytes 2 (required_keylen cipher * 8);
         noninterop = (use_noninteroperable_kdf \<or> \<not> interoperable_kdf_available L);
         args = [KbModeCounter, MacHmac (kdf_digest cipher), Salt KEY_DERIVE_LABEL, KbInfo salt,
                 KdfKey shared_secret] @ (if noninterop then [] else [UseL False, KdfR 8])
     in rbind (ok_or (perform_kdf L args (required_keylen cipher)) Kdf) (\<lambda>key_out.
        if uses_combined_key cipher then Ok (Combined key_out)
        else rbind (split_key_split_pos cipher) (\<lambda>n.
             rbind (split_at n key_out) (\<lambda>(svk, sek). Ok (Split sek svk)))))"

section \<open>Lemmas\<close>

lemma split_at_append [simp]: "split_at (length a) (a @ b) = Ok (a, b)"
  by (simp add: split_at_def)

lemma split_at_2_bytes [simp]: "split_at 2 (to_be_bytes 2 n @ b) = Ok (to_be_bytes 2 n, b)"
  using split_at_append [of "to_be_bytes 2 n" b] by (simp del: split_at_append)

lemma split_at_Ok_iff: "split_at n bs = Ok (a, b) \<longleftrightarrow> bs = a @ b \<and> length a = n"
  by (auto simp: split_at_def)

lemma decode_encode_ecdh:
  assumes "length ax < 65536" "length ay < 65536" "length r < 65536"
  shows "decode_ecdh_bstr (encode_ecdh_bstr ax ay r) = Ok (ax, ay, r)"
  using assms split_at_append [of r "[]"]
  by (simp add: decode_ecdh_bstr_def encode_ecdh_bstr_def from_to_be_bytes)

lemma encode_decode_ecdh:
  assumes "decode_ecdh_bstr bs = Ok (ax, ay, r)"
  shows "bs = encode_ecdh_bstr ax ay r"
proof -
  have two: "to_be_bytes 2 (from_be_bytes l) = l" if "length l = 2" for l
    using to_from_be_bytes [of l] that by simp
  from assms show ?thesis
    by (auto simp: decode_ecdh_bstr_def encode_ecdh_bstr_def rbind_Ok_iff split_at_Ok_iff two
             split: if_splits)
qed

lemma ossl_Ok_iff [res_simps]: "ossl m = Ok x \<longleftrightarrow> m = Some x"
  by (cases m) (simp_all add: ossl_def)

lemma ossl_Some [simp]: "ossl (Some x) = Ok x"
  by (simp add: ossl_def)

text \<open>What an ECDH public value is.\<close>

lemma get_public_ecdh:
  assumes "get_public L (Ecdh suite key r) = Ok pub"
  shows "\<exists>g k x y. get_ecdh_group suite = Ok g \<and> ec_private_from_der L key = Some k \<and>
    ec_affine L g (ec_public L k) = Some (x, y) \<and>
    pub = encode_ecdh_bstr (bn_to_vec L x) (bn_to_vec L y) r"
  using assms by (auto simp: res_simps)

text \<open>The secret one side computes from the other side's public value.\<close>

definition ecdh_secret ::
  "'z kex_lib_scheme \<Rightarrow> ec_curve \<Rightarrow> ec_point \<Rightarrow> ec_priv \<Rightarrow> bytes \<Rightarrow> bytes \<Rightarrow> (bytes \<times> bytes) result" where
  "ecdh_secret L g p k device_random owner_random =
     rbind (ossl (ec_mul L g p k)) (\<lambda>derived.
     rbind (if ec_is_infinity L g derived then Ok True else rmap Not (ossl (ec_is_on_curve L g derived)))
       (\<lambda>bad. if bad then Err (KeyExchangeError ''Invalid key derived'')
        else rbind (ossl (ec_affine L g derived)) (\<lambda>(x, _).
          Ok (bn_to_vec L x @ device_random @ owner_random, []))))"

lemma derive_key_ecdh_public:
  assumes "bn_doc L" "ec_doc L" "get_public L (Ecdh suite key' r') = Ok pub"
    and "get_ecdh_random_size suite = Ok (length r')"
    and "ec_private_from_der L key = Some k" "ec_private_from_der L key' = Some k'"
    and "get_ecdh_group suite = Ok g"
  shows "derive_key_ecdh L (Ecdh suite key r) side pub =
    (case side of Device \<Rightarrow> ecdh_secret L g (ec_public L k') k r r'
     | OwnerService \<Rightarrow> ecdh_secret L g (ec_public L k') k r' r)"
proof -
  from get_public_ecdh [OF assms(3)] assms(6,7) obtain x y where
    xy: "ec_affine L g (ec_public L k') = Some (x, y)"
      "pub = encode_ecdh_bstr (bn_to_vec L x) (bn_to_vec L y) r'" by auto
  have "length r' < 65536" using assms(4) by (cases suite) auto
  moreover have "length (bn_to_vec L x) \<le> 48" "length (bn_to_vec L y) \<le> 48"
    using assms(1,2) xy(1) unfolding bn_doc_def ec_doc_def by blast+
  ultimately have "decode_ecdh_bstr pub = Ok (bn_to_vec L x, bn_to_vec L y, r')"
    unfolding xy(2) by (intro decode_encode_ecdh) simp_all
  moreover have "ec_from_affine L g x y = Some (ec_public L k')" "ec_check_key L g (ec_public L k')"
    using assms(2) xy(1) by (auto simp: ec_doc_def)
  ultimately show ?thesis
    using assms(1,4,5,7) by (cases side) (simp_all add: bn_doc_def ecdh_secret_def cong: if_cong)
qed

fun suite_of :: "key_exchange \<Rightarrow> kex_suite" where
  "suite_of (Ecdh s _ _) = s"
| "suite_of (Dhkex s _) = s"

text \<open>What \<open>KeyExchange::new\<close> makes: for ECDH, a random part of the suite's size.\<close>

fun wf_key_exchange :: "key_exchange \<Rightarrow> bool" where
  "wf_key_exchange (Ecdh s key r) \<longleftrightarrow> get_ecdh_random_size s = Ok (length r)"
| "wf_key_exchange (Dhkex s key) \<longleftrightarrow> s = DhkexId14 \<or> s = DhkexId15"

lemma key_exchange_new_wf:
  assumes "\<And>n r. rnd n = Some r \<Longrightarrow> length r = n" "key_exchange_new suite gen rnd = Ok kex"
  shows "wf_key_exchange kex \<and> suite_of kex = suite"
  using assms by (cases suite) (auto simp: key_exchange_new_def res_simps)

lemma dh_commutes: "((g :: nat) ^ b mod p) ^ a mod p = (g ^ a mod p) ^ b mod p"
  by (simp add: power_mod power_mult [symmetric] mult.commute)

lemma derive_key_cong:
  assumes "(case kex of Dhkex _ _ \<Rightarrow> derive_key_dh L kex other
      | Ecdh _ _ _ \<Rightarrow> derive_key_ecdh L kex side other) =
    (case kex' of Dhkex _ _ \<Rightarrow> derive_key_dh L kex' other'
      | Ecdh _ _ _ \<Rightarrow> derive_key_ecdh L kex' side' other')"
  shows "derive_key L kex side c other f = derive_key L kex' side' c other' f"
  using assms by (simp add: derive_key_def)

section \<open>Properties\<close>

text \<open>C27: the exchanged ECDH byte string round-trips: decoding what was encoded gives the three
  parts back (each shorter than 65536 bytes), and every string that decodes is the encoding
  of what it decodes to.\<close>

theorem ecdh_bstr_roundtrip:
  "(length ax < 65536 \<and> length ay < 65536 \<and> length r < 65536 \<longrightarrow>
      decode_ecdh_bstr (encode_ecdh_bstr ax ay r) = Ok (ax, ay, r)) \<and>
   (decode_ecdh_bstr bs = Ok (ax, ay, r) \<longrightarrow> bs = encode_ecdh_bstr ax ay r)"
  using decode_encode_ecdh encode_decode_ecdh by blast

theorem ecdh_bstr_roundtrip_witness:
  "decode_ecdh_bstr (encode_ecdh_bstr [1, 2] [3] []) = Ok ([1, 2], [3], [])"
  using ecdh_bstr_roundtrip [of "[1, 2]" "[3]" "[]"] by simp

text \<open>The two sides of a key exchange agree: from the public values they send each other,
  the owner service and the device derive the same session keys (or fail in the same way),
  for every suite and cipher.\<close>

theorem derive_key_agreement:
  assumes "bn_doc L" "ec_doc L" "dh_doc L"
    and "suite_of owner = suite_of device" "wf_key_exchange owner" "wf_key_exchange device"
    and "get_public L owner = Ok owner_public" "get_public L device = Ok device_public"
  shows "derive_key L owner OwnerService cipher device_public f =
         derive_key L device Device cipher owner_public f"
proof (cases owner)
  case (Ecdh suite key r)
  with assms(4-6) obtain key' r' where device: "device = Ecdh suite key' r'"
    by (cases device) auto
  from Ecdh assms(7) obtain g k where k: "get_ecdh_group suite = Ok g" "ec_private_from_der L key = Some k"
    using get_public_ecdh by blast
  from device assms(8) k(1) obtain k' where k': "ec_private_from_der L key' = Some k'"
    using get_public_ecdh by fastforce
  have "ecdh_secret L g (ec_public L k') k r' r = ecdh_secret L g (ec_public L k) k' r' r"
    using assms(2) by (simp add: ecdh_secret_def ec_doc_def)
  then show ?thesis
    using derive_key_ecdh_public [OF assms(1,2), of suite key' r' device_public key k k' g r OwnerService]
      derive_key_ecdh_public [OF assms(1,2), of suite key r owner_public key' k' k g r' Device]
      assms(5-8) Ecdh device k k'
    by (intro derive_key_cong) simp
next
  case (Dhkex suite key)
  with assms(4-6) obtain key' where device: "device = Dhkex suite key'" by (cases device) auto
  with assms(7,8) Dhkex obtain a b p g where
    k: "bn_from_slice L key = Some a" "bn_from_slice L key' = Some b" "get_dh_params suite = Ok (p, g)"
      "owner_public = bn_to_vec L (g ^ a mod p)" "device_public = bn_to_vec L (g ^ b mod p)"
    using assms(3) by (auto simp: res_simps dh_doc_def)
  with Dhkex device show ?thesis
    using assms(1,3) dh_commutes [of g b p a]
    by (intro derive_key_cong) (simp add: bn_doc_def dh_doc_def)
qed

end
