(* ===== verification/Cose.thy ===== *)
theory Cose
  imports KeyExchange
begin

text \<open>
  Signed messages and entity attestation tokens of \<open>data-formats/src/types.rs\<close>:
  \<open>COSEHeaderMap\<close>, \<open>EATokenPayload\<close> with \<open>new_eat\<close> and \<open>eat_from_map\<close>, and
  \<open>COSESign\<close>. The generic parameter \<open>T\<close> of a Rust function is the function's argument that
  encodes or decodes a \<open>T\<close>. The type states of \<open>EATokenPayload<S>\<close> have no run-time content
  and are not represented.
\<close>

section \<open>Value codecs\<close>

text \<open>\<open>serde_cbor::value::to_value\<close> and \<open>from_value\<close> of a type.\<close>

record 'a vcodec =
  to_value :: "'a \<Rightarrow> cbor_value option"
  from_value :: "cbor_value \<Rightarrow> 'a option"

record vlib = kex_lib +
  v_bytes :: "bytes vcodec"

definition vcodec_doc :: "'a vcodec \<Rightarrow> bool" where
  "vcodec_doc c \<longleftrightarrow> (\<forall>x v. to_value c x = Some v \<longrightarrow> from_value c v = Some x)"

section \<open>Header maps\<close>

type_synonym cose_header_map = "int \<rightharpoonup> cbor_value"

definition chm_new :: cose_header_map where
  "chm_new = Map.empty"

definition chm_insert :: "'a vcodec \<Rightarrow> cose_header_map \<Rightarrow> header_keys \<Rightarrow> 'a \<Rightarrow> cose_header_map result" where
  "chm_insert c m key value =
     rbind (ok_or (to_value c value) SerdeCborError) (\<lambda>v. Ok (m(header_keys_i64 key \<mapsto> v)))"

definition chm_get :: "'a vcodec \<Rightarrow> cose_header_map \<Rightarrow> header_keys \<Rightarrow> 'a option result" where
  "chm_get c m key =
     (case m (header_keys_i64 key) of
        None \<Rightarrow> Ok None
      | Some val \<Rightarrow> rbind (ok_or (from_value c val) SerdeCborError) (\<lambda>x. Ok (Some x)))"

text \<open>\<open>From<COSEHeaderMap> for HeaderMap\<close> and \<open>HeaderKeys::cbor_value\<close>.\<close>

fun to_header_map :: "cose_header_map \<Rightarrow> header_map" where
  "to_header_map m (Integer k) = m k"
| "to_header_map m _ = None"

definition cbor_value_of :: "header_keys \<Rightarrow> cbor_value" where
  "cbor_value_of key = Integer (header_keys_i64 key)"

section \<open>Entity attestation tokens\<close>

record eat =
  payload :: "cbor_value option"
  eat_nonce :: nonce
  device_guid :: bytes
  other_claims :: cose_header_map

definition nonce_of_value :: "'z vlib_scheme \<Rightarrow> cbor_value \<Rightarrow> nonce result" where
  "nonce_of_value L v =
     rbind (ok_or (from_value (v_bytes L) v) SerdeCborError) (\<lambda>b.
     rmap_err (\<lambda>_. SerdeCborError) (nonce_try_from b))"

definition payload_internal :: "'a vcodec \<Rightarrow> eat \<Rightarrow> 'a option result" where
  "payload_internal c e =
     (case payload e of
        None \<Rightarrow> Ok None
      | Some val \<Rightarrow> rbind (ok_or (from_value c val) SerdeCborError) (\<lambda>x. Ok (Some x)))"

definition device_guid_internal :: "eat \<Rightarrow> guid result" where
  "device_guid_internal e = unwrap (from_ueid (device_guid e))"

definition eat_to_map :: "'z vlib_scheme \<Rightarrow> eat \<Rightarrow> cose_header_map result" where
  "eat_to_map L e =
     (let res = other_claims e;
          res = (case payload e of None \<Rightarrow> res | Some p \<Rightarrow> res(header_keys_i64 EatFDO \<mapsto> p)) in
      rbind (unwrap (chm_insert (v_bytes L) res EatNonce (nonce_bytes (eat_nonce e)))) (\<lambda>res.
      unwrap (chm_insert (v_bytes L) res EatUeid (device_guid e))))"

text \<open>The \<open>is_err\<close> test of \<open>from_ueid\<close>: a panic of the test is a panic of the function.\<close>

fun is_err :: "('e, 'a) res \<Rightarrow> ('f, bool) res" where
  "is_err (Ok _) = Ok False"
| "is_err (Err _) = Ok True"
| "is_err Panic = Panic"

definition eat_from_map :: "'z vlib_scheme \<Rightarrow> cose_header_map \<Rightarrow> eat result" where
  "eat_from_map L claims =
     (let pl = claims (header_keys_i64 EatFDO);
          claims1 = claims(header_keys_i64 EatFDO := None) in
      rbind (case claims1 (header_keys_i64 EatNonce) of
               None \<Rightarrow> Err (InconsistentValue ''Missing nonce'')
             | Some val \<Rightarrow> nonce_of_value L val) (\<lambda>nonce.
      let claims2 = claims1(header_keys_i64 EatNonce := None) in
      rbind (case claims2 (header_keys_i64 EatUeid) of
               None \<Rightarrow> Err (InconsistentValue ''Missing UEID'')
             | Some val \<Rightarrow>
                 rbind (ok_or (from_value (v_bytes L) val) SerdeCborError) (\<lambda>val.
                 rbind (is_err (from_ueid val)) (\<lambda>bad.
                 if bad then Err (InconsistentValue ''Invalid UEID'') else Ok val))) (\<lambda>ueid.
      let claims3 = claims2(header_keys_i64 EatUeid := None) in
      Ok \<lparr>payload = pl, eat_nonce = nonce, device_guid = ueid, other_claims = claims3\<rparr>)))"

definition new_eat :: "'a vcodec \<Rightarrow> 'a option \<Rightarrow> nonce \<Rightarrow> guid \<Rightarrow> eat result" where
  "new_eat c pl nonce guid =
     rbind (case pl of
              None \<Rightarrow> Ok None
            | Some x \<Rightarrow> rbind (ok_or (to_value c x) SerdeCborError) (\<lambda>v. Ok (Some v))) (\<lambda>pl.
     Ok \<lparr>payload = pl, eat_nonce = nonce, device_guid = as_ueid guid, other_claims = chm_new\<rparr>)"

section \<open>COSESign\<close>

record cosesign =
  cs_contents :: parsed_array
  cached_inner :: cose_sign1

definition COSESIGN_TAG :: nat where "COSESIGN_TAG = 18"

text \<open>\<open>deserialize_from_reader\<close> on a reader, and \<open>deserialize_data\<close>, which drops what the
  reader has left.\<close>

definition cosesign_read :: "'z vlib_scheme \<Rightarrow> bytes \<Rightarrow> (cosesign \<times> bytes) result" where
  "cosesign_read L reader =
     rbind (deserialize_from_reader (Some 4) reader) (\<lambda>(array, reader').
     if tag array \<noteq> Some COSESIGN_TAG then
       (if tag array = None then Err (InconsistentValue ''Missing tag on COSESign'')
        else Err (InconsistentValue ''Invalid tag on COSESign''))
     else
       rbind (serialize_to_writer L array) (\<lambda>data.
       rbind (ok_or (cose_from_bytes L data) Cose) (\<lambda>inner.
       Ok (\<lparr>cs_contents = array, cached_inner = inner\<rparr>, reader'))))"

definition cosesign_des :: "'z vlib_scheme \<Rightarrow> bytes \<Rightarrow> cosesign result" where
  "cosesign_des L data = rmap fst (cosesign_read L data)"

definition cosesign_ser :: "'z vlib_scheme \<Rightarrow> cosesign \<Rightarrow> bytes result" where
  "cosesign_ser L c =
     (if tag (cs_contents c) \<noteq> Some COSESIGN_TAG
      then Err (InconsistentValue ''Invalid tag on COSESign on serialize_data'')
      else serialize_to_writer L (cs_contents c))"

definition new_from_inner :: "'z vlib_scheme \<Rightarrow> cose_sign1 \<Rightarrow> cosesign result" where
  "new_from_inner L inner =
     rbind (ok_or (cose_to_bytes L inner) CiboriumSerError) (\<lambda>data.
     rbind (deserialize_from_reader (Some 4) data) (\<lambda>(contents, _).
     Ok \<lparr>cs_contents = set_tag contents (Some COSESIGN_TAG), cached_inner = inner\<rparr>))"

definition cosesign_new ::
  "'z vlib_scheme \<Rightarrow> bytes result \<Rightarrow> cose_header_map option \<Rightarrow> privkey \<Rightarrow> cosesign result" where
  "cosesign_new L payload_data unprotected sign_key =
     (let unprotected = (case unprotected of Some v \<Rightarrow> v | None \<Rightarrow> chm_new) in
      rbind payload_data (\<lambda>payload.
      rbind (ok_or (cose_sign L payload None (to_header_map unprotected) sign_key) Cose) (\<lambda>inner.
      new_from_inner L inner)))"

definition cosesign_new_with_protected ::
  "'z vlib_scheme \<Rightarrow> bytes result \<Rightarrow> cose_header_map \<Rightarrow> cose_header_map option \<Rightarrow> privkey \<Rightarrow> cosesign result" where
  "cosesign_new_with_protected L payload_data protected unprotected sign_key =
     (let unprotected = (case unprotected of Some v \<Rightarrow> v | None \<Rightarrow> chm_new) in
      rbind payload_data (\<lambda>payload.
      rbind (ok_or (cose_sig_alg L sign_key) Cose) (\<lambda>sig_alg.
      let protected = (to_header_map protected)(Integer 1 \<mapsto> Integer sig_alg) in
      rbind (ok_or (cose_sign L payload (Some protected) (to_header_map unprotected) sign_key) Cose)
        (\<lambda>inner. new_from_inner L inner))))"

definition cosesign_verify :: "'z vlib_scheme \<Rightarrow> cosesign \<Rightarrow> pkey \<Rightarrow> unit result" where
  "cosesign_verify L c sign_key =
     rbind (ok_or (cose_verify L (cached_inner c) sign_key) Cose) (\<lambda>ok.
     if ok then Ok () else Err (InconsistentValue ''Signature verification failed''))"

definition from_eat ::
  "'z vlib_scheme \<Rightarrow> eat \<Rightarrow> cose_header_map option \<Rightarrow> privkey \<Rightarrow> cosesign result" where
  "from_eat L e unprotected sign_key =
     rbind (eat_to_map L e) (\<lambda>claims.
     cosesign_new L (serde_ser (c_claims L) claims) unprotected sign_key)"

definition get_payload_unverified ::
  "'z vlib_scheme \<Rightarrow> (bytes \<Rightarrow> 'a result) \<Rightarrow> cosesign \<Rightarrow> 'a result" where
  "get_payload_unverified L des c =
     rbind (ok_or (cose_get L (cached_inner c) None) Cose) (\<lambda>(_, payload). des payload)"

definition get_payload ::
  "'z vlib_scheme \<Rightarrow> (bytes \<Rightarrow> 'a result) \<Rightarrow> cosesign \<Rightarrow> pkey \<Rightarrow> 'a result" where
  "get_payload L des c key =
     rbind (ok_or (cose_get L (cached_inner c) (Some key)) Cose) (\<lambda>(_, payload). des payload)"

definition get_eat_unverified :: "'z vlib_scheme \<Rightarrow> cosesign \<Rightarrow> eat result" where
  "get_eat_unverified L c = rbind (get_payload_unverified L (serde_des (c_claims L)) c) (eat_from_map L)"

definition get_eat :: "'z vlib_scheme \<Rightarrow> cosesign \<Rightarrow> pkey \<Rightarrow> eat result" where
  "get_eat L c key = rbind (get_payload L (serde_des (c_claims L)) c key) (eat_from_map L)"

definition header_value :: "'a vcodec \<Rightarrow> header_map \<Rightarrow> header_keys \<Rightarrow> 'a option result" where
  "header_value c m key =
     (case m (cbor_value_of key) of
        None \<Rightarrow> Ok None
      | Some val \<Rightarrow> rbind (ok_or (from_value c val) SerdeCborError) (\<lambda>x. Ok (Some x)))"

definition get_protected_value_unverified ::
  "'z vlib_scheme \<Rightarrow> 'a vcodec \<Rightarrow> cosesign \<Rightarrow> header_keys \<Rightarrow> 'a option result" where
  "get_protected_value_unverified L c cs header_key =
     rbind (ok_or (cose_get L (cached_inner cs) None) Cose) (\<lambda>(protected, _).
     header_value c protected header_key)"

definition get_protected_value ::
  "'z vlib_scheme \<Rightarrow> 'a vcodec \<Rightarrow> cosesign \<Rightarrow> header_keys \<Rightarrow> pkey \<Rightarrow> 'a option result" where
  "get_protected_value L c cs header_key key =
     rbind (ok_or (cose_get L (cached_inner cs) (Some key)) Cose) (\<lambda>(protected, _).
     header_value c protected header_key)"

definition get_unprotected_value ::
  "'z vlib_scheme \<Rightarrow> 'a vcodec \<Rightarrow> cosesign \<Rightarrow> header_keys \<Rightarrow> 'a option result" where
  "get_unprotected_value L c cs key = header_value c (cose_unprotected L (cached_inner cs)) key"

section \<open>Lemmas\<close>

lemma one_item_list:
  assumes "list_all one_item items"
  obtains xs where "list_all wf_item xs" "items = map item_bytes xs"
proof -
  have "\<exists>xs. list_all wf_item xs \<and> items = map item_bytes xs"
    using assms
  proof (induction items)
    case (Cons i items)
    then obtain x xs where "wf_item x" "i = item_bytes x" "list_all wf_item xs" "items = map item_bytes xs"
      by (auto simp: one_item_def)
    then show ?case by (intro exI [of _ "x # xs"]) simp
  qed simp
  then show ?thesis using that by blast
qed

lemma deserialize_items:
  assumes "array_header tg h (length items)" "list_all one_item items" "items \<noteq> []"
  shows "deserialize_from_reader (Some (length items)) (h @ concat items @ r) =
    Ok (\<lparr>tag = tg, header = Some h, contents = items\<rparr>, r)"
proof -
  obtain xs where xs: "list_all wf_item xs" "items = map item_bytes xs"
    using one_item_list [OF assms(2)] .
  with assms(1,3) array_items_iff [of "Some (length items)" tg h "length items"] show ?thesis
    by (auto simp: deserialize_array_header kept_header_def)
qed

lemma cose_header_bytes:
  "encode_item_start L Tag COSESIGN_TAG = Ok [0xd2]"
  "encode_item_start L Array 4 = Ok [0x84]"
  by (simp_all add: encode_item_start_def COSESIGN_TAG_def MASK_VAL_def)

lemma cose_headers:
  "major_of 0x84 Array" "arg_of 0x84 [] = Some 4" "major_of 0xd2 Tag" "arg_of 0xd2 [] = Some 18"
  by code_simp+

lemma array_header_cose:
  "array_header None [0x84] 4" "array_header (Some COSESIGN_TAG) [0xd2, 0x84] 4"
proof -
  show *: "array_header None [0x84] 4" by (intro untagged cose_headers)
  show "array_header (Some COSESIGN_TAG) [0xd2, 0x84] 4"
    using tagged [OF cose_headers(3,4) *] by (simp add: COSESIGN_TAG_def)
qed

lemma one_item_cose:
  assumes "length items = 4" "list_all one_item items"
  shows "one_item (0xd2 # 0x84 # concat items)"
proof -
  obtain xs where "list_all wf_item xs" "items = map item_bytes xs"
    using one_item_list [OF assms(2)] .
  with assms(1) show ?thesis unfolding one_item_def
    by (intro exI [of _ "TagItem 0xd2 [] (ArrayItem 0x84 [] xs)"]) (simp add: cose_headers)
qed

text \<open>The parts of a message that \<open>new_from_inner\<close> made from the items of a signed message.\<close>

lemma new_from_inner_items:
  assumes "length items = 4" "list_all one_item items" "cose_to_bytes L inner = Some (0x84 # concat items)"
  shows "new_from_inner L inner = Ok \<lparr>cs_contents = \<lparr>tag = Some COSESIGN_TAG, header = Some [0x84],
      contents = items\<rparr>, cached_inner = inner\<rparr>"
proof -
  have "items \<noteq> []" using assms(1) by auto
  with deserialize_items [OF _ assms(2), of None "[0x84]" "[]"] array_header_cose(1) assms(1)
  have "deserialize_from_reader (Some 4) (0x84 # concat items) =
      Ok (\<lparr>tag = None, header = Some [0x84], contents = items\<rparr>, [])" by simp
  with assms(3) show ?thesis by (simp add: new_from_inner_def set_tag_def)
qed

lemma serialize_cose_items:
  assumes "length items = 4"
  shows "serialize_to_writer L \<lparr>tag = Some COSESIGN_TAG, header = h, contents = items\<rparr> =
    Ok (0xd2 # 0x84 # concat items)"
  using assms by (simp add: serialize_to_writer_def cose_header_bytes)

lemma cosesign_read_items:
  assumes "length items = 4" "list_all one_item items"
    and "cose_from_bytes L (0xd2 # 0x84 # concat items) = Some inner"
  shows "cosesign_read L (0xd2 # 0x84 # concat items @ r) =
    Ok (\<lparr>cs_contents = \<lparr>tag = Some COSESIGN_TAG, header = Some [0xd2, 0x84], contents = items\<rparr>,
         cached_inner = inner\<rparr>, r)"
proof -
  have "items \<noteq> []" using assms(1) by auto
  with deserialize_items [OF _ assms(2), of "Some COSESIGN_TAG" "[0xd2, 0x84]" r] assms(1)
    array_header_cose(2)
  have "deserialize_from_reader (Some 4) (0xd2 # 0x84 # concat items @ r) =
      Ok (\<lparr>tag = Some COSESIGN_TAG, header = Some [0xd2, 0x84], contents = items\<rparr>, r)" by simp
  with assms(1,3) show ?thesis by (simp add: cosesign_read_def serialize_cose_items)
qed

lemma plain_map_empty: "plain_map (to_header_map chm_new)"
proof -
  have "to_header_map chm_new k = None" for k by (cases k) (simp_all add: chm_new_def)
  then show ?thesis by (simp add: plain_map_def)
qed

text \<open>A message signed by \<open>COSESign::new\<close>, as it is read back: only the recorded header
  differs, which no operation uses.\<close>

lemma cosesign_new_parts:
  assumes "cose_doc L" "plain_map (to_header_map (case un of Some v \<Rightarrow> v | None \<Rightarrow> chm_new))"
    and "cosesign_new L (Ok p) un key = Ok cs"
  obtains items where "length items = 4" "list_all one_item items"
    "cs = \<lparr>cs_contents = \<lparr>tag = Some COSESIGN_TAG, header = Some [0x84], contents = items\<rparr>,
      cached_inner = cached_inner cs\<rparr>"
    "cose_from_bytes L (0xd2 # 0x84 # concat items) = Some (cached_inner cs)"
    "\<exists>hm. cose_get L (cached_inner cs) None = Some (hm, p)"
    "\<And>pk. public_eq L pk (public_of L key) \<Longrightarrow>
       cose_verify L (cached_inner cs) pk = Some True \<and>
       (\<exists>hm. cose_get L (cached_inner cs) (Some pk) = Some (hm, p))"
proof -
  from assms(3) obtain inner where inner:
      "cose_sign L p None (to_header_map (case un of Some v \<Rightarrow> v | None \<Rightarrow> chm_new)) key = Some inner"
      "new_from_inner L inner = Ok cs"
    by (auto simp: cosesign_new_def res_simps Let_def)
  with assms(1,2) obtain items where items: "length items = 4" "list_all one_item items"
      "cose_to_bytes L inner = Some (0x84 # concat items)"
      "cose_from_bytes L (0xd2 # 0x84 # concat items) = Some inner"
    unfolding cose_doc_def by blast
  with inner(2) have cs: "cs = \<lparr>cs_contents = \<lparr>tag = Some COSESIGN_TAG, header = Some [0x84],
      contents = items\<rparr>, cached_inner = inner\<rparr>"
    by (simp add: new_from_inner_items)
  from assms(1) inner(1) have "\<exists>hm. cose_get L inner None = Some (hm, p)"
      "\<And>pk. public_eq L pk (public_of L key) \<Longrightarrow>
         cose_verify L inner pk = Some True \<and> (\<exists>hm. cose_get L inner (Some pk) = Some (hm, p))"
    unfolding cose_doc_def by blast+
  with that items cs show ?thesis by simp
qed

section \<open>Properties\<close>

text \<open>C17: a message signed with \<open>COSESign::new\<close> can be sent: it serialises to one CBOR item,
  reading that item back (with anything behind it left unread) gives the same signed message,
  which verifies under every public key equal to the signer's and yields exactly the signed
  payload.\<close>

theorem cosesign_new_send:
  assumes "cose_doc L" "plain_map (to_header_map (case un of Some v \<Rightarrow> v | None \<Rightarrow> chm_new))"
    and "cosesign_new L (Ok p) un key = Ok cs" "public_eq L pk (public_of L key)"
  shows "\<exists>bs cs'. cosesign_ser L cs = Ok bs \<and> one_item bs \<and> cosesign_read L (bs @ r) = Ok (cs', r) \<and>
    cached_inner cs' = cached_inner cs \<and> contents (cs_contents cs') = contents (cs_contents cs) \<and>
    cosesign_verify L cs' pk = Ok () \<and> get_payload L des cs' pk = des p \<and>
    get_payload_unverified L des cs' = des p"
proof -
  from cosesign_new_parts [OF assms(1-3)] obtain items where items: "length items = 4"
      "list_all one_item items"
      "cs = \<lparr>cs_contents = \<lparr>tag = Some COSESIGN_TAG, header = Some [0x84], contents = items\<rparr>,
        cached_inner = cached_inner cs\<rparr>"
      "cose_from_bytes L (0xd2 # 0x84 # concat items) = Some (cached_inner cs)"
      "\<exists>hm. cose_get L (cached_inner cs) None = Some (hm, p)"
      "cose_verify L (cached_inner cs) pk = Some True"
      "\<exists>hm. cose_get L (cached_inner cs) (Some pk) = Some (hm, p)"
    using assms(4) by metis
  have "cosesign_ser L cs = Ok (0xd2 # 0x84 # concat items)"
    by (subst items(3)) (simp add: cosesign_ser_def serialize_cose_items items(1))
  moreover from items(3) have "contents (cs_contents cs) = items" by (metis parsed_array.select_convs(3) cosesign.select_convs(1))
  ultimately show ?thesis
    using items cosesign_read_items [OF items(1,2,4), of r] one_item_cose [OF items(1,2)]
    by (auto simp: cosesign_verify_def get_payload_def get_payload_unverified_def)
qed

text \<open>An attestation token made by \<open>new_eat\<close> survives the map of claims that is signed:
  \<open>eat_from_map\<close> of \<open>to_map\<close> gives the token back, with the same payload, nonce and
  device GUID.\<close>

theorem eat_map_roundtrip:
  assumes "vcodec_doc (v_bytes L)" "length (nonce_bytes n) = 16" "new_eat c pl n g = Ok e"
    and "eat_to_map L e = Ok claims"
  shows "eat_from_map L claims = Ok e \<and> eat_nonce e = n \<and> device_guid_internal e = Ok g"
proof -
  from assms(3) obtain v where e: "e = \<lparr>payload = v, eat_nonce = n, device_guid = as_ueid g,
      other_claims = Map.empty\<rparr>"
    by (auto simp: new_eat_def chm_new_def res_simps)
  from assms(4) obtain vn vu where v: "to_value (v_bytes L) (nonce_bytes n) = Some vn"
      "to_value (v_bytes L) (as_ueid g) = Some vu"
      "claims = (case v of None \<Rightarrow> Map.empty | Some p \<Rightarrow> [-257 \<mapsto> p])(10 \<mapsto> vn, 11 \<mapsto> vu)"
    by (cases v) (auto simp: e eat_to_map_def chm_insert_def res_simps Let_def)
  moreover have "from_value (v_bytes L) vn = Some (nonce_bytes n)"
      "from_value (v_bytes L) vu = Some (as_ueid g)"
    using assms(1) v(1,2) by (auto simp: vcodec_doc_def)
  moreover have "from_ueid (as_ueid g) = Ok g" by (cases g) (simp add: as_ueid_def)
  ultimately show ?thesis using assms(2)
    by (cases v) (auto simp: eat_from_map_def e nonce_of_value_def nonce_try_from_def bstr16_check_def Let_def
        device_guid_internal_def split: option.splits)
qed


end
