(* ===== verification/PublicKey.thy ===== *)
theory PublicKey
  imports Cose "HOL-Library.AList"
begin

text \<open>
  Public keys and certificate chains: \<open>data-formats/src/publickey.rs\<close> (\<open>PublicKey\<close>,
  \<open>X5Chain\<close>) and the certificate bag \<open>X5Bag\<close> of \<open>enhanced_types.rs\<close>. Certificates, their
  signatures and digests are OpenSSL's. The hash map of a bag is an association list in the
  order in which it is iterated.
\<close>

section \<open>Certificate chains\<close>

datatype x5chain = X5Chain (chain: "x509 list")

text \<open>The visitor of \<open>Deserialize for X5Chain\<close> on the sequence of DER certificates that serde
  hands it, and \<open>Serialize\<close>.\<close>

definition x5chain_visit :: "'z openssl_scheme \<Rightarrow> bytes list \<Rightarrow> x5chain result" where
  "x5chain_visit L ders =
     rmap X5Chain (rtraverse (\<lambda>d. ok_or (x509_from_der L d) SerdeCborError) ders)"

definition x5chain_ders :: "'z openssl_scheme \<Rightarrow> error \<Rightarrow> x5chain \<Rightarrow> bytes list result" where
  "x5chain_ders L e c = rtraverse (\<lambda>cert. ok_or (x509_to_der L cert) e) (chain c)"

definition x5chain_new :: "x509 list \<Rightarrow> x5chain result" where
  "x5chain_new cs = (if cs = [] then Err (InconsistentValue ''Empty x5chain'') else Ok (X5Chain cs))"

definition x5chain_from_slice :: "'z codecs_scheme \<Rightarrow> bytes \<Rightarrow> x5chain result" where
  "x5chain_from_slice L data = rbind (serde_des (c_x5chain L) data) (x5chain_visit L)"

definition x5chain_to_vec :: "'z codecs_scheme \<Rightarrow> x5chain \<Rightarrow> bytes result" where
  "x5chain_to_vec L c =
     rbind (x5chain_ders L SerdeCborError c) (\<lambda>ders. ok_or (enc (c_x5chain L) ders) SerdeCborError)"

definition leaf_certificate :: "x5chain \<Rightarrow> x509 option" where
  "leaf_certificate c = (case chain c of [] \<Rightarrow> None | x # _ \<Rightarrow> Some x)"

text \<open>The loop of \<open>X5Chain::verify\<close> from position \<open>certpos\<close>, on the certificates from there
  on. The closure \<open>is_trusted_root\<close> may panic.\<close>

fun verify_links ::
  "'z openssl_scheme \<Rightarrow> (x509 \<Rightarrow> bool result) \<Rightarrow> x509 \<Rightarrow> nat \<Rightarrow> x509 list \<Rightarrow> x509 result" where
  "verify_links L is_trusted_root leaf certpos (cert # issuer # rest) =
     (if \<not> x509_issued L issuer cert then Err (InvalidChain (NonIssuer certpos))
      else
        rbind (unwrap_opt (x509_public_key L issuer)) (\<lambda>key.
        rbind (ok_or (x509_verify L cert key) CryptoStack) (\<lambda>good.
        if \<not> good then Err (InvalidChain (InvalidSignedCert certpos))
        else
          rbind (is_trusted_root issuer) (\<lambda>trusted.
          if trusted then Ok leaf
          else verify_links L is_trusted_root leaf (Suc certpos) (issuer # rest)))))"
| "verify_links L is_trusted_root leaf certpos _ = Err (InvalidChain NoTrustedRoot)"

definition x5chain_verify ::
  "'z openssl_scheme \<Rightarrow> (x509 \<Rightarrow> bool result) \<Rightarrow> x5chain \<Rightarrow> x509 result" where
  "x5chain_verify L is_trusted_root c =
     (case chain c of
        [] \<Rightarrow> Err (InvalidChain ChainEmpty)
      | [cert] \<Rightarrow>
          rbind (is_trusted_root cert) (\<lambda>trusted.
          if trusted then Ok cert else Err (InvalidChain NoTrustedRoot))
      | cert # rest \<Rightarrow> verify_links L is_trusted_root cert 0 (chain c))"

section \<open>Certificate bags\<close>

type_synonym x5bag = "(bytes \<times> x509) list"

definition x5bag_new :: x5bag where
  "x5bag_new = []"

definition add_cert :: "'z openssl_scheme \<Rightarrow> x5bag \<Rightarrow> x509 \<Rightarrow> x5bag result" where
  "add_cert L bag cert =
     rbind (ok_or (x509_digest L MdSha256 cert) CryptoStack) (\<lambda>d. Ok (AList.update d cert bag))"

fun add_certs :: "'z openssl_scheme \<Rightarrow> x5bag \<Rightarrow> x509 list \<Rightarrow> x5bag result" where
  "add_certs L bag [] = Ok bag"
| "add_certs L bag (cert # certs) = rbind (add_cert L bag cert) (\<lambda>bag'. add_certs L bag' certs)"

definition with_certs :: "'z openssl_scheme \<Rightarrow> x509 list \<Rightarrow> x5bag result" where
  "with_certs L certs = add_certs L x5bag_new certs"

definition bag_contains :: "'z openssl_scheme \<Rightarrow> x5bag \<Rightarrow> x509 \<Rightarrow> bool result" where
  "bag_contains L bag to_find =
     (case x509_digest L MdSha256 to_find of
        None \<Rightarrow> Ok False
      | Some d \<Rightarrow> (case map_of bag d of None \<Rightarrow> Ok False | Some _ \<Rightarrow> memcmp L d d))"

fun contains_pkey :: "'z openssl_scheme \<Rightarrow> x5bag \<Rightarrow> pkey \<Rightarrow> bool result" where
  "contains_pkey L [] to_find = Ok False"
| "contains_pkey L ((_, cert) # bag) to_find =
     rbind (unwrap_opt (x509_public_key L cert)) (\<lambda>key.
     if public_eq L key to_find then Ok True else contains_pkey L bag to_find)"

definition into_vec :: "x5bag \<Rightarrow> x509 list" where
  "into_vec bag = map snd bag"

definition verify_from_x5bag :: "'z openssl_scheme \<Rightarrow> x5chain \<Rightarrow> x5bag \<Rightarrow> x509 result" where
  "verify_from_x5bag L c bag = x5chain_verify L (bag_contains L bag) c"

definition verify_from_digest :: "'z openssl_scheme \<Rightarrow> x5chain \<Rightarrow> hash \<Rightarrow> x509 result" where
  "verify_from_digest L c digest =
     rbind (message_digest_try_from (hash_type digest)) (\<lambda>correct_type.
     x5chain_verify L (\<lambda>cert.
       rbind (unwrap_opt (x509_digest L correct_type cert)) (\<lambda>cert_digest.
       memcmp L (hash_value digest) cert_digest)) c)"

definition insecure_verify_without_root_verification :: "'z openssl_scheme \<Rightarrow> x5chain \<Rightarrow> x509 result" where
  "insecure_verify_without_root_verification L c = x5chain_verify L (\<lambda>_. Ok True) c"

section \<open>Public keys\<close>

record public_key =
  key_type :: public_key_type
  encoding :: public_key_encoding
  key_data :: bytes
  pk_pkey :: pkey
  certs :: "x5chain option"

definition parse_data ::
  "'z codecs_scheme \<Rightarrow> public_key_type \<Rightarrow> public_key_encoding \<Rightarrow> bytes \<Rightarrow> (x5chain option \<times> pkey) result" where
  "parse_data L kt en data =
     (case en of
        EncX509 \<Rightarrow>
          rbind (ok_or (public_key_from_der L data) CryptoStack) (\<lambda>key. Ok (None, key))
      | EncX5CHAIN \<Rightarrow>
          if data = [] then Err (InconsistentValue ''Empty public key'')
          else
            rbind (x5chain_from_slice L data) (\<lambda>ch.
            if chain ch = [] then Err (InconsistentValue ''Empty x5chain provided'')
            else
              rbind (unwrap_opt (leaf_certificate ch)) (\<lambda>leaf_cert.
              rbind (ok_or (x509_public_key L leaf_cert) CryptoStack) (\<lambda>key. Ok (Some ch, key))))
      | EncCrypto \<Rightarrow> Err UnsupportedAlgorithm
      | EncCosekey \<Rightarrow> Err UnsupportedAlgorithm)"

definition public_key_new ::
  "'z codecs_scheme \<Rightarrow> public_key_type \<Rightarrow> public_key_encoding \<Rightarrow> bytes \<Rightarrow> public_key result" where
  "public_key_new L kt en data =
     rbind (parse_data L kt en data) (\<lambda>(certs, key).
     Ok \<lparr>key_type = kt, encoding = en, key_data = data, pk_pkey = key, certs = certs\<rparr>)"

definition key_tuple :: "public_key \<Rightarrow> key_tuple" where
  "key_tuple k = (key_type k, encoding k, key_data k)"

text \<open>\<open>visit_seq\<close> of \<open>Deserialize for PublicKey\<close> on the three elements.\<close>

definition visit_key :: "'z codecs_scheme \<Rightarrow> key_tuple \<Rightarrow> public_key result" where
  "visit_key L t = (case t of (kt, en, data) \<Rightarrow>
     rmap_err (\<lambda>_. SerdeCborError) (public_key_new L kt en data))"

definition public_key_ser :: "'z codecs_scheme \<Rightarrow> public_key \<Rightarrow> bytes result" where
  "public_key_ser L k = serde_ser (c_key L) (key_tuple k)"

definition public_key_des :: "'z codecs_scheme \<Rightarrow> bytes \<Rightarrow> public_key result" where
  "public_key_des L bs = rbind (serde_des (c_key L) bs) (visit_key L)"

definition key_type_from_pkey :: "'z openssl_scheme \<Rightarrow> pkey \<Rightarrow> public_key_type result" where
  "key_type_from_pkey L k =
     rbind (ok_or (pkey_kind L k) CryptoStack) (\<lambda>kind.
     case kind of
       EcP256 \<Rightarrow> Ok SECP256R1
     | EcP384 \<Rightarrow> Ok SECP384R1
     | EcOther \<Rightarrow> Err UnsupportedAlgorithm
     | Rsa bits \<Rightarrow>
         if bits = 2048 then Ok Rsa2048RESTR
         else if bits = 3072 then Ok RsaPkcs
         else Err UnsupportedAlgorithm
     | OtherId \<Rightarrow> Err UnsupportedAlgorithm)"

definition matches_pkey :: "'z openssl_scheme \<Rightarrow> public_key \<Rightarrow> pkey \<Rightarrow> bool result" where
  "matches_pkey L k other = Ok (public_eq L (pk_pkey k) other)"

definition public_key_from_chain :: "'z codecs_scheme \<Rightarrow> x5chain \<Rightarrow> public_key result" where
  "public_key_from_chain L c =
     rbind (ok_or (leaf_certificate c) (InconsistentValue ''x5chain without leaf certificate'')) (\<lambda>leaf_cert.
     rbind (ok_or (x509_public_key L leaf_cert) CryptoStack) (\<lambda>key.
     rbind (key_type_from_pkey L key) (\<lambda>kt.
     rbind (x5chain_to_vec L c) (\<lambda>encoded.
     Ok \<lparr>key_type = kt, encoding = EncX5CHAIN, key_data = encoded, pk_pkey = key, certs = Some c\<rparr>))))"

definition public_key_from_x509 :: "'z codecs_scheme \<Rightarrow> x509 \<Rightarrow> public_key result" where
  "public_key_from_x509 L cert =
     rbind (ok_or (x509_public_key L cert) CryptoStack) (\<lambda>key.
     rbind (key_type_from_pkey L key) (\<lambda>kt.
     rbind (ok_or (public_key_to_der L key) CryptoStack) (\<lambda>encoded.
     Ok \<lparr>key_type = kt, encoding = EncX509, key_data = encoded, pk_pkey = key, certs = None\<rparr>)))"

section \<open>Lemmas\<close>

text \<open>Documented: DER forms of certificates and keys are read back.\<close>

definition der_doc :: "'z openssl_scheme \<Rightarrow> bool" where
  "der_doc L \<longleftrightarrow>
     (\<forall>c d. x509_to_der L c = Some d \<longrightarrow> x509_from_der L d = Some c) \<and>
     (\<forall>k d. public_key_to_der L k = Some d \<longrightarrow> public_key_from_der L d = Some k)"

text \<open>A key that its own wire form determines.\<close>

definition wf_public_key :: "'z codecs_scheme \<Rightarrow> public_key \<Rightarrow> bool" where
  "wf_public_key L k \<longleftrightarrow> public_key_new L (key_type k) (encoding k) (key_data k) = Ok k"

lemma public_key_new_wf: "public_key_new L kt en d = Ok k \<Longrightarrow> wf_public_key L k"
  by (auto simp: wf_public_key_def public_key_new_def res_simps)

lemma public_key_des_wf: "public_key_des L bs = Ok k \<Longrightarrow> wf_public_key L k"
  by (auto simp: public_key_des_def visit_key_def res_simps split: prod.splits dest: public_key_new_wf)

lemma visit_key_tuple: "wf_public_key L k \<Longrightarrow> visit_key L (key_tuple k) = Ok k"
  by (simp add: visit_key_def key_tuple_def wf_public_key_def)

lemma public_key_roundtrip:
  assumes "codec_doc (c_key L)" "wf_public_key L k" "public_key_ser L k = Ok bs"
  shows "public_key_des L bs = Ok k"
  using assms serde_roundtrip [OF assms(1)]
  by (simp add: public_key_ser_def public_key_des_def visit_key_tuple)

lemma rtraverse_inverse:
  assumes "rtraverse f xs = Ok ys" "\<And>x y. f x = Ok y \<Longrightarrow> g y = Ok x"
  shows "rtraverse g ys = Ok xs"
  using assms by (auto simp: rtraverse_Ok_iff list_all2_conv_all_nth)

lemma x5chain_roundtrip:
  assumes "der_doc L" "codec_doc (c_x5chain L)" "x5chain_to_vec L c = Ok bs"
  shows "x5chain_from_slice L bs = Ok c"
proof -
  from assms(3) obtain ders where ders:
      "rtraverse (\<lambda>cert. ok_or (x509_to_der L cert) SerdeCborError) (chain c) = Ok ders"
      "enc (c_x5chain L) ders = Some bs"
    by (auto simp: x5chain_to_vec_def x5chain_ders_def res_simps)
  have "rtraverse (\<lambda>d. ok_or (x509_from_der L d) SerdeCborError) ders = Ok (chain c)"
    using ders(1) by (rule rtraverse_inverse) (use assms(1) in \<open>auto simp: der_doc_def ok_or_Ok_iff\<close>)
  with ders(2) assms(2) show ?thesis
    by (simp add: x5chain_from_slice_def x5chain_visit_def serde_des_def codec_doc_def)
qed

text \<open>Which keys the two constructors from certificates make.\<close>

lemma public_key_from_chain_wf:
  assumes "der_doc L" "item_codec (c_x5chain L)" "public_key_from_chain L c = Ok k"
  shows "wf_public_key L k"
proof -
  from assms(3) obtain leaf key kt bs where k: "leaf_certificate c = Some leaf"
      "x509_public_key L leaf = Some key" "x5chain_to_vec L c = Ok bs"
      "k = \<lparr>key_type = kt, encoding = EncX5CHAIN, key_data = bs, pk_pkey = key, certs = Some c\<rparr>"
    by (auto simp: public_key_from_chain_def res_simps)
  from k(1) have "chain c \<noteq> []" by (auto simp: leaf_certificate_def split: list.splits)
  moreover from k(3) assms(2) have "one_item bs"
    by (auto simp: x5chain_to_vec_def res_simps item_codec_def)
  then have "bs \<noteq> []" by (auto simp: one_item_def elim: item_bytes.elims)
  moreover have "x5chain_from_slice L bs = Ok c"
    using assms(1,2) k(3) by (intro x5chain_roundtrip) (simp_all add: item_codec_def)
  ultimately show ?thesis using k(1,2)
    by (simp add: k(4) wf_public_key_def public_key_new_def parse_data_def)
qed

lemma public_key_from_x509_wf:
  assumes "der_doc L" "public_key_from_x509 L cert = Ok k"
  shows "wf_public_key L k"
  using assms
  by (auto simp: public_key_from_x509_def res_simps wf_public_key_def public_key_new_def
      parse_data_def der_doc_def)

subsection \<open>Chains\<close>

text \<open>\<open>signed_by L issuer cert\<close>: the issuer's name and key check out for \<open>cert\<close>.\<close>

definition signed_by :: "'z openssl_scheme \<Rightarrow> x509 \<Rightarrow> x509 \<Rightarrow> bool" where
  "signed_by L issuer cert \<longleftrightarrow> x509_issued L issuer cert \<and>
     (\<exists>key. x509_public_key L issuer = Some key \<and> x509_verify L cert key = Some True)"

lemma ex_nat_split: "(\<exists>j. P j) \<longleftrightarrow> P 0 \<or> (\<exists>j. P (Suc j))" for P :: "nat \<Rightarrow> bool"
  by (metis not0_implies_Suc)

definition trusted_at :: "'z openssl_scheme \<Rightarrow> (x509 \<Rightarrow> bool result) \<Rightarrow> x509 list \<Rightarrow> nat \<Rightarrow> bool" where
  "trusted_at L t cs j \<longleftrightarrow> Suc j < length cs \<and> t (cs ! Suc j) = Ok True \<and>
     (\<forall>i<Suc j. signed_by L (cs ! Suc i) (cs ! i)) \<and> (\<forall>i<j. t (cs ! Suc i) = Ok False)"

lemma trusted_at_0:
  "trusted_at L t (c # i # cs) 0 \<longleftrightarrow> t i = Ok True \<and> signed_by L i c"
  by (simp add: trusted_at_def)

lemma trusted_at_Suc:
  "trusted_at L t (c # i # cs) (Suc j) \<longleftrightarrow>
     t i = Ok False \<and> signed_by L i c \<and> trusted_at L t (i # cs) j"
  by (auto simp: trusted_at_def All_less_Suc2 [of "Suc j"] All_less_Suc2 [of j])

lemma verify_links_Ok_iff:
  "verify_links L t leaf pos cs = Ok x \<longleftrightarrow> x = leaf \<and> (\<exists>j. trusted_at L t cs j)"
proof (induction cs arbitrary: pos rule: induct_list012)
  case (3 cert issuer rest)
  have "verify_links L t leaf pos (cert # issuer # rest) = Ok x \<longleftrightarrow> signed_by L issuer cert \<and>
     (t issuer = Ok True \<and> x = leaf \<or>
      t issuer = Ok False \<and> verify_links L t leaf (Suc pos) (issuer # rest) = Ok x)"
    by (auto simp: signed_by_def res_simps)
  then show ?case
    unfolding ex_nat_split [of "trusted_at L t (cert # issuer # rest)"] trusted_at_0 trusted_at_Suc
      "3.IH"(2) by auto
qed (simp_all add: trusted_at_def)

lemma add_certs_digests:
  "add_certs L bag cs = Ok bag' \<Longrightarrow>
     dom (map_of bag') = dom (map_of bag) \<union> {d. \<exists>c\<in>set cs. x509_digest L MdSha256 c = Some d}"
proof (induction cs arbitrary: bag)
  case (Cons c cs)
  then obtain d where d: "x509_digest L MdSha256 c = Some d" "add_certs L (AList.update d c bag) cs = Ok bag'"
    by (auto simp: add_cert_def res_simps)
  from Cons.IH [OF d(2)] d(1) show ?case by (auto simp: update_conv' split: if_splits)
qed simp

section \<open>Properties\<close>

text \<open>C16: \<open>X5Chain::verify\<close> succeeds exactly on the chains that lead to a trusted root: the single
  certificate is trusted, or some issuer at position \<open>j + 1\<close> is trusted, no issuer before it
  is, and every certificate up to \<open>j\<close> is issued and correctly signed by the next one. The
  result is always the leaf certificate.\<close>

theorem x5chain_verify_iff:
  "x5chain_verify L t (X5Chain cs) = Ok x \<longleftrightarrow>
     (\<exists>rest. cs = x # rest \<and>
       (if rest = [] then t x = Ok True
        else \<exists>j. Suc j < length cs \<and> t (cs ! Suc j) = Ok True \<and>
          (\<forall>i<Suc j. signed_by L (cs ! Suc i) (cs ! i)) \<and> (\<forall>i<j. t (cs ! Suc i) = Ok False)))"
proof (cases cs)
  case (Cons c rest)
  then show ?thesis
    by (cases rest)
       (auto simp: x5chain_verify_def verify_links_Ok_iff trusted_at_def res_simps
             simp del: verify_links.simps split: if_splits)
qed (simp add: x5chain_verify_def)

text \<open>C25: a bag built with \<open>X5Bag::with_certs\<close> contains a certificate exactly when its SHA-256
  digest is the digest of one of the certificates put in.\<close>

theorem with_certs_contains:
  assumes "memcmp_doc L" "with_certs L cs = Ok bag"
  shows "bag_contains L bag c = Ok (\<exists>c'\<in>set cs. x509_digest L MdSha256 c' = x509_digest L MdSha256 c \<and>
    x509_digest L MdSha256 c \<noteq> None)"
proof (cases "x509_digest L MdSha256 c")
  case (Some d)
  from add_certs_digests [OF assms(2) [unfolded with_certs_def]]
  have "d \<in> dom (map_of bag) \<longleftrightarrow> (\<exists>c'\<in>set cs. x509_digest L MdSha256 c' = Some d)"
    by (auto simp: x5bag_new_def)
  with Some assms(1) show ?thesis
    by (auto simp: bag_contains_def memcmp_same_length split: option.splits)
qed (simp add: bag_contains_def)

end
