(* ===== verification/OwnershipVoucher.thy ===== *)
theory OwnershipVoucher
  imports PublicKey
begin

text \<open>
  Ownership vouchers: \<open>data-formats/src/ownershipvoucher.rs\<close>. A voucher keeps the bytes of
  its five elements (\<open>ov_contents\<close>) beside the values decoded from them; the header does the
  same with its six. \<open>extend\<close> appends a signed entry; \<open>EntryIter\<close> walks the entries and
  checks the chain of signatures and hashes.
\<close>

section \<open>Headers\<close>

record ov_header =
  oh_contents :: parsed_array
  oh_protocol_version :: protocol_version
  oh_guid :: guid
  oh_rendezvous_info :: rendezvous_info
  oh_device_info :: string
  oh_manufacturer_public_key :: public_key
  oh_device_certificate_chain_hash :: "hash option"

definition opt_hash_ser :: "'z codecs_scheme \<Rightarrow> hash option \<Rightarrow> bytes result" where
  "opt_hash_ser L h = serde_ser (c_opt_hash L) (map_option hash_tuple h)"

definition opt_hash_des :: "'z codecs_scheme \<Rightarrow> bytes \<Rightarrow> hash option result" where
  "opt_hash_des L bs = rmap (map_option tuple_hash) (serde_des (c_opt_hash L) bs)"

text \<open>\<open>str::trim\<close> on ASCII: white space is tab, line feed, vertical tab, form feed, carriage
  return and space.\<close>

definition is_space :: "char \<Rightarrow> bool" where
  "is_space c \<longleftrightarrow> (of_char c :: nat) \<in> {9, 10, 11, 12, 13, 32}"

definition trim :: "string \<Rightarrow> string" where
  "trim s = rev (dropWhile is_space (rev (dropWhile is_space s)))"

definition ov_header_new ::
  "'z vlib_scheme \<Rightarrow> protocol_version \<Rightarrow> guid \<Rightarrow> rendezvous_info \<Rightarrow> string \<Rightarrow> public_key \<Rightarrow>
     hash option \<Rightarrow> ov_header result" where
  "ov_header_new L version guid rvinfo device_info mfg_key chain_hash =
     (let device_info = trim device_info in
      rbind (build_array
        [serde_ser (c_version L) version, guid_ser L guid, serde_ser (c_rvinfo L) rvinfo,
         serde_ser (c_string L) device_info, public_key_ser L mfg_key, opt_hash_ser L chain_hash])
      (\<lambda>contents.
      Ok \<lparr>oh_contents = contents, oh_protocol_version = version, oh_guid = guid,
          oh_rendezvous_info = rvinfo, oh_device_info = device_info,
          oh_manufacturer_public_key = mfg_key, oh_device_certificate_chain_hash = chain_hash\<rparr>))"

text \<open>\<open>ACCEPTABLE_ASCII_RANGE\<close> is 32 to 126.\<close>

definition check_device_info :: "string \<Rightarrow> unit result" where
  "check_device_info device_info =
     (if list_all (\<lambda>c. 32 \<le> (of_char c :: nat) \<and> (of_char c :: nat) < 127) device_info then Ok ()
      else Err (InconsistentValue ''Invalid values in Device Info''))"

definition ov_header_read :: "'z vlib_scheme \<Rightarrow> bytes \<Rightarrow> (ov_header \<times> bytes) result" where
  "ov_header_read L reader =
     rbind (deserialize_from_reader (Some 6) reader) (\<lambda>(contents, reader').
     rbind (array_get (Some 6) contents 0 (serde_des (c_version L))) (\<lambda>version.
     rbind (array_get (Some 6) contents 1 (guid_des L)) (\<lambda>guid.
     rbind (array_get (Some 6) contents 2 (serde_des (c_rvinfo L))) (\<lambda>rvinfo.
     rbind (array_get (Some 6) contents 3 (serde_des (c_string L))) (\<lambda>device_info.
     rbind (check_device_info device_info) (\<lambda>_.
     rbind (array_get (Some 6) contents 4 (public_key_des L)) (\<lambda>mfg_key.
     rbind (array_get (Some 6) contents 5 (opt_hash_des L)) (\<lambda>chain_hash.
     Ok (\<lparr>oh_contents = contents, oh_protocol_version = version, oh_guid = guid,
         oh_rendezvous_info = rvinfo, oh_device_info = device_info,
         oh_manufacturer_public_key = mfg_key, oh_device_certificate_chain_hash = chain_hash\<rparr>,
         reader')))))))))"

definition ov_header_des :: "'z vlib_scheme \<Rightarrow> bytes \<Rightarrow> ov_header result" where
  "ov_header_des L data = rmap fst (ov_header_read L data)"

definition ov_header_ser :: "'z vlib_scheme \<Rightarrow> ov_header \<Rightarrow> bytes result" where
  "ov_header_ser L h =
     rbind (check_device_info (oh_device_info h)) (\<lambda>_. serialize_to_writer L (oh_contents h))"

definition manufacturer_public_key_hash :: "'z vlib_scheme \<Rightarrow> ov_header \<Rightarrow> hash_type \<Rightarrow> hash result" where
  "manufacturer_public_key_hash L h ht = array_get_hash L (Some 6) (oh_contents h) 4 ht"

definition get_hdr_info_hash :: "'z vlib_scheme \<Rightarrow> ov_header \<Rightarrow> hash_type \<Rightarrow> hash result" where
  "get_hdr_info_hash L h ht =
     rbind (array_get (Some 6) (oh_contents h) 1 (guid_des L)) (\<lambda>guid.
     rbind (array_get (Some 6) (oh_contents h) 3 (serde_des (c_string L))) (\<lambda>device_info.
     hash_from_data L ht (guid_bytes guid @ ascii device_info)))"

section \<open>Entries\<close>

datatype ov_entry = OVEntry (entry_sign: cosesign)

definition ov_entry_des :: "'z vlib_scheme \<Rightarrow> bytes \<Rightarrow> ov_entry result" where
  "ov_entry_des L data = rmap OVEntry (cosesign_des L data)"

definition ov_entry_ser :: "'z vlib_scheme \<Rightarrow> ov_entry \<Rightarrow> bytes result" where
  "ov_entry_ser L e = cosesign_ser L (entry_sign e)"

record ov_payload =
  hash_previous_entry :: hash
  hash_header_info :: hash
  extra :: extra_type
  public_key :: public_key

definition ov_payload_new :: "hash \<Rightarrow> hash \<Rightarrow> extra_type \<Rightarrow> public_key \<Rightarrow> ov_payload result" where
  "ov_payload_new hp hh ex pk =
     Ok \<lparr>hash_previous_entry = hp, hash_header_info = hh, extra = ex, public_key = pk\<rparr>"

definition ov_payload_ser :: "'z vlib_scheme \<Rightarrow> ov_payload \<Rightarrow> bytes result" where
  "ov_payload_ser L p =
     serde_ser (c_entry L)
       (hash_tuple (hash_previous_entry p), hash_tuple (hash_header_info p), extra p,
        key_tuple (public_key p))"

definition ov_payload_des :: "'z vlib_scheme \<Rightarrow> bytes \<Rightarrow> ov_payload result" where
  "ov_payload_des L bs =
     rbind (serde_des (c_entry L) bs) (\<lambda>(hp, hh, ex, kt).
     rbind (visit_key L kt) (\<lambda>pk.
     Ok \<lparr>hash_previous_entry = tuple_hash hp, hash_header_info = tuple_hash hh, extra = ex,
         public_key = pk\<rparr>))"

section \<open>Vouchers\<close>

record voucher =
  ov_contents :: parsed_array
  ov_protocol_version :: protocol_version
  ov_header :: ov_header
  ov_header_hmac :: hash
  ov_device_certificate_chain :: "x5chain option"
  ov_entries :: parsed_array

definition opt_x5chain_ser :: "'z vlib_scheme \<Rightarrow> x5chain option \<Rightarrow> bytes result" where
  "opt_x5chain_ser L c =
     (case c of
        None \<Rightarrow> serde_ser (c_opt_x5chain L) None
      | Some c \<Rightarrow> rbind (x5chain_ders L CiboriumSerError c) (\<lambda>ders. serde_ser (c_opt_x5chain L) (Some ders)))"

definition opt_x5chain_des :: "'z vlib_scheme \<Rightarrow> bytes \<Rightarrow> x5chain option result" where
  "opt_x5chain_des L bs =
     rbind (serde_des (c_opt_x5chain L) bs) (\<lambda>c.
     case c of None \<Rightarrow> Ok None | Some ders \<Rightarrow> rmap Some (x5chain_visit L ders))"

definition dynamic_des :: "bytes \<Rightarrow> parsed_array result" where
  "dynamic_des bs = rmap fst (deserialize_from_reader None bs)"

definition from_parsed_array :: "'z vlib_scheme \<Rightarrow> parsed_array \<Rightarrow> voucher result" where
  "from_parsed_array L arr =
     rbind (array_get (Some 5) arr 0 (serde_des (c_version L))) (\<lambda>version.
     rbind (array_get (Some 5) arr 1 (serde_des (c_bytebuf L))) (\<lambda>header.
     rbind (ov_header_des L header) (\<lambda>header.
     rbind (array_get (Some 5) arr 2 (hash_des L)) (\<lambda>hmac.
     rbind (array_get (Some 5) arr 3 (opt_x5chain_des L)) (\<lambda>dev_chain.
     rbind (array_get (Some 5) arr 4 dynamic_des) (\<lambda>entries.
     Ok \<lparr>ov_contents = arr, ov_protocol_version = version, ov_header = header,
         ov_header_hmac = hmac, ov_device_certificate_chain = dev_chain, ov_entries = entries\<rparr>))))))"

definition voucher_read :: "'z vlib_scheme \<Rightarrow> bytes \<Rightarrow> (voucher \<times> bytes) result" where
  "voucher_read L reader =
     (let contents = deserialize_from_reader (Some 5) reader in
      if contents = Err (ArrayParseError (InvalidNumberOfElements 4 5))
      then Err (UnsupportedVersion (Some Version1_0))
      else rbind contents (\<lambda>(contents, reader').
           rbind (from_parsed_array L contents) (\<lambda>v. Ok (v, reader'))))"

definition voucher_des :: "'z vlib_scheme \<Rightarrow> bytes \<Rightarrow> voucher result" where
  "voucher_des L data = rmap fst (voucher_read L data)"

definition voucher_ser :: "'z vlib_scheme \<Rightarrow> voucher \<Rightarrow> bytes result" where
  "voucher_ser L v = serialize_to_writer L (ov_contents v)"

definition from_parts ::
  "'z vlib_scheme \<Rightarrow> protocol_version \<Rightarrow> bytes \<Rightarrow> hash \<Rightarrow> parsed_array \<Rightarrow> voucher result" where
  "from_parts L version hdr hmac entries =
     rbind (build_array
       [serde_ser (c_version L) version, serde_ser (c_bytebuf L) hdr, hash_ser L hmac,
        opt_x5chain_ser L None, serialize_to_writer L entries]) (\<lambda>contents.
     rbind (ov_header_des L hdr) (\<lambda>cached_header.
     Ok \<lparr>ov_contents = contents, ov_protocol_version = version, ov_header = cached_header,
         ov_header_hmac = hmac, ov_device_certificate_chain = None, ov_entries = entries\<rparr>))"

definition voucher_new ::
  "'z vlib_scheme \<Rightarrow> ov_header \<Rightarrow> hash \<Rightarrow> x5chain option \<Rightarrow> voucher result" where
  "voucher_new L hdr hmac dev_chain =
     (let entries = new_empty in
      rbind (serialize_to_writer L (oh_contents hdr)) (\<lambda>contents_header.
      rbind (build_array
        [serde_ser (c_version L) Version1_1, serde_ser (c_bytebuf L) contents_header,
         hash_ser L hmac, opt_x5chain_ser L dev_chain, serialize_to_writer L entries]) (\<lambda>contents.
      Ok \<lparr>ov_contents = contents, ov_protocol_version = Version1_1, ov_header = hdr,
          ov_header_hmac = hmac, ov_device_certificate_chain = dev_chain, ov_entries = entries\<rparr>)))"

definition voucher_hash_type :: "voucher \<Rightarrow> hash_type" where
  "voucher_hash_type v = inner_hash (hash_type (ov_header_hmac v))"

definition device_certificate_chain_hash :: "'z vlib_scheme \<Rightarrow> voucher \<Rightarrow> hash_type \<Rightarrow> hash result option" where
  "device_certificate_chain_hash L v ht =
     (if ov_device_certificate_chain v = None then None
      else Some (array_get_hash L (Some 5) (ov_contents v) 3 ht))"

text \<open>\<open>len() as u16\<close>.\<close>

definition num_entries :: "voucher \<Rightarrow> nat" where
  "num_entries v = array_len (ov_entries v) mod 2 ^ 16"

definition voucher_entry :: "'z vlib_scheme \<Rightarrow> voucher \<Rightarrow> nat \<Rightarrow> ov_entry result" where
  "voucher_entry L v entry_num = array_get None (ov_entries v) entry_num (ov_entry_des L)"

definition hdr_hash :: "'z vlib_scheme \<Rightarrow> voucher \<Rightarrow> hash_type \<Rightarrow> hash result" where
  "hdr_hash L v ht =
     rbind (array_get (Some 5) (ov_contents v) 1 (serde_des (c_bytebuf L))) (\<lambda>header.
     rbind (array_get_raw (Some 5) (ov_contents v) 2) (\<lambda>header_hmac.
     hash_from_data L ht (header @ header_hmac)))"

definition header_raw :: "'z vlib_scheme \<Rightarrow> voucher \<Rightarrow> bytes result" where
  "header_raw L v = unwrap (array_get (Some 5) (ov_contents v) 1 (serde_des (c_bytebuf L)))"

text \<open>The \<open>let (last_hash, current_owner_pubkey) = \<dots>\<close> of \<open>extend\<close>.\<close>

definition last_hash_and_owner :: "'z vlib_scheme \<Rightarrow> voucher \<Rightarrow> (hash \<times> public_key) result" where
  "last_hash_and_owner L v =
     (if array_is_empty (ov_entries v) then
        rbind (hdr_hash L v (voucher_hash_type v)) (\<lambda>last_hash.
        Ok (last_hash, oh_manufacturer_public_key (ov_header v)))
      else
        let last_idx = array_len (ov_entries v) - 1 in
        rbind (array_get_hash L None (ov_entries v) last_idx (voucher_hash_type v)) (\<lambda>last_hash.
        rbind (array_get None (ov_entries v) last_idx (ov_entry_des L)) (\<lambda>lastentry.
        rbind (get_payload_unverified L (ov_payload_des L) (entry_sign lastentry)) (\<lambda>lastentry.
        Ok (last_hash, public_key lastentry)))))"

definition voucher_extend :: "'z vlib_scheme \<Rightarrow> voucher \<Rightarrow> privkey \<Rightarrow> extra_type \<Rightarrow> public_key \<Rightarrow> voucher result" where
  "voucher_extend L v owner_private_key ex next_party =
     (if ex \<noteq> None \<and> ov_protocol_version v < Version1_1
      then Err (InvalidProtocolVersion (ov_protocol_version v))
      else
        rbind (get_hdr_info_hash L (ov_header v) (voucher_hash_type v)) (\<lambda>hdrinfo_hash.
        rbind (last_hash_and_owner L v) (\<lambda>(last_hash, current_owner_pubkey).
        rbind (matches_pkey L current_owner_pubkey (public_of L owner_private_key)) (\<lambda>is_owner.
        if \<not> is_owner then Err NonOwnerKey
        else
          rbind (ov_payload_new last_hash hdrinfo_hash ex next_party) (\<lambda>new_entry.
          rbind (cosesign_new L (ov_payload_ser L new_entry) None owner_private_key) (\<lambda>signed_new_entry.
          rbind (array_push (ov_entries v) (ov_entry_ser L (OVEntry signed_new_entry))) (\<lambda>entries.
          rbind (array_set (Some 5) (ov_contents v) 4 (serialize_to_writer L entries)) (\<lambda>contents.
          Ok (v\<lparr>ov_entries := entries, ov_contents := contents\<rparr>)))))))))"

section \<open>PEM\<close>

text \<open>The crate \<open>pem\<close>: a block is its tag and its contents.\<close>

type_synonym pem_block = "string \<times> bytes"

record pem_lib =
  pem_parse :: "bytes \<Rightarrow> pem_block option"
  pem_parse_many :: "bytes \<Rightarrow> pem_block list option"
  pem_encode :: "pem_block \<Rightarrow> string"

definition VOUCHER_PEM_TAG :: string where
  "VOUCHER_PEM_TAG = ''OWNERSHIP VOUCHER''"

definition from_pem :: "pem_lib \<Rightarrow> 'z vlib_scheme \<Rightarrow> bytes \<Rightarrow> voucher result" where
  "from_pem P L data =
     (if data = [] then Err EmptyData
      else
        rbind (ok_or (pem_parse P data) PemError) (\<lambda>parsed.
        if fst parsed \<noteq> VOUCHER_PEM_TAG then Err (InvalidPemTag (fst parsed))
        else voucher_des L (snd parsed)))"

definition many_from_pem :: "pem_lib \<Rightarrow> 'z vlib_scheme \<Rightarrow> bytes \<Rightarrow> voucher list result" where
  "many_from_pem P L data =
     (if data = [] then Err EmptyData
      else
        rbind (ok_or (pem_parse_many P data) PemError)
          (rtraverse (\<lambda>parsed.
             if fst parsed = VOUCHER_PEM_TAG then voucher_des L (snd parsed)
             else Err (InvalidPemTag (fst parsed)))))"

text \<open>\<open>data[1]\<close> is read before it is known that there are two bytes. \<open>b'-'\<close> is 45.\<close>

definition from_pem_or_raw :: "pem_lib \<Rightarrow> 'z vlib_scheme \<Rightarrow> bytes \<Rightarrow> voucher result" where
  "from_pem_or_raw P L data =
     (if data = [] then Err EmptyData
      else if length data < 2 then Panic
      else if data ! 0 = data ! 1 \<and> data ! 0 = 45 then from_pem P L data
      else voucher_des L data)"

definition to_pem :: "pem_lib \<Rightarrow> 'z vlib_scheme \<Rightarrow> voucher \<Rightarrow> string result" where
  "to_pem P L v = rbind (voucher_ser L v) (\<lambda>bs. Ok (pem_encode P (VOUCHER_PEM_TAG, bs)))"

text \<open>\<open>pem\<close> documents that what \<open>encode\<close> writes is parsed back, alone and one after another, and
  that an encoded block starts with five dashes.\<close>

definition pem_doc :: "pem_lib \<Rightarrow> bool" where
  "pem_doc P \<longleftrightarrow>
     (\<forall>b. pem_parse P (ascii (pem_encode P b)) = Some b \<and> (\<exists>t. pem_encode P b = ''-----'' @ t)) \<and>
     (\<forall>bs. bs \<noteq> [] \<longrightarrow> pem_parse_many P (ascii (concat (map (pem_encode P) bs))) = Some bs)"

section \<open>Iteration\<close>

record entry_iter =
  it_index :: nat
  it_errored :: bool
  it_last_pubkey :: public_key

definition iter_entries :: "voucher \<Rightarrow> entry_iter result" where
  "iter_entries v =
     Ok \<lparr>it_index = 0, it_errored = False,
         it_last_pubkey = oh_manufacturer_public_key (ov_header v)\<rparr>"

definition process_element ::
  "'z vlib_scheme \<Rightarrow> voucher \<Rightarrow> entry_iter \<Rightarrow> ov_entry \<Rightarrow> (entry_iter \<times> ov_payload) result" where
  "process_element L v it entry =
     rbind (get_payload L (ov_payload_des L) (entry_sign entry) (pk_pkey (it_last_pubkey it))) (\<lambda>entry.
     rbind (if it_index it = 0 then hdr_hash L v (hash_type (hash_previous_entry entry))
            else array_get_hash L None (ov_entries v) (it_index it - 1)
                   (hash_type (hash_previous_entry entry))) (\<lambda>hash_prev.
     rbind (hash_compare L (hash_previous_entry entry) hash_prev) (\<lambda>_.
     rbind (get_hdr_info_hash L (ov_header v) (hash_type (hash_header_info entry))) (\<lambda>hdr_info_hash.
     rbind (hash_compare L (hash_header_info entry) hdr_info_hash) (\<lambda>_.
     Ok (it\<lparr>it_last_pubkey := public_key entry\<rparr>, entry))))))"

text \<open>\<open>Iterator::next\<close>: the new state of the iterator and the item, if any. The outcome is a
  panic when the work of the step panics.\<close>

definition iter_next ::
  "'z vlib_scheme \<Rightarrow> voucher \<Rightarrow> entry_iter \<Rightarrow> (error, entry_iter \<times> ov_payload result option) res" where
  "iter_next L v it =
     (if it_errored it then Ok (it, None)
      else if it_index it \<ge> array_len (ov_entries v) then Ok (it, None)
      else
        (case array_get None (ov_entries v) (it_index it) (ov_entry_des L) of
           Panic \<Rightarrow> Panic
         | Err e \<Rightarrow> Ok (it\<lparr>it_errored := True\<rparr>, Some (Err e))
         | Ok entry \<Rightarrow>
             (case process_element L v it entry of
                Panic \<Rightarrow> Panic
              | Err e \<Rightarrow> Ok (it\<lparr>it_errored := True, it_index := it_index it + 1\<rparr>, Some (Err e))
              | Ok (it', p) \<Rightarrow> Ok (it'\<lparr>it_index := it_index it' + 1\<rparr>, Some (Ok p)))))"

text \<open>A \<open>for\<close> loop over the iterator: the items until the first \<open>None\<close>.\<close>

lemma iter_next_measure:
  assumes "iter_next L v it = Ok (it', Some x)"
  shows "(if it_errored it' then 0 else Suc (array_len (ov_entries v) - it_index it')) <
    (if it_errored it then 0 else Suc (array_len (ov_entries v) - it_index it))"
  using assms
  by (auto simp: iter_next_def process_element_def res_simps split: if_splits res.splits)

function iter_collect :: "'z vlib_scheme \<Rightarrow> voucher \<Rightarrow> entry_iter \<Rightarrow> ov_payload result list result" where
  "iter_collect L v it =
     rbind (iter_next L v it) (\<lambda>(it', item).
     case item of
       None \<Rightarrow> Ok []
     | Some x \<Rightarrow> rbind (iter_collect L v it') (\<lambda>xs. Ok (x # xs)))"
  by pat_completeness auto
termination
  by (relation "measure (\<lambda>(L, v, it). if it_errored it then 0 else Suc (array_len (ov_entries v) - it_index it))")
     (auto dest!: iter_next_measure split: if_splits)

declare iter_collect.simps [simp del]

definition iter_all :: "'z vlib_scheme \<Rightarrow> voucher \<Rightarrow> ov_payload result list result" where
  "iter_all L v = rbind (iter_entries v) (iter_collect L v)"

section \<open>The chain of ownership\<close>

text \<open>What the hash in entry \<open>i\<close> must match: the header with its HMAC, or the previous entry.\<close>

definition prev_hash :: "'z vlib_scheme \<Rightarrow> voucher \<Rightarrow> nat \<Rightarrow> hash_type \<Rightarrow> hash result" where
  "prev_hash L v i ht =
     (if i = 0 then hdr_hash L v ht else array_get_hash L None (ov_entries v) (i - 1) ht)"

text \<open>\<open>entry_ok L v i key p\<close>: entry \<open>i\<close> is signed by \<open>key\<close> and carries the payload \<open>p\<close>, whose
  two hashes match.\<close>

definition entry_ok :: "'z vlib_scheme \<Rightarrow> voucher \<Rightarrow> nat \<Rightarrow> public_key \<Rightarrow> ov_payload \<Rightarrow> bool" where
  "entry_ok L v i key p \<longleftrightarrow>
     (\<exists>e hp hi. voucher_entry L v i = Ok e \<and>
        get_payload L (ov_payload_des L) (entry_sign e) (pk_pkey key) = Ok p \<and>
        prev_hash L v i (hash_type (hash_previous_entry p)) = Ok hp \<and>
        hash_compare L (hash_previous_entry p) hp = Ok () \<and>
        get_hdr_info_hash L (ov_header v) (hash_type (hash_header_info p)) = Ok hi \<and>
        hash_compare L (hash_header_info p) hi = Ok ())"

text \<open>The owner before entry \<open>i\<close>: the manufacturer, then the key each entry names.\<close>

definition owner_key :: "voucher \<Rightarrow> ov_payload list \<Rightarrow> nat \<Rightarrow> public_key" where
  "owner_key v ps i =
     (if i = 0 then oh_manufacturer_public_key (ov_header v) else public_key (ps ! (i - 1)))"

definition chain_ok :: "'z vlib_scheme \<Rightarrow> voucher \<Rightarrow> ov_payload list \<Rightarrow> bool" where
  "chain_ok L v ps \<longleftrightarrow> length ps = array_len (ov_entries v) \<and>
     (\<forall>i<length ps. entry_ok L v i (owner_key v ps i) (ps ! i))"

lemma process_element_Ok_iff:
  "it_index it = i \<Longrightarrow> voucher_entry L v i = Ok e \<Longrightarrow>
   process_element L v it e = Ok (it', p) \<longleftrightarrow>
     entry_ok L v i (it_last_pubkey it) p \<and> it' = it\<lparr>it_last_pubkey := public_key p\<rparr>"
  by (auto simp: process_element_def entry_ok_def prev_hash_def res_simps)

lemma iter_next_Ok_iff:
  assumes "\<not> it_errored it" "it_index it < array_len (ov_entries v)"
  shows "iter_next L v it = Ok (it', Some (Ok p)) \<longleftrightarrow>
    entry_ok L v (it_index it) (it_last_pubkey it) p \<and>
    it' = it\<lparr>it_index := Suc (it_index it), it_last_pubkey := public_key p\<rparr>"
proof (cases "voucher_entry L v (it_index it)")
  case (Ok e)
  then have "iter_next L v it = Ok (it', Some (Ok p)) \<longleftrightarrow>
      (\<exists>it1. process_element L v it e = Ok (it1, p) \<and> it' = it1\<lparr>it_index := it_index it1 + 1\<rparr>)"
    using assms by (auto simp: iter_next_def voucher_entry_def split: res.splits)
  with process_element_Ok_iff [OF refl Ok] show ?thesis by auto
qed (use assms in \<open>auto simp: iter_next_def voucher_entry_def entry_ok_def\<close>)

lemma iter_next_end:
  "it_index it \<ge> array_len (ov_entries v) \<Longrightarrow> iter_next L v it = Ok (it, None)"
  by (simp add: iter_next_def)

lemma iter_next_None:
  assumes "iter_next L v it = Ok (it', None)" "\<not> it_errored it"
  shows "it_index it \<ge> array_len (ov_entries v)"
  using assms by (auto simp: iter_next_def split: if_splits res.splits)

text \<open>Collecting from the middle: the entries from index \<open>k\<close> on.\<close>

lemma iter_collect_Ok_iff:
  assumes "\<not> it_errored it" "it_index it \<le> array_len (ov_entries v)"
  shows "iter_collect L v it = Ok (map Ok ps) \<longleftrightarrow>
    it_index it + length ps = array_len (ov_entries v) \<and>
    (\<forall>i<length ps. entry_ok L v (it_index it + i)
       (if i = 0 then it_last_pubkey it else public_key (ps ! (i - 1))) (ps ! i))"
  using assms
proof (induction ps arbitrary: it)
  case Nil
  then show ?case
    by (subst iter_collect.simps)
       (auto simp: iter_next_end res_simps split: option.splits dest: iter_next_None)
next
  case (Cons p ps)
  show ?case
  proof (cases "it_index it < array_len (ov_entries v)")
    case False
    then show ?thesis by (subst iter_collect.simps) (simp add: iter_next_end)
  next
    case True
    let ?it = "it\<lparr>it_index := Suc (it_index it), it_last_pubkey := public_key p\<rparr>"
    have "iter_collect L v it = Ok (map Ok (p # ps)) \<longleftrightarrow>
        (\<exists>it'. iter_next L v it = Ok (it', Some (Ok p)) \<and> iter_collect L v it' = Ok (map Ok ps))"
      by (subst iter_collect.simps) (auto simp: res_simps split: option.splits)
    also have "\<dots> \<longleftrightarrow> entry_ok L v (it_index it) (it_last_pubkey it) p \<and>
        iter_collect L v ?it = Ok (map Ok ps)"
      using iter_next_Ok_iff [OF Cons.prems(1) True] by auto
    also have "iter_collect L v ?it = Ok (map Ok ps) \<longleftrightarrow>
        it_index ?it + length ps = array_len (ov_entries v) \<and>
        (\<forall>i<length ps. entry_ok L v (it_index ?it + i)
          (if i = 0 then it_last_pubkey ?it else public_key (ps ! (i - 1))) (ps ! i))"
      using Cons.prems True by (intro Cons.IH) simp_all
    finally show ?thesis
      by (auto simp: All_less_Suc2 nth_Cons' split: if_splits)
  qed
qed

lemma iter_all_Ok_iff: "iter_all L v = Ok (map Ok ps) \<longleftrightarrow> chain_ok L v ps"
  using iter_collect_Ok_iff [of "\<lparr>it_index = 0, it_errored = False,
      it_last_pubkey = oh_manufacturer_public_key (ov_header v)\<rparr>" v L ps]
  by (auto simp: iter_all_def iter_entries_def chain_ok_def owner_key_def)

subsection \<open>Extending\<close>

text \<open>\<open>extends_with L v v' bs\<close>: \<open>v'\<close> is \<open>v\<close> with the bytes \<open>bs\<close> of one more entry.\<close>

definition extends_with :: "'z vlib_scheme \<Rightarrow> voucher \<Rightarrow> voucher \<Rightarrow> bytes \<Rightarrow> bool" where
  "extends_with L v v' bs \<longleftrightarrow> (\<exists>c4. 4 < length (contents (ov_contents v)) \<and>
     serialize_to_writer L (ov_entries v') = Ok c4 \<and>
     v' = v\<lparr>ov_entries := (ov_entries v)\<lparr>contents := contents (ov_entries v) @ [bs]\<rparr>,
           ov_contents := (ov_contents v)\<lparr>contents := (contents (ov_contents v))[4 := c4]\<rparr>\<rparr>)"

lemma extend_Ok:
  assumes "voucher_extend L v k ex np = Ok v'"
  obtains hi lh key cs bs where
    "get_hdr_info_hash L (ov_header v) (voucher_hash_type v) = Ok hi"
    "last_hash_and_owner L v = Ok (lh, key)" "public_eq L (pk_pkey key) (public_of L k)"
    "cosesign_new L (ov_payload_ser L \<lparr>hash_previous_entry = lh, hash_header_info = hi, extra = ex,
       public_key = np\<rparr>) None k = Ok cs"
    "cosesign_ser L cs = Ok bs" "extends_with L v v' bs"
  using assms
  by (auto simp: voucher_extend_def res_simps matches_pkey_def ov_payload_new_def ov_entry_ser_def
      array_push_Ok_iff array_set_Ok_iff extends_with_def split: if_splits)

lemma extends_with_keeps:
  assumes "extends_with L v v' bs"
  shows "ov_header v' = ov_header v" "ov_header_hmac v' = ov_header_hmac v"
    and "array_len (ov_entries v') = Suc (array_len (ov_entries v))"
    and "hdr_hash L v' ht = hdr_hash L v ht"
    and "i \<le> array_len (ov_entries v) \<Longrightarrow> prev_hash L v' i ht = prev_hash L v i ht"
    and "i < array_len (ov_entries v) \<Longrightarrow> voucher_entry L v' i = voucher_entry L v i"
    and "voucher_entry L v' (array_len (ov_entries v)) = ov_entry_des L bs"
  using assms
  by (auto simp: extends_with_def array_len_def hdr_hash_def prev_hash_def voucher_entry_def
      array_get_def array_get_raw_def array_get_hash_def check_bounds_def nth_or_panic_def nth_append)

lemma extends_with_entry_ok:
  "extends_with L v v' bs \<Longrightarrow> i < array_len (ov_entries v) \<Longrightarrow>
     entry_ok L v' i key p = entry_ok L v i key p"
  by (simp add: entry_ok_def extends_with_keeps)

lemma last_hash_and_owner_chain:
  assumes "cose_doc L" "chain_ok L v ps" "last_hash_and_owner L v = Ok (h, key)"
  shows "key = owner_key v ps (length ps) \<and> prev_hash L v (length ps) (voucher_hash_type v) = Ok h"
proof (cases "length ps")
  case 0
  with assms(2,3) show ?thesis
    by (auto simp: last_hash_and_owner_def chain_ok_def array_is_empty_def owner_key_def prev_hash_def res_simps)
next
  case (Suc m)
  have len: "array_len (ov_entries v) = Suc m" using assms(2) Suc by (simp add: chain_ok_def)
  from assms(3) obtain e p where e: "voucher_entry L v m = Ok e"
      "get_payload_unverified L (ov_payload_des L) (entry_sign e) = Ok p" "key = public_key p"
      "prev_hash L v (length ps) (voucher_hash_type v) = Ok h"
    by (auto simp: last_hash_and_owner_def array_is_empty_def prev_hash_def len Suc
        voucher_entry_def res_simps Let_def)
  from assms(2) Suc e(1) have "get_payload L (ov_payload_des L) (entry_sign e)
      (pk_pkey (owner_key v ps m)) = Ok (ps ! m)"
    by (auto simp: chain_ok_def entry_ok_def)
  with e(2) assms(1) have "p = ps ! m"
    by (auto simp: get_payload_def get_payload_unverified_def res_simps cose_doc_def)
  with e(3,4) Suc show ?thesis by (simp add: owner_key_def)
qed

lemma get_hdr_info_hash_type: "get_hdr_info_hash L h ht = Ok x \<Longrightarrow> hash_type x = ht"
  by (auto simp: get_hdr_info_hash_def res_simps dest: hash_from_data_Ok(1))

lemma prev_hash_type: "prev_hash L v i ht = Ok x \<Longrightarrow> hash_type x = ht"
  by (auto simp: prev_hash_def hdr_hash_def array_get_hash_def res_simps split: if_splits
      dest: hash_from_data_Ok(1))

lemma ov_payload_roundtrip:
  assumes "codec_doc (c_entry L)" "wf_public_key L (public_key p)" "ov_payload_ser L p = Ok bs"
  shows "ov_payload_des L bs = Ok p"
  using assms serde_roundtrip [OF assms(1)]
  by (simp add: ov_payload_ser_def ov_payload_des_def visit_key_tuple)

lemma cosesign_new_payload: "cosesign_new L pd un k = Ok cs \<Longrightarrow> \<exists>p. pd = Ok p"
  by (auto simp: cosesign_new_def res_simps Let_def)

lemma cosesign_new_des:
  assumes "cose_doc L" "cosesign_new L (Ok p) None k = Ok cs" "cosesign_ser L cs = Ok bs"
  shows "\<exists>cs'. cosesign_des L bs = Ok cs' \<and> cached_inner cs' = cached_inner cs \<and>
    (public_eq L pk (public_of L k) \<longrightarrow> get_payload L des cs' pk = des p)"
proof -
  have "plain_map (to_header_map (case None of Some v \<Rightarrow> v | None \<Rightarrow> chm_new))"
    by (simp add: plain_map_empty)
  from cosesign_new_parts [OF assms(1) this assms(2)] obtain items where items: "length items = 4"
      "list_all one_item items"
      "cs = \<lparr>cs_contents = \<lparr>tag = Some COSESIGN_TAG, header = Some [0x84], contents = items\<rparr>,
        cached_inner = cached_inner cs\<rparr>"
      "cose_from_bytes L (0xd2 # 0x84 # concat items) = Some (cached_inner cs)"
      "public_eq L pk (public_of L k) \<longrightarrow> (\<exists>hm. cose_get L (cached_inner cs) (Some pk) = Some (hm, p))"
    by metis
  have "cosesign_ser L cs = Ok (0xd2 # 0x84 # concat items)"
    by (subst items(3)) (simp add: cosesign_ser_def serialize_cose_items items(1))
  with assms(3) cosesign_read_items [OF items(1,2,4), of "[]"] items(5) show ?thesis
    by (auto simp: cosesign_des_def get_payload_def)
qed

text \<open>The new entry is valid at its place.\<close>

lemma extend_new_entry_ok:
  assumes docs: "cose_doc L" "memcmp_doc L" "codec_doc (c_entry L)"
    and "wf_public_key L np" "chain_ok L v ps" "voucher_extend L v k ex np = Ok v'"
  shows "\<exists>p bs. extends_with L v v' bs \<and> entry_ok L v' (length ps) (owner_key v ps (length ps)) p \<and>
    public_key p = np \<and> extra p = ex \<and>
    public_eq L (pk_pkey (owner_key v ps (length ps))) (public_of L k)"
proof -
  from assms(6) obtain hi lh key cs bs where x:
    "get_hdr_info_hash L (ov_header v) (voucher_hash_type v) = Ok hi"
    "last_hash_and_owner L v = Ok (lh, key)" "public_eq L (pk_pkey key) (public_of L k)"
    "cosesign_new L (ov_payload_ser L \<lparr>hash_previous_entry = lh, hash_header_info = hi, extra = ex,
       public_key = np\<rparr>) None k = Ok cs"
    "cosesign_ser L cs = Ok bs" "extends_with L v v' bs"
    by (rule extend_Ok)
  let ?p = "\<lparr>hash_previous_entry = lh, hash_header_info = hi, extra = ex, public_key = np\<rparr>"
  from last_hash_and_owner_chain [OF docs(1) assms(5) x(2)]
  have key: "key = owner_key v ps (length ps)"
    and lh: "prev_hash L v (length ps) (voucher_hash_type v) = Ok lh" by auto
  from x(4) obtain pb where pb: "ov_payload_ser L ?p = Ok pb" using cosesign_new_payload by blast
  with x(3,4,5) docs(1) obtain cs' where cs': "cosesign_des L bs = Ok cs'"
      "get_payload L (ov_payload_des L) cs' (pk_pkey key) = ov_payload_des L pb"
    using cosesign_new_des [of L pb k cs bs "pk_pkey key" "ov_payload_des L"] by auto
  have "ov_payload_des L pb = Ok ?p"
    using pb assms(3,4) by (intro ov_payload_roundtrip) simp_all
  moreover have n: "length ps = array_len (ov_entries v)" using assms(5) by (simp add: chain_ok_def)
  moreover have "voucher_entry L v' (length ps) = Ok (OVEntry cs')"
    using cs'(1) x(6) by (simp add: n extends_with_keeps ov_entry_des_def)
  moreover have "prev_hash L v' (length ps) (hash_type lh) = Ok lh"
    using lh x(6) prev_hash_type [OF lh] by (simp add: n extends_with_keeps)
  moreover have "get_hdr_info_hash L (ov_header v') (hash_type hi) = Ok hi"
    using x(1,6) get_hdr_info_hash_type [OF x(1)] by (simp add: extends_with_keeps)
  ultimately have "entry_ok L v' (length ps) key ?p"
    using cs'(2) docs(2) by (simp add: entry_ok_def hash_compare_refl)
  with x(3,6) key show ?thesis by (intro exI [of _ ?p] exI [of _ bs]) simp
qed

section \<open>Sending vouchers\<close>

text \<open>Documented: the codecs of the elements of vouchers and headers write one item and read it
  back; an absent optional element is written as \<open>null\<close>, the byte \<open>0xf6\<close>.\<close>

definition opt_codec :: "'a option codec \<Rightarrow> bool" where
  "opt_codec c \<longleftrightarrow> codec_doc c \<and> enc c None = Some [0xf6] \<and>
     (\<forall>x bs. enc c (Some x) = Some bs \<longrightarrow> one_item bs)"

definition voucher_codecs :: "'z vlib_scheme \<Rightarrow> bool" where
  "voucher_codecs L \<longleftrightarrow> byteorder_doc L \<and> der_doc L \<and> item_codec (c_version L) \<and>
     item_codec (c_bytebuf L) \<and> item_codec (c_string L) \<and> item_codec (c_hash L) \<and>
     item_codec (c_rvinfo L) \<and> item_codec (c_key L) \<and> opt_codec (c_opt_hash L) \<and>
     opt_codec (c_opt_x5chain L)"

lemma serde_ser_item: "item_codec c \<Longrightarrow> serde_ser c x = Ok bs \<Longrightarrow> one_item bs"
  by (simp add: item_codec_def serde_ser_def ok_or_Ok_iff)

lemma serde_item_roundtrip: "item_codec c \<Longrightarrow> serde_ser c x = Ok bs \<Longrightarrow> serde_des c bs = Ok x"
  by (simp add: item_codec_def serde_roundtrip)

lemma items_roundtrip:
  assumes "byteorder_doc L" "list_all one_item ws" "length ws = n" "0 < n" "n \<le> 65535"
  obtains h where "array_header None h n"
    "\<And>x. serialize_to_writer L \<lparr>tag = None, header = x, contents = ws\<rparr> = Ok (h @ concat ws)"
    "\<And>r. deserialize_from_reader (Some n) (h @ concat ws @ r) =
       Ok (\<lparr>tag = None, header = Some h, contents = ws\<rparr>, r)"
proof -
  from assms(1,3,5) obtain h where h: "array_header None h n"
      "serialize_to_writer L \<lparr>tag = None, header = None, contents = ws\<rparr> = Ok (h @ concat ws)"
    using serialize_to_writer_header [of L "\<lparr>tag = None, header = None, contents = ws\<rparr>"]
    by (auto simp del: array_header.simps)
  moreover have "serialize_to_writer L \<lparr>tag = None, header = x, contents = ws\<rparr> =
      serialize_to_writer L \<lparr>tag = None, header = None, contents = ws\<rparr>" for x
    by (simp add: serialize_to_writer_def)
  moreover have "deserialize_from_reader (Some n) (h @ concat ws @ r) =
      Ok (\<lparr>tag = None, header = Some h, contents = ws\<rparr>, r)" for r
    using deserialize_items [of None h ws r] h(1) assms(2-4) by auto
  ultimately show ?thesis using that by metis
qed

lemma array_header_one_item:
  assumes "array_header None h n" "list_all one_item ws" "length ws = n"
  shows "one_item (h @ concat ws)"
proof -
  obtain xs where "list_all wf_item xs" "ws = map item_bytes xs" using one_item_list [OF assms(2)] .
  moreover from assms(1) obtain b bs where "h = b # bs" "major_of b Array" "arg_of b bs = Some n"
    by (rule array_header_NoneE)
  ultimately show ?thesis using assms(3) unfolding one_item_def
    by (intro exI [of _ "ArrayItem b bs xs"]) simp
qed

definition same_header :: "ov_header \<Rightarrow> ov_header \<Rightarrow> bool" where
  "same_header h h' \<longleftrightarrow> same_array (oh_contents h) (oh_contents h') \<and> h' = h\<lparr>oh_contents := oh_contents h'\<rparr>"

lemma ov_header_roundtrip:
  assumes "voucher_codecs L" "length (guid_bytes guid) = 16" "wf_public_key L mk"
    and "check_device_info (trim info) = Ok ()"
    and "ov_header_new L ver guid rv info mk (Some ch) = Ok hdr"
  shows "\<exists>bs. serialize_to_writer L (oh_contents hdr) = Ok bs \<and> one_item bs \<and>
    (\<forall>r. \<exists>hdr'. ov_header_read L (bs @ r) = Ok (hdr', r) \<and> same_header hdr hdr')"
proof -
  note codecs = assms(1) [unfolded voucher_codecs_def]
  from assms(5) obtain w0 w1 w2 w3 w4 w5 where w:
      "serde_ser (c_version L) ver = Ok w0" "guid_ser L guid = Ok w1" "serde_ser (c_rvinfo L) rv = Ok w2"
      "serde_ser (c_string L) (trim info) = Ok w3" "public_key_ser L mk = Ok w4"
      "opt_hash_ser L (Some ch) = Ok w5"
      "hdr = \<lparr>oh_contents = \<lparr>tag = None, header = None, contents = [w0, w1, w2, w3, w4, w5]\<rparr>,
        oh_protocol_version = ver, oh_guid = guid, oh_rendezvous_info = rv, oh_device_info = trim info,
        oh_manufacturer_public_key = mk, oh_device_certificate_chain_hash = Some ch\<rparr>"
    by (auto simp: ov_header_new_def Let_def res_simps build_array_Ok_iff Cons_eq_map_conv)
  have items: "list_all one_item [w0, w1, w2, w3, w4, w5]"
    using w codecs by (auto simp: guid_ser_def public_key_ser_def opt_hash_ser_def opt_codec_def
        serde_ser_def ok_or_Ok_iff item_codec_def key_tuple_def hash_tuple_def)
  have "byteorder_doc L" using codecs by blast
  then obtain h where h: "array_header None h 6"
    "\<And>x. serialize_to_writer L \<lparr>tag = None, header = x, contents = [w0, w1, w2, w3, w4, w5]\<rparr> =
       Ok (h @ concat [w0, w1, w2, w3, w4, w5])"
    "\<And>r. deserialize_from_reader (Some 6) (h @ concat [w0, w1, w2, w3, w4, w5] @ r) =
       Ok (\<lparr>tag = None, header = Some h, contents = [w0, w1, w2, w3, w4, w5]\<rparr>, r)"
    by (rule items_roundtrip [OF _ items, of L 6]) simp_all
  have des: "serde_des (c_version L) w0 = Ok ver" "guid_des L w1 = Ok guid" "serde_des (c_rvinfo L) w2 = Ok rv"
      "serde_des (c_string L) w3 = Ok (trim info)" "public_key_des L w4 = Ok mk"
      "opt_hash_des L w5 = Ok (Some ch)"
    using w codecs assms(2,3) serde_roundtrip [of "c_opt_hash L"]
    by (simp_all add: serde_item_roundtrip guid_roundtrip public_key_roundtrip item_codec_def
        opt_codec_def opt_hash_ser_def opt_hash_des_def)
  have "\<exists>hdr'. ov_header_read L ((h @ concat [w0, w1, w2, w3, w4, w5]) @ r) = Ok (hdr', r) \<and>
      same_header hdr hdr'" for r
    using h(3) [of r] des assms(4)
    by (simp add: ov_header_read_def array_get_nth same_header_def same_array_def w(7))
  moreover have "one_item (h @ concat [w0, w1, w2, w3, w4, w5])"
    by (rule array_header_one_item [OF h(1) items]) simp
  ultimately show ?thesis using h(2) by (auto simp: w(7))
qed

lemma voucher_new_contents:
  assumes "voucher_new L hdr hmac dc = Ok v"
  obtains hb w0 w1 w2 w3 w4 where "serialize_to_writer L (oh_contents hdr) = Ok hb"
    "serde_ser (c_version L) Version1_1 = Ok w0" "serde_ser (c_bytebuf L) hb = Ok w1"
    "hash_ser L hmac = Ok w2" "opt_x5chain_ser L dc = Ok w3" "serialize_to_writer L new_empty = Ok w4"
    "v = \<lparr>ov_contents = \<lparr>tag = None, header = None, contents = [w0, w1, w2, w3, w4]\<rparr>,
      ov_protocol_version = Version1_1, ov_header = hdr, ov_header_hmac = hmac,
      ov_device_certificate_chain = dc, ov_entries = new_empty\<rparr>"
  using assms
  by (auto simp: voucher_new_def Let_def res_simps build_array_Ok_iff Cons_eq_map_conv)

lemma new_empty_bytes: "serialize_to_writer L new_empty = Ok [0x80]"
  by (simp add: serialize_to_writer_def new_empty_def encode_item_start_def MASK_VAL_def)

lemma empty_array_item: "one_item [0x80]" "dynamic_des [0x80] = Ok new_empty"
proof -
  have h: "major_of 0x80 Array" "arg_of 0x80 [] = Some 0" by code_simp+
  then show "one_item [0x80]" unfolding one_item_def
    by (intro exI [of _ "ArrayItem 0x80 [] []"]) simp
  from deserialize_array_header [OF untagged [OF h], of None "[]"] show "dynamic_des [0x80] = Ok new_empty"
    by (simp add: dynamic_des_def array_items_def new_empty_def)
qed

lemma opt_x5chain_roundtrip:
  assumes "der_doc L" "opt_codec (c_opt_x5chain L)" "opt_x5chain_ser L (Some c) = Ok bs"
  shows "one_item bs \<and> opt_x5chain_des L bs = Ok (Some c)"
proof -
  from assms(3) obtain ders where d:
      "rtraverse (\<lambda>cert. ok_or (x509_to_der L cert) CiboriumSerError) (chain c) = Ok ders"
      "enc (c_opt_x5chain L) (Some ders) = Some bs"
    by (auto simp: opt_x5chain_ser_def x5chain_ders_def res_simps serde_ser_def)
  have "rtraverse (\<lambda>d. ok_or (x509_from_der L d) SerdeCborError) ders = Ok (chain c)"
    using d(1) by (rule rtraverse_inverse) (use assms(1) in \<open>auto simp: der_doc_def ok_or_Ok_iff\<close>)
  with d(2) assms(2) show ?thesis
    by (auto simp: opt_x5chain_des_def x5chain_visit_def serde_des_def opt_codec_def codec_doc_def)
qed

text \<open>Two vouchers that differ only in the recorded header bytes of their arrays.\<close>

definition same_voucher :: "voucher \<Rightarrow> voucher \<Rightarrow> bool" where
  "same_voucher v v' \<longleftrightarrow> same_array (ov_contents v) (ov_contents v') \<and>
     same_header (ov_header v) (ov_header v') \<and>
     v' = v\<lparr>ov_contents := ov_contents v', ov_header := ov_header v'\<rparr>"

lemma extend_chain:
  assumes "cose_doc L" "memcmp_doc L" "codec_doc (c_entry L)" "wf_public_key L np"
    and c: "chain_ok L v ps" and "voucher_extend L v k ex np = Ok v'"
  shows "\<exists>p. chain_ok L v' (ps @ [p]) \<and> public_key p = np \<and> extra p = ex"
proof -
  from extend_new_entry_ok [OF assms] obtain p bs where p: "extends_with L v v' bs"
      "entry_ok L v' (length ps) (owner_key v ps (length ps)) p" "public_key p = np" "extra p = ex"
    by blast
  have n: "length ps = array_len (ov_entries v)" using c by (simp add: chain_ok_def)
  have "owner_key v' (ps @ [p]) i = owner_key v ps i" if "i \<le> length ps" for i
    using that p(1) by (auto simp: owner_key_def extends_with_keeps nth_append)
  with c p n have "chain_ok L v' (ps @ [p])"
    by (auto simp: chain_ok_def extends_with_keeps extends_with_entry_ok nth_append less_Suc_eq)
  with p(3,4) show ?thesis by blast
qed

lemma voucher_new_roundtrip:
  assumes "voucher_codecs L" "length (guid_bytes guid) = 16" "wf_public_key L mk"
    and "check_device_info (trim info) = Ok ()"
    and "ov_header_new L ver guid rv info mk (Some ch) = Ok hdr"
    and "voucher_new L hdr hmac (Some dc) = Ok v"
  shows "\<exists>bs. voucher_ser L v = Ok bs \<and> (\<forall>r. \<exists>v'. voucher_read L (bs @ r) = Ok (v', r) \<and> same_voucher v v')"
proof -
  note codecs = assms(1) [unfolded voucher_codecs_def]
  from assms(6) obtain hb w0 w1 w2 w3 w4 where w: "serialize_to_writer L (oh_contents hdr) = Ok hb"
    "serde_ser (c_version L) Version1_1 = Ok w0" "serde_ser (c_bytebuf L) hb = Ok w1"
    "hash_ser L hmac = Ok w2" "opt_x5chain_ser L (Some dc) = Ok w3" "serialize_to_writer L new_empty = Ok w4"
    "v = \<lparr>ov_contents = \<lparr>tag = None, header = None, contents = [w0, w1, w2, w3, w4]\<rparr>,
      ov_protocol_version = Version1_1, ov_header = hdr, ov_header_hmac = hmac,
      ov_device_certificate_chain = Some dc, ov_entries = new_empty\<rparr>"
    by (rule voucher_new_contents)
  from ov_header_roundtrip [OF assms(1-5)] w(1) obtain hdr' where
    hdr': "ov_header_read L (hb @ []) = Ok (hdr', [])" "same_header hdr hdr'"
    by (metis res.inject(1))
  have w4: "w4 = [0x80]" using w(6) by (simp add: new_empty_bytes)
  have x: "one_item w3 \<and> opt_x5chain_des L w3 = Ok (Some dc)"
    using codecs w(5) by (intro opt_x5chain_roundtrip) blast+
  have items: "list_all one_item [w0, w1, w2, w3, w4]"
    using w(2-4) codecs x empty_array_item(1) by (auto simp: w4 hash_ser_def serde_ser_item)
  have des: "serde_des (c_version L) w0 = Ok Version1_1" "serde_des (c_bytebuf L) w1 = Ok hb"
      "hash_des L w2 = Ok hmac"
    using w(2-4) codecs by (simp_all add: serde_item_roundtrip hash_roundtrip item_codec_def)
  have "byteorder_doc L" using codecs by blast
  then obtain h where h: "array_header None h 5"
    "\<And>x. serialize_to_writer L \<lparr>tag = None, header = x, contents = [w0, w1, w2, w3, w4]\<rparr> =
       Ok (h @ concat [w0, w1, w2, w3, w4])"
    "\<And>r. deserialize_from_reader (Some 5) (h @ concat [w0, w1, w2, w3, w4] @ r) =
       Ok (\<lparr>tag = None, header = Some h, contents = [w0, w1, w2, w3, w4]\<rparr>, r)"
    by (rule items_roundtrip [OF _ items, of L 5]) simp_all
  have "from_parsed_array L \<lparr>tag = None, header = Some h, contents = [w0, w1, w2, w3, w4]\<rparr> =
      Ok (v\<lparr>ov_contents := \<lparr>tag = None, header = Some h, contents = [w0, w1, w2, w3, w4]\<rparr>,
            ov_header := hdr'\<rparr>)"
    using des x hdr'(1) empty_array_item(2)
    by (simp add: from_parsed_array_def array_get_nth ov_header_des_def w(7) w4)
  with h(2,3) hdr'(2) show ?thesis
    by (auto simp: voucher_ser_def voucher_read_def w(7) same_voucher_def same_array_def Let_def)
qed

text \<open>The vouchers that \<open>OwnershipVoucher::new\<close> makes from a new header and a device certificate
  chain.\<close>

definition fresh_voucher :: "'z vlib_scheme \<Rightarrow> voucher \<Rightarrow> bool" where
  "fresh_voucher L v \<longleftrightarrow> voucher_codecs L \<and>
     (\<exists>ver guid rv info mk ch hdr hmac dc. length (guid_bytes guid) = 16 \<and> wf_public_key L mk \<and>
        check_device_info (trim info) = Ok () \<and>
        ov_header_new L ver guid rv info mk (Some ch) = Ok hdr \<and> voucher_new L hdr hmac (Some dc) = Ok v)"

interpretation vouchers:
  deserializable_many "voucher_ser L" "voucher_read L" "fresh_voucher L" same_voucher is_nodata_error for L
proof unfold_locales
  fix v assume "fresh_voucher L v"
  then show "\<exists>bs. voucher_ser L v = Ok bs \<and> (\<forall>r. \<exists>v'. voucher_read L (bs @ r) = Ok (v', r) \<and> same_voucher v v')"
    unfolding fresh_voucher_def using voucher_new_roundtrip by blast
next
  show "\<exists>e. voucher_read L [] = Err e \<and> is_nodata_error e"
    by (simp add: voucher_read_def deserialize_from_reader_def is_nodata_error_def)
next
  fix r v r' assume "voucher_read L r = Ok (v, r')"
  then show "length r' < length r"
    by (auto simp: voucher_read_def Let_def res_simps intro: deserialize_shorter split: if_splits)
qed

subsection \<open>PEM\<close>

lemma fresh_voucher_des:
  assumes "fresh_voucher L v"
  shows "\<exists>bs v'. voucher_ser L v = Ok bs \<and> voucher_des L bs = Ok v' \<and> same_voucher v v'"
  using vouchers.send_receive [OF assms] by (simp add: voucher_des_def deserialize_data_def)

lemma pem_encode_nonempty: "pem_doc P \<Longrightarrow> ascii (pem_encode P b) \<noteq> []"
  unfolding pem_doc_def by (metis ascii_simps(2) append_Cons list.distinct(1))

lemma many_from_pem_roundtrip:
  assumes "pem_doc P" "list_all (fresh_voucher L) (v # vs)"
  shows "\<exists>ps vs'. rtraverse (to_pem P L) (v # vs) = Ok ps \<and>
    many_from_pem P L (ascii (concat ps)) = Ok vs' \<and> list_all2 same_voucher (v # vs) vs'"
proof -
  have "\<exists>bss vs'. rtraverse (to_pem P L) ws = Ok (map (\<lambda>bs. pem_encode P (VOUCHER_PEM_TAG, bs)) bss) \<and>
      rtraverse (voucher_des L) bss = Ok vs' \<and> list_all2 same_voucher ws vs'"
    if "list_all (fresh_voucher L) ws" for ws
    using that
  proof (induction ws)
    case (Cons w ws)
    then obtain bss vs' where "rtraverse (to_pem P L) ws = Ok (map (\<lambda>bs. pem_encode P (VOUCHER_PEM_TAG, bs)) bss)"
        "rtraverse (voucher_des L) bss = Ok vs'" "list_all2 same_voucher ws vs'"
      by auto
    moreover obtain bs w' where w': "voucher_ser L w = Ok bs" "voucher_des L bs = Ok w'" "same_voucher w w'"
      using Cons.prems fresh_voucher_des by fastforce
    moreover have "to_pem P L w = Ok (pem_encode P (VOUCHER_PEM_TAG, bs))" using w'(1) by (simp add: to_pem_def)
    ultimately show ?case
      by (intro exI [of _ "bs # bss"] exI [of _ "w' # vs'"]) simp
  qed simp
  from this [OF assms(2)] obtain bss vs' where
    b: "rtraverse (to_pem P L) (v # vs) = Ok (map (\<lambda>bs. pem_encode P (VOUCHER_PEM_TAG, bs)) bss)"
      "rtraverse (voucher_des L) bss = Ok vs'" "list_all2 same_voucher (v # vs) vs'"
    by blast
  let ?blocks = "map (\<lambda>bs. (VOUCHER_PEM_TAG, bs)) bss"
  have ne: "?blocks \<noteq> []" using b(2,3) by auto
  then have "pem_parse_many P (ascii (concat (map (pem_encode P) ?blocks))) = Some ?blocks"
    using assms(1) unfolding pem_doc_def by blast
  moreover have "ascii (concat (map (pem_encode P) ?blocks)) \<noteq> []"
    using ne pem_encode_nonempty [OF assms(1)] by (cases bss) simp_all
  moreover have "rtraverse (\<lambda>parsed. if fst parsed = VOUCHER_PEM_TAG then voucher_des L (snd parsed)
      else Err (InvalidPemTag (fst parsed))) ?blocks = Ok vs'"
    using b(2) by (simp add: rtraverse_Ok_iff list_all2_map1)
  ultimately have "many_from_pem P L (ascii (concat (map (pem_encode P) ?blocks))) = Ok vs'"
    by (simp add: many_from_pem_def)
  with b(1,3) show ?thesis by (auto simp: comp_def)
qed

lemma from_pem_or_raw_roundtrip:
  assumes "pem_doc P" "fresh_voucher L v"
  shows "\<exists>p v'. to_pem P L v = Ok p \<and> from_pem_or_raw P L (ascii p) = Ok v' \<and> same_voucher v v'"
proof -
  obtain bs v' where v': "voucher_ser L v = Ok bs" "voucher_des L bs = Ok v'" "same_voucher v v'"
    using fresh_voucher_des [OF assms(2)] by blast
  obtain t where "pem_encode P (VOUCHER_PEM_TAG, bs) = ''-----'' @ t"
      "pem_parse P (ascii (pem_encode P (VOUCHER_PEM_TAG, bs))) = Some (VOUCHER_PEM_TAG, bs)"
    using assms(1) unfolding pem_doc_def by blast
  with v' show ?thesis by (auto simp: to_pem_def from_pem_or_raw_def from_pem_def)
qed

section \<open>Properties\<close>

text \<open>A file of new vouchers (each made with a device certificate chain) can be read back:
  the vouchers serialised one after another are read by \<open>deserialize_many_from_reader\<close> in order,
  each with the same version, header, HMAC, chain and entries.\<close>

theorem voucher_new_send:
  assumes "list_all (fresh_voucher L) vs"
  shows "\<exists>bss vs'. rtraverse (voucher_ser L) vs = Ok bss \<and>
    deserialize_many_from_reader is_nodata_error (voucher_read L) (concat bss) = Some (Ok vs') \<and>
    list_all2 same_voucher vs vs'"
  by (rule vouchers.many_concat [OF assms])



text \<open>C22: a voucher without a device certificate chain cannot be read back: what
  \<open>OwnershipVoucher::new\<close> serialises is refused by \<open>OwnershipVoucher\<close>'s own reader, because the
  absent chain is written as \<open>null\<close>.\<close>

theorem voucher_without_chain_unreadable:
  assumes "voucher_codecs L" "voucher_new L hdr hmac None = Ok v"
  shows "\<exists>bs. voucher_ser L v = Ok bs \<and>
    voucher_des L bs = Err (ArrayParseError (UnsupportedMajorType 7))"
proof -
  note codecs = assms(1) [unfolded voucher_codecs_def]
  from assms(2) obtain hb w0 w1 w2 w3 w4 where w: "serialize_to_writer L (oh_contents hdr) = Ok hb"
    "serde_ser (c_version L) Version1_1 = Ok w0" "serde_ser (c_bytebuf L) hb = Ok w1"
    "hash_ser L hmac = Ok w2" "opt_x5chain_ser L None = Ok w3" "serialize_to_writer L new_empty = Ok w4"
    "v = \<lparr>ov_contents = \<lparr>tag = None, header = None, contents = [w0, w1, w2, w3, w4]\<rparr>,
      ov_protocol_version = Version1_1, ov_header = hdr, ov_header_hmac = hmac,
      ov_device_certificate_chain = None, ov_entries = new_empty\<rparr>"
    by (rule voucher_new_contents)
  have w3: "w3 = [0xf6]" using w(5) codecs
    by (auto simp: opt_x5chain_ser_def serde_ser_def opt_codec_def ok_or_Ok_iff)
  have "list_all one_item [w0, w1, w2]"
    using w(2-4) codecs by (auto simp: hash_ser_def serde_ser_item)
  then obtain xs where xs: "list_all wf_item xs" "[w0, w1, w2] = map item_bytes xs"
    using one_item_list by blast
  have n: "length (contents (ov_contents v)) = 5" "tag (ov_contents v) = None"
    "concat (contents (ov_contents v)) = concat [w0, w1, w2, w3, w4]" by (simp_all add: w(7))
  from codecs obtain h where h: "array_header None h 5"
      "serialize_to_writer L (ov_contents v) = Ok (h @ concat [w0, w1, w2, w3, w4])"
    using serialize_to_writer_header [of L "ov_contents v", unfolded n] by auto
  have "length xs = 3" using arg_cong [OF xs(2), of length] by simp
  moreover have "major_of 0xf6 Special" by code_simp
  ultimately have "deserialize_from_reader (Some 5) (h @ concat (map item_bytes xs) @ 0xf6 # w4) =
      Err (ArrayParseError (UnsupportedMajorType 7))"
    using h(1) xs(1) by (intro deserialize_special) simp_all
  with h(2) show ?thesis
    by (simp add: voucher_ser_def voucher_des_def voucher_read_def w3 xs(2) [symmetric])
qed

text \<open>C2: iterating a voucher succeeds on every entry exactly when the chain of ownership holds:
  entry \<open>i\<close> is signed by the key of entry \<open>i - 1\<close> (the manufacturer's key for the first), and
  its two hashes match the previous entry (the header and its HMAC for the first) and the
  header info.\<close>

theorem iter_entries_iff_chain:
  "iter_all L v = Ok (map Ok ps) \<longleftrightarrow>
     length ps = array_len (ov_entries v) \<and>
     (\<forall>i<length ps. entry_ok L v i
        (if i = 0 then oh_manufacturer_public_key (ov_header v) else public_key (ps ! (i - 1))) (ps ! i))"
  by (simp add: iter_all_Ok_iff chain_ok_def owner_key_def)

text \<open>C3: extending a voucher that verifies, with the private key of its current owner, gives a
  voucher that verifies: all earlier entries are read back unchanged, and the new last entry
  names the next owner and carries the extra data.\<close>

theorem extend_verifies:
  assumes "cose_doc L" "memcmp_doc L" "codec_doc (c_entry L)" "wf_public_key L next_party"
    and "iter_all L v = Ok (map Ok ps)" "voucher_extend L v owner_key_private ex next_party = Ok v'"
  shows "\<exists>p. iter_all L v' = Ok (map Ok (ps @ [p])) \<and> public_key p = next_party \<and> extra p = ex"
  using extend_chain [OF assms(1-4) _ assms(6)] assms(5) by (simp add: iter_all_Ok_iff del: map_append)


end
