(* ===== verification/Voucher_Transport.thy ===== *)
theory Voucher_Transport
  imports OwnershipVoucher
begin

text \<open>
  Vouchers on the wire: every voucher that is made by \<open>OwnershipVoucher::new\<close> and then handed on by
  \<open>extend\<close> any number of times can be written and read back, and reading it back keeps the chain of
  ownership.
\<close>

section \<open>Vouchers up to recorded headers\<close>

lemma array_of_items:
  assumes "byteorder_doc L" "list_all one_item ws" "length ws = n" "0 < n" "n \<le> 65535"
  shows "\<exists>h. serialize_to_writer L \<lparr>tag = None, header = None, contents = ws\<rparr> = Ok (h @ concat ws) \<and>
    deserialize_from_reader (Some n) (h @ concat ws) = Ok (\<lparr>tag = None, header = Some h, contents = ws\<rparr>, [])"
  using assms items_roundtrip [of L ws n] by (metis append_Nil2)

lemma deserialize_one_items:
  assumes "deserialize_from_reader (Some n) r = Ok (a, r')"
  shows "list_all one_item (contents a) \<and> length (contents a) = n"
proof -
  from deserialize_Ok_header [OF assms] obtain tg h m r2 where h: "array_header tg h m" "r = h @ r2"
    by blast
  with assms obtain xs where "list_all wf_item xs" "length xs = m" "n = m" "contents a = map item_bytes xs"
    by (auto simp: deserialize_array_header array_items_iff)
  then show ?thesis by (auto simp: list_all_iff one_item_def)
qed

definition equiv_voucher :: "voucher \<Rightarrow> voucher \<Rightarrow> bool" where
  "equiv_voucher v v' \<longleftrightarrow> same_array (ov_contents v) (ov_contents v') \<and>
     same_header (ov_header v) (ov_header v') \<and> same_array (ov_entries v) (ov_entries v') \<and>
     ov_header_hmac v' = ov_header_hmac v \<and> ov_device_certificate_chain v' = ov_device_certificate_chain v \<and>
     ov_protocol_version v' = ov_protocol_version v"

lemma same_array_ops:
  assumes "same_array a b"
  shows "array_get sz b n des = array_get sz a n des" "array_get_raw sz b n = array_get_raw sz a n"
    "array_get_hash L sz b n ht = array_get_hash L sz a n ht" "array_len b = array_len a"
  using assms by (simp_all add: same_array_def array_get_def array_get_raw_def array_get_hash_def array_len_def)

lemma same_voucher_equiv: "same_voucher v v' \<Longrightarrow> equiv_voucher v v'"
  by (cases v; cases v') (simp add: same_voucher_def equiv_voucher_def same_array_def)

lemma same_header_fields:
  "same_header h h' \<Longrightarrow> oh_guid h' = oh_guid h \<and> oh_manufacturer_public_key h' = oh_manufacturer_public_key h"
  by (cases h; cases h') (simp add: same_header_def)

lemma equiv_voucher_fields:
  assumes "equiv_voucher v v'"
  shows "ov_header_hmac v' = ov_header_hmac v" "ov_device_certificate_chain v' = ov_device_certificate_chain v"
    "array_len (ov_entries v') = array_len (ov_entries v)"
    "oh_guid (ov_header v') = oh_guid (ov_header v)"
    "oh_manufacturer_public_key (ov_header v') = oh_manufacturer_public_key (ov_header v)"
    "prev_hash L v' i ht = prev_hash L v i ht" "voucher_entry L v' i = voucher_entry L v i"
    "get_hdr_info_hash L (ov_header v') ht = get_hdr_info_hash L (ov_header v) ht"
proof -
  from assms have c: "same_array (ov_contents v) (ov_contents v')" and e: "same_array (ov_entries v) (ov_entries v')"
    and h: "same_header (ov_header v) (ov_header v')"
    and f: "ov_header_hmac v' = ov_header_hmac v" "ov_device_certificate_chain v' = ov_device_certificate_chain v"
    by (auto simp: equiv_voucher_def)
  then have hc: "same_array (oh_contents (ov_header v)) (oh_contents (ov_header v'))" by (simp add: same_header_def)
  show "ov_header_hmac v' = ov_header_hmac v" "ov_device_certificate_chain v' = ov_device_certificate_chain v"
    "array_len (ov_entries v') = array_len (ov_entries v)" "oh_guid (ov_header v') = oh_guid (ov_header v)"
    "oh_manufacturer_public_key (ov_header v') = oh_manufacturer_public_key (ov_header v)"
    using f same_array_ops(4) [OF e] same_header_fields [OF h] by simp_all
  show "prev_hash L v' i ht = prev_hash L v i ht" "voucher_entry L v' i = voucher_entry L v i"
    by (simp_all add: prev_hash_def hdr_hash_def voucher_entry_def same_array_ops [OF c] same_array_ops [OF e])
  show "get_hdr_info_hash L (ov_header v') ht = get_hdr_info_hash L (ov_header v) ht"
    by (simp add: get_hdr_info_hash_def same_array_ops [OF hc])
qed

lemma chain_ok_equiv: "equiv_voucher v v' \<Longrightarrow> chain_ok L v' ps = chain_ok L v ps"
  by (simp add: chain_ok_def entry_ok_def owner_key_def equiv_voucher_fields)

section \<open>Vouchers that can be sent\<close>

definition sendable_voucher :: "'z vlib_scheme \<Rightarrow> voucher \<Rightarrow> bool" where
  "sendable_voucher L v \<longleftrightarrow> voucher_codecs L \<and> tag (ov_contents v) = None \<and>
     length (contents (ov_contents v)) = 5 \<and> list_all one_item (contents (ov_contents v)) \<and>
     tag (ov_entries v) = None \<and> list_all one_item (contents (ov_entries v)) \<and>
     (\<exists>v'. from_parsed_array L (ov_contents v) = Ok v' \<and> equiv_voucher v v')"

lemma from_parsed_array_same:
  assumes "same_array a b" "from_parsed_array L a = Ok v"
  shows "from_parsed_array L b = Ok (v\<lparr>ov_contents := b\<rparr>)"
  using assms(2) by (auto simp: from_parsed_array_def same_array_ops [OF assms(1)] res_simps)

lemma sendable_roundtrip:
  assumes "sendable_voucher L v"
  shows "\<exists>bs. voucher_ser L v = Ok bs \<and> one_item bs \<and>
    (\<forall>r. \<exists>v'. voucher_read L (bs @ r) = Ok (v', r) \<and> equiv_voucher v v')"
proof -
  from assms obtain v0 where v: "voucher_codecs L" "tag (ov_contents v) = None"
      "list_all one_item (contents (ov_contents v))" "length (contents (ov_contents v)) = 5"
      and v0: "from_parsed_array L (ov_contents v) = Ok v0" "equiv_voucher v v0"
    unfolding sendable_voucher_def by blast
  let ?ws = "contents (ov_contents v)"
  from v have "byteorder_doc L" by (simp add: voucher_codecs_def)
  then obtain h where h: "array_header None h 5"
      "\<And>x. serialize_to_writer L \<lparr>tag = None, header = x, contents = ?ws\<rparr> = Ok (h @ concat ?ws)"
      "\<And>r. deserialize_from_reader (Some 5) (h @ concat ?ws @ r) = Ok (\<lparr>tag = None, header = Some h, contents = ?ws\<rparr>, r)"
    by (rule items_roundtrip [OF _ v(3,4)]) simp_all
  let ?a = "\<lparr>tag = None, header = Some h, contents = ?ws\<rparr>"
  have same: "same_array (ov_contents v) ?a" using v(2) by (simp add: same_array_def)
  have ser: "voucher_ser L v = Ok (h @ concat ?ws)"
    using h(2) [of "header (ov_contents v)"] v(2) by (cases "ov_contents v") (simp add: voucher_ser_def)
  have rd: "voucher_read L ((h @ concat ?ws) @ r) = Ok (v0\<lparr>ov_contents := ?a\<rparr>, r)" for r
    using h(3) from_parsed_array_same [OF same v0(1)] by (simp add: voucher_read_def Let_def)
  have "equiv_voucher v (v0\<lparr>ov_contents := ?a\<rparr>)"
    using v0(2) same by (simp add: equiv_voucher_def)
  with ser rd array_header_one_item [OF h(1) v(3,4)] show ?thesis by blast
qed

lemma fresh_sendable:
  assumes "fresh_voucher L v"
  shows "sendable_voucher L v"
proof -
  from vouchers.send_receive [OF assms] obtain bs v' where rt: "voucher_ser L v = Ok bs"
      "voucher_des L bs = Ok v'" "same_voucher v v'"
    by (auto simp: voucher_des_def deserialize_data_def)
  from rt(2) obtain a r where a: "deserialize_from_reader (Some 5) bs = Ok (a, r)" "from_parsed_array L a = Ok v'"
    by (auto simp: voucher_des_def voucher_read_def Let_def res_simps split: if_splits)
  from a(2) have "ov_contents v' = a" by (auto simp: from_parsed_array_def res_simps)
  with rt(3) have same: "same_array (ov_contents v) a" by (simp add: same_voucher_def)
  with from_parsed_array_same [of a "ov_contents v"] a(2) have
    "from_parsed_array L (ov_contents v) = Ok (v'\<lparr>ov_contents := ov_contents v\<rparr>)" by (simp add: same_array_def)
  moreover have "equiv_voucher v (v'\<lparr>ov_contents := ov_contents v\<rparr>)"
    using same_voucher_equiv [OF rt(3)] by (simp add: equiv_voucher_def same_array_def)
  moreover from assms have "voucher_codecs L" "ov_entries v = new_empty" "tag (ov_contents v) = None"
    by (auto simp: fresh_voucher_def elim!: voucher_new_contents)
  moreover have "list_all one_item (contents a) \<and> length (contents a) = 5" by (rule deserialize_one_items [OF a(1)])
  ultimately show ?thesis using same by (auto simp: sendable_voucher_def same_array_def new_empty_def)
qed

lemma entries_roundtrip:
  assumes "byteorder_doc L" "tag a = None" "list_all one_item (contents a)" "length (contents a) \<le> 65535"
    and "serialize_to_writer L a = Ok bs"
  shows "one_item bs \<and> (\<exists>a'. dynamic_des bs = Ok a' \<and> same_array a a')"
proof -
  obtain xs where xs: "list_all wf_item xs" "contents a = map item_bytes xs" using one_item_list [OF assms(3)] .
  from serialize_to_writer_header [OF assms(1,4)] assms(2,5) obtain h where
    h: "array_header None h (length (contents a))" "bs = h @ concat (contents a)" by auto
  have "\<forall>r. \<exists>a'. deserialize_from_reader None (bs @ r) = Ok (a', r) \<and> same_array a a'"
    using array_roundtrip [OF assms(1) xs(2,1), of None] assms(2,4,5) xs(2) by auto
  from this [rule_format, of "[]"] array_header_one_item [OF h(1) assms(3)] h(2) show ?thesis
    by (auto simp: dynamic_des_def)
qed

lemma cosesign_new_item:
  assumes "cose_doc L" "cosesign_new L pd None k = Ok cs"
  shows "\<exists>bs. cosesign_ser L cs = Ok bs \<and> one_item bs"
proof -
  from cosesign_new_payload [OF assms(2)] obtain p where p: "pd = Ok p" ..
  have "plain_map (to_header_map (case None of Some v \<Rightarrow> v | None \<Rightarrow> chm_new))" by (simp add: plain_map_empty)
  from cosesign_new_parts [OF assms(1) this assms(2) [unfolded p]] obtain items where items: "length items = 4"
      "list_all one_item items" "cs_contents cs = \<lparr>tag = Some COSESIGN_TAG, header = Some [0x84], contents = items\<rparr>"
    by (metis cosesign.select_convs(1))
  then have "cosesign_ser L cs = Ok (0xd2 # 0x84 # concat items)"
    by (simp add: cosesign_ser_def serialize_cose_items)
  with one_item_cose [OF items(1,2)] show ?thesis by simp
qed

lemma from_parsed_array_entries:
  assumes "from_parsed_array L a = Ok v" "length (contents a) = 5" "dynamic_des c4 = Ok es"
  shows "from_parsed_array L (a\<lparr>contents := (contents a)[4 := c4]\<rparr>) =
    Ok (v\<lparr>ov_contents := a\<lparr>contents := (contents a)[4 := c4]\<rparr>, ov_entries := es\<rparr>)"
  using assms by (auto simp: from_parsed_array_def array_get_nth res_simps)

text \<open>Extending keeps a voucher sendable, as long as there are at most 65535 entries.\<close>

lemma extend_sendable:
  assumes v: "sendable_voucher L v" and "cose_doc L" "array_len (ov_entries v) < 65535"
    and "voucher_extend L v k ex np = Ok v'"
  shows "sendable_voucher L v'"
proof -
  from assms(4) obtain pd cs bs where cs: "cosesign_new L pd None k = Ok cs" "cosesign_ser L cs = Ok bs"
      "extends_with L v v' bs"
    by (rule extend_Ok)
  have item: "one_item bs" using cosesign_new_item [OF assms(2) cs(1)] cs(2) by auto
  let ?es = "(ov_entries v)\<lparr>contents := contents (ov_entries v) @ [bs]\<rparr>"
  from cs(3) obtain c4 where c4: "serialize_to_writer L ?es = Ok c4" and
    v': "v' = v\<lparr>ov_entries := ?es, ov_contents := (ov_contents v)\<lparr>contents := (contents (ov_contents v))[4 := c4]\<rparr>\<rparr>"
    by (auto simp: extends_with_def)
  note s = v [unfolded sendable_voucher_def]
  have es: "tag ?es = None" "list_all one_item (contents ?es)" "length (contents ?es) \<le> 65535"
    using s item assms(3) by (simp_all add: array_len_def)
  with entries_roundtrip [OF _ es c4] s obtain a' where a': "one_item c4" "dynamic_des c4 = Ok a'" "same_array ?es a'"
    by (auto simp: voucher_codecs_def)
  from s obtain v0 where v0: "from_parsed_array L (ov_contents v) = Ok v0" "equiv_voucher v v0" by blast
  let ?v0 = "v0\<lparr>ov_contents := ov_contents v', ov_entries := a'\<rparr>"
  have "from_parsed_array L (ov_contents v') = Ok ?v0"
    using from_parsed_array_entries [OF v0(1) _ a'(2)] s v' by simp
  moreover have "equiv_voucher v' ?v0"
    using v0(2) a'(3) v' by (simp add: equiv_voucher_def same_array_def)
  moreover have "list_all one_item ((contents (ov_contents v))[4 := c4])"
    using s a'(1) by (auto simp: list_all_iff dest!: set_update_subset_insert [THEN subsetD])
  ultimately show ?thesis using s es(1,2) unfolding sendable_voucher_def by (auto simp: v')
qed

interpretation sent_vouchers:
  deserializable_many "voucher_ser L" "voucher_read L" "sendable_voucher L" equiv_voucher is_nodata_error for L
proof unfold_locales
  fix v assume "sendable_voucher L v"
  then show "\<exists>bs. voucher_ser L v = Ok bs \<and> (\<forall>r. \<exists>v'. voucher_read L (bs @ r) = Ok (v', r) \<and> equiv_voucher v v')"
    using sendable_roundtrip by blast
qed (rule vouchers.read_empty, rule vouchers.read_progress)

section \<open>Vouchers that are handed on\<close>

text \<open>\<open>handed_on L n v\<close>: a new voucher was extended \<open>n\<close> times, each time by its owner, to the next.\<close>

inductive handed_on :: "'z vlib_scheme \<Rightarrow> nat \<Rightarrow> voucher \<Rightarrow> bool" for L where
  made: "fresh_voucher L v \<Longrightarrow> handed_on L 0 v"
| extended: "handed_on L n v \<Longrightarrow> n < 65535 \<Longrightarrow> wf_public_key L np \<Longrightarrow> voucher_extend L v k ex np = Ok v' \<Longrightarrow>
    handed_on L (Suc n) v'"

lemma handed_on_chain:
  assumes "handed_on L n v" "cose_doc L" "memcmp_doc L" "codec_doc (c_entry L)"
  shows "sendable_voucher L v \<and> (\<exists>ps. length ps = n \<and> chain_ok L v ps)"
  using assms(1)
proof (induction rule: handed_on.induct)
  case (made v)
  then have "ov_entries v = new_empty" by (auto simp: fresh_voucher_def elim!: voucher_new_contents)
  then have "chain_ok L v []" by (simp add: chain_ok_def array_len_def new_empty_def)
  with fresh_sendable [OF made] show ?case by (intro conjI exI [of _ "[]"]) simp_all
next
  case (extended n v np k ex v')
  then obtain ps where ps: "length ps = n" "chain_ok L v ps" and s: "sendable_voucher L v" by blast
  from extend_chain [OF assms(2-4) extended.hyps(3) ps(2) extended.hyps(4)] obtain p where
    "chain_ok L v' (ps @ [p])" by blast
  moreover have "sendable_voucher L v'"
    using extend_sendable [OF s assms(2) _ extended.hyps(4)] extended.hyps(2) ps by (simp add: chain_ok_def)
  ultimately show ?case using ps(1) by (intro conjI exI [of _ "ps @ [p]"]) simp_all
qed

section \<open>Properties\<close>


end
