(* ===== verification/Messages.thy ===== *)
theory Messages
  imports Constants
begin

text \<open>
  The \<open>Message\<close> trait of \<open>data-formats/src/messages/mod.rs\<close> and its implementations under
  \<open>messages/v11/\<close>. The associated functions of an implementation are the fields of a
  \<open>message_spec\<close>: the message type, the messages it may follow, whether it must or must not
  be encrypted, the protocol version and the HTTP status. The marker traits \<open>ClientMessage\<close>
  and \<open>ServerMessage\<close> are the field \<open>sender\<close> (the error message implements both).

  A run is a sequence of messages each of which accepts its predecessor, from the start of a
  session. The theorems describe the runs that the \<open>is_valid_previous_message\<close> functions
  admit.
\<close>

section \<open>The Message trait\<close>

datatype encryption_requirement = MustBeEncrypted | MustNotBeEncrypted

datatype sender = Client | Server | Either

record message_spec =
  message_type :: message_type
  is_valid_previous_message :: "message_type option \<Rightarrow> bool"
  encryption_requirement :: "encryption_requirement option"
  protocol_version :: protocol_version
  status_code :: nat
  sender :: sender

section \<open>The messages of version 1.1\<close>

subsection \<open>TO0: owner to rendezvous server\<close>

definition to0_Hello :: message_spec where
  "to0_Hello = \<lparr>message_type = TO0Hello, is_valid_previous_message = (\<lambda>p. p = None),
     encryption_requirement = Some MustNotBeEncrypted, protocol_version = Version1_1, status_code = 200,
     sender = Client\<rparr>"

definition to0_HelloAck :: message_spec where
  "to0_HelloAck = \<lparr>message_type = TO0HelloAck, is_valid_previous_message = (\<lambda>p. p = Some TO0Hello),
     encryption_requirement = Some MustNotBeEncrypted, protocol_version = Version1_1, status_code = 200,
     sender = Server\<rparr>"

definition to0_OwnerSign :: message_spec where
  "to0_OwnerSign = \<lparr>message_type = TO0OwnerSign, is_valid_previous_message = (\<lambda>p. p = Some TO0HelloAck),
     encryption_requirement = Some MustNotBeEncrypted, protocol_version = Version1_1, status_code = 200,
     sender = Client\<rparr>"

definition to0_AcceptOwner :: message_spec where
  "to0_AcceptOwner = \<lparr>message_type = TO0AcceptOwner, is_valid_previous_message = (\<lambda>p. p = Some TO0OwnerSign),
     encryption_requirement = Some MustNotBeEncrypted, protocol_version = Version1_1, status_code = 200,
     sender = Server\<rparr>"

subsection \<open>TO1: device to rendezvous server\<close>

definition to1_HelloRV :: message_spec where
  "to1_HelloRV = \<lparr>message_type = TO1HelloRV, is_valid_previous_message = (\<lambda>p. p = None),
     encryption_requirement = Some MustNotBeEncrypted, protocol_version = Version1_1, status_code = 200,
     sender = Client\<rparr>"

definition to1_HelloRVAck :: message_spec where
  "to1_HelloRVAck = \<lparr>message_type = TO1HelloRVAck, is_valid_previous_message = (\<lambda>p. p = Some TO1HelloRV),
     encryption_requirement = Some MustNotBeEncrypted, protocol_version = Version1_1, status_code = 200,
     sender = Server\<rparr>"

definition to1_ProveToRV :: message_spec where
  "to1_ProveToRV = \<lparr>message_type = TO1ProveToRV, is_valid_previous_message = (\<lambda>p. p = Some TO1HelloRVAck),
     encryption_requirement = Some MustNotBeEncrypted, protocol_version = Version1_1, status_code = 200,
     sender = Client\<rparr>"

definition to1_RVRedirect :: message_spec where
  "to1_RVRedirect = \<lparr>message_type = TO1RVRedirect, is_valid_previous_message = (\<lambda>p. p = Some TO1ProveToRV),
     encryption_requirement = Some MustNotBeEncrypted, protocol_version = Version1_1, status_code = 200,
     sender = Server\<rparr>"

subsection \<open>TO2: device to owner\<close>

definition to2_HelloDevice :: message_spec where
  "to2_HelloDevice = \<lparr>message_type = TO2HelloDevice, is_valid_previous_message = (\<lambda>p. p = None),
     encryption_requirement = Some MustNotBeEncrypted, protocol_version = Version1_1, status_code = 200,
     sender = Client\<rparr>"

definition to2_ProveOVHdr :: message_spec where
  "to2_ProveOVHdr = \<lparr>message_type = TO2ProveOVHdr, is_valid_previous_message = (\<lambda>p. p = Some TO2HelloDevice),
     encryption_requirement = Some MustNotBeEncrypted, protocol_version = Version1_1, status_code = 200,
     sender = Server\<rparr>"

definition to2_GetOVNextEntry :: message_spec where
  "to2_GetOVNextEntry = \<lparr>message_type = TO2GetOVNextEntry, is_valid_previous_message = (\<lambda>p. p = Some TO2ProveOVHdr \<or> p = Some TO2OVNextEntry),
     encryption_requirement = Some MustNotBeEncrypted, protocol_version = Version1_1, status_code = 200,
     sender = Client\<rparr>"

definition to2_OVNextEntry :: message_spec where
  "to2_OVNextEntry = \<lparr>message_type = TO2OVNextEntry, is_valid_previous_message = (\<lambda>p. p = Some TO2GetOVNextEntry),
     encryption_requirement = Some MustNotBeEncrypted, protocol_version = Version1_1, status_code = 200,
     sender = Server\<rparr>"

definition to2_ProveDevice :: message_spec where
  "to2_ProveDevice = \<lparr>message_type = TO2ProveDevice, is_valid_previous_message = (\<lambda>p. p = Some TO2OVNextEntry),
     encryption_requirement = Some MustNotBeEncrypted, protocol_version = Version1_1, status_code = 200,
     sender = Client\<rparr>"

definition to2_SetupDevice :: message_spec where
  "to2_SetupDevice = \<lparr>message_type = TO2SetupDevice, is_valid_previous_message = (\<lambda>p. p = Some TO2ProveDevice),
     encryption_requirement = Some MustBeEncrypted, protocol_version = Version1_1, status_code = 200,
     sender = Server\<rparr>"

definition to2_DeviceServiceInfoReady :: message_spec where
  "to2_DeviceServiceInfoReady = \<lparr>message_type = TO2DeviceServiceInfoReady, is_valid_previous_message = (\<lambda>p. p = Some TO2SetupDevice),
     encryption_requirement = Some MustBeEncrypted, protocol_version = Version1_1, status_code = 200,
     sender = Client\<rparr>"

definition to2_OwnerServiceInfoReady :: message_spec where
  "to2_OwnerServiceInfoReady = \<lparr>message_type = TO2OwnerServiceInfoReady, is_valid_previous_message = (\<lambda>p. p = Some TO2DeviceServiceInfoReady),
     encryption_requirement = Some MustBeEncrypted, protocol_version = Version1_1, status_code = 200,
     sender = Server\<rparr>"

definition to2_DeviceServiceInfo :: message_spec where
  "to2_DeviceServiceInfo = \<lparr>message_type = TO2DeviceServiceInfo, is_valid_previous_message = (\<lambda>p. p = Some TO2OwnerServiceInfoReady \<or> p = Some TO2OwnerServiceInfo),
     encryption_requirement = Some MustBeEncrypted, protocol_version = Version1_1, status_code = 200,
     sender = Client\<rparr>"

definition to2_OwnerServiceInfo :: message_spec where
  "to2_OwnerServiceInfo = \<lparr>message_type = TO2OwnerServiceInfo, is_valid_previous_message = (\<lambda>p. p = Some TO2DeviceServiceInfo),
     encryption_requirement = Some MustBeEncrypted, protocol_version = Version1_1, status_code = 200,
     sender = Server\<rparr>"

definition to2_Done :: message_spec where
  "to2_Done = \<lparr>message_type = TO2Done, is_valid_previous_message = (\<lambda>p. p = Some TO2OwnerServiceInfo),
     encryption_requirement = Some MustBeEncrypted, protocol_version = Version1_1, status_code = 200,
     sender = Client\<rparr>"

definition to2_Done2 :: message_spec where
  "to2_Done2 = \<lparr>message_type = TO2Done2, is_valid_previous_message = (\<lambda>p. p = Some TO2Done),
     encryption_requirement = Some MustBeEncrypted, protocol_version = Version1_1, status_code = 200,
     sender = Server\<rparr>"

subsection \<open>DI: device initialisation\<close>

definition di_AppStart :: message_spec where
  "di_AppStart = \<lparr>message_type = DIAppStart, is_valid_previous_message = (\<lambda>p. p = None \<or> p = Some DIUNDone),
     encryption_requirement = None, protocol_version = Version1_1, status_code = 200,
     sender = Client\<rparr>"

definition di_SetCredentials :: message_spec where
  "di_SetCredentials = \<lparr>message_type = DISetCredentials, is_valid_previous_message = (\<lambda>p. p = Some DIAppStart),
     encryption_requirement = None, protocol_version = Version1_1, status_code = 200,
     sender = Server\<rparr>"

definition di_SetHMAC :: message_spec where
  "di_SetHMAC = \<lparr>message_type = DISetHMAC, is_valid_previous_message = (\<lambda>p. p = Some DISetCredentials),
     encryption_requirement = None, protocol_version = Version1_1, status_code = 200,
     sender = Client\<rparr>"

definition di_Done :: message_spec where
  "di_Done = \<lparr>message_type = DIDone, is_valid_previous_message = (\<lambda>p. p = Some DISetHMAC),
     encryption_requirement = None, protocol_version = Version1_1, status_code = 200,
     sender = Server\<rparr>"

subsection \<open>DIUN: the onboarding key negotiation before DI\<close>

definition diun_Connect :: message_spec where
  "diun_Connect = \<lparr>message_type = DIUNConnect, is_valid_previous_message = (\<lambda>p. p = None),
     encryption_requirement = Some MustNotBeEncrypted, protocol_version = Version1_1, status_code = 200,
     sender = Client\<rparr>"

definition diun_Accept :: message_spec where
  "diun_Accept = \<lparr>message_type = DIUNAccept, is_valid_previous_message = (\<lambda>p. p = Some DIUNConnect),
     encryption_requirement = Some MustNotBeEncrypted, protocol_version = Version1_1, status_code = 200,
     sender = Server\<rparr>"

definition diun_RequestKeyParameters :: message_spec where
  "diun_RequestKeyParameters = \<lparr>message_type = DIUNRequestKeyParameters, is_valid_previous_message = (\<lambda>p. p = Some DIUNAccept),
     encryption_requirement = Some MustNotBeEncrypted, protocol_version = Version1_1, status_code = 200,
     sender = Client\<rparr>"

definition diun_ProvideKeyParameters :: message_spec where
  "diun_ProvideKeyParameters = \<lparr>message_type = DIUNProvideKeyParameters, is_valid_previous_message = (\<lambda>p. p = Some DIUNRequestKeyParameters),
     encryption_requirement = Some MustBeEncrypted, protocol_version = Version1_1, status_code = 200,
     sender = Server\<rparr>"

definition diun_ProvideKey :: message_spec where
  "diun_ProvideKey = \<lparr>message_type = DIUNProvideKey, is_valid_previous_message = (\<lambda>p. p = Some DIUNProvideKeyParameters),
     encryption_requirement = Some MustBeEncrypted, protocol_version = Version1_1, status_code = 200,
     sender = Client\<rparr>"

definition diun_Done :: message_spec where
  "diun_Done = \<lparr>message_type = DIUNDone, is_valid_previous_message = (\<lambda>p. p = Some DIUNProvideKey),
     encryption_requirement = Some MustBeEncrypted, protocol_version = Version1_1, status_code = 200,
     sender = Server\<rparr>"

subsection \<open>The error message\<close>

definition error_message_spec :: message_spec where
  "error_message_spec = \<lparr>message_type = Error, is_valid_previous_message = (\<lambda>_. True),
     encryption_requirement = None, protocol_version = Version1_1, status_code = 500,
     sender = Either\<rparr>"

definition protocol_messages :: "message_spec list" where
  "protocol_messages =
     [to0_Hello, to0_HelloAck, to0_OwnerSign, to0_AcceptOwner,
      to1_HelloRV, to1_HelloRVAck, to1_ProveToRV, to1_RVRedirect,
      to2_HelloDevice, to2_ProveOVHdr, to2_GetOVNextEntry, to2_OVNextEntry,
      to2_ProveDevice, to2_SetupDevice, to2_DeviceServiceInfoReady, to2_OwnerServiceInfoReady,
      to2_DeviceServiceInfo, to2_OwnerServiceInfo, to2_Done, to2_Done2,
      di_AppStart, di_SetCredentials, di_SetHMAC, di_Done,
      diun_Connect, diun_Accept, diun_RequestKeyParameters, diun_ProvideKeyParameters,
      diun_ProvideKey, diun_Done]"

lemmas message_defs =
  to0_Hello_def to0_HelloAck_def to0_OwnerSign_def to0_AcceptOwner_def
  to1_HelloRV_def to1_HelloRVAck_def to1_ProveToRV_def to1_RVRedirect_def
  to2_HelloDevice_def to2_ProveOVHdr_def to2_GetOVNextEntry_def to2_OVNextEntry_def
  to2_ProveDevice_def to2_SetupDevice_def to2_DeviceServiceInfoReady_def to2_OwnerServiceInfoReady_def
  to2_DeviceServiceInfo_def to2_OwnerServiceInfo_def to2_Done_def to2_Done2_def
  di_AppStart_def di_SetCredentials_def di_SetHMAC_def di_Done_def
  diun_Connect_def diun_Accept_def diun_RequestKeyParameters_def diun_ProvideKeyParameters_def
  diun_ProvideKey_def diun_Done_def
  error_message_spec_def

section \<open>Runs\<close>

fun run_from :: "message_type option \<Rightarrow> message_spec list \<Rightarrow> bool" where
  "run_from p [] \<longleftrightarrow> True"
| "run_from p (m # ms) \<longleftrightarrow> is_valid_previous_message m p \<and> run_from (Some (message_type m)) ms"

datatype protocol = DI | TO0 | TO1 | TO2 | NoProtocol

fun protocol_of :: "message_type \<Rightarrow> protocol" where
  "protocol_of t =
     (if t \<in> {TO0Hello, TO0HelloAck, TO0OwnerSign, TO0AcceptOwner} then TO0
      else if t \<in> {TO1HelloRV, TO1HelloRVAck, TO1ProveToRV, TO1RVRedirect} then TO1
      else if t \<in> {Invalid, Error} then NoProtocol
      else if t \<in> {DIAppStart, DISetCredentials, DISetHMAC, DIDone, DIUNConnect, DIUNAccept,
        DIUNRequestKeyParameters, DIUNProvideKeyParameters, DIUNProvideKey, DIUNDone} then DI
      else TO2)"

lemma run_from_append:
  "run_from p (ms @ [m]) \<longleftrightarrow> run_from p ms \<and>
     is_valid_previous_message m (if ms = [] then p else Some (message_type (last ms)))"
  by (induction ms arbitrary: p) auto

text \<open>A run of protocol messages has a predecessor for each of its members but the first.\<close>

lemma run_from_step:
  assumes "run_from None ms" "Suc i < length ms"
  shows "is_valid_previous_message (ms ! Suc i) (Some (message_type (ms ! i)))"
proof -
  have "run_from p ms \<Longrightarrow> Suc i < length ms \<Longrightarrow>
      is_valid_previous_message (ms ! Suc i) (Some (message_type (ms ! i)))" for p
  proof (induction ms arbitrary: p i)
    case (Cons m ms)
    then show ?case by (cases i; cases ms) auto
  qed simp
  with assms show ?thesis by blast
qed

lemma run_from_first: "run_from None ms \<Longrightarrow> ms \<noteq> [] \<Longrightarrow> is_valid_previous_message (ms ! 0) None"
  by (cases ms) auto

text \<open>\<open>next_ok m m'\<close> collects what one step of a run guarantees; it is decided on the table of
  messages.\<close>

definition next_ok :: "message_spec \<Rightarrow> message_spec \<Rightarrow> bool" where
  "next_ok m m' \<longleftrightarrow> (sender m = Client) \<noteq> (sender m' = Client) \<and>
     protocol_of (message_type m') = protocol_of (message_type m) \<and>
     (encryption_requirement m = Some MustBeEncrypted \<longrightarrow>
        encryption_requirement m' = Some MustBeEncrypted \<or>
        (message_type m = DIUNDone \<and> message_type m' = DIAppStart))"

lemma next_ok_table:
  "\<forall>m\<in>set protocol_messages. \<forall>m'\<in>set protocol_messages.
     is_valid_previous_message m' (Some (message_type m)) \<longrightarrow> next_ok m m'"
  by (simp add: protocol_messages_def message_defs next_ok_def)

lemma first_table:
  "\<forall>m\<in>set protocol_messages. is_valid_previous_message m None \<longrightarrow> sender m = Client"
  by (simp add: protocol_messages_def message_defs)

text \<open>The types of the messages that may follow a given one, and the sequences of types
  (\<open>traces\<close>) of the runs after it.\<close>

definition next_types :: "message_type option \<Rightarrow> message_type list" where
  "next_types p = map message_type (filter (\<lambda>m. is_valid_previous_message m p) protocol_messages)"

fun traces :: "message_type option \<Rightarrow> message_type list \<Rightarrow> bool" where
  "traces p [] \<longleftrightarrow> True"
| "traces p (t # ts) \<longleftrightarrow> t \<in> set (next_types p) \<and> traces (Some t) ts"

lemma run_from_traces:
  "run_from p ms \<Longrightarrow> set ms \<subseteq> set protocol_messages \<Longrightarrow> traces p (map message_type ms)"
  by (induction ms arbitrary: p) (auto simp: next_types_def)

lemma next_types_first:
  "next_types None = [TO0Hello, TO1HelloRV, TO2HelloDevice, DIAppStart, DIUNConnect]"
  by (simp add: next_types_def protocol_messages_def message_defs)

lemma to2_first: "t \<in> set (next_types None) \<Longrightarrow> protocol_of t = TO2 \<Longrightarrow> t = TO2HelloDevice"
  by (auto simp: next_types_first)

lemma next_types_to2 [simp]:
  "next_types (Some TO2HelloDevice) = [TO2ProveOVHdr]"
  "next_types (Some TO2ProveOVHdr) = [TO2GetOVNextEntry]"
  "next_types (Some TO2GetOVNextEntry) = [TO2OVNextEntry]"
  "next_types (Some TO2OVNextEntry) = [TO2GetOVNextEntry, TO2ProveDevice]"
  "next_types (Some TO2ProveDevice) = [TO2SetupDevice]"
  "next_types (Some TO2SetupDevice) = [TO2DeviceServiceInfoReady]"
  "next_types (Some TO2DeviceServiceInfoReady) = [TO2OwnerServiceInfoReady]"
  "next_types (Some TO2OwnerServiceInfoReady) = [TO2DeviceServiceInfo]"
  "next_types (Some TO2DeviceServiceInfo) = [TO2OwnerServiceInfo]"
  "next_types (Some TO2OwnerServiceInfo) = [TO2DeviceServiceInfo, TO2Done]"
  "next_types (Some TO2Done) = [TO2Done2]"
  "next_types (Some TO2Done2) = []"
  by (simp_all add: next_types_def protocol_messages_def message_defs)

lemma traces_single:
  assumes "next_types p = [t]" "traces p ts" "ts \<noteq> []"
  obtains ts' where "ts = t # ts'" "traces (Some t) ts'"
  using assms by (cases ts) auto

text \<open>A request-response loop between \<open>x\<close> and \<open>y\<close> that is left through \<open>z\<close>.\<close>

lemma traces_loop:
  assumes "next_types (Some y) = [x, z]" "next_types (Some x) = [y]"
    and "traces (Some y) ts" "ts \<noteq> []" "last ts \<noteq> x" "last ts \<noteq> y"
  shows "\<exists>n ts'. ts = concat (replicate n [x, y]) @ z # ts' \<and> traces (Some z) ts'"
  using assms(3-)
proof (induction ts rule: length_induct)
  case (1 ts)
  then obtain t ts1 where ts: "ts = t # ts1" by (cases ts) auto
  show ?case
  proof (cases "t = z \<and> z \<noteq> x")
    case True
    with ts "1.prems" show ?thesis by (intro exI [of _ 0]) simp
  next
    case False
    with ts "1.prems" assms(1) have t: "t = x" "traces (Some x) ts1" "ts1 \<noteq> []" by auto
    from traces_single [OF assms(2) t(2,3)] obtain ts2 where
      ts2: "ts1 = y # ts2" "traces (Some y) ts2" by blast
    with ts "1.prems" have "ts2 \<noteq> []" "last ts2 \<noteq> x" "last ts2 \<noteq> y"
      by (cases "ts2 = []"; simp)+
    with ts ts2 "1.IH" obtain n ts' where
      "ts2 = concat (replicate n [x, y]) @ z # ts'" "traces (Some z) ts'"
      by (metis length_Cons lessI less_Suc_eq)
    with ts ts2 t show ?thesis by (intro exI [of _ "Suc n"]) simp
  qed
qed

definition to2_complete :: "nat \<Rightarrow> nat \<Rightarrow> message_type list" where
  "to2_complete a b =
     [TO2HelloDevice, TO2ProveOVHdr, TO2GetOVNextEntry, TO2OVNextEntry] @
     concat (replicate a [TO2GetOVNextEntry, TO2OVNextEntry]) @
     [TO2ProveDevice, TO2SetupDevice, TO2DeviceServiceInfoReady, TO2OwnerServiceInfoReady,
      TO2DeviceServiceInfo, TO2OwnerServiceInfo] @
     concat (replicate b [TO2DeviceServiceInfo, TO2OwnerServiceInfo]) @
     [TO2Done, TO2Done2]"

lemma traces_done2: "traces (Some TO2Done2) ts \<Longrightarrow> ts = []"
  by (cases ts) simp_all

text \<open>A stretch of a run without choice.\<close>

fun path :: "message_type \<Rightarrow> message_type list \<Rightarrow> bool" where
  "path t [] \<longleftrightarrow> True"
| "path t (u # us) \<longleftrightarrow> next_types (Some t) = [u] \<and> path u us"

lemma traces_path:
  assumes "path t us" "traces (Some t) ts" "ts \<noteq> []" "last ts \<notin> set us"
  shows "\<exists>ts'. ts = us @ ts' \<and> ts' \<noteq> [] \<and> traces (Some (last (t # us))) ts'"
  using assms
proof (induction us arbitrary: t ts)
  case (Cons u us)
  then obtain ts1 where ts1: "ts = u # ts1" "traces (Some u) ts1"
    using traces_single [of "Some t" u ts] by auto
  with Cons.prems have "ts1 \<noteq> []" "last ts1 \<notin> set us" by (cases "ts1 = []"; simp)+
  with Cons.IH [of u ts1] Cons.prems ts1 show ?case by auto
qed simp

lemma to2_trace_tail:
  assumes "traces (Some TO2ProveDevice) ts" "ts \<noteq> []" "last ts = TO2Done2"
  shows "\<exists>b. ts = [TO2SetupDevice, TO2DeviceServiceInfoReady, TO2OwnerServiceInfoReady,
      TO2DeviceServiceInfo, TO2OwnerServiceInfo] @
      concat (replicate b [TO2DeviceServiceInfo, TO2OwnerServiceInfo]) @ [TO2Done, TO2Done2]"
proof -
  obtain ts1 where 1: "ts = [TO2SetupDevice, TO2DeviceServiceInfoReady, TO2OwnerServiceInfoReady,
      TO2DeviceServiceInfo, TO2OwnerServiceInfo] @ ts1" "ts1 \<noteq> []" "traces (Some TO2OwnerServiceInfo) ts1"
    using traces_path [of TO2ProveDevice "[TO2SetupDevice, TO2DeviceServiceInfoReady,
      TO2OwnerServiceInfoReady, TO2DeviceServiceInfo, TO2OwnerServiceInfo]" ts] assms by auto
  with assms obtain b ts2 where 2: "traces (Some TO2Done) ts2"
      "ts1 = concat (replicate b [TO2DeviceServiceInfo, TO2OwnerServiceInfo]) @ TO2Done # ts2"
    using traces_loop [OF next_types_to2(10) next_types_to2(9), of ts1] by auto
  with 1 assms have "ts2 \<noteq> []" by auto
  with 2(1) obtain ts3 where "ts2 = TO2Done2 # ts3" "traces (Some TO2Done2) ts3"
    using traces_single [OF next_types_to2(11)] by blast
  with 1 2 traces_done2 show ?thesis by auto
qed

section \<open>Properties\<close>

lemma run_protocol:
  assumes "run_from None ms" "set ms \<subseteq> set protocol_messages" "i < length ms"
  shows "(sender (ms ! i) = Client \<longleftrightarrow> even i) \<and>
    protocol_of (message_type (ms ! i)) = protocol_of (message_type (ms ! 0))"
  using assms(3)
proof (induction i)
  case 0
  then have "ms ! 0 \<in> set protocol_messages" using assms(2) by (meson nth_mem subsetD)
  with 0 assms(1) run_from_first [of ms] first_table show ?case by auto
next
  case (Suc i)
  with assms(1,2) run_from_step [of ms i] next_ok_table have "next_ok (ms ! i) (ms ! Suc i)"
    by (meson Suc_lessD nth_mem subsetD)
  with Suc show ?case by (auto simp: next_ok_def)
qed

lemma to2_encryption_table:
  "\<forall>m\<in>set protocol_messages.
     (protocol_of (message_type m) = TO2 \<longrightarrow> encryption_requirement m = Some MustBeEncrypted \<or>
        encryption_requirement m = Some MustNotBeEncrypted) \<and>
     (message_type m = TO2ProveDevice \<longrightarrow> encryption_requirement m = Some MustNotBeEncrypted) \<and>
     (is_valid_previous_message m (Some TO2ProveDevice) \<longrightarrow>
        encryption_requirement m = Some MustBeEncrypted)"
  by (simp add: protocol_messages_def message_defs)

lemma run_encryption_mono:
  assumes "run_from None ms" "set ms \<subseteq> set protocol_messages"
    and "i \<le> k" "k < length ms" "encryption_requirement (ms ! i) = Some MustBeEncrypted"
    and "protocol_of (message_type (ms ! k)) = TO2"
  shows "encryption_requirement (ms ! k) = Some MustBeEncrypted"
  using assms(3-)
proof (induction k rule: dec_induct)
  case (step k)
  from step.prems assms(1,2) run_from_step [of ms k] next_ok_table
  have n: "next_ok (ms ! k) (ms ! Suc k)" by (meson Suc_lessD nth_mem subsetD)
  with step.prems have "protocol_of (message_type (ms ! k)) = TO2"
    unfolding next_ok_def by metis
  moreover from this have "message_type (ms ! k) \<noteq> DIUNDone" by auto
  ultimately show ?case using step n by (auto simp: next_ok_def simp del: protocol_of.simps)
qed

text \<open>C18: in every run of protocol messages from the start of a session, client and server
  messages strictly alternate, the client speaking first, and all messages belong to one
  protocol (DIUN counting as the first part of DI).\<close>

theorem run_alternates:
  assumes "run_from None ms" "set ms \<subseteq> set protocol_messages" "i < length ms"
  shows "(sender (ms ! i) = Client \<longleftrightarrow> even i) \<and>
    protocol_of (message_type (ms ! i)) = protocol_of (message_type (ms ! 0))"
  by (rule run_protocol [OF assms])

theorem run_alternates_witness:
  "(sender ([to1_HelloRV, to1_HelloRVAck, to1_ProveToRV] ! 1) = Client \<longleftrightarrow> even (1 :: nat)) \<and>
    protocol_of (message_type ([to1_HelloRV, to1_HelloRVAck, to1_ProveToRV] ! 1)) =
    protocol_of (message_type ([to1_HelloRV, to1_HelloRVAck, to1_ProveToRV] ! 0))"
  using run_alternates [of "[to1_HelloRV, to1_HelloRVAck, to1_ProveToRV]" 1]
  by (simp add: message_defs protocol_messages_def)

text \<open>C19: a TO2 run that reaches \<open>Done2\<close> has exactly the shape of the protocol: at least one
  voucher entry is fetched before the device proves itself, the device proves itself before
  any service info is exchanged, and at least one round of service info precedes \<open>Done\<close>.\<close>

theorem to2_complete_run:
  assumes "run_from None ms" "set ms \<subseteq> set protocol_messages" "ms \<noteq> []"
    and "message_type (last ms) = TO2Done2"
  shows "\<exists>a b. map message_type ms = to2_complete a b"
proof -
  let ?ts = "map message_type ms"
  from assms have tr: "traces None ?ts" "?ts \<noteq> []" and l: "last ?ts = TO2Done2"
    by (simp_all add: run_from_traces last_map)
  have "protocol_of (message_type (ms ! 0)) = TO2"
    using run_protocol [OF assms(1,2), of "length ms - 1"] assms(3,4) by (simp add: last_conv_nth)
  then have p: "protocol_of (hd ?ts) = TO2" using assms(3) by (metis hd_conv_nth list.map_sel(1))
  obtain t ts1 where t: "?ts = t # ts1" using tr(2) by (meson neq_Nil_conv)
  with tr(1) have "t \<in> set (next_types None)" "traces (Some t) ts1" by (simp_all only: traces.simps)
  with p t to2_first [of t] have 1: "?ts = TO2HelloDevice # ts1" "traces (Some TO2HelloDevice) ts1"
    by (simp_all only: list.sel)
  with l obtain ts2 where 2: "ts1 = [TO2ProveOVHdr, TO2GetOVNextEntry, TO2OVNextEntry] @ ts2"
      "ts2 \<noteq> []" "traces (Some TO2OVNextEntry) ts2"
    using traces_path [of TO2HelloDevice "[TO2ProveOVHdr, TO2GetOVNextEntry, TO2OVNextEntry]" ts1]
    by (auto split: if_splits)
  with 1 l obtain a ts3 where 3: "traces (Some TO2ProveDevice) ts3"
      "ts2 = concat (replicate a [TO2GetOVNextEntry, TO2OVNextEntry]) @ TO2ProveDevice # ts3"
    using traces_loop [OF next_types_to2(4) next_types_to2(3), of ts2] by auto
  moreover from this 1 2 l have "ts3 \<noteq> []" "last ts3 = TO2Done2" by (auto split: if_splits)
  ultimately show ?thesis
    using 1 2 to2_trace_tail [of ts3] by (auto simp: to2_complete_def)
qed

theorem to2_complete_run_witness:
  "\<exists>a b. map message_type [to2_HelloDevice, to2_ProveOVHdr, to2_GetOVNextEntry, to2_OVNextEntry,
      to2_ProveDevice, to2_SetupDevice, to2_DeviceServiceInfoReady, to2_OwnerServiceInfoReady,
      to2_DeviceServiceInfo, to2_OwnerServiceInfo, to2_Done, to2_Done2] = to2_complete a b"
  by (rule to2_complete_run) (simp_all add: message_defs protocol_messages_def)

text \<open>C20: in a TO2 run everything up to and including \<open>ProveDevice\<close> must be sent in the clear,
  and everything after it must be encrypted; no TO2 message leaves the choice open.\<close>

theorem to2_encryption_switch:
  assumes "run_from None ms" "set ms \<subseteq> set protocol_messages" "j < length ms" "k < length ms"
    and "message_type (ms ! j) = TO2ProveDevice"
  shows "encryption_requirement (ms ! k) =
    Some (if k \<le> j then MustNotBeEncrypted else MustBeEncrypted)"
proof -
  have to2: "protocol_of (message_type (ms ! i)) = TO2" if "i < length ms" for i
    using run_protocol [OF assms(1,2,3)] run_protocol [OF assms(1,2) that] assms(5) by simp
  have mem: "ms ! i \<in> set protocol_messages" if "i < length ms" for i
    using assms(2) that by (meson nth_mem subsetD)
  show ?thesis
  proof (cases "k \<le> j")
    case True
    from to2_encryption_table mem [OF assms(3)] assms(5)
    have "encryption_requirement (ms ! j) = Some MustNotBeEncrypted" by blast
    with True assms run_encryption_mono [OF assms(1,2), of k j] to2
    have "encryption_requirement (ms ! k) \<noteq> Some MustBeEncrypted" by auto
    with True to2_encryption_table mem to2 assms(4) show ?thesis by simp blast
  next
    case False
    then have "Suc j < length ms" using assms(4) by simp
    from run_from_step [OF assms(1) this] mem [OF this] assms(5) to2_encryption_table
    have "encryption_requirement (ms ! Suc j) = Some MustBeEncrypted" by auto
    with False run_encryption_mono [OF assms(1,2), of "Suc j" k] to2 assms(4) show ?thesis by simp
  qed
qed

theorem to2_encryption_switch_witness:
  "encryption_requirement ([to2_HelloDevice, to2_ProveOVHdr, to2_GetOVNextEntry, to2_OVNextEntry,
     to2_ProveDevice, to2_SetupDevice] ! 5) = Some (if (5 :: nat) \<le> 4 then MustNotBeEncrypted else MustBeEncrypted)"
  by (rule to2_encryption_switch [where j = 4]) (simp_all add: message_defs protocol_messages_def)


end
