(* ===== verification/Payloads.thy ===== *)
theory Payloads
  imports Voucher_Transport Messages
begin

unbundle bit_operations_syntax

text \<open>
  The contents of messages: the payload structs of \<open>data-formats/src/types.rs\<close> (\<open>TO2AddressEntry\<close>,
  \<open>TO0Data\<close>, \<open>TO1DataPayload\<close>, \<open>TO2ProveOVHdrPayload\<close>, \<open>TO2SetupDevicePayload\<close>,
  \<open>TO2ProveDevicePayload\<close>), the message structs of \<open>messages/v11\<close> with their (de)serialisation, the
  error message, and \<open>StoredItem\<close> of \<open>serializable.rs\<close>. Structs with derived serde implementations
  are written through a codec of the library record; structs that keep a parsed array are modelled
  byte for byte.
\<close>

section \<open>Library functions\<close>

type_synonym address_tuple = "bytes option \<times> string option \<times> nat \<times> transport_protocol"
type_synonym setup_tuple = "rendezvous_info \<times> bytes \<times> bytes \<times> key_tuple"
type_synonym error_tuple = "error_code \<times> message_type \<times> string \<times> cbor_value option \<times> nat"

record plib = vlib +
  hex_encode :: "bytes \<Rightarrow> string"
  uuid_fmt :: "bytes \<Rightarrow> string"
  uuid_parse :: "string \<Rightarrow> bytes option"
  c_to1d :: "(address_tuple list \<times> hash_tuple) codec"
  c_setup :: "setup_tuple codec"
  c_error :: "error_tuple codec"
  v_key :: "key_tuple vcodec"
  v_prove_device :: "bytes vcodec"

text \<open>\<open>hex\<close> decodes what it encodes; a UUID is parsed from its own text, which is made of hexadecimal
  digits and dashes.\<close>

definition text_doc :: "'z plib_scheme \<Rightarrow> bool" where
  "text_doc L \<longleftrightarrow> (\<forall>b. hex_decode L (hex_encode L b) = Some b) \<and>
     (\<forall>b. length b = 16 \<longrightarrow> uuid_parse L (uuid_fmt L b) = Some b) \<and>
     (\<forall>b. length b = 16 \<longrightarrow> uuid_fmt L b \<noteq> [] \<and> set (uuid_fmt L b) \<subseteq> set ''0123456789abcdef-'') \<and>
     (\<forall>s b. uuid_parse L s = Some b \<longrightarrow> length b = 16)"

section \<open>Text forms\<close>

definition nonce_fmt :: "'z plib_scheme \<Rightarrow> nonce \<Rightarrow> string" where
  "nonce_fmt L n = hex_encode L (nonce_bytes n)"

text \<open>\<open>as_uuid\<close> unwraps the conversion to an array of 16 bytes.\<close>

definition guid_key :: "'z plib_scheme \<Rightarrow> guid \<Rightarrow> string option" where
  "guid_key L g = (if length (guid_bytes g) \<noteq> 16 then None else Some (uuid_fmt L (guid_bytes g)))"

definition guid_fmt :: "'z plib_scheme \<Rightarrow> guid \<Rightarrow> ('e, string) res" where
  "guid_fmt L g = unwrap_opt (guid_key L g)"

definition guid_from_str :: "'z plib_scheme \<Rightarrow> string \<Rightarrow> guid option" where
  "guid_from_str L s = map_option Guid (uuid_parse L s)"

lemma nonce_text_roundtrip:
  "text_doc L \<Longrightarrow> length (nonce_bytes n) = 16 \<Longrightarrow> nonce_from_str L (nonce_fmt L n) = Ok n"
  by (simp add: text_doc_def nonce_from_str_def nonce_fmt_def)

lemma guid_text_roundtrip:
  "text_doc L \<Longrightarrow> guid_fmt L g = Ok s \<Longrightarrow> guid_from_str L s = Some g"
  by (auto simp: text_doc_def guid_fmt_def guid_key_def guid_from_str_def split: if_splits)

section \<open>TO0 and TO1\<close>

record to2_address =
  ta_ip :: "ip_address option"
  ta_dns :: "string option"
  ta_port :: nat
  ta_protocol :: transport_protocol

record to1_data_payload =
  to2_addresses :: "to2_address list"
  to1d_to_to0d_hash :: hash

definition address_tuple :: "to2_address \<Rightarrow> address_tuple" where
  "address_tuple a = (map_option ip_octets (ta_ip a), ta_dns a, ta_port a, ta_protocol a)"

definition tuple_address :: "address_tuple \<Rightarrow> to2_address result" where
  "tuple_address t = (case t of (ip, dns, port, protocol) \<Rightarrow>
     rbind (case ip of None \<Rightarrow> Ok None | Some os \<Rightarrow> rmap Some (ip_address_visit_bytes os)) (\<lambda>ip.
     Ok \<lparr>ta_ip = ip, ta_dns = dns, ta_port = port, ta_protocol = protocol\<rparr>))"

definition to1d_payload_ser :: "'z plib_scheme \<Rightarrow> to1_data_payload \<Rightarrow> bytes result" where
  "to1d_payload_ser L p =
     serde_ser (c_to1d L) (map address_tuple (to2_addresses p), hash_tuple (to1d_to_to0d_hash p))"

definition to1d_payload_des :: "'z plib_scheme \<Rightarrow> bytes \<Rightarrow> to1_data_payload result" where
  "to1d_payload_des L bs =
     rbind (serde_des (c_to1d L) bs) (\<lambda>(addrs, h).
     rbind (rtraverse tuple_address addrs) (\<lambda>addrs.
     Ok \<lparr>to2_addresses = addrs, to1d_to_to0d_hash = tuple_hash h\<rparr>))"

record to0_data =
  td_contents :: parsed_array
  td_ownership_voucher :: voucher
  td_wait_seconds :: nat
  td_nonce :: nonce

definition to0_data_read :: "'z plib_scheme \<Rightarrow> bytes \<Rightarrow> (to0_data \<times> bytes) result" where
  "to0_data_read L reader =
     rbind (deserialize_from_reader (Some 3) reader) (\<lambda>(contents, reader').
     rbind (array_get (Some 3) contents 0 (voucher_des L)) (\<lambda>ov.
     rbind (array_get (Some 3) contents 1 (serde_des (c_u32 L))) (\<lambda>wait.
     rbind (array_get (Some 3) contents 2 (nonce_des L)) (\<lambda>nonce.
     Ok (\<lparr>td_contents = contents, td_ownership_voucher = ov, td_wait_seconds = wait, td_nonce = nonce\<rparr>,
         reader')))))"

definition to0_data_ser :: "'z plib_scheme \<Rightarrow> to0_data \<Rightarrow> bytes result" where
  "to0_data_ser L d = serialize_to_writer L (td_contents d)"

definition to0_data_new :: "'z plib_scheme \<Rightarrow> voucher \<Rightarrow> nat \<Rightarrow> nonce \<Rightarrow> to0_data result" where
  "to0_data_new L ov wait nonce =
     rbind (build_array [voucher_ser L ov, serde_ser (c_u32 L) wait, nonce_ser L nonce]) (\<lambda>contents.
     Ok \<lparr>td_contents = contents, td_ownership_voucher = ov, td_wait_seconds = wait, td_nonce = nonce\<rparr>)"

record owner_sign =
  ow_contents :: parsed_array
  ow_to0d :: bytes
  ow_to1d :: cosesign

definition owner_sign_read :: "'z plib_scheme \<Rightarrow> bytes \<Rightarrow> (owner_sign \<times> bytes) result" where
  "owner_sign_read L reader =
     rbind (deserialize_from_reader (Some 2) reader) (\<lambda>(contents, reader').
     rbind (array_get (Some 2) contents 0 (serde_des (c_bytebuf L))) (\<lambda>to0d.
     rbind (array_get (Some 2) contents 1 (cosesign_des L)) (\<lambda>to1d.
     Ok (\<lparr>ow_contents = contents, ow_to0d = to0d, ow_to1d = to1d\<rparr>, reader'))))"

definition owner_sign_ser :: "'z plib_scheme \<Rightarrow> owner_sign \<Rightarrow> bytes result" where
  "owner_sign_ser L m = serialize_to_writer L (ow_contents m)"

definition owner_sign_new :: "'z plib_scheme \<Rightarrow> bytes \<Rightarrow> cosesign \<Rightarrow> owner_sign result" where
  "owner_sign_new L to0d to1d =
     rbind (build_array [serde_ser (c_bytebuf L) to0d, cosesign_ser L to1d]) (\<lambda>contents.
     Ok \<lparr>ow_contents = contents, ow_to0d = to0d, ow_to1d = to1d\<rparr>)"

definition owner_sign_to0d :: "'z plib_scheme \<Rightarrow> owner_sign \<Rightarrow> to0_data result" where
  "owner_sign_to0d L m = deserialize_data (to0_data_read L) (ow_to0d m)"

definition to0d_hash :: "'z plib_scheme \<Rightarrow> owner_sign \<Rightarrow> hash_type \<Rightarrow> hash result" where
  "to0d_hash L m ht = hash_from_data L ht (ow_to0d m)"

datatype to0_hello = Hello
datatype to0_hello_ack = HelloAck (ha_nonce3: nonce)
datatype accept_owner = AcceptOwner (ao_wait_seconds: nat)

record hello_rv =
  hr_guid :: guid
  hr_a_signature_info :: sig_info

record hello_rv_ack =
  hra_nonce4 :: nonce
  hra_b_signature_info :: sig_info

datatype prove_to_rv = ProveToRV (ptr_token: cosesign)
datatype rv_redirect = RVRedirect (rvr_to1d: cosesign)

section \<open>TO2\<close>

text \<open>In Rust \<open>^\<close> is exclusive or: the constant meant to be \<open>2^16 - 1\<close> is 17.\<close>

definition MAX_MESSAGE_SIZE :: u16 where
  "MAX_MESSAGE_SIZE = (2 XOR 16) - 1"

record hello_device =
  hd_max_device_message_size :: u16
  hd_guid :: guid
  hd_nonce5 :: nonce
  hd_kex_suite :: kex_suite
  hd_cipher_suite :: cipher_suite
  hd_a_signature_info :: sig_info

definition hello_device_new ::
  "guid \<Rightarrow> nonce \<Rightarrow> kex_suite \<Rightarrow> cipher_suite \<Rightarrow> sig_info \<Rightarrow> hello_device" where
  "hello_device_new g n5 kex cipher sig =
     \<lparr>hd_max_device_message_size = MAX_MESSAGE_SIZE, hd_guid = g, hd_nonce5 = n5, hd_kex_suite = kex,
      hd_cipher_suite = cipher, hd_a_signature_info = sig\<rparr>"

record prove_ov_hdr_payload =
  po_contents :: parsed_array
  po_ov_header :: bytes
  po_num_ov_entries :: nat
  po_hmac :: hash
  po_nonce5 :: nonce
  po_b_signature_info :: sig_info
  po_a_key_exchange :: bytes
  po_hello_device_hash :: hash
  po_max_owner_message_size :: nat

definition sig_info_ser :: "'z codecs_scheme \<Rightarrow> sig_info \<Rightarrow> bytes result" where
  "sig_info_ser L s = serde_ser (c_siginfo L) (sig_type s, sig_info_bytes s)"

definition sig_info_des :: "'z codecs_scheme \<Rightarrow> bytes \<Rightarrow> sig_info result" where
  "sig_info_des L bs = rmap (\<lambda>(t, b). \<lparr>sig_type = t, sig_info_bytes = b\<rparr>) (serde_des (c_siginfo L) bs)"

definition prove_ov_hdr_read :: "'z plib_scheme \<Rightarrow> bytes \<Rightarrow> (prove_ov_hdr_payload \<times> bytes) result" where
  "prove_ov_hdr_read L reader =
     rbind (deserialize_from_reader (Some 8) reader) (\<lambda>(contents, reader').
     rbind (array_get (Some 8) contents 0 (serde_des (c_bytebuf L))) (\<lambda>hdr.
     rbind (array_get (Some 8) contents 1 (serde_des (c_u16 L))) (\<lambda>num.
     rbind (array_get (Some 8) contents 2 (hash_des L)) (\<lambda>hmac.
     rbind (array_get (Some 8) contents 3 (nonce_des L)) (\<lambda>n5.
     rbind (array_get (Some 8) contents 4 (sig_info_des L)) (\<lambda>sig.
     rbind (array_get (Some 8) contents 5 (serde_des (c_bytebuf L))) (\<lambda>kex.
     rbind (array_get (Some 8) contents 6 (hash_des L)) (\<lambda>hdhash.
     rbind (array_get (Some 8) contents 7 (serde_des (c_u16 L))) (\<lambda>maxsize.
     Ok (\<lparr>po_contents = contents, po_ov_header = hdr, po_num_ov_entries = num, po_hmac = hmac,
          po_nonce5 = n5, po_b_signature_info = sig, po_a_key_exchange = kex,
          po_hello_device_hash = hdhash, po_max_owner_message_size = maxsize\<rparr>, reader'))))))))))"

definition prove_ov_hdr_ser :: "'z plib_scheme \<Rightarrow> prove_ov_hdr_payload \<Rightarrow> bytes result" where
  "prove_ov_hdr_ser L p = serialize_to_writer L (po_contents p)"

definition prove_ov_hdr_new ::
  "'z plib_scheme \<Rightarrow> bytes \<Rightarrow> nat \<Rightarrow> hash \<Rightarrow> nonce \<Rightarrow> sig_info \<Rightarrow> bytes \<Rightarrow> hash \<Rightarrow> prove_ov_hdr_payload result" where
  "prove_ov_hdr_new L hdr num hmac n5 sig kex hdhash =
     rbind (build_array
       [serde_ser (c_bytebuf L) hdr, serde_ser (c_u16 L) num, hash_ser L hmac, nonce_ser L n5,
        sig_info_ser L sig, serde_ser (c_bytebuf L) kex, hash_ser L hdhash,
        serde_ser (c_u16 L) (unat MAX_MESSAGE_SIZE)]) (\<lambda>contents.
     Ok \<lparr>po_contents = contents, po_ov_header = hdr, po_num_ov_entries = num, po_hmac = hmac,
         po_nonce5 = n5, po_b_signature_info = sig, po_a_key_exchange = kex,
         po_hello_device_hash = hdhash, po_max_owner_message_size = unat MAX_MESSAGE_SIZE\<rparr>)"

datatype prove_ov_hdr = ProveOVHdr (pov_token: cosesign)
datatype get_ov_next_entry = GetOVNextEntry (gone_entry_num: u8)

record ov_next_entry =
  one_entry_num :: nat
  one_entry :: ov_entry

definition ov_next_entry_read :: "'z plib_scheme \<Rightarrow> bytes \<Rightarrow> (ov_next_entry \<times> bytes) result" where
  "ov_next_entry_read L reader =
     rbind (deserialize_from_reader (Some 2) reader) (\<lambda>(contents, reader').
     rbind (array_get (Some 2) contents 0 (serde_des (c_u16 L))) (\<lambda>num.
     rbind (array_get (Some 2) contents 1 (ov_entry_des L)) (\<lambda>entry.
     Ok (\<lparr>one_entry_num = num, one_entry = entry\<rparr>, reader'))))"

definition ov_next_entry_ser :: "'z plib_scheme \<Rightarrow> ov_next_entry \<Rightarrow> bytes result" where
  "ov_next_entry_ser L m =
     rbind (build_array [serde_ser (c_u16 L) (one_entry_num m), ov_entry_ser L (one_entry m)])
       (serialize_to_writer L)"

datatype prove_device = ProveDevice (pd_token: cosesign)
datatype setup_device = SetupDevice (sd_token: cosesign)

record setup_device_payload =
  sp_rendezvous_info :: rendezvous_info
  sp_guid :: guid
  sp_nonce7 :: nonce
  sp_owner2_key :: public_key

definition setup_payload_ser :: "'z plib_scheme \<Rightarrow> setup_device_payload \<Rightarrow> bytes result" where
  "setup_payload_ser L p =
     serde_ser (c_setup L) (sp_rendezvous_info p, guid_bytes (sp_guid p), nonce_bytes (sp_nonce7 p),
       key_tuple (sp_owner2_key p))"

definition setup_payload_des :: "'z plib_scheme \<Rightarrow> bytes \<Rightarrow> setup_device_payload result" where
  "setup_payload_des L bs =
     rbind (serde_des (c_setup L) bs) (\<lambda>(rv, g, n7, kt).
     rbind (rmap_err (\<lambda>_. SerdeCborError) (guid_try_from g)) (\<lambda>g.
     rbind (rmap_err (\<lambda>_. SerdeCborError) (nonce_try_from n7)) (\<lambda>n7.
     rbind (visit_key L kt) (\<lambda>k.
     Ok \<lparr>sp_rendezvous_info = rv, sp_guid = g, sp_nonce7 = n7, sp_owner2_key = k\<rparr>))))"

record device_service_info_ready =
  dsr_replacement_hmac :: "hash option"
  dsr_max_owner_service_info_size :: "nat option"

datatype owner_service_info_ready = OwnerServiceInfoReady (osr_max_size: "nat option")

record device_service_info =
  dsi_is_more :: bool
  dsi_service_info :: service_info

record owner_service_info =
  osi_is_more :: bool
  osi_is_done :: bool
  osi_service_info :: service_info

datatype to2_done = Done (dn_nonce6: nonce)
datatype to2_done2 = Done2 (dn_nonce7: nonce)

section \<open>Errors and stored items\<close>

record error_message =
  em_error_code :: error_code
  em_previous_message_type :: message_type
  em_error_string :: string
  em_error_timestamp :: "cbor_value option"
  em_error_uuid :: nat

definition error_message_new :: "error_code \<Rightarrow> message_type \<Rightarrow> string \<Rightarrow> nat \<Rightarrow> error_message" where
  "error_message_new code prev s uuid =
     \<lparr>em_error_code = code, em_previous_message_type = prev, em_error_string = s,
      em_error_timestamp = None, em_error_uuid = uuid\<rparr>"

definition error_message_ser :: "'z plib_scheme \<Rightarrow> error_message \<Rightarrow> bytes result" where
  "error_message_ser L m =
     serde_ser (c_error L) (em_error_code m, em_previous_message_type m, em_error_string m,
       em_error_timestamp m, em_error_uuid m)"

text \<open>\<open>Message::to_response\<close>: when the message cannot be serialised, an error message takes its place.\<close>

definition msg_to_response :: "'z plib_scheme \<Rightarrow> message_spec \<Rightarrow> bytes result \<Rightarrow> (unit, bytes) res" where
  "msg_to_response L M data =
     (case data of
        Ok v \<Rightarrow> Ok v
      | Panic \<Rightarrow> Panic
      | Err e \<Rightarrow> unwrap (error_message_ser L
          (error_message_new InternalServerError (message_spec.message_type M) ''Error serializing response'' 0)))"

record stored_item =
  si_public_key :: public_key
  si_to1d :: cosesign

definition stored_item_read :: "'z plib_scheme \<Rightarrow> bytes \<Rightarrow> (stored_item \<times> bytes) result" where
  "stored_item_read L reader =
     rbind (deserialize_from_reader (Some 2) reader) (\<lambda>(contents, reader').
     rbind (array_get (Some 2) contents 0 (public_key_des L)) (\<lambda>key.
     rbind (array_get (Some 2) contents 1 (cosesign_des L)) (\<lambda>to1d.
     Ok (\<lparr>si_public_key = key, si_to1d = to1d\<rparr>, reader'))))"

definition stored_item_ser :: "'z plib_scheme \<Rightarrow> stored_item \<Rightarrow> bytes result" where
  "stored_item_ser L i =
     rbind (build_array [public_key_ser L (si_public_key i), cosesign_ser L (si_to1d i)])
       (serialize_to_writer L)"

end
