(* ===== verification/Store.thy ===== *)
theory Store
  imports Serializable
begin

text \<open>
  The stores of \<open>store/src\<close>: the values of metadata and the \<open>Store\<close> trait of \<open>lib.rs\<close>, and its
  implementation in a directory (\<open>directory.rs\<close>).

  The state of a directory store is the directory: a map from file names to entries with their
  bytes and extended attributes. What the operating system decides is the argument \<open>E\<close>: the
  time (\<open>now\<close>, in nanoseconds since the epoch), whether a system call fails (\<open>io_ok\<close>), the order
  in which a directory is listed, and the order of a \<open>HashSet\<close>. An operation returns the new
  state with its outcome, because a failing operation may already have changed the directory.
  A key is given as the string that \<open>ToString\<close> makes of it; the keys of the servers are GUIDs and
  session identifiers, so the names \<open>""\<close>, \<open>"."\<close> and \<open>".."\<close>, which would lead out of the directory, do
  not occur. The texts of library errors inside \<open>StoreError::Unspecified\<close> are dropped.

  The contract that the servers rely on is the locale \<open>store_contract\<close>; the directory store is shown
  to satisfy it.
\<close>

section \<open>The trait\<close>

datatype store_error =
  Unspecified string | Configuration string | MethodNotAvailable | Database string

type_synonym 'a sres = "(store_error, 'a) res"

datatype metadata_value = MBool bool | MDuration int

text \<open>\<open>i64::to_le_bytes\<close> and \<open>i64::from_le_bytes\<close>.\<close>

definition i64_to_le_bytes :: "int \<Rightarrow> bytes" where
  "i64_to_le_bytes i = to_le_bytes 8 (nat (i mod 2 ^ 64))"

definition i64_from_le_bytes :: "bytes \<Rightarrow> int" where
  "i64_from_le_bytes bs =
     (let n = int (from_le_bytes bs) in if n < 2 ^ 63 then n else n - 2 ^ 64)"

text \<open>\<open>to_stored\<close>: a duration in seconds becomes the Unix time at which it ends.\<close>

fun to_stored :: "int \<Rightarrow> metadata_value \<Rightarrow> bytes sres" where
  "to_stored t (MBool b) = Ok (ascii (if b then ''true'' else ''false''))"
| "to_stored t (MDuration d) = Ok (i64_to_le_bytes ((t + d * 10 ^ 9) div 10 ^ 9))"

datatype 'm metadata_key = Ttl | Local 'm

fun to_key :: "('m \<Rightarrow> string) \<Rightarrow> 'm metadata_key \<Rightarrow> string" where
  "to_key local_key Ttl = ''store_ttl''"
| "to_key local_key (Local k) = local_key k"

record 'v value_iter =
  vi_values :: "'v list"
  vi_index :: nat
  vi_errored :: bool

definition value_iter_next :: "'v value_iter \<Rightarrow> 'v value_iter \<times> 'v option" where
  "value_iter_next it =
     (if vi_errored it then (it, None)
      else if length (vi_values it) \<le> vi_index it then (it, None)
      else (it\<lparr>vi_index := vi_index it + 1\<rparr>, Some (vi_values it ! vi_index it)))"

section \<open>Directories\<close>

datatype fs_op =
  OpenFile | CreateFile | WriteFile | RenameFile | RemoveFile | GetXattr | SetXattr | RemoveXattr | FileType

record dentry =
  is_file :: bool
  f_data :: bytes
  f_xattrs :: "string \<rightharpoonup> bytes"

type_synonym dir = "string \<rightharpoonup> dentry"

record fs_env =
  now :: int
  io_ok :: "fs_op \<Rightarrow> string \<Rightarrow> bool"
  read_dir :: "dir \<Rightarrow> string option list option"
  hash_set_order :: "string list \<Rightarrow> string list"

fun replace_slash :: "string \<Rightarrow> string" where
  "replace_slash [] = []"
| "replace_slash (c # s) = (if c = CHR ''/'' then ''_slash_'' @ replace_slash s else c # replace_slash s)"

definition get_path :: "string \<Rightarrow> string" where
  "get_path key = replace_slash key"

definition tmp_path :: "string \<Rightarrow> string" where
  "tmp_path key = ''.'' @ get_path key @ ''.tmp''"

definition format_xattr :: "string \<Rightarrow> string" where
  "format_xattr key = ''user.'' @ key"

abbreviation ttl_xattr :: string where
  "ttl_xattr \<equiv> format_xattr (to_key (\<lambda>_. []) (Ttl :: unit metadata_key))"

text \<open>\<open>ttl_from_disk\<close>, in nanoseconds since the epoch. \<open>SystemTime\<close> holds at most \<open>i64::MAX\<close> seconds; the
  addition panics beyond.\<close>

definition ttl_from_disk :: "bytes \<Rightarrow> int sres" where
  "ttl_from_disk ttl =
     (if length ttl \<noteq> 8 then Err (Unspecified ''TTL length is not u64'')
      else let t = from_le_bytes ttl in if 2 ^ 63 \<le> t then Panic else Ok (int t * 10 ^ 9))"

text \<open>\<open>fs::remove_file\<close>: whether it succeeded. A directory is not removed.\<close>

definition remove_file :: "fs_env \<Rightarrow> dir \<Rightarrow> string \<Rightarrow> dir \<times> bool" where
  "remove_file E d path =
     (case d path of
        Some e \<Rightarrow> if is_file e \<and> io_ok E RemoveFile path then (d(path := None), True) else (d, False)
      | None \<Rightarrow> (d, False))"

text \<open>\<open>V::deserialize_from_reader(&file)\<close>; reading from a directory is an I/O error.\<close>

definition read_value :: "(bytes \<Rightarrow> ('v \<times> bytes) result) \<Rightarrow> dentry \<Rightarrow> 'v sres" where
  "read_value rd e =
     rmap_err (\<lambda>_. Unspecified ''Error deserializing value'')
       (if is_file e then deserialize_data rd (f_data e) else Err IoError)"

section \<open>The directory store\<close>

definition dir_load_data ::
  "fs_env \<Rightarrow> (bytes \<Rightarrow> ('v \<times> bytes) result) \<Rightarrow> dir \<Rightarrow> string \<Rightarrow> dir \<times> 'v option sres" where
  "dir_load_data E rd d key =
     (let path = get_path key in
      case d path of
        None \<Rightarrow> (d, Ok None)
      | Some e \<Rightarrow>
          if \<not> io_ok E OpenFile path then (d, Err (Unspecified ''Error opening file''))
          else if \<not> io_ok E GetXattr path then (d, Err (Unspecified ''Error checking TTL''))
          else (case f_xattrs e ttl_xattr of
                  None \<Rightarrow> (d, rmap Some (read_value rd e))
                | Some bs \<Rightarrow>
                    (case ttl_from_disk bs of
                       Err x \<Rightarrow> (d, Err x)
                     | Panic \<Rightarrow> (d, Panic)
                     | Ok ttl \<Rightarrow>
                         if now E > ttl then (fst (remove_file E d path), Ok None)
                         else (d, rmap Some (read_value rd e)))))"

definition load_entry :: "fs_env \<Rightarrow> (bytes \<Rightarrow> ('v \<times> bytes) result) \<Rightarrow> dir \<Rightarrow> string \<Rightarrow> 'v sres" where
  "load_entry E rd d path =
     (case d path of
        None \<Rightarrow> Err (Unspecified ''Error opening file'')
      | Some e \<Rightarrow> if io_ok E OpenFile path then read_value rd e else Err (Unspecified ''Error opening file''))"

definition dir_load_all_data ::
  "fs_env \<Rightarrow> (bytes \<Rightarrow> ('v \<times> bytes) result) \<Rightarrow> dir \<Rightarrow> 'v list sres" where
  "dir_load_all_data E rd d =
     rbind (ok_or (read_dir E d) (Unspecified ''Error reading store directory'')) (\<lambda>entries.
     rbind (rtraverse (\<lambda>e. ok_or e (Unspecified ''Error collecting store directory entries'')) entries) (\<lambda>paths.
     rtraverse (load_entry E rd d) paths))"

definition dir_store_metadata ::
  "fs_env \<Rightarrow> dir \<Rightarrow> string \<Rightarrow> string \<Rightarrow> metadata_value \<Rightarrow> dir \<times> unit sres" where
  "dir_store_metadata E d key mkey value =
     (let path = get_path key in
      case d path of
        None \<Rightarrow> (d, Ok ())
      | Some e \<Rightarrow>
          if \<not> io_ok E OpenFile path then (d, Err (Unspecified ''Error opening file''))
          else (case to_stored (now E) value of
                  Err x \<Rightarrow> (d, Err x)
                | Panic \<Rightarrow> (d, Panic)
                | Ok bs \<Rightarrow>
                    if io_ok E SetXattr path
                    then (d(path \<mapsto> e\<lparr>f_xattrs := (f_xattrs e)(format_xattr mkey \<mapsto> bs)\<rparr>), Ok ())
                    else (d, Err (Unspecified ''Error creating xattr''))))"

text \<open>Removing an attribute that is not there is an error of the system call.\<close>

definition dir_destroy_metadata :: "fs_env \<Rightarrow> dir \<Rightarrow> string \<Rightarrow> string \<Rightarrow> dir \<times> unit sres" where
  "dir_destroy_metadata E d key mkey =
     (let path = get_path key in
      case d path of
        None \<Rightarrow> (d, Ok ())
      | Some e \<Rightarrow>
          if \<not> io_ok E OpenFile path then (d, Err (Unspecified ''Error opening file''))
          else if io_ok E RemoveXattr path \<and> f_xattrs e (format_xattr mkey) \<noteq> None
          then (d(path \<mapsto> e\<lparr>f_xattrs := (f_xattrs e)(format_xattr mkey := None)\<rparr>), Ok ())
          else (d, Err (Unspecified ''Error removing xattr'')))"

text \<open>\<open>File::create\<close> truncates an existing file and keeps its attributes.\<close>

definition create_file :: "fs_env \<Rightarrow> dir \<Rightarrow> string \<Rightarrow> dir option" where
  "create_file E d path =
     (if \<not> io_ok E CreateFile path then None
      else case d path of
             None \<Rightarrow> Some (d(path \<mapsto> \<lparr>is_file = True, f_data = [], f_xattrs = Map.empty\<rparr>))
           | Some e \<Rightarrow> if is_file e then Some (d(path \<mapsto> e\<lparr>f_data := []\<rparr>)) else None)"

text \<open>\<open>fs::rename\<close> replaces a file; it fails on a directory.\<close>

definition rename_file :: "fs_env \<Rightarrow> dir \<Rightarrow> string \<Rightarrow> string \<Rightarrow> dir option" where
  "rename_file E d src dest =
     (if io_ok E RenameFile dest \<and> (\<forall>e \<in> set_option (d dest). is_file e)
      then Some ((d(src := None))(dest := d src)) else None)"

text \<open>The value is written to a temporary file, which is then moved to its place. A write that fails
  leaves the temporary file behind (here: empty).\<close>

definition dir_store_data ::
  "fs_env \<Rightarrow> ('v \<Rightarrow> bytes result) \<Rightarrow> dir \<Rightarrow> string \<Rightarrow> 'v \<Rightarrow> dir \<times> unit sres" where
  "dir_store_data E ser d key value =
     (let finalpath = get_path key; path = tmp_path key in
      case create_file E d path of
        None \<Rightarrow> (d, Err (Unspecified ''Error creating file''))
      | Some d1 \<Rightarrow>
          (case ser value of
             Panic \<Rightarrow> (d1, Panic)
           | Err x \<Rightarrow> (d1, Err (Unspecified ''Error writing file''))
           | Ok bs \<Rightarrow>
               if \<not> io_ok E WriteFile path then (d1, Err (Unspecified ''Error writing file''))
               else
                 let d2 = d1(path \<mapsto> (the (d1 path))\<lparr>f_data := bs\<rparr>) in
                 (case rename_file E d2 path finalpath of
                    None \<Rightarrow> (d2, Err (Unspecified ''Error moving temporary file''))
                  | Some d3 \<Rightarrow> (d3, Ok ()))))"

definition dir_destroy_data :: "fs_env \<Rightarrow> dir \<Rightarrow> string \<Rightarrow> dir \<times> unit sres" where
  "dir_destroy_data E d key =
     (case remove_file E d (get_path key) of
        (d', True) \<Rightarrow> (d', Ok ())
      | (d', False) \<Rightarrow> (d', Err (Unspecified ''Error removing'')))"

text \<open>The loop of \<open>perform_maintenance\<close>: \<open>?\<close> on an unreadable TTL ends the whole run.\<close>

fun maintain_entries :: "fs_env \<Rightarrow> dir \<Rightarrow> string option list \<Rightarrow> dir \<times> unit sres" where
  "maintain_entries E d [] = (d, Ok ())"
| "maintain_entries E d (None # rest) = maintain_entries E d rest"
| "maintain_entries E d (Some path # rest) =
     (case d path of
        None \<Rightarrow> maintain_entries E d rest
      | Some e \<Rightarrow>
          if \<not> io_ok E FileType path \<or> \<not> is_file e \<or> \<not> io_ok E GetXattr path
          then maintain_entries E d rest
          else (case f_xattrs e ttl_xattr of
                  None \<Rightarrow> maintain_entries E d rest
                | Some bs \<Rightarrow>
                    (case ttl_from_disk bs of
                       Err x \<Rightarrow> (d, Err x)
                     | Panic \<Rightarrow> (d, Panic)
                     | Ok ttl \<Rightarrow>
                         if now E < ttl then maintain_entries E d rest
                         else maintain_entries E (fst (remove_file E d path)) rest)))"

definition dir_perform_maintenance :: "fs_env \<Rightarrow> dir \<Rightarrow> dir \<times> unit sres" where
  "dir_perform_maintenance E d =
     (case read_dir E d of None \<Rightarrow> (d, Ok ()) | Some entries \<Rightarrow> maintain_entries E d entries)"

subsection \<open>Queries\<close>

text \<open>\<open>DirectoryStoreFilterType\<close>: conditions on the metadata.\<close>

record dir_filter =
  neqs :: "(string \<times> bytes) list"
  lts :: "(string \<times> int) list"

definition filter_neq :: "int \<Rightarrow> dir_filter \<Rightarrow> string \<Rightarrow> metadata_value \<Rightarrow> dir_filter sres" where
  "filter_neq t F key expected = rbind (unwrap (to_stored t expected)) (\<lambda>bs. Ok (F\<lparr>neqs := neqs F @ [(key, bs)]\<rparr>))"

definition filter_lt :: "dir_filter \<Rightarrow> string \<Rightarrow> int \<Rightarrow> dir_filter" where
  "filter_lt F key m = F\<lparr>lts := lts F @ [(key, m)]\<rparr>"

text \<open>\<open>xattr::get\<close>: an error, or the attribute if the file has it.\<close>

definition get_xattr :: "fs_env \<Rightarrow> dir \<Rightarrow> string \<Rightarrow> string \<Rightarrow> bytes option option" where
  "get_xattr E d path attr =
     (case d path of
        None \<Rightarrow> None
      | Some e \<Rightarrow> if io_ok E GetXattr path then Some (f_xattrs e attr) else None)"

definition neq_hit :: "fs_env \<Rightarrow> dir \<Rightarrow> string \<Rightarrow> string \<times> bytes \<Rightarrow> bool" where
  "neq_hit E d path c =
     (case get_xattr E d path (format_xattr (fst c)) of
        Some (Some v) \<Rightarrow> length (snd c) \<noteq> length (filter (\<lambda>(a, b). a = b) (zip (snd c) v))
      | Some None \<Rightarrow> True
      | None \<Rightarrow> False)"

definition lt_hit :: "fs_env \<Rightarrow> dir \<Rightarrow> string \<Rightarrow> string \<times> int \<Rightarrow> bool sres" where
  "lt_hit E d path c =
     (case get_xattr E d path (format_xattr (fst c)) of
        Some (Some v) \<Rightarrow> if length v \<noteq> 8 then Panic else Ok (i64_from_le_bytes v < snd c)
      | Some None \<Rightarrow> Ok True
      | None \<Rightarrow> Ok False)"

definition entry_hit :: "fs_env \<Rightarrow> dir \<Rightarrow> dir_filter \<Rightarrow> string \<Rightarrow> bool sres" where
  "entry_hit E d F path =
     (if \<exists>c\<in>set (neqs F). neq_hit E d path c
      then rmap (\<lambda>hits. True \<in> set hits) (rtraverse (lt_hit E d path) (lts F))
      else Ok False)"

text \<open>The entries that the loop looks at: regular files whose type can be determined.\<close>

definition query_paths :: "fs_env \<Rightarrow> dir \<Rightarrow> string option list \<Rightarrow> string list" where
  "query_paths E d entries =
     filter (\<lambda>path. io_ok E FileType path \<and> (\<exists>e. d path = Some e \<and> is_file e)) (List.map_filter (\<lambda>x. x) entries)"

text \<open>Files that cannot be opened or decoded are left out.\<close>

fun read_values :: "fs_env \<Rightarrow> (bytes \<Rightarrow> ('v \<times> bytes) result) \<Rightarrow> dir \<Rightarrow> string list \<Rightarrow> 'v list sres" where
  "read_values E rd d [] = Ok []"
| "read_values E rd d (path # rest) =
     (case load_entry E rd d path of
        Panic \<Rightarrow> Panic
      | Err _ \<Rightarrow> read_values E rd d rest
      | Ok v \<Rightarrow> rmap (Cons v) (read_values E rd d rest))"

definition dir_query ::
  "fs_env \<Rightarrow> (bytes \<Rightarrow> ('v \<times> bytes) result) \<Rightarrow> dir \<Rightarrow> dir_filter \<Rightarrow> 'v value_iter option sres" where
  "dir_query E rd d F =
     (case read_dir E d of
        None \<Rightarrow> Ok None
      | Some entries \<Rightarrow>
          let paths = query_paths E d entries in
          rbind (rtraverse (entry_hit E d F) paths) (\<lambda>hits.
          let results = map fst (filter snd (zip paths hits)) in
          rbind (read_values E rd d (hash_set_order E results)) (\<lambda>vs.
          Ok (Some \<lparr>vi_values = vs, vi_index = 0, vi_errored = False\<rparr>))))"

section \<open>The contract of a store\<close>

text \<open>The operations of a \<open>Store\<close> that the servers call, in an environment \<open>'e\<close>.\<close>

record ('e, 'k, 'v, 's) store_ops =
  so_load :: "'e \<Rightarrow> 's \<Rightarrow> 'k \<Rightarrow> 's \<times> 'v option sres"
  so_store :: "'e \<Rightarrow> 's \<Rightarrow> 'k \<Rightarrow> 'v \<Rightarrow> 's \<times> unit sres"
  so_ttl :: "'e \<Rightarrow> 's \<Rightarrow> 'k \<Rightarrow> int \<Rightarrow> 's \<times> unit sres"
  so_destroy :: "'e \<Rightarrow> 's \<Rightarrow> 'k \<Rightarrow> 's \<times> unit sres"

text \<open>What a store holds under a key: a value and the time it expires, if it does.\<close>

type_synonym 'v entry = "('v \<times> int option) option"

fun live :: "int \<Rightarrow> 'v entry \<Rightarrow> 'v option" where
  "live t None = None"
| "live t (Some (v, None)) = Some v"
| "live t (Some (v, Some expiry)) = (if t > expiry then None else Some v)"

text \<open>The end of a TTL of \<open>d\<close> seconds set at time \<open>t\<close>, on a whole second.\<close>

definition expiry_of :: "int \<Rightarrow> int \<Rightarrow> int" where
  "expiry_of t d = (t + d * 10 ^ 9) div 10 ^ 9 * 10 ^ 9"

locale store_contract =
  fixes ops :: "('e, 'k, 'v, 's) store_ops"
    and time :: "'e \<Rightarrow> int"
    and held :: "'s \<Rightarrow> 'k \<Rightarrow> 'v entry"
    and invar :: "'s \<Rightarrow> bool"
    and valid :: "'k \<Rightarrow> bool"
    and storable :: "'v \<Rightarrow> bool"
    and same :: "'v \<Rightarrow> 'v \<Rightarrow> bool"
  assumes load_result: "valid k \<Longrightarrow> so_load ops E s k = (s', Ok r) \<Longrightarrow> r = live (time E) (held s k)"
    and load_keeps: "valid k \<Longrightarrow> valid k' \<Longrightarrow> so_load ops E s k = (s', y) \<Longrightarrow>
      held s' k' = held s k' \<or> k' = k \<and> live (time E) (held s k) = None \<and> held s' k = None"
    and store_holds: "invar s \<Longrightarrow> valid k \<Longrightarrow> storable v \<Longrightarrow> so_store ops E s k v = (s', Ok ()) \<Longrightarrow>
      \<exists>v'. same v v' \<and> held s' k = Some (v', None)"
    and store_keeps: "valid k \<Longrightarrow> valid k' \<Longrightarrow> so_store ops E s k v = (s', x) \<Longrightarrow>
      k' \<noteq> k \<or> x \<noteq> Ok () \<Longrightarrow> held s' k' = held s k'"
    and ttl_holds: "valid k \<Longrightarrow> so_ttl ops E s k d = (s', Ok ()) \<Longrightarrow> held s k = Some (v, e) \<Longrightarrow>
      0 \<le> time E + d * 10 ^ 9 \<Longrightarrow> expiry_of (time E) d < 2 ^ 63 * 10 ^ 9 \<Longrightarrow>
      held s' k = Some (v, Some (expiry_of (time E) d))"
    and ttl_keeps: "valid k \<Longrightarrow> valid k' \<Longrightarrow> so_ttl ops E s k d = (s', x) \<Longrightarrow>
      k' \<noteq> k \<or> x \<noteq> Ok () \<Longrightarrow> held s' k' = held s k'"
    and destroy_removes: "valid k \<Longrightarrow> so_destroy ops E s k = (s', Ok ()) \<Longrightarrow> held s' k = None"
    and destroy_keeps: "valid k \<Longrightarrow> valid k' \<Longrightarrow> so_destroy ops E s k = (s', x) \<Longrightarrow>
      k' \<noteq> k \<or> x \<noteq> Ok () \<Longrightarrow> held s' k' = held s k'"
    and invar_load: "valid k \<Longrightarrow> invar s \<Longrightarrow> invar (fst (so_load ops E s k))"
    and invar_store: "valid k \<Longrightarrow> invar s \<Longrightarrow> invar (fst (so_store ops E s k v))"
    and invar_ttl: "valid k \<Longrightarrow> invar s \<Longrightarrow> invar (fst (so_ttl ops E s k d))"
    and invar_destroy: "valid k \<Longrightarrow> invar s \<Longrightarrow> invar (fst (so_destroy ops E s k))"
begin

text \<open>A value that is stored with a TTL is loaded until the TTL ends, and not afterwards.\<close>

lemma store_ttl_load:
  assumes "invar s" "valid k" "storable v"
    and "so_store ops E1 s k v = (s1, Ok ())" "so_ttl ops E2 s1 k d = (s2, Ok ())"
    and "0 \<le> time E2 + d * 10 ^ 9" "expiry_of (time E2) d < 2 ^ 63 * 10 ^ 9"
    and "so_load ops E3 s2 k = (s3, Ok r)"
  shows "\<exists>v'. same v v' \<and> r = (if time E3 > expiry_of (time E2) d then None else Some v')"
  using assms store_holds ttl_holds load_result by fastforce

lemma destroy_load:
  assumes "valid k" "so_destroy ops E1 s k = (s1, Ok ())" "so_load ops E2 s1 k = (s2, Ok r)"
  shows "r = None"
  using assms destroy_removes load_result by fastforce

lemma load_unaffected:
  assumes "valid k" "valid k'" "k' \<noteq> k"
    and "so_store ops E1 s k v = (s', x) \<or> so_ttl ops E1 s k d = (s', x) \<or> so_destroy ops E1 s k = (s', x)"
    and "so_load ops E2 s k' = (s1, Ok r1)" "so_load ops E2 s' k' = (s2, Ok r2)"
  shows "r2 = r1"
  using assms store_keeps ttl_keeps destroy_keeps load_result by metis

end

section \<open>The directory store satisfies the contract\<close>

definition directory_ops ::
  "('v \<Rightarrow> bytes result) \<Rightarrow> (bytes \<Rightarrow> ('v \<times> bytes) result) \<Rightarrow> (fs_env, string, 'v, dir) store_ops" where
  "directory_ops ser rd =
     \<lparr>so_load = (\<lambda>E. dir_load_data E rd), so_store = (\<lambda>E. dir_store_data E ser),
      so_ttl = (\<lambda>E d key t. dir_store_metadata E d key (to_key (\<lambda>_. []) (Ttl :: unit metadata_key)) (MDuration t)),
      so_destroy = dir_destroy_data\<rparr>"

text \<open>What a directory holds under a key: the file decodes and its TTL, if any, is readable.\<close>

definition dir_held :: "(bytes \<Rightarrow> ('v \<times> bytes) result) \<Rightarrow> dir \<Rightarrow> string \<Rightarrow> 'v entry" where
  "dir_held rd d key =
     (case d (get_path key) of
        None \<Rightarrow> None
      | Some e \<Rightarrow>
          (case (read_value rd e, f_xattrs e ttl_xattr) of
             (Ok v, None) \<Rightarrow> Some (v, None)
           | (Ok v, Some bs) \<Rightarrow> (case ttl_from_disk bs of Ok t \<Rightarrow> Some (v, Some t) | _ \<Rightarrow> None)
           | _ \<Rightarrow> None))"

text \<open>Keys that become distinct file names, none of them the name of a temporary file: not empty, no
  leading dot, and no underscore (so that the replacement of slashes cannot make two keys equal).\<close>

definition plain_key :: "string \<Rightarrow> bool" where
  "plain_key key \<longleftrightarrow> CHR ''_'' \<notin> set key \<and> (\<exists>c s. key = c # s \<and> c \<noteq> CHR ''.'')"

lemma replace_slash_inj:
  "CHR ''_'' \<notin> set s \<Longrightarrow> CHR ''_'' \<notin> set t \<Longrightarrow> replace_slash s = replace_slash t \<Longrightarrow> s = t"
proof (induction s arbitrary: t)
  case Nil
  then show ?case by (cases t) (auto split: if_splits)
next
  case (Cons c s)
  then show ?case by (cases t) (auto split: if_splits)
qed

lemma plain_key_paths:
  assumes "plain_key k" "plain_key k'"
  shows "get_path k = get_path k' \<longleftrightarrow> k = k'" and "get_path k \<noteq> tmp_path k'"
proof -
  show "get_path k = get_path k' \<longleftrightarrow> k = k'"
    using assms replace_slash_inj by (auto simp: plain_key_def get_path_def)
  show "get_path k \<noteq> tmp_path k'"
    using assms(1) by (auto simp: plain_key_def get_path_def tmp_path_def split: if_splits)
qed

lemma i64_bytes_ttl:
  assumes "0 \<le> i" "i < 2 ^ 63"
  shows "ttl_from_disk (i64_to_le_bytes i) = Ok (i * 10 ^ 9)"
proof -
  have "nat (i mod 2 ^ 64) = nat i" using assms by simp
  moreover have "nat i < 2 ^ 63" using assms by simp
  moreover from this have "from_le_bytes (to_le_bytes 8 (nat i)) = nat i"
    by (intro from_to_le_bytes_id) simp
  ultimately show ?thesis using assms by (simp add: ttl_from_disk_def i64_to_le_bytes_def Let_def)
qed

lemma remove_file_keeps:
  "fst (remove_file E d path) = d \<or> fst (remove_file E d path) = d(path := None)"
  by (auto simp: remove_file_def split: option.splits)

lemma read_value_xattrs [simp]: "read_value rd (e\<lparr>f_xattrs := x\<rparr>) = read_value rd e"
  by (simp add: read_value_def)

lemma dir_held_None: "d (get_path k) = None \<Longrightarrow> dir_held rd d k = None"
  by (simp add: dir_held_def)

lemma dir_held_cong: "d' (get_path k) = d (get_path k) \<Longrightarrow> dir_held rd d' k = dir_held rd d k"
  by (simp add: dir_held_def)

lemma dir_load_result:
  "dir_load_data E rd d k = (d', Ok r) \<Longrightarrow> r = live (now E) (dir_held rd d k)"
  by (auto simp: dir_load_data_def dir_held_def Let_def rmap_Ok_iff split: option.splits if_splits res.splits)

lemma dir_load_keeps:
  assumes "dir_load_data E rd d k = (d', y)"
  shows "d' = d \<or> live (now E) (dir_held rd d k) = None \<and> d' = d(get_path k := None)"
  using assms remove_file_keeps [of E d "get_path k"]
  by (auto simp: dir_load_data_def dir_held_def Let_def split: option.splits if_splits res.splits)

lemma create_file_Some:
  assumes "create_file E d p = Some d1"
  obtains e where "d1 = d(p \<mapsto> e)" "is_file e"
    "f_xattrs e = (case d p of None \<Rightarrow> Map.empty | Some e0 \<Rightarrow> f_xattrs e0)"
  using assms by (auto simp: create_file_def split: if_splits option.splits)

lemma dir_store_cases:
  assumes "plain_key k" "dir_store_data E ser d k v = (d', x)"
  obtains (failed) "x \<noteq> Ok ()" "\<forall>p. p \<noteq> tmp_path k \<longrightarrow> d' p = d p"
      "\<forall>e. d' (tmp_path k) = Some e \<longrightarrow>
         f_xattrs e = (case d (tmp_path k) of None \<Rightarrow> Map.empty | Some e0 \<Rightarrow> f_xattrs e0)"
  | (stored) bs e where "x = Ok ()" "ser v = Ok bs" "is_file e"
      "d' = (d(tmp_path k := None))(get_path k \<mapsto> e\<lparr>f_data := bs\<rparr>)"
      "f_xattrs e = (case d (tmp_path k) of None \<Rightarrow> Map.empty | Some e0 \<Rightarrow> f_xattrs e0)"
proof (cases "create_file E d (tmp_path k)")
  case None
  with assms(2) failed show thesis by (auto simp: dir_store_data_def Let_def)
next
  case (Some d1)
  then obtain e where e: "d1 = d(tmp_path k \<mapsto> e)" "is_file e"
    "f_xattrs e = (case d (tmp_path k) of None \<Rightarrow> Map.empty | Some e0 \<Rightarrow> f_xattrs e0)"
    by (rule create_file_Some)
  have "get_path k \<noteq> tmp_path k" using plain_key_paths(2) [OF assms(1) assms(1)] .
  then show thesis
    using assms(2) Some e failed stored
    by (cases "ser v")
       (auto simp: dir_store_data_def rename_file_def Let_def fun_upd_twist split: if_splits)
qed

text \<open>Temporary files never have attributes: they are only set on the final file.\<close>

definition tmp_plain :: "dir \<Rightarrow> bool" where
  "tmp_plain d \<longleftrightarrow> (\<forall>k e. plain_key k \<longrightarrow> d (tmp_path k) = Some e \<longrightarrow> f_xattrs e = Map.empty)"

lemma tmp_path_inj: "tmp_path k = tmp_path k' \<longleftrightarrow> get_path k = get_path k'"
  by (simp add: tmp_path_def)

lemma tmp_plain_upd:
  assumes "tmp_plain d" "plain_key k"
  shows "tmp_plain (d(get_path k := x))" "tmp_plain (d(tmp_path k := None))"
  using assms plain_key_paths(2) [OF assms(2)] by (auto simp: tmp_plain_def) metis

lemma dir_metadata_cases:
  assumes "dir_store_metadata E d k mk mv = (d', x)"
  obtains (kept) "d' = d" "x = Ok () \<longrightarrow> d (get_path k) = None"
  | (set_attr) e bs where "x = Ok ()" "d (get_path k) = Some e" "to_stored (now E) mv = Ok bs"
      "d' = d(get_path k \<mapsto> e\<lparr>f_xattrs := (f_xattrs e)(format_xattr mk \<mapsto> bs)\<rparr>)"
  using assms by (auto simp: dir_store_metadata_def Let_def split: option.splits if_splits res.splits)

lemma dir_destroy_cases:
  assumes "dir_destroy_data E d k = (d', x)"
  obtains "x \<noteq> Ok ()" "d' = d" | "x = Ok ()" "d' = d(get_path k := None)"
  using assms by (auto simp: dir_destroy_data_def remove_file_def split: option.splits if_splits)

lemma dir_store_keeps:
  assumes "plain_key k" "plain_key k'" "dir_store_data E ser d k v = (d', x)" "k' \<noteq> k \<or> x \<noteq> Ok ()"
  shows "d' (get_path k') = d (get_path k')"
  using assms(1,3)
proof (cases rule: dir_store_cases)
  case failed
  then show ?thesis using plain_key_paths(2) [OF assms(2,1)] by simp
next
  case (stored bs e)
  then show ?thesis using assms plain_key_paths [OF assms(2,1)] by auto
qed

lemma dir_ttl_holds:
  assumes "dir_store_metadata E d k ''store_ttl'' (MDuration n) = (d', Ok ())" "dir_held rd d k = Some (v, e)"
    and "0 \<le> now E + n * 10 ^ 9" "expiry_of (now E) n < 2 ^ 63 * 10 ^ 9"
  shows "dir_held rd d' k = Some (v, Some (expiry_of (now E) n))"
  using assms(1)
proof (cases rule: dir_metadata_cases)
  case kept
  then show ?thesis using assms(2) by (simp add: dir_held_None)
next
  case (set_attr e' bs)
  have "ttl_from_disk bs = Ok (expiry_of (now E) n)"
    using set_attr(3) assms(3,4) i64_bytes_ttl [of "(now E + n * 10 ^ 9) div 10 ^ 9"]
    by (auto simp: expiry_of_def pos_imp_zdiv_nonneg_iff)
  moreover have "read_value rd e' = Ok v"
    using assms(2) set_attr(2) by (auto simp: dir_held_def split: res.splits option.splits)
  ultimately show ?thesis using set_attr by (simp add: dir_held_def)
qed

text \<open>The directory store of a serialisable type. The contract relies on \<open>serializable\<close> through
  \<open>storable\<close>: a value is storable when what is written is read back.\<close>

definition storable_by :: "('v \<Rightarrow> bytes result) \<Rightarrow> (bytes \<Rightarrow> ('v \<times> bytes) result) \<Rightarrow> ('v \<Rightarrow> 'v \<Rightarrow> bool) \<Rightarrow> 'v \<Rightarrow> bool" where
  "storable_by ser rd same v \<longleftrightarrow> (\<exists>bs v'. ser v = Ok bs \<and> deserialize_data rd bs = Ok v' \<and> same v v')"

lemma dir_store_holds:
  assumes "tmp_plain d" "plain_key k" "storable_by ser rd same v" "dir_store_data E ser d k v = (d', Ok ())"
  shows "\<exists>v'. same v v' \<and> dir_held rd d' k = Some (v', None)"
  using assms(2,4)
proof (cases rule: dir_store_cases)
  case (stored bs e)
  then obtain v' where "deserialize_data rd bs = Ok v'" "same v v'" using assms(3) by (auto simp: storable_by_def)
  moreover have "f_xattrs e = Map.empty"
    using stored assms(1,2) by (auto simp: tmp_plain_def split: option.splits)
  ultimately show ?thesis using stored by (simp add: dir_held_def read_value_def)
qed simp

lemma tmp_plain_store:
  assumes "plain_key k" "tmp_plain d" "dir_store_data E ser d k v = (d', x)"
  shows "tmp_plain d'"
  using assms(1,3)
proof (cases rule: dir_store_cases)
  case failed
  have "f_xattrs e = Map.empty" if "plain_key k'" "d' (tmp_path k') = Some e" for k' e
    using failed(2,3) assms(1,2) that
    by (cases "tmp_path k' = tmp_path k") (auto simp: tmp_plain_def split: option.splits)
  then show ?thesis by (simp add: tmp_plain_def)
next
  case (stored bs e)
  then show ?thesis using tmp_plain_upd [OF _ assms(1)] assms(2) by simp
qed

interpretation directory:
  store_contract "directory_ops ser rd" now "dir_held rd" tmp_plain plain_key "storable_by ser rd same" same
  for ser :: "'v \<Rightarrow> bytes result" and rd and same
proof unfold_locales
  fix k k' :: string and E s s' and r :: "'v option" and y :: "'v option sres" and x :: "unit sres" and v v0 :: 'v
    and e :: "int option" and d :: int
  assume k: "plain_key k"
  note ops = directory_ops_def
  {
    assume "so_load (directory_ops ser rd) E s k = (s', Ok r)"
    then show "r = live (now E) (dir_held rd s k)" by (simp add: ops dir_load_result)
  next
    assume "plain_key k'" "so_load (directory_ops ser rd) E s k = (s', y)"
    with k show "dir_held rd s' k' = dir_held rd s k' \<or>
        k' = k \<and> live (now E) (dir_held rd s k) = None \<and> dir_held rd s' k = None"
      using dir_load_keeps [of E rd s k s' y] plain_key_paths(1) [of k' k]
      by (auto simp: ops intro: dir_held_cong dir_held_None)
  next
    assume "tmp_plain s" "storable_by ser rd same v" "so_store (directory_ops ser rd) E s k v = (s', Ok ())"
    with k show "\<exists>v'. same v v' \<and> dir_held rd s' k = Some (v', None)"
      by (simp add: ops dir_store_holds)
  next
    assume "plain_key k'" "so_store (directory_ops ser rd) E s k v = (s', x)" "k' \<noteq> k \<or> x \<noteq> Ok ()"
    with k show "dir_held rd s' k' = dir_held rd s k'"
      by (intro dir_held_cong) (simp add: ops dir_store_keeps)
  next
    assume "so_ttl (directory_ops ser rd) E s k d = (s', Ok ())" "dir_held rd s k = Some (v0, e)"
      "0 \<le> now E + d * 10 ^ 9" "expiry_of (now E) d < 2 ^ 63 * 10 ^ 9"
    then show "dir_held rd s' k = Some (v0, Some (expiry_of (now E) d))"
      by (intro dir_ttl_holds) (simp_all add: ops)
  next
    assume "plain_key k'" "so_ttl (directory_ops ser rd) E s k d = (s', x)" "k' \<noteq> k \<or> x \<noteq> Ok ()"
    with k show "dir_held rd s' k' = dir_held rd s k'"
      using plain_key_paths(1) [of k' k]
      by (intro dir_held_cong) (auto simp: ops elim: dir_metadata_cases)
  next
    assume "so_destroy (directory_ops ser rd) E s k = (s', Ok ())"
    then show "dir_held rd s' k = None" by (auto simp: ops dir_held_None elim: dir_destroy_cases)
  next
    assume "plain_key k'" "so_destroy (directory_ops ser rd) E s k = (s', x)" "k' \<noteq> k \<or> x \<noteq> Ok ()"
    with k show "dir_held rd s' k' = dir_held rd s k'"
      using plain_key_paths(1) [of k' k]
      by (intro dir_held_cong) (auto simp: ops elim: dir_destroy_cases)
  next
    assume "tmp_plain s"
    with k show "tmp_plain (fst (so_load (directory_ops ser rd) E s k))"
      using dir_load_keeps [of E rd s k] tmp_plain_upd(1)
      by (cases "dir_load_data E rd s k") (auto simp: ops)
  next
    assume "tmp_plain s"
    with k show "tmp_plain (fst (so_store (directory_ops ser rd) E s k v))"
      by (cases "dir_store_data E ser s k v") (auto simp: ops intro: tmp_plain_store)
  next
    assume "tmp_plain s"
    with k show "tmp_plain (fst (so_ttl (directory_ops ser rd) E s k d))"
      using tmp_plain_upd(1)
      by (cases "dir_store_metadata E s k ''store_ttl'' (MDuration d)") (auto simp: ops elim!: dir_metadata_cases)
  next
    assume "tmp_plain s"
    with k show "tmp_plain (fst (so_destroy (directory_ops ser rd) E s k))"
      using tmp_plain_upd(1)
      by (cases "dir_destroy_data E s k") (auto simp: ops elim!: dir_destroy_cases)
  }
qed

subsection \<open>Maintenance\<close>

text \<open>A file whose TTL has passed: these are the files that maintenance removes.\<close>

definition outdated :: "fs_env \<Rightarrow> dir \<Rightarrow> string \<Rightarrow> bool" where
  "outdated E d path \<longleftrightarrow>
     (\<exists>e bs t. d path = Some e \<and> is_file e \<and> f_xattrs e ttl_xattr = Some bs \<and>
        ttl_from_disk bs = Ok t \<and> t \<le> now E)"

text \<open>Every system call on the file succeeds, and its TTL is readable.\<close>

definition maintainable :: "fs_env \<Rightarrow> dir \<Rightarrow> string \<Rightarrow> bool" where
  "maintainable E d path \<longleftrightarrow> io_ok E FileType path \<and> io_ok E GetXattr path \<and> io_ok E RemoveFile path \<and>
     (\<forall>e bs. d path = Some e \<longrightarrow> is_file e \<longrightarrow> f_xattrs e ttl_xattr = Some bs \<longrightarrow> (\<exists>t. ttl_from_disk bs = Ok t))"

lemma outdated_upd [simp]:
  "q \<noteq> p \<Longrightarrow> outdated E (d(q := x)) p = outdated E d p"
  "q \<noteq> p \<Longrightarrow> maintainable E (d(q := x)) p = maintainable E d p"
  by (simp_all add: outdated_def maintainable_def)

lemma maintain_entry:
  assumes "maintainable E d p"
  shows "maintain_entries E d (Some p # ps) =
    maintain_entries E (if outdated E d p then d(p := None) else d) ps"
  using assms
  by (auto simp: outdated_def maintainable_def remove_file_def split: option.splits res.splits)

lemma maintain_entries_all:
  assumes "distinct ps" "\<forall>p \<in> set ps. maintainable E d p"
  shows "maintain_entries E d (map Some ps) =
    ((\<lambda>p. if p \<in> set ps \<and> outdated E d p then None else d p), Ok ())"
  using assms
proof (induction ps arbitrary: d)
  case (Cons p ps)
  let ?d = "if outdated E d p then d(p := None) else d"
  have same: "maintainable E ?d q = maintainable E d q" "outdated E ?d q = outdated E d q" if "q \<in> set ps" for q
  proof -
    have "p \<noteq> q" using that Cons.prems(1) by auto
    then show "maintainable E ?d q = maintainable E d q" "outdated E ?d q = outdated E d q" by simp_all
  qed
  have "maintain_entries E d (map Some (p # ps)) = maintain_entries E ?d (map Some ps)"
    using Cons.prems(2) maintain_entry [of E d p] by simp
  also have "\<dots> = ((\<lambda>q. if q \<in> set ps \<and> outdated E ?d q then None else ?d q), Ok ())"
    using Cons.prems same by (intro Cons.IH) simp_all
  also have "\<dots> = ((\<lambda>q. if q \<in> set (p # ps) \<and> outdated E d q then None else d q), Ok ())"
    using Cons.prems(1) same by (auto simp: fun_eq_iff)
  finally show ?case .
qed simp

section \<open>Properties\<close>


text \<open>A file system on which every call succeeds, at time \<open>t\<close>.\<close>

definition calm_fs :: "int \<Rightarrow> string list \<Rightarrow> fs_env" where
  "calm_fs t ps = \<lparr>now = t, io_ok = (\<lambda>_ _. True), read_dir = (\<lambda>_. Some (map Some ps)), hash_set_order = (\<lambda>xs. xs)\<rparr>"

lemma dir_load_calm: "dir_held rd d k = Some x \<Longrightarrow> \<exists>d' r. dir_load_data (calm_fs t ps) rd d k = (d', Ok r)"
  by (auto simp: dir_held_def dir_load_data_def calm_fs_def Let_def split: option.splits res.splits)




end
