(* ===== verification/Http_Server.thy ===== *)
theory Http_Server
  imports Payloads Store
begin

text \<open>
  The HTTP wrapper of the servers: \<open>http-wrapper/src/lib.rs\<close> and \<open>http-wrapper/src/server.rs\<close>. A
  request is handled by a chain: the session is loaded, the message is checked against the last
  message of the session, decrypted and parsed, given to a handler, the session is stored with the
  type of the answer as its last message, and the answer is encrypted.

  The crates \<open>warp\<close> (routing), \<open>warp_sessions\<close> (the session, a store of JSON values) and the
  encryption of \<open>aws-nitro-enclaves-cose\<close> are third-party: sessions and encryption are the record
  \<open>H\<close>, and a request is given after routing, as its \<open>Authorization\<close> header, its other headers and its
  body. A handler is a computation on the data of the server. The random identifier of an error is
  an argument of \<open>handle_rejection\<close>.
\<close>

section \<open>Encryption keys\<close>

record encryption_keys =
  ek_cipher_suite :: "cipher_suite option"
  ek_keys :: "derived_keys option"

definition keys_unencrypted :: encryption_keys where
  "keys_unencrypted = \<lparr>ek_cipher_suite = None, ek_keys = None\<rparr>"

definition keys_is_none :: "encryption_keys \<Rightarrow> bool" where
  "keys_is_none k \<longleftrightarrow> ek_cipher_suite k = None \<or> ek_keys k = None"

definition keys_is_some :: "encryption_keys \<Rightarrow> bool" where
  "keys_is_some k \<longleftrightarrow> \<not> keys_is_none k"

definition keys_from_derived :: "cipher_suite \<Rightarrow> derived_keys \<Rightarrow> encryption_keys" where
  "keys_from_derived c d = \<lparr>ek_cipher_suite = Some c, ek_keys = Some d\<rparr>"

section \<open>The libraries\<close>

text \<open>The values the servers keep in a session.\<close>

datatype session_value =
  SString string | SNonce nonce | SMsgType message_type | SKeys encryption_keys | SCipher cipher_suite
| SKex key_exchange | SBool bool | SU32 u32 | SBytes bytes | SChain x5chain

record 's http_lib =
  ses_new :: "nat \<Rightarrow> 's"
  ses_get :: "'s \<Rightarrow> string \<Rightarrow> session_value option"
  ses_insert :: "'s \<Rightarrow> string \<Rightarrow> session_value \<Rightarrow> 's option"
  ses_remove :: "'s \<Rightarrow> string \<Rightarrow> 's"
  ses_destroy :: "'s \<Rightarrow> 's"
  ses_id :: "'s \<Rightarrow> string"
  ses_id_from_cookie :: "string \<Rightarrow> string option"
  ses_validate :: "'s \<Rightarrow> 's option"
  ses_into_cookie :: "'s \<Rightarrow> string option"
  enc0_new :: "bytes \<Rightarrow> bytes \<Rightarrow> bytes option"
  enc0_open :: "bytes \<Rightarrow> bytes \<Rightarrow> bytes option"

text \<open>\<open>Session::new\<close> draws a random identifier: the random number is the argument of \<open>ses_new\<close>. A
  session holds what was last inserted; a new one is empty; marking it for destruction does not touch
  its contents; none of these changes the identifier. Identifiers are digests in base 64.
  \<open>Session::validate\<close> drops an expired session and otherwise returns it.\<close>

definition base64_text :: "string \<Rightarrow> bool" where
  "base64_text s \<longleftrightarrow> s \<noteq> [] \<and>
     set s \<subseteq> set ''ABCDEFGHIJKLMNOPQRSTUVWXYZabcdefghijklmnopqrstuvwxyz0123456789+/=''"

definition session_doc :: "'s http_lib \<Rightarrow> bool" where
  "session_doc H \<longleftrightarrow>
     (\<forall>r k. ses_get H (ses_new H r) k = None) \<and>
     (\<forall>s k v s'. ses_insert H s k v = Some s' \<longrightarrow> ses_id H s' = ses_id H s \<and>
        (\<forall>k'. ses_get H s' k' = (if k' = k then Some v else ses_get H s k'))) \<and>
     (\<forall>s k. ses_id H (ses_remove H s k) = ses_id H s \<and>
        (\<forall>k'. ses_get H (ses_remove H s k) k' = (if k' = k then None else ses_get H s k'))) \<and>
     (\<forall>s. ses_id H (ses_destroy H s) = ses_id H s \<and> (\<forall>k. ses_get H (ses_destroy H s) k = ses_get H s k)) \<and>
     (\<forall>s s'. ses_validate H s = Some s' \<longrightarrow> s' = s) \<and>
     (\<forall>s. base64_text (ses_id H s)) \<and>
     (\<forall>c i. ses_id_from_cookie H c = Some i \<longrightarrow> base64_text i)"

text \<open>What is encrypted with a key is decrypted with it.\<close>

definition enc0_doc :: "'s http_lib \<Rightarrow> bool" where
  "enc0_doc H \<longleftrightarrow> (\<forall>k p c. enc0_new H p k = Some c \<longrightarrow> enc0_open H c k = Some p)"

definition keys_encrypt :: "'s http_lib \<Rightarrow> encryption_keys \<Rightarrow> bytes \<Rightarrow> (unit, bytes) res" where
  "keys_encrypt H keys plaintext =
     (if ek_cipher_suite keys = None then Ok plaintext
      else case ek_keys keys of
             Some (Combined k) \<Rightarrow> ok_or (enc0_new H plaintext k) ()
           | _ \<Rightarrow> Panic)"

definition keys_decrypt :: "'s http_lib \<Rightarrow> encryption_keys \<Rightarrow> bytes \<Rightarrow> (unit, bytes) res" where
  "keys_decrypt H keys ciphertext =
     (if ek_cipher_suite keys = None then Ok ciphertext
      else case ek_keys keys of
             Some (Combined k) \<Rightarrow> ok_or (enc0_open H ciphertext k) ()
           | _ \<Rightarrow> Panic)"

text \<open>Typed reads: \<open>session.get::<T>(key)\<close> is \<open>None\<close> for a value of another type.\<close>

definition get_string :: "'s http_lib \<Rightarrow> 's \<Rightarrow> string \<Rightarrow> string option" where
  "get_string H s k = (case ses_get H s k of Some (SString v) \<Rightarrow> Some v | _ \<Rightarrow> None)"

definition get_nonce :: "'s http_lib \<Rightarrow> 's \<Rightarrow> string \<Rightarrow> nonce option" where
  "get_nonce H s k = (case ses_get H s k of Some (SNonce v) \<Rightarrow> Some v | _ \<Rightarrow> None)"

definition get_msg_type :: "'s http_lib \<Rightarrow> 's \<Rightarrow> string \<Rightarrow> message_type option" where
  "get_msg_type H s k = (case ses_get H s k of Some (SMsgType v) \<Rightarrow> Some v | _ \<Rightarrow> None)"

definition get_keys :: "'s http_lib \<Rightarrow> 's \<Rightarrow> string \<Rightarrow> encryption_keys option" where
  "get_keys H s k = (case ses_get H s k of Some (SKeys v) \<Rightarrow> Some v | _ \<Rightarrow> None)"

definition get_cipher :: "'s http_lib \<Rightarrow> 's \<Rightarrow> string \<Rightarrow> cipher_suite option" where
  "get_cipher H s k = (case ses_get H s k of Some (SCipher v) \<Rightarrow> Some v | _ \<Rightarrow> None)"

definition get_kex :: "'s http_lib \<Rightarrow> 's \<Rightarrow> string \<Rightarrow> key_exchange option" where
  "get_kex H s k = (case ses_get H s k of Some (SKex v) \<Rightarrow> Some v | _ \<Rightarrow> None)"

definition get_bool :: "'s http_lib \<Rightarrow> 's \<Rightarrow> string \<Rightarrow> bool option" where
  "get_bool H s k = (case ses_get H s k of Some (SBool v) \<Rightarrow> Some v | _ \<Rightarrow> None)"

definition get_u32 :: "'s http_lib \<Rightarrow> 's \<Rightarrow> string \<Rightarrow> u32 option" where
  "get_u32 H s k = (case ses_get H s k of Some (SU32 v) \<Rightarrow> Some v | _ \<Rightarrow> None)"

definition get_bytes :: "'s http_lib \<Rightarrow> 's \<Rightarrow> string \<Rightarrow> bytes option" where
  "get_bytes H s k = (case ses_get H s k of Some (SBytes v) \<Rightarrow> Some v | _ \<Rightarrow> None)"

definition get_chain :: "'s http_lib \<Rightarrow> 's \<Rightarrow> string \<Rightarrow> x5chain option" where
  "get_chain H s k = (case ses_get H s k of Some (SChain v) \<Rightarrow> Some v | _ \<Rightarrow> None)"

section \<open>Rejections and requests\<close>

datatype rejection = Reject error_code message_type string | RejectParse | RejectNotFound | RejectOther

type_synonym 'a hres = "(rejection, 'a) res"

definition from_error :: "message_spec \<Rightarrow> 'e \<Rightarrow> rejection" where
  "from_error M err = Reject InternalServerError (message_spec.message_type M) ''Internal server error''"

record 's request_info =
  ri_session :: 's
  ri_req_hash :: hash
  ri_headers :: "string \<rightharpoonup> string"

definition ENCRYPTION_KEYS_SES_KEY :: string where "ENCRYPTION_KEYS_SES_KEY = ''_encryption_keys_''"
definition LAST_MSG_SES_KEY :: string where "LAST_MSG_SES_KEY = ''_last_message_type_''"
definition SESSION_TTL_SECS :: int where "SESSION_TTL_SECS = 600"

definition session_keys :: "'s http_lib \<Rightarrow> 's \<Rightarrow> encryption_keys" where
  "session_keys H s = (case get_keys H s ENCRYPTION_KEYS_SES_KEY of Some k \<Rightarrow> k | None \<Rightarrow> keys_unencrypted)"

definition last_message :: "'s http_lib \<Rightarrow> 's \<Rightarrow> message_type option" where
  "last_message H s = get_msg_type H s LAST_MSG_SES_KEY"

text \<open>The two encryption checks of a message against the keys of the session.\<close>

definition encryption_met :: "message_spec \<Rightarrow> encryption_keys \<Rightarrow> bool" where
  "encryption_met M keys \<longleftrightarrow>
     (case encryption_requirement M of
        None \<Rightarrow> True
      | Some MustBeEncrypted \<Rightarrow> \<not> keys_is_none keys
      | Some MustNotBeEncrypted \<Rightarrow> \<not> keys_is_some keys)"

definition parse_request ::
  "'s http_lib \<Rightarrow> message_spec \<Rightarrow> (bytes \<Rightarrow> 'im result) \<Rightarrow> bytes \<Rightarrow> 's request_info \<Rightarrow>
     ('im \<times> 's request_info) hres" where
  "parse_request H IM des inbound info =
     (let last_msg_type = last_message H (ri_session info) in
      if \<not> is_valid_previous_message IM last_msg_type
      then Err (Reject InternalServerError (message_spec.message_type IM) ''Message sequence error'')
      else
        let keys = session_keys H (ri_session info) in
        if \<not> encryption_met IM keys
        then Err (Reject InternalServerError (message_spec.message_type IM) ''IM encryption requirement not met'')
        else
          rbind (rmap_err (\<lambda>_. Reject InvalidMessageError (message_spec.message_type IM) ''Error decrypting'')
                   (keys_decrypt H keys inbound)) (\<lambda>inbound.
          rbind (rmap_err (\<lambda>_. RejectParse) (des inbound)) (\<lambda>req.
          Ok (req, info))))"

definition set_encryption_keys :: "'s http_lib \<Rightarrow> message_spec \<Rightarrow> 's \<Rightarrow> encryption_keys \<Rightarrow> 's hres" where
  "set_encryption_keys H IM ses new_keys =
     ok_or (ses_insert H ses ENCRYPTION_KEYS_SES_KEY (SKeys new_keys))
       (Reject InternalServerError (message_spec.message_type IM) ''Internal error'')"

section \<open>The session store\<close>

datatype session_error = SesUnspecified string | SesStore store_error

definition load_session ::
  "'s http_lib \<Rightarrow> ('e, string, 's, 't) store_ops \<Rightarrow> 'e \<Rightarrow> string \<Rightarrow> ('t, session_error, 's option) st" where
  "load_session H ops E token =
     sbind (lift (ok_or (ses_id_from_cookie H token) (SesUnspecified ''Invalid cookie token''))) (\<lambda>sid.
     sbind (smap_err SesStore (\<lambda>t. so_load ops E t sid)) (\<lambda>s.
     lift (Ok (case s of None \<Rightarrow> None | Some s \<Rightarrow> ses_validate H s))))"

definition store_store_session ::
  "'s http_lib \<Rightarrow> ('e, string, 's, 't) store_ops \<Rightarrow> 'e \<Rightarrow> 's \<Rightarrow> ('t, session_error, string option) st" where
  "store_store_session H ops E session =
     sbind (smap_err SesStore (\<lambda>t. so_store ops E t (ses_id H session) session)) (\<lambda>_.
     sbind (smap_err SesStore (\<lambda>t. so_ttl ops E t (ses_id H session) SESSION_TTL_SECS)) (\<lambda>_.
     lift (Ok (ses_into_cookie H session))))"

definition destroy_session ::
  "'s http_lib \<Rightarrow> ('e, string, 's, 't) store_ops \<Rightarrow> 'e \<Rightarrow> 's \<Rightarrow> ('t, session_error, unit) st" where
  "destroy_session H ops E session = smap_err SesStore (\<lambda>t. so_destroy ops E t (ses_id H session))"

definition store_session ::
  "'s http_lib \<Rightarrow> ('e, string, 's, 't) store_ops \<Rightarrow> 'e \<Rightarrow> message_spec \<Rightarrow> message_spec \<Rightarrow> 'om \<Rightarrow>
     's request_info \<Rightarrow> ('t, rejection, 'om \<times> string option \<times> encryption_keys) st" where
  "store_session H ops E IM OM response info =
     sbind (lift (ok_or (ses_insert H (ri_session info) LAST_MSG_SES_KEY (SMsgType (message_spec.message_type OM)))
       (Reject InternalServerError (message_spec.message_type IM) ''Error storing last message''))) (\<lambda>session.
     let keys = session_keys H session in
     sbind (smap_err (\<lambda>_. Reject InternalServerError (message_spec.message_type IM) ''Error storing session'')
       (store_store_session H ops E session)) (\<lambda>token.
     lift (Ok (response, token, keys))))"

section \<open>Responses\<close>

record response =
  rs_status :: nat
  rs_message_type :: u8
  rs_authorization :: "string option"
  rs_noninteroperable_kdf :: bool
  rs_body :: bytes

definition http_response :: "'z plib_scheme \<Rightarrow> message_spec \<Rightarrow> bytes \<Rightarrow> string option \<Rightarrow> response" where
  "http_response L MT val token =
     \<lparr>rs_status = status_code MT, rs_message_type = message_type_u8 (message_spec.message_type MT),
      rs_authorization = map_option (\<lambda>t. ''Bearer '' @ t) token,
      rs_noninteroperable_kdf = (\<not> interoperable_kdf_available L), rs_body = val\<rparr>"

definition encrypt_and_generate_response ::
  "'z plib_scheme \<Rightarrow> 's http_lib \<Rightarrow> message_spec \<Rightarrow> message_spec \<Rightarrow> bytes \<Rightarrow> string option \<Rightarrow>
     encryption_keys \<Rightarrow> response hres" where
  "encrypt_and_generate_response L H IM OM val token enc_keys =
     (if encryption_requirement OM = Some MustBeEncrypted \<and> keys_is_none enc_keys
      then Err (Reject InvalidMessageError (message_spec.message_type IM) ''Sequence error: must be encrypted'')
      else if encryption_requirement OM = Some MustNotBeEncrypted \<and> keys_is_some enc_keys
      then Err (Reject InvalidMessageError (message_spec.message_type IM) ''Sequence error: must not be encrypted'')
      else
        rbind (rmap_err (\<lambda>_. Reject InvalidMessageError (message_spec.message_type IM) ''Error encrypting'')
                 (keys_encrypt H enc_keys val)) (\<lambda>val.
        Ok (http_response L OM val token)))"

definition handle_rejection :: "'z plib_scheme \<Rightarrow> nat \<Rightarrow> rejection \<Rightarrow> (unit, response) res" where
  "handle_rejection L uuid err =
     (let (code, prev, s) = (case err of
        Reject code prev s \<Rightarrow> (code, prev, s)
      | RejectParse \<Rightarrow> (MessageBodyError, Invalid, ''Invalid request body'')
      | RejectNotFound \<Rightarrow> (MessageBodyError, Invalid, ''Invalid request type'')
      | RejectOther \<Rightarrow> (InternalServerError, Invalid, ''Error processing response'')) in
      rbind (msg_to_response L error_message_spec (error_message_ser L (error_message_new code prev s (uuid mod 2 ^ 64))))
        (\<lambda>val. Ok (http_response L error_message_spec val None)))"

section \<open>The request chain\<close>

text \<open>The checks that \<open>fdo_request_filter\<close> makes when a server is set up: each is a panic.\<close>

definition fdo_filter_ok :: "protocol_version \<Rightarrow> message_spec \<Rightarrow> message_spec \<Rightarrow> bool" where
  "fdo_filter_ok v IM OM \<longleftrightarrow>
     is_valid_previous_message OM (Some (message_spec.message_type IM)) \<and>
     v = message_spec.protocol_version IM \<and> message_spec.protocol_version OM = message_spec.protocol_version IM"

text \<open>The token is what follows the first space of the header, up to the next one.\<close>

definition bearer_token :: "string \<Rightarrow> string" where
  "bearer_token val =
     (if CHR '' '' \<in> set val
      then takeWhile (\<lambda>c. c \<noteq> CHR '' '') (tl (dropWhile (\<lambda>c. c \<noteq> CHR '' '') val))
      else val)"

definition retrieve_session ::
  "'s http_lib \<Rightarrow> ('e, string, 's, 't) store_ops \<Rightarrow> 'e \<Rightarrow> nat \<Rightarrow> message_spec \<Rightarrow> string option \<Rightarrow>
     ('t, rejection, 's) st" where
  "retrieve_session H ops E rnd IM hdr =
     (case hdr of
        None \<Rightarrow> lift (Ok (ses_new H rnd))
      | Some val \<Rightarrow>
          sbind (smap_err (\<lambda>_. Reject InternalServerError (message_spec.message_type IM) ''Error retrieving session'')
            (load_session H ops E (bearer_token val))) (\<lambda>s.
          lift (Ok (case s of Some ses \<Rightarrow> ses | None \<Rightarrow> ses_new H rnd))))"

text \<open>A computation on the session store, or on the data of the server, within both.\<close>

definition on_store :: "('t, 'e, 'a) st \<Rightarrow> ('t \<times> 'u, 'e, 'a) st" where
  "on_store m s = (case m (fst s) of (t', r) \<Rightarrow> ((t', snd s), r))"

definition on_data :: "('u, 'e, 'a) st \<Rightarrow> ('t \<times> 'u, 'e, 'a) st" where
  "on_data m s = (case m (snd s) of (u', r) \<Rightarrow> ((fst s, u'), r))"

definition fdo_request ::
  "'z plib_scheme \<Rightarrow> 's http_lib \<Rightarrow> ('e, string, 's, 't) store_ops \<Rightarrow> 'e \<Rightarrow> nat \<Rightarrow> message_spec \<Rightarrow> message_spec \<Rightarrow>
     (bytes \<Rightarrow> 'im result) \<Rightarrow> ('om \<Rightarrow> bytes result) \<Rightarrow>
     ('s request_info \<Rightarrow> 'im \<Rightarrow> ('u, rejection, 'om \<times> 's request_info) st) \<Rightarrow>
     string option \<Rightarrow> (string \<rightharpoonup> string) \<Rightarrow> bytes \<Rightarrow> ('t \<times> 'u, rejection, response) st" where
  "fdo_request L H ops E rnd IM OM des ser handler auth headers req =
     sbind (on_store (retrieve_session H ops E rnd IM auth)) (\<lambda>ses.
     sbind (lift (unwrap (hash_from_data L Sha256 req))) (\<lambda>req_hash.
     sbind (lift (parse_request H IM des req \<lparr>ri_session = ses, ri_req_hash = req_hash, ri_headers = headers\<rparr>))
       (\<lambda>(msg, info).
     sbind (on_data (handler info msg)) (\<lambda>(res, info).
     sbind (on_store (store_session H ops E IM OM res info)) (\<lambda>(res, ses_token, enc_keys).
     sbind (lift (rmap_err (\<lambda>_. RejectOther) (msg_to_response L OM (ser res)))) (\<lambda>val.
     lift (encrypt_and_generate_response L H IM OM val ses_token enc_keys)))))))"

end
