(* ===== verification/Http_Sessions.thy ===== *)
theory Http_Sessions
  imports Http_Server
begin

text \<open>
  What the request chain of \<open>Http_Server\<close> guarantees. A server is a set of endpoints on one session
  store; its runs are the inductive relation \<open>server_run\<close>, which records for every session the
  messages that were accepted and answered. The locale \<open>session_server\<close> states what the wrapper relies
  on (a session library and a store that keeps its contract) and proves that the messages of every
  session follow the previous-message table; it is interpreted on the directory store. Requests are
  handled one after the other: two requests of one session that are in flight at the same time are
  not covered.
\<close>

section \<open>Endpoints and runs\<close>

text \<open>An endpoint with its message types hidden: the request is given decrypted, and the response is
  already serialised.\<close>

record ('s, 'u) endpoint =
  ep_in :: message_spec
  ep_out :: message_spec
  ep_handle :: "'s request_info \<Rightarrow> bytes \<Rightarrow> ('u, rejection, (unit, bytes) res \<times> 's request_info) st"

definition endpoint ::
  "'z plib_scheme \<Rightarrow> message_spec \<Rightarrow> message_spec \<Rightarrow> (bytes \<Rightarrow> 'im result) \<Rightarrow> ('om \<Rightarrow> bytes result) \<Rightarrow>
     ('s request_info \<Rightarrow> 'im \<Rightarrow> ('u, rejection, 'om \<times> 's request_info) st) \<Rightarrow> ('s, 'u) endpoint" where
  "endpoint L IM OM des ser handler =
     \<lparr>ep_in = IM, ep_out = OM, ep_handle = (\<lambda>info body.
        sbind (lift (rmap_err (\<lambda>_. RejectParse) (des body))) (\<lambda>msg.
        sbind (handler info msg) (\<lambda>(res, info).
        lift (Ok (msg_to_response L OM (ser res), info)))))\<rparr>"

text \<open>A request up to the end of the handler, and the whole request.\<close>

definition handle_phase ::
  "'z plib_scheme \<Rightarrow> 's http_lib \<Rightarrow> ('e, string, 's, 't) store_ops \<Rightarrow> 'e \<Rightarrow> nat \<Rightarrow> ('s, 'u) endpoint \<Rightarrow>
     string option \<Rightarrow> (string \<rightharpoonup> string) \<Rightarrow> bytes \<Rightarrow>
     ('t \<times> 'u, rejection, (unit, bytes) res \<times> 's request_info) st" where
  "handle_phase L H ops E rnd ep auth headers req =
     sbind (on_store (retrieve_session H ops E rnd (ep_in ep) auth)) (\<lambda>ses.
     sbind (lift (unwrap (hash_from_data L Sha256 req))) (\<lambda>req_hash.
     sbind (lift (parse_request H (ep_in ep) Ok req
              \<lparr>ri_session = ses, ri_req_hash = req_hash, ri_headers = headers\<rparr>)) (\<lambda>(body, info).
     on_data (ep_handle ep info body))))"

definition serve ::
  "'z plib_scheme \<Rightarrow> 's http_lib \<Rightarrow> ('e, string, 's, 't) store_ops \<Rightarrow> 'e \<Rightarrow> nat \<Rightarrow> ('s, 'u) endpoint \<Rightarrow>
     string option \<Rightarrow> (string \<rightharpoonup> string) \<Rightarrow> bytes \<Rightarrow> ('t \<times> 'u, rejection, response) st" where
  "serve L H ops E rnd ep auth headers req =
     sbind (handle_phase L H ops E rnd ep auth headers req) (\<lambda>(res, info).
     sbind (on_store (store_session H ops E (ep_in ep) (ep_out ep) res info)) (\<lambda>(res, ses_token, enc_keys).
     sbind (lift (rmap_err (\<lambda>_. RejectOther) res)) (\<lambda>val.
     lift (encrypt_and_generate_response L H (ep_in ep) (ep_out ep) val ses_token enc_keys))))"

text \<open>The session as \<open>store_session\<close> stores it: with the type of the answer as last message.\<close>

definition answered_session :: "'s http_lib \<Rightarrow> message_spec \<Rightarrow> 's request_info \<Rightarrow> 's option" where
  "answered_session H OM info = ses_insert H (ri_session info) LAST_MSG_SES_KEY (SMsgType (message_spec.message_type OM))"

definition session_saved ::
  "'s http_lib \<Rightarrow> ('e, string, 's, 't) store_ops \<Rightarrow> 'e \<Rightarrow> message_spec \<Rightarrow> 's request_info \<Rightarrow> 't \<Rightarrow> bool" where
  "session_saved H ops E OM info t \<longleftrightarrow>
     (case answered_session H OM info of
        None \<Rightarrow> False
      | Some s \<Rightarrow> snd (so_store ops E t (ses_id H s) s) = Ok ())"

type_synonym event = "string \<times> message_spec \<times> message_spec"

definition session_log :: "string \<Rightarrow> event list \<Rightarrow> message_spec list" where
  "session_log k hist = concat (map (\<lambda>(k', im, om). [im, om]) (filter (\<lambda>ev. fst ev = k) hist))"

text \<open>The events a request adds: one, when the handler succeeded and the session was saved.\<close>

definition new_events ::
  "'z plib_scheme \<Rightarrow> 's http_lib \<Rightarrow> ('e, string, 's, 't) store_ops \<Rightarrow> 'e \<Rightarrow> nat \<Rightarrow> ('s, 'u) endpoint \<Rightarrow>
     string option \<Rightarrow> (string \<rightharpoonup> string) \<Rightarrow> bytes \<Rightarrow> 't \<times> 'u \<Rightarrow> event list" where
  "new_events L H ops E rnd ep auth headers req st =
     (case handle_phase L H ops E rnd ep auth headers req st of
        ((t, u), Ok (res, info)) \<Rightarrow>
          if session_saved H ops E (ep_out ep) info t
          then [(ses_id H (ri_session info), ep_in ep, ep_out ep)] else []
      | _ \<Rightarrow> [])"

inductive server_run ::
  "'z plib_scheme \<Rightarrow> 's http_lib \<Rightarrow> ('e, string, 's, 't) store_ops \<Rightarrow> ('s, 'u) endpoint set \<Rightarrow>
     ('e \<Rightarrow> bool) \<Rightarrow> ('t \<times> 'u \<Rightarrow> bool) \<Rightarrow> 't \<times> 'u \<Rightarrow> event list \<Rightarrow> bool"
  for L H ops eps env_ok start where
  run_start: "start st \<Longrightarrow> server_run L H ops eps env_ok start st []"
| run_request: "server_run L H ops eps env_ok start st hist \<Longrightarrow> ep \<in> eps \<Longrightarrow> env_ok E \<Longrightarrow>
    ses_id H (ses_new H rnd) \<notin> fst ` set hist \<Longrightarrow>
    server_run L H ops eps env_ok start
      (fst (serve L H ops E rnd ep auth headers req st))
      (hist @ new_events L H ops E rnd ep auth headers req st)"

section \<open>The chain and its endpoints\<close>

lemma on_data_sbind: "on_data (sbind m f) = sbind (on_data m) (\<lambda>x. on_data (f x))"
  by (rule ext) (auto simp: on_data_def sbind_def split: prod.splits res.splits)

lemma on_store_sbind: "on_store (sbind m f) = sbind (on_store m) (\<lambda>x. on_store (f x))"
  by (rule ext) (auto simp: on_store_def sbind_def split: prod.splits res.splits)

lemma on_lift: "on_data (lift r) = lift r" "on_store (lift r) = lift r"
  by (rule ext, simp add: on_data_def on_store_def lift_def)+

lemma lift_rbind: "lift (rbind r f) = sbind (lift r) (\<lambda>x. lift (f x))"
  by (rule ext) (cases r; simp add: sbind_def lift_def)

lemma sbind_lift_Ok: "sbind (lift (Ok x)) f = f x"
  by (rule ext) simp

lemma sbind_assoc: "sbind (sbind m f) g = sbind m (\<lambda>x. sbind (f x) g)"
  by (rule ext) (auto simp: sbind_def split: prod.splits res.splits)

lemmas st_laws = on_data_sbind on_store_sbind on_lift lift_rbind sbind_lift_Ok sbind_assoc

lemma on_store_Ok_iff [res_simps]:
  "on_store m s = (s', Ok x) \<longleftrightarrow> m (fst s) = (fst s', Ok x) \<and> snd s' = snd s"
  by (cases s') (auto simp: on_store_def split: prod.splits)

lemma on_data_Ok_iff [res_simps]:
  "on_data m s = (s', Ok x) \<longleftrightarrow> m (snd s) = (snd s', Ok x) \<and> fst s' = fst s"
  by (cases s') (auto simp: on_data_def split: prod.splits)

lemma store_session_map:
  "store_session H ops E IM OM (f r) info =
     sbind (store_session H ops E IM OM r info) (\<lambda>(r, token, keys). lift (Ok (f r, token, keys)))"
  by (rule ext) (auto simp: store_session_def sbind_def lift_def smap_err_def Let_def split: prod.splits res.splits)

lemma parse_request_des:
  "parse_request H IM des req info =
     rbind (parse_request H IM Ok req info) (\<lambda>(body, info).
     rbind (rmap_err (\<lambda>_. RejectParse) (des body)) (\<lambda>msg. Ok (msg, info)))"
  by (simp add: parse_request_def Let_def rbind_assoc)

text \<open>Serving an endpoint is the request chain of its message types and handler.\<close>

lemma serve_endpoint:
  "serve L H ops E rnd (endpoint L IM OM des ser handler) auth headers req =
     fdo_request L H ops E rnd IM OM des ser handler auth headers req"
  unfolding serve_def fdo_request_def handle_phase_def endpoint_def parse_request_des [of H IM des]
  by (simp add: st_laws split_def store_session_map [of H ops E IM OM "\<lambda>r. msg_to_response L OM (ser r)"])

section \<open>Invariants of the data of a server\<close>

lemma preserves_on_data [preserves_intros]: "preserves P m \<Longrightarrow> preserves (\<lambda>st. P (snd st)) (on_data m)"
  unfolding preserves_def on_data_def by (auto split: prod.splits)

lemma preserves_on_store [preserves_intros]: "preserves (\<lambda>st. P (snd st)) (on_store m)"
  unfolding preserves_def on_store_def by (auto split: prod.splits)

lemma endpoint_preserves:
  assumes "\<And>info msg data. des data = Ok msg \<Longrightarrow> preserves P (handler info msg)"
  shows "preserves P (ep_handle (endpoint L IM OM des ser handler) info body)"
  using assms unfolding endpoint_def
  by (auto intro!: preserves_intros preserves_sbind_lift simp: rmap_err_Ok_iff)

lemma serve_preserves:
  assumes "\<And>info body. preserves P (ep_handle ep info body)" "P (snd st)"
  shows "P (snd (fst (serve L H ops E rnd ep auth headers req st)))"
proof -
  have "preserves (\<lambda>st. P (snd st)) (serve L H ops E rnd ep auth headers req)"
    unfolding serve_def handle_phase_def by (intro preserves_intros assms(1))
  with assms(2) show ?thesis unfolding preserves_def by blast
qed

lemma server_run_data:
  assumes "server_run L H ops eps env_ok start st hist"
    and "\<And>st. start st \<Longrightarrow> P (snd st)" "\<And>ep info body. ep \<in> eps \<Longrightarrow> preserves P (ep_handle ep info body)"
  shows "P (snd st)"
  using assms(1)
proof (induction rule: server_run.induct)
  case (run_request st hist ep E rnd auth headers req)
  show ?case by (rule serve_preserves [of P ep, OF assms(3) [OF run_request.hyps(2)] run_request.IH])
qed (use assms(2) in auto)

section \<open>Sessions follow the previous-message table\<close>

definition clock_ok :: "int \<Rightarrow> bool" where
  "clock_ok t \<longleftrightarrow> 0 \<le> t + SESSION_TTL_SECS * 10 ^ 9 \<and> expiry_of t SESSION_TTL_SECS < 2 ^ 63 * 10 ^ 9"

text \<open>An endpoint that was accepted by \<open>fdo_request_filter\<close> and whose handler works on the session
  it is given.\<close>

definition endpoint_ok :: "'s http_lib \<Rightarrow> ('s, 'u) endpoint \<Rightarrow> bool" where
  "endpoint_ok H ep \<longleftrightarrow>
     is_valid_previous_message (ep_out ep) (Some (message_spec.message_type (ep_in ep))) \<and>
     (\<forall>info body u u' res info'. ep_handle ep info body u = (u', Ok (res, info')) \<longrightarrow>
        ses_id H (ri_session info') = ses_id H (ri_session info))"

definition last_of :: "message_spec list \<Rightarrow> message_type option" where
  "last_of ms = (if ms = [] then None else Some (message_spec.message_type (last ms)))"

lemma run_from_snoc_last:
  "run_from p (xs @ ys) \<longleftrightarrow> run_from p xs \<and> run_from (if xs = [] then p else last_of xs) ys"
  by (induction xs arbitrary: p) (auto simp: last_of_def)

lemma session_log_append [simp]: "session_log k (xs @ ys) = session_log k xs @ session_log k ys"
  by (simp add: session_log_def)

lemma session_log_simps [simp]:
  "session_log k [] = []"
  "session_log k [(k', im, om)] = (if k' = k then [im, om] else [])"
  by (simp_all add: session_log_def)

lemma session_log_unused: "k \<notin> fst ` set hist \<Longrightarrow> session_log k hist = []"
  by (force simp: session_log_def filter_empty_conv)

text \<open>The session library as documented, and a codec of the session store that keeps a session's
  identifier and last message.\<close>

definition session_env :: "'s http_lib \<Rightarrow> ('s \<Rightarrow> bool) \<Rightarrow> ('s \<Rightarrow> 's \<Rightarrow> bool) \<Rightarrow> bool" where
  "session_env H storable same \<longleftrightarrow> session_doc H \<and> (\<forall>s. storable s) \<and>
     (\<forall>s s'. same s s' \<longrightarrow> ses_id H s' = ses_id H s \<and> last_message H s' = last_message H s)"

text \<open>A store that keeps its contract on the identifiers of sessions.\<close>

locale session_server = store_contract ops time held invar valid storable same
  for ops :: "('e, string, 's, 't) store_ops" and time held invar valid storable same +
  assumes valid_ids: "base64_text k \<Longrightarrow> valid k"
begin

lemma session_lib: "session_env H storable same \<Longrightarrow> session_doc H"
  and storable_session: "session_env H storable same \<Longrightarrow> storable s"
  and same_session: "session_env H storable same \<Longrightarrow> same s s' \<Longrightarrow>
    ses_id H s' = ses_id H s \<and> last_message H s' = last_message H s"
  by (simp_all add: session_env_def)

definition sessions_ok :: "'s http_lib \<Rightarrow> event list \<Rightarrow> 't \<Rightarrow> bool" where
  "sessions_ok H hist t \<longleftrightarrow> invar t \<and> (\<forall>k. run_from None (session_log k hist)) \<and>
     (\<forall>k s e. valid k \<longrightarrow> held t k = Some (s, e) \<longrightarrow>
        ses_id H s = k \<and> last_message H s = last_of (session_log k hist))"

lemma id_valid: "session_env H storable same \<Longrightarrow> valid (ses_id H s)"
  using session_lib [of H] valid_ids by (simp add: session_doc_def)

lemma retrieve_keeps:
  assumes "retrieve_session H ops E rnd IM auth t = (t', r)" "invar t"
    and lib: "session_env H storable same"
  shows "invar t' \<and> (valid k \<longrightarrow> held t' k = held t k \<or> held t' k = None)"
proof (cases auth)
  case None
  with assms show ?thesis by (simp add: retrieve_session_def)
next
  case (Some val)
  show ?thesis
  proof (cases "ses_id_from_cookie H (bearer_token val)")
    case None
    with assms Some show ?thesis
      by (simp add: retrieve_session_def load_session_def smap_err_def sbind_def lift_def)
  next
    case sid: (Some sid)
    with session_lib [OF lib] valid_ids have "valid sid" by (auto simp: session_doc_def)
    moreover obtain t1 y where l: "so_load ops E t sid = (t1, y)" by fastforce
    moreover from l sid Some assms have "t' = t1"
      by (auto simp: retrieve_session_def load_session_def smap_err_def sbind_def lift_def split: res.splits)
    ultimately show ?thesis
      using invar_load [of sid t E] load_keeps [of sid k E t t1 y] assms(2) by auto
  qed
qed

lemma retrieved:
  assumes "retrieve_session H ops E rnd IM auth t = (t', Ok s)"
    and lib: "session_env H storable same"
  shows "s = ses_new H rnd \<or> (\<exists>k e. valid k \<and> held t k = Some (s, e))"
proof (cases auth)
  case None
  with assms show ?thesis by (simp add: retrieve_session_def)
next
  case (Some val)
  with assms obtain o1 where l: "load_session H ops E (bearer_token val) t = (t', Ok o1)"
    and s: "s = (case o1 of Some ses \<Rightarrow> ses | None \<Rightarrow> ses_new H rnd)"
    by (auto simp: retrieve_session_def res_simps)
  from l obtain sid r where sid: "ses_id_from_cookie H (bearer_token val) = Some sid"
    and ld: "so_load ops E t sid = (t', Ok r)"
    and o1: "o1 = (case r of None \<Rightarrow> None | Some s \<Rightarrow> ses_validate H s)"
    by (auto simp: load_session_def res_simps)
  from sid session_lib [OF lib] valid_ids have v: "valid sid" by (auto simp: session_doc_def)
  show ?thesis
  proof (cases r)
    case None
    with o1 s show ?thesis by simp
  next
    case (Some s1)
    with load_result [OF v ld] obtain e where "held t sid = Some (s1, e)"
      by (cases "(time E, held t sid)" rule: live.cases) (auto split: if_splits)
    moreover from Some o1 s session_lib [OF lib] have "s = s1 \<or> s = ses_new H rnd"
      by (auto simp: session_doc_def split: option.splits)
    ultimately show ?thesis using v by blast
  qed
qed

lemma save_keeps:
  assumes "store_session H ops E IM OM res info t = (t', r)" "invar t" "valid k"
    and "\<not> session_saved H ops E OM info t \<or> k \<noteq> ses_id H (ri_session info)"
    and lib: "session_env H storable same"
  shows "held t' k = held t k"
proof (cases "answered_session H OM info")
  case None
  with assms(1) show ?thesis
    by (simp add: store_session_def answered_session_def sbind_def lift_def)
next
  case (Some s)
  with session_lib [OF lib] have sid: "ses_id H s = ses_id H (ri_session info)"
    by (auto simp: answered_session_def session_doc_def)
  obtain t1 x where st: "so_store ops E t (ses_id H s) s = (t1, x)" by fastforce
  with Some assms(4) sid have "k \<noteq> ses_id H s \<or> x \<noteq> Ok ()" by (auto simp: session_saved_def)
  with store_keeps [OF id_valid [OF lib] assms(3) st] have 1: "held t1 k = held t k" .
  show ?thesis
  proof (cases x)
    case (Ok z)
    obtain t2 y where tt: "so_ttl ops E t1 (ses_id H s) SESSION_TTL_SECS = (t2, y)" by fastforce
    with Ok st Some assms(1) have "t' = t2"
      by (auto simp: store_session_def answered_session_def store_store_session_def sbind_def lift_def
          smap_err_def Let_def split: res.splits)
    moreover from Ok \<open>k \<noteq> ses_id H s \<or> x \<noteq> Ok ()\<close> have "k \<noteq> ses_id H s" by simp
    ultimately show ?thesis using 1 ttl_keeps [OF id_valid [OF lib] assms(3) tt] by simp
  qed (use 1 st Some assms(1) in \<open>auto simp: store_session_def answered_session_def
      store_store_session_def sbind_def lift_def smap_err_def Let_def\<close>)
qed

lemma save_holds_same:
  assumes "store_session H ops E IM OM res info t = (t', r)" "invar t" "clock_ok (time E)"
    and "session_saved H ops E OM info t"
    and lib: "session_env H storable same"
  shows "\<exists>s v e. answered_session H OM info = Some s \<and> same s v \<and>
    held t' (ses_id H (ri_session info)) = Some (v, e)"
proof -
  let ?k = "ses_id H (ri_session info)"
  from assms(4) obtain s where s: "answered_session H OM info = Some s"
    by (auto simp: session_saved_def split: option.splits)
  with session_lib [OF lib] have sid: "ses_id H s = ?k"
    by (auto simp: answered_session_def session_doc_def)
  obtain t1 where st: "so_store ops E t ?k s = (t1, Ok ())"
    using assms(4) s sid by (cases "so_store ops E t ?k s") (simp add: session_saved_def)
  from store_holds [OF assms(2) id_valid [OF lib] storable_session [OF lib] this] obtain v where
    v: "same s v" "held t1 ?k = Some (v, None)" by blast
  obtain t2 y where tt: "so_ttl ops E t1 ?k SESSION_TTL_SECS = (t2, y)" by fastforce
  with st s sid assms(1) have "t' = t2"
    by (auto simp: store_session_def answered_session_def store_store_session_def sbind_def lift_def
        smap_err_def Let_def split: res.splits)
  moreover have "\<exists>e. held t2 ?k = Some (v, e)"
  proof (cases "y = Ok ()")
    case True
    with ttl_holds [OF id_valid [OF lib] _ v(2)] tt assms(3) show ?thesis by (auto simp: clock_ok_def)
  next
    case False
    with ttl_keeps [OF id_valid [OF lib] id_valid [OF lib] tt] v(2) show ?thesis by simp
  qed
  ultimately show ?thesis using s v(1) by blast
qed

lemma save_holds:
  assumes "store_session H ops E IM OM res info t = (t', r)" "invar t" "clock_ok (time E)"
    and "session_saved H ops E OM info t"
    and lib: "session_env H storable same"
  shows "\<exists>s e. held t' (ses_id H (ri_session info)) = Some (s, e) \<and>
    ses_id H s = ses_id H (ri_session info) \<and> last_message H s = Some (message_spec.message_type OM)"
proof -
  obtain s v e where s: "answered_session H OM info = Some s" "same s v"
    "held t' (ses_id H (ri_session info)) = Some (v, e)"
    using save_holds_same [OF assms] by blast
  with session_lib [OF lib] have "ses_id H s = ses_id H (ri_session info)"
      "last_message H s = Some (message_spec.message_type OM)"
    by (auto simp: answered_session_def session_doc_def last_message_def get_msg_type_def)
  with same_session [OF lib s(2)] s(3) show ?thesis by auto
qed

lemma save_invar:
  assumes "store_session H ops E IM OM res info t = (t', r)" "invar t"
    and lib: "session_env H storable same"
  shows "invar t'"
proof (cases "answered_session H OM info")
  case None
  with assms show ?thesis by (simp add: store_session_def answered_session_def sbind_def lift_def)
next
  case (Some s)
  obtain t1 x where st: "so_store ops E t (ses_id H s) s = (t1, x)" by fastforce
  obtain t2 y where tt: "so_ttl ops E t1 (ses_id H s) SESSION_TTL_SECS = (t2, y)" by fastforce
  from st Some tt assms(1) have "t' = t1 \<or> t' = t2"
    by (auto simp: store_session_def answered_session_def store_store_session_def sbind_def lift_def
        smap_err_def Let_def split: res.splits)
  with st tt invar_store [OF id_valid [OF lib] assms(2), where E = E and v = s] invar_ttl [OF id_valid [OF lib]]
  show ?thesis by (metis fst_conv)
qed

lemma handled:
  assumes "handle_phase L H ops E rnd ep auth headers req (t, u) = ((t', u'), r)" "invar t"
    and lib: "session_env H storable same"
  shows "invar t'" "valid k \<Longrightarrow> held t' k = held t k \<or> held t' k = None"
proof -
  obtain t1 x where rt: "retrieve_session H ops E rnd (ep_in ep) auth t = (t1, x)" by fastforce
  then have "t' = t1" using assms(1)
    by (auto simp: handle_phase_def sbind_def on_store_def on_data_def lift_def split: res.splits prod.splits)
  with retrieve_keeps [OF rt assms(2) lib] show "invar t'" "valid k \<Longrightarrow> held t' k = held t k \<or> held t' k = None"
    by auto
qed

lemma handled_Ok:
  assumes "handle_phase L H ops E rnd ep auth headers req (t, u) = ((t', u'), Ok (res, info))"
    and "endpoint_ok H ep"
    and lib: "session_env H storable same"
  obtains s where "ses_id H (ri_session info) = ses_id H s"
    and "is_valid_previous_message (ep_in ep) (last_message H s)"
    and "s = ses_new H rnd \<or> (\<exists>k e. valid k \<and> held t k = Some (s, e))"
proof -
  from assms(1) obtain t1 s h body info0 where rt: "retrieve_session H ops E rnd (ep_in ep) auth t = (t1, Ok s)"
    and pr: "parse_request H (ep_in ep) Ok req \<lparr>ri_session = s, ri_req_hash = h, ri_headers = headers\<rparr> = Ok (body, info0)"
    and hd: "ep_handle ep info0 body u = (u', Ok (res, info))"
    by (auto simp: handle_phase_def res_simps)
  from pr have "is_valid_previous_message (ep_in ep) (last_message H s)" "ri_session info0 = s"
    by (auto simp: parse_request_def Let_def res_simps split: if_splits)
  with hd assms(2) retrieved [OF rt lib] that [of s] show ?thesis by (auto simp: endpoint_ok_def)
qed

text \<open>One request: the log of a session grows by the request and its answer exactly when the session
  is saved with that answer as its last message.\<close>

lemma serve_phases:
  assumes "handle_phase L H ops E rnd ep auth headers req st = ((t1, u1), r)"
  shows "fst (serve L H ops E rnd ep auth headers req st) =
    (case r of Ok (res, info) \<Rightarrow> (fst (store_session H ops E (ep_in ep) (ep_out ep) res info t1), u1) | _ \<Rightarrow> (t1, u1))"
  using assms
  by (auto simp: serve_def sbind_def on_store_def lift_def split: res.splits prod.splits)

lemma sessions_ok_dropped:
  assumes "sessions_ok H hist t" "invar t'" "\<And>k. valid k \<Longrightarrow> held t' k = held t k \<or> held t' k = None"
  shows "sessions_ok H hist t'"
  using assms unfolding sessions_ok_def by (metis option.distinct(1))

lemma sessions_ok_saved:
  assumes "sessions_ok H hist t1" "invar t2" "k \<in> Collect valid"
    and "\<And>k'. valid k' \<Longrightarrow> k' \<noteq> k \<Longrightarrow> held t2 k' = held t1 k'"
    and "held t2 k = Some (s, e)" "ses_id H s = k" "last_message H s = Some (message_spec.message_type OM)"
    and "is_valid_previous_message IM (last_of (session_log k hist))"
    and "is_valid_previous_message OM (Some (message_spec.message_type IM))"
  shows "sessions_ok H (hist @ [(k, IM, OM)]) t2"
proof -
  have "run_from None (session_log k' (hist @ [(k, IM, OM)]))" for k'
    using assms(1,8,9) by (auto simp: sessions_ok_def run_from_snoc_last last_of_def)
  moreover have "ses_id H s' = k' \<and> last_message H s' = last_of (session_log k' (hist @ [(k, IM, OM)]))"
    if "valid k'" "held t2 k' = Some (s', e')" for k' s' e'
  proof (cases "k' = k")
    case True
    with that assms(5-7) show ?thesis by (simp add: last_of_def)
  next
    case False
    with that assms(1,4) show ?thesis by (simp add: sessions_ok_def)
  qed
  ultimately show ?thesis using assms(2) by (simp add: sessions_ok_def)
qed

lemma request_keeps:
  assumes ok: "sessions_ok H hist (fst st)" and ep: "endpoint_ok H ep" and clock: "clock_ok (time E)"
    and fresh: "ses_id H (ses_new H rnd) \<notin> fst ` set hist"
    and lib: "session_env H storable same"
  shows "sessions_ok H (hist @ new_events L H ops E rnd ep auth headers req st)
    (fst (fst (serve L H ops E rnd ep auth headers req st)))"
proof -
  obtain t u where st: "st = (t, u)" by fastforce
  obtain t1 u1 r where hp: "handle_phase L H ops E rnd ep auth headers req (t, u) = ((t1, u1), r)"
    by (metis surj_pair)
  have "invar t" using ok st by (simp add: sessions_ok_def)
  note hd = handled [OF hp this lib]
  have ok1: "sessions_ok H hist t1" "invar t1"
    using sessions_ok_dropped [of H hist t t1, OF _ hd] hd(1) ok st by simp_all
  note phases = serve_phases [OF hp]
  show ?thesis
  proof (cases r)
    case (Ok x)
    obtain res info where x: "x = (res, info)" by fastforce
    define t2 where "t2 = fst (store_session H ops E (ep_in ep) (ep_out ep) res info t1)"
    obtain y where ss: "store_session H ops E (ep_in ep) (ep_out ep) res info t1 = (t2, y)"
      using t2_def by (metis prod.collapse)
    have sv: "fst (fst (serve L H ops E rnd ep auth headers req st)) = t2"
      using phases st Ok x t2_def by simp
    show ?thesis
    proof (cases "session_saved H ops E (ep_out ep) info t1")
      case True
      let ?k = "ses_id H (ri_session info)"
      obtain s0 where s0: "?k = ses_id H s0" "is_valid_previous_message (ep_in ep) (last_message H s0)"
        "s0 = ses_new H rnd \<or> (\<exists>k e. valid k \<and> held t k = Some (s0, e))"
        using handled_Ok [OF _ ep lib] hp Ok x by blast
      have last: "last_message H s0 = last_of (session_log ?k hist)"
        using s0(1,3) ok st fresh session_lib [OF lib] session_log_unused [of ?k hist]
        by (auto simp: sessions_ok_def last_message_def get_msg_type_def session_doc_def last_of_def)
      obtain s e where s: "held t2 ?k = Some (s, e)" "ses_id H s = ?k"
          "last_message H s = Some (message_spec.message_type (ep_out ep))"
        using save_holds [OF ss ok1(2) clock True lib] by blast
      have "sessions_ok H (hist @ [(?k, ep_in ep, ep_out ep)]) t2"
        by (rule sessions_ok_saved [OF ok1(1) save_invar [OF ss ok1(2) lib] _ _ s])
          (use save_keeps [OF ss ok1(2) _ _ lib] s0(2) last ep in \<open>auto simp: endpoint_ok_def id_valid [OF lib]\<close>)
      with True sv st hp Ok x show ?thesis by (simp add: new_events_def)
    next
      case False
      then have "sessions_ok H hist t2"
        using sessions_ok_dropped [OF ok1(1) save_invar [OF ss ok1(2) lib]] save_keeps [OF ss ok1(2) _ _ lib] by blast
      with False sv st hp Ok x show ?thesis by (simp add: new_events_def)
    qed
  qed (use phases st hp ok1 in \<open>simp_all add: new_events_def\<close>)
qed

theorem run_sessions_ok:
  assumes "server_run L H ops eps env_ok start st hist"
    and "\<And>ep. ep \<in> eps \<Longrightarrow> endpoint_ok H ep" "\<And>E. env_ok E \<Longrightarrow> clock_ok (time E)"
    and "\<And>st. start st \<Longrightarrow> invar (fst st) \<and> (\<forall>k. valid k \<longrightarrow> held (fst st) k = None)"
    and lib: "session_env H storable same"
  shows "sessions_ok H hist (fst st)"
  using assms(1)
proof (induction rule: server_run.induct)
  case (run_start st)
  with assms(4) show ?case by (simp add: sessions_ok_def)
next
  case (run_request st hist ep E rnd)
  with assms(2,3) request_keeps lib show ?case by blast
qed

text \<open>A property \<open>Q\<close> of sessions that new sessions have, that every handler keeps when it accepts its
  message as a valid successor (the data of the server having the property \<open>P\<close>), and that neither the
  note of the answer nor the store disturbs, holds of all sessions in the store.\<close>

definition sessions_all :: "('s \<Rightarrow> bool) \<Rightarrow> 't \<Rightarrow> bool" where
  "sessions_all Q t \<longleftrightarrow> invar t \<and> (\<forall>k s e. valid k \<longrightarrow> held t k = Some (s, e) \<longrightarrow> Q s)"

lemma sessions_all_dropped:
  "sessions_all Q t \<Longrightarrow> invar t' \<Longrightarrow> (\<And>k. valid k \<Longrightarrow> held t' k = held t k \<or> held t' k = None) \<Longrightarrow> sessions_all Q t'"
  unfolding sessions_all_def by (metis option.distinct(1))

lemma request_keeps_all:
  assumes all: "sessions_all Q (fst st)" and P: "P (snd st)" and clock: "clock_ok (time E)"
    and new: "\<And>r. Q (ses_new H r)"
    and handler: "\<And>info body u u' res info'. P u \<Longrightarrow> Q (ri_session info) \<Longrightarrow>
      is_valid_previous_message (ep_in ep) (last_message H (ri_session info)) \<Longrightarrow>
      encryption_met (ep_in ep) (session_keys H (ri_session info)) \<Longrightarrow>
      ep_handle ep info body u = (u', Ok (res, info')) \<Longrightarrow> Q (ri_session info')"
    and note_ans: "\<And>s t s'. Q s \<Longrightarrow> ses_insert H s LAST_MSG_SES_KEY (SMsgType t) = Some s' \<Longrightarrow> Q s'"
    and codec: "\<And>s s'. Q s \<Longrightarrow> same s s' \<Longrightarrow> Q s'"
    and lib: "session_env H storable same"
  shows "sessions_all Q (fst (fst (serve L H ops E rnd ep auth headers req st)))"
proof -
  obtain t u where st: "st = (t, u)" by fastforce
  obtain t1 u1 r where hp: "handle_phase L H ops E rnd ep auth headers req (t, u) = ((t1, u1), r)"
    by (metis surj_pair)
  have "invar t" using all st by (simp add: sessions_all_def)
  note hd = handled [OF hp this lib]
  have all1: "sessions_all Q t1" using sessions_all_dropped [of Q t t1] hd all st by simp
  show ?thesis
  proof (cases r)
    case (Ok x)
    obtain res info where x: "x = (res, info)" by fastforce
    obtain t2 y where ss: "store_session H ops E (ep_in ep) (ep_out ep) res info t1 = (t2, y)" by fastforce
    have sv: "fst (fst (serve L H ops E rnd ep auth headers req st)) = t2"
      using serve_phases [OF hp] st Ok x ss by simp
    from hp Ok x obtain s info0 body where rt: "retrieve_session H ops E rnd (ep_in ep) auth t = (t1, Ok s)"
      and pr: "ri_session info0 = s" "is_valid_previous_message (ep_in ep) (last_message H s)"
        "encryption_met (ep_in ep) (session_keys H s)"
      and ah: "ep_handle ep info0 body u = (u1, Ok (res, info))"
      by (auto simp: handle_phase_def parse_request_def Let_def res_simps split: if_splits)
         (metis request_info.select_convs(1))
    have "Q s" using retrieved [OF rt lib] new all st by (auto simp: sessions_all_def)
    with handler [of u info0 body u1 res info] ah pr P st have Qi: "Q (ri_session info)" by simp
    show ?thesis
    proof (cases "session_saved H ops E (ep_out ep) info t1")
      case True
      from all1 have i1: "invar t1" by (simp add: sessions_all_def)
      obtain s v e where s: "answered_session H (ep_out ep) info = Some s" "same s v"
        "held t2 (ses_id H (ri_session info)) = Some (v, e)"
        using save_holds_same [OF ss i1 clock True lib] by blast
      from s(1) have "ses_insert H (ri_session info) LAST_MSG_SES_KEY
          (SMsgType (message_spec.message_type (ep_out ep))) = Some s"
        by (simp add: answered_session_def)
      then have "Q v" by (rule codec [OF note_ans [OF Qi] s(2)])
      moreover have "held t2 k = held t1 k" if "valid k" "k \<noteq> ses_id H (ri_session info)" for k
        using save_keeps [OF ss i1 that(1) _ lib] that(2) by blast
      ultimately show ?thesis
        using all1 s(3) save_invar [OF ss i1 lib] sv unfolding sessions_all_def
        by (metis option.inject prod.inject)
    next
      case False
      with save_keeps [OF ss _ _ _ lib] save_invar [OF ss _ lib] all1 sv show ?thesis
        unfolding sessions_all_def by metis
    qed
  qed (use serve_phases [OF hp] st all1 in simp_all)
qed

lemma run_sessions_all:
  assumes "server_run L H ops eps env_ok start st hist"
    and "\<And>st. start st \<Longrightarrow> sessions_all Q (fst st) \<and> P (snd st)" "\<And>E. env_ok E \<Longrightarrow> clock_ok (time E)"
    and "\<And>ep info body. ep \<in> eps \<Longrightarrow> preserves P (ep_handle ep info body)"
    and "\<And>r. Q (ses_new H r)"
    and "\<And>ep info body u u' res info'. ep \<in> eps \<Longrightarrow> P u \<Longrightarrow> Q (ri_session info) \<Longrightarrow>
      is_valid_previous_message (ep_in ep) (last_message H (ri_session info)) \<Longrightarrow>
      encryption_met (ep_in ep) (session_keys H (ri_session info)) \<Longrightarrow>
      ep_handle ep info body u = (u', Ok (res, info')) \<Longrightarrow> Q (ri_session info')"
    and "\<And>s t s'. Q s \<Longrightarrow> ses_insert H s LAST_MSG_SES_KEY (SMsgType t) = Some s' \<Longrightarrow> Q s'"
    and "\<And>s s'. Q s \<Longrightarrow> same s s' \<Longrightarrow> Q s'"
    and lib: "session_env H storable same"
  shows "sessions_all Q (fst st) \<and> P (snd st)"
  using assms(1)
proof (induction rule: server_run.induct)
  case (run_start st)
  with assms(2) show ?case by simp
next
  case (run_request st hist ep E rnd auth headers req)
  have "sessions_all Q (fst (fst (serve L H ops E rnd ep auth headers req st)))"
    by (rule request_keeps_all [where P = P]) (use run_request assms in \<open>blast+\<close>)
  moreover have "P (snd (fst (serve L H ops E rnd ep auth headers req st)))"
    by (rule serve_preserves [of P ep, OF assms(4)]) (use run_request in simp_all)
  ultimately show ?case by simp
qed

end

section \<open>Properties\<close>

lemma base64_plain: "base64_text k \<Longrightarrow> plain_key k"
  by (cases k) (auto simp: base64_text_def plain_key_def)

interpretation directory_sessions:
  session_server "directory_ops ser rd" now "dir_held rd" tmp_plain plain_key "storable_by ser rd same" same
  for ser :: "'s \<Rightarrow> bytes result" and rd and same
  by unfold_locales (rule base64_plain)

text \<open>C34: in every run of a server whose sessions are kept in a directory store, the messages that were
  accepted and answered within one session follow the previous-message table from the start of a
  protocol: no request is handled out of order, repeated or skipped, whatever tokens the clients
  send and whatever input and output errors occur.\<close>

theorem session_messages_in_order:
  assumes "server_run L H (directory_ops ser rd) eps env_ok start st hist"
    and "session_env H (storable_by ser rd same) same"
    and "\<And>ep. ep \<in> eps \<Longrightarrow> endpoint_ok H ep" "\<And>E. env_ok E \<Longrightarrow> clock_ok (now E)"
    and "\<And>st. start st \<Longrightarrow> tmp_plain (fst st) \<and> (\<forall>k. plain_key k \<longrightarrow> dir_held rd (fst st) k = None)"
  shows "run_from None (session_log k hist)"
  using directory_sessions.run_sessions_ok [OF assms(1,3,4,5,2)]
  by (simp add: directory_sessions.sessions_ok_def)

text \<open>C35: whatever a request changes in the data of the server, and whenever it is answered, the
  message was a valid successor of the last message of its session, the session had encryption keys
  exactly as the message requires, and the body decrypted under them to a message.\<close>

theorem fdo_request_guarded:
  assumes "fdo_request L H ops E rnd IM OM des ser handler auth headers req (t, u) = ((t', u'), r)"
    and "u' \<noteq> u \<or> r = Ok rs"
  shows "\<exists>t1 ses body msg. retrieve_session H ops E rnd IM auth t = (t1, Ok ses) \<and>
    is_valid_previous_message IM (last_message H ses) \<and> encryption_met IM (session_keys H ses) \<and>
    keys_decrypt H (session_keys H ses) req = Ok body \<and> des body = Ok msg"
proof -
  obtain t1 x where rt: "retrieve_session H ops E rnd IM auth t = (t1, x)" by fastforce
  have "\<exists>ses h msg info. x = Ok ses \<and>
      parse_request H IM des req \<lparr>ri_session = ses, ri_req_hash = h, ri_headers = headers\<rparr> = Ok (msg, info)"
    using assms rt
    by (auto simp: fdo_request_def sbind_def on_store_def lift_def split: res.splits)
  with rt show ?thesis by (auto simp: parse_request_def Let_def res_simps split: if_splits)
qed

lemma answered_keys:
  assumes "store_session H ops E IM OM res info t = (t', Ok (res', token, keys))" "session_doc H"
  shows "res' = res \<and> keys = session_keys H (ri_session info)"
  using assms
  by (auto simp: store_session_def Let_def res_simps session_keys_def get_keys_def session_doc_def
      ENCRYPTION_KEYS_SES_KEY_def LAST_MSG_SES_KEY_def)

lemma encrypted_response:
  assumes "encrypt_and_generate_response L H IM OM val token keys = Ok rs" "enc0_doc H"
  shows "keys_decrypt H keys (rs_body rs) = Ok val" "rs_message_type rs = message_type_u8 (message_spec.message_type OM)"
    and "encryption_requirement OM = Some MustBeEncrypted \<Longrightarrow>
      keys_is_some keys \<and> keys_encrypt H keys val = Ok (rs_body rs)"
    and "encryption_requirement OM = Some MustNotBeEncrypted \<Longrightarrow> rs_body rs = val"
  using assms
  by (auto simp: encrypt_and_generate_response_def http_response_def keys_encrypt_def keys_decrypt_def
      enc0_doc_def keys_is_none_def keys_is_some_def res_simps split: if_splits option.splits derived_keys.splits)

text \<open>C36: an answer carries the serialised response of the handler as its message requires: encrypted
  under the keys of the handler's session when it must be, so that the holder of the keys decrypts it,
  and in the clear when it must not be encrypted.\<close>

theorem response_encrypted_as_required:
  assumes "fdo_request L H ops E rnd IM OM des ser handler auth headers req (t, u) = ((t', u'), Ok rs)"
    and "session_doc H" "enc0_doc H"
  shows "\<exists>msg info0 info res val. handler info0 msg u = (u', Ok (res, info)) \<and>
    msg_to_response L OM (ser res) = Ok val \<and>
    keys_decrypt H (session_keys H (ri_session info)) (rs_body rs) = Ok val \<and>
    (encryption_requirement OM = Some MustBeEncrypted \<longrightarrow>
       keys_is_some (session_keys H (ri_session info)) \<and>
       keys_encrypt H (session_keys H (ri_session info)) val = Ok (rs_body rs)) \<and>
    (encryption_requirement OM = Some MustNotBeEncrypted \<longrightarrow> rs_body rs = val) \<and>
    rs_message_type rs = message_type_u8 (message_spec.message_type OM)"
proof -
  from assms(1) obtain msg info0 info res res' val token keys t1 where
    hd: "handler info0 msg u = (u', Ok (res, info))"
    and ss: "store_session H ops E IM OM res info t1 = (t', Ok (res', token, keys))"
    and v: "msg_to_response L OM (ser res') = Ok val"
    and e: "encrypt_and_generate_response L H IM OM val token keys = Ok rs"
    by (auto simp: fdo_request_def res_simps)
  with answered_keys [OF ss assms(2)] encrypted_response [OF e assms(3)] show ?thesis by blast
qed

end
