(* ===== verification/Rendezvous.thy ===== *)
theory Rendezvous
  imports Http_Sessions
begin

text \<open>
  The rendezvous server: the handlers of \<open>rendezvous-server/src/handlers_to0.rs\<close> and
  \<open>handlers_to1.rs\<close>. A handler is a computation on the device store \<open>'t\<close>, whose operations are \<open>ops\<close>
  (keys are the text forms of GUIDs), with the environment \<open>E\<close> of the store; \<open>UD\<close> is the
  configuration. Random bytes are an argument.

  An owner registers a device by sending its voucher and a signed redirection (TO0); a device proves
  its identity and receives the redirection (TO1).
\<close>

section \<open>State and helpers\<close>

record rendezvous_ud =
  max_wait_seconds :: nat
  trusted_manufacturer_keys :: "x5bag option"
  trusted_device_keys :: "x5bag option"

definition reject :: "error_code \<Rightarrow> message_spec \<Rightarrow> string \<Rightarrow> ('t, rejection, 'a) st" where
  "reject code M s = lift (Err (Reject code (message_spec.message_type M) s))"

definition or_internal :: "message_spec \<Rightarrow> ('e, 'a) res \<Rightarrow> ('t, rejection, 'a) st" where
  "or_internal M r = lift (rmap_err (from_error M) r)"

definition session_put ::
  "'s http_lib \<Rightarrow> message_spec \<Rightarrow> 's \<Rightarrow> string \<Rightarrow> session_value \<Rightarrow> ('t, rejection, 's) st" where
  "session_put H M s k v = lift (ok_or (ses_insert H s k v) (from_error M ()))"

text \<open>The store of devices is indexed by GUID.\<close>

definition load_device ::
  "'z plib_scheme \<Rightarrow> ('e, string, 'v, 't) store_ops \<Rightarrow> 'e \<Rightarrow> guid \<Rightarrow> ('t, store_error, 'v option) st" where
  "load_device L ops E g = sbind (lift (guid_fmt L g)) (\<lambda>k t. so_load ops E t k)"

definition store_device ::
  "'z plib_scheme \<Rightarrow> ('e, string, 'v, 't) store_ops \<Rightarrow> 'e \<Rightarrow> guid \<Rightarrow> 'v \<Rightarrow> ('t, store_error, unit) st" where
  "store_device L ops E g v = sbind (lift (guid_fmt L g)) (\<lambda>k t. so_store ops E t k v)"

definition ttl_device ::
  "'z plib_scheme \<Rightarrow> ('e, string, 'v, 't) store_ops \<Rightarrow> 'e \<Rightarrow> guid \<Rightarrow> int \<Rightarrow> ('t, store_error, unit) st" where
  "ttl_device L ops E g d = sbind (lift (guid_fmt L g)) (\<lambda>k t. so_ttl ops E t k d)"

section \<open>TO0\<close>

definition handle_hello ::
  "'z plib_scheme \<Rightarrow> 's http_lib \<Rightarrow> bytes option \<Rightarrow> 's request_info \<Rightarrow> to0_hello \<Rightarrow>
     ('t, rejection, to0_hello_ack \<times> 's request_info) st" where
  "handle_hello L H rnd info msg =
     sbind (or_internal to0_Hello (nonce_new rnd)) (\<lambda>nonce3.
     sbind (session_put H to0_Hello (ri_session info) ''nonce3'' (SString (nonce_fmt L nonce3))) (\<lambda>session.
     lift (Ok (HelloAck nonce3, info\<lparr>ri_session := session\<rparr>))))"

text \<open>The check of the manufacturer: the first key of the voucher must be trusted, when trusted keys
  are configured.\<close>

definition manufacturer_trusted :: "'z plib_scheme \<Rightarrow> rendezvous_ud \<Rightarrow> voucher \<Rightarrow> bool result" where
  "manufacturer_trusted L UD ov =
     (case trusted_manufacturer_keys UD of
        None \<Rightarrow> Ok True
      | Some bag \<Rightarrow> contains_pkey L bag (pk_pkey (oh_manufacturer_public_key (ov_header ov))))"

text \<open>\<open>EntryIter::last\<close>: the last item that the iterator yields.\<close>

definition iter_last :: "'z vlib_scheme \<Rightarrow> voucher \<Rightarrow> entry_iter \<Rightarrow> ov_payload result option result" where
  "iter_last L v it = rmap (\<lambda>xs. if xs = [] then None else Some (last xs)) (iter_collect L v it)"

definition verify_device_chain :: "'z plib_scheme \<Rightarrow> rendezvous_ud \<Rightarrow> x5chain \<Rightarrow> x509 result" where
  "verify_device_chain L UD c =
     (case trusted_device_keys UD of
        Some bag \<Rightarrow> verify_from_x5bag L c bag
      | None \<Rightarrow> insecure_verify_without_root_verification L c)"

text \<open>The checks of \<open>ownersign\<close>, which do not touch the store: the GUID, the item to store and the
  time it is kept.\<close>

definition rejected :: "error_code \<Rightarrow> message_spec \<Rightarrow> string \<Rightarrow> (rejection, 'a) res" where
  "rejected code M s = Err (Reject code (message_spec.message_type M) s)"

definition ownersign_checks ::
  "'z plib_scheme \<Rightarrow> 's http_lib \<Rightarrow> rendezvous_ud \<Rightarrow> 's request_info \<Rightarrow> owner_sign \<Rightarrow>
     (rejection, guid \<times> stored_item \<times> nat) res" where
  "ownersign_checks L H UD info msg =
     (case get_string H (ri_session info) ''nonce3'' of
        None \<Rightarrow> rejected InvalidMessageError to0_OwnerSign ''Request sequence failure''
      | Some correct_nonce \<Rightarrow>
     rbind (rmap_err (from_error to0_OwnerSign) (owner_sign_to0d L msg)) (\<lambda>to0d.
     rbind (unwrap (nonce_from_str L correct_nonce)) (\<lambda>correct_nonce.
     rbind (unwrap (nonce_eq L correct_nonce (td_nonce to0d))) (\<lambda>same_nonce.
     if \<not> same_nonce then rejected InvalidMessageError to0_OwnerSign ''Invalid nonce3'' else
     rbind (unwrap (manufacturer_trusted L UD (td_ownership_voucher to0d))) (\<lambda>trusted.
     if \<not> trusted
     then rejected InvalidOwnershipVoucher to0_OwnerSign ''Ownership voucher manufacturer not trusted'' else
     rbind (rmap_err (from_error to0_OwnerSign) (iter_entries (td_ownership_voucher to0d))) (\<lambda>ov_iter.
     rbind (unwrap (iter_last L (td_ownership_voucher to0d) ov_iter)) (\<lambda>last_entry.
     case last_entry of
       None \<Rightarrow> rejected InvalidOwnershipVoucher to0_OwnerSign ''Invalid OV''
     | Some Panic \<Rightarrow> Panic
     | Some (Err e) \<Rightarrow> rejected InvalidOwnershipVoucher to0_OwnerSign ''Invalid OV''
     | Some (Ok owner) \<Rightarrow>
     rbind (rmap_err (\<lambda>_. Reject InvalidOwnershipVoucher TO0OwnerSign ''Invalid TO1D'')
              (get_payload L (to1d_payload_des L) (ow_to1d msg) (pk_pkey (public_key owner)))) (\<lambda>to1d_payload.
     rbind (rmap_err (from_error to0_OwnerSign)
              (to0d_hash L msg (hash_type (to1d_to_to0d_hash to1d_payload)))) (\<lambda>h.
     rbind (rmap_err (from_error to0_OwnerSign) (hash_compare L (to1d_to_to0d_hash to1d_payload) h)) (\<lambda>_.
     case ov_device_certificate_chain (td_ownership_voucher to0d) of
       None \<Rightarrow> rejected InvalidOwnershipVoucher to0_OwnerSign ''No device certificate''
     | Some device_cert_chain \<Rightarrow>
     rbind (rmap_err (\<lambda>_. Reject InvalidOwnershipVoucher TO0OwnerSign ''Device certificate not trusted'')
              (verify_device_chain L UD device_cert_chain)) (\<lambda>cert.
     rbind (rmap_err (from_error to0_OwnerSign) (public_key_from_x509 L cert)) (\<lambda>device_pubkey.
     Ok (oh_guid (ov_header (td_ownership_voucher to0d)),
         \<lparr>si_public_key = device_pubkey, si_to1d = ow_to1d msg\<rparr>,
         if td_wait_seconds to0d > max_wait_seconds UD then max_wait_seconds UD
         else td_wait_seconds to0d)))))))))))))"

definition handle_ownersign ::
  "'z plib_scheme \<Rightarrow> 's http_lib \<Rightarrow> rendezvous_ud \<Rightarrow> ('e, string, stored_item, 't) store_ops \<Rightarrow> 'e \<Rightarrow>
     's request_info \<Rightarrow> owner_sign \<Rightarrow> ('t, rejection, accept_owner \<times> 's request_info) st" where
  "handle_ownersign L H UD ops E info msg =
     sbind (lift (ownersign_checks L H UD info msg)) (\<lambda>(device_guid, item, wait_seconds).
     sbind (smap_err (from_error to0_OwnerSign) (store_device L ops E device_guid item)) (\<lambda>_.
     sbind (smap_err (from_error to0_OwnerSign) (ttl_device L ops E device_guid (int wait_seconds))) (\<lambda>_.
     lift (Ok (AcceptOwner wait_seconds, info)))))"

section \<open>TO1\<close>

definition handle_hello_rv ::
  "'z plib_scheme \<Rightarrow> 's http_lib \<Rightarrow> ('e, string, stored_item, 't) store_ops \<Rightarrow> 'e \<Rightarrow> bytes option \<Rightarrow>
     's request_info \<Rightarrow> hello_rv \<Rightarrow> ('t, rejection, hello_rv_ack \<times> 's request_info) st" where
  "handle_hello_rv L H ops E rnd info msg =
     (let a_sig_info = hr_a_signature_info msg in
      if sig_type a_sig_info \<notin> {StSECP256R1, StSECP384R1}
      then reject InvalidMessageError to1_HelloRV ''Unsupported signature scheme''
      else if sig_info_bytes a_sig_info \<noteq> []
      then reject InvalidMessageError to1_HelloRV ''Unsupported signature info''
      else
        sbind (smap_err (from_error to1_HelloRV) (load_device L ops E (hr_guid msg))) (\<lambda>dev_to1d.
        case dev_to1d of
          None \<Rightarrow> reject ResourceNotFound to1_HelloRV ''Device GUID not found''
        | Some _ \<Rightarrow>
        sbind (or_internal to1_HelloRV (nonce_new rnd)) (\<lambda>nonce4.
        sbind (session_put H to1_HelloRV (ri_session info) ''nonce4'' (SString (nonce_fmt L nonce4))) (\<lambda>session.
        sbind (lift (guid_fmt L (hr_guid msg))) (\<lambda>guid_text.
        sbind (session_put H to1_HelloRV session ''device_guid'' (SString guid_text)) (\<lambda>session.
        lift (Ok (\<lparr>hra_nonce4 = nonce4,
                   hra_b_signature_info = \<lparr>sig_type = sig_type a_sig_info, sig_info_bytes = []\<rparr>\<rparr>,
                  info\<lparr>ri_session := session\<rparr>))))))))"

definition handle_prove_to_rv ::
  "'z plib_scheme \<Rightarrow> 's http_lib \<Rightarrow> ('e, string, stored_item, 't) store_ops \<Rightarrow> 'e \<Rightarrow>
     's request_info \<Rightarrow> prove_to_rv \<Rightarrow> ('t, rejection, rv_redirect \<times> 's request_info) st" where
  "handle_prove_to_rv L H ops E info msg =
     (case get_string H (ri_session info) ''nonce4'' of
        None \<Rightarrow> reject InvalidMessageError to0_OwnerSign ''Request sequence failure''
      | Some nonce4 \<Rightarrow>
     sbind (lift (unwrap (nonce_from_str L nonce4))) (\<lambda>nonce4.
     case get_string H (ri_session info) ''device_guid'' of
       None \<Rightarrow> reject InvalidMessageError to1_ProveToRV ''Request sequence failure''
     | Some guid_text \<Rightarrow>
     sbind (lift (unwrap_opt (guid_from_str L guid_text))) (\<lambda>device_guid.
     sbind (smap_err (\<lambda>_. Reject InvalidMessageError TO1ProveToRV ''Request sequence failure'')
              (load_device L ops E device_guid)) (\<lambda>dev.
     case dev of
       None \<Rightarrow> reject ResourceNotFound to1_ProveToRV ''Device not found''
     | Some item \<Rightarrow>
     sbind (lift (rmap_err (\<lambda>_. Reject InvalidMessageError TO1ProveToRV ''Token invalid'')
              (get_eat L (ptr_token msg) (pk_pkey (si_public_key item))))) (\<lambda>device_eat.
     sbind (lift (unwrap (nonce_eq L nonce4 (eat_nonce device_eat)))) (\<lambda>same_nonce.
     if \<not> same_nonce then reject InvalidMessageError to1_ProveToRV ''Nonce invalid''
     else lift (Ok (RVRedirect (si_to1d item), info))))))))"

section \<open>What the checks establish\<close>

text \<open>When the last item of the iterator is an entry, the whole chain holds: after an error the
  iterator ends.\<close>

lemma iter_collect_errored: "it_errored it \<Longrightarrow> iter_collect L v it = Ok []"
  by (subst iter_collect.simps) (simp add: iter_next_def)

lemma iter_next_error:
  "iter_next L v it = Ok (it', Some (Err e)) \<Longrightarrow> it_errored it'"
  by (auto simp: iter_next_def split: if_splits res.splits)

lemma iter_next_not_Panic: "iter_next L v it \<noteq> Ok (it', Some Panic)"
  by (auto simp: iter_next_def split: if_splits res.splits)

lemma iter_collect_last:
  assumes "iter_collect L v it = Ok xs" "xs \<noteq> []" "last xs = Ok p"
  shows "\<exists>ps. xs = map Ok ps \<and> last ps = p"
  using assms
proof (induction L v it arbitrary: xs rule: iter_collect.induct)
  case (1 L v it)
  from "1.prems"(1,2) obtain it' y ys where n: "iter_next L v it = Ok (it', Some y)"
    and c: "iter_collect L v it' = Ok ys" and xs: "xs = y # ys"
    by (subst (asm) iter_collect.simps) (auto simp: res_simps split: option.splits)
  show ?case
  proof (cases "ys = []")
    case True
    with xs "1.prems"(3) show ?thesis by (intro exI [of _ "[p]"]) simp
  next
    case False
    with xs "1.prems"(3) "1.IH" [OF n refl refl c] obtain ps where ps: "ys = map Ok ps" "last ps = p" by auto
    moreover have "\<exists>q. y = Ok q"
      using n c False iter_next_error [of L v it it'] iter_next_not_Panic [of L v it it']
        iter_collect_errored [of it' L v]
      by (cases y) auto
    ultimately show ?thesis using xs False by (metis last_ConsR list.simps(9) map_is_Nil_conv)
  qed
qed

lemma iter_last_chain:
  assumes "iter_entries v = Ok it" "iter_last L v it = Ok (Some (Ok p))"
  shows "\<exists>ps. chain_ok L v ps \<and> ps \<noteq> [] \<and> last ps = p"
proof -
  from assms(2) obtain xs where xs: "iter_collect L v it = Ok xs" "xs \<noteq> []" "last xs = Ok p"
    by (auto simp: iter_last_def res_simps split: if_splits)
  from iter_collect_last [OF this] obtain ps where "xs = map Ok ps" "last ps = p" by blast
  with xs assms(1) iter_all_Ok_iff [of L v ps] show ?thesis by (auto simp: iter_all_def)
qed

text \<open>What a registration rests on: a voucher with a trusted manufacturer, an unbroken chain of
  ownership and a verified device certificate; a redirection that the last owner signed, bound by hash
  to the message that carried the voucher.\<close>

definition registered :: "'z plib_scheme \<Rightarrow> rendezvous_ud \<Rightarrow> string \<Rightarrow> stored_item \<Rightarrow> bool" where
  "registered L UD k item \<longleftrightarrow>
     (\<exists>data to0d ps p h c cert. deserialize_data (to0_data_read L) data = Ok to0d \<and>
        guid_key L (oh_guid (ov_header (td_ownership_voucher to0d))) = Some k \<and>
        manufacturer_trusted L UD (td_ownership_voucher to0d) = Ok True \<and>
        chain_ok L (td_ownership_voucher to0d) ps \<and> ps \<noteq> [] \<and>
        get_payload L (to1d_payload_des L) (si_to1d item) (pk_pkey (public_key (last ps))) = Ok p \<and>
        hash_from_data L (hash_type (to1d_to_to0d_hash p)) data = Ok h \<and>
        hash_compare L (to1d_to_to0d_hash p) h = Ok () \<and>
        ov_device_certificate_chain (td_ownership_voucher to0d) = Some c \<and>
        verify_device_chain L UD c = Ok cert \<and> public_key_from_x509 L cert = Ok (si_public_key item))"

lemma rejected_simps [res_simps]:
  "(case x of None \<Rightarrow> rejected co M s | Some y \<Rightarrow> f y) = Ok z \<longleftrightarrow> (\<exists>y. x = Some y \<and> f y = Ok z)"
  "(if \<not> b then rejected co M s else m) = Ok z \<longleftrightarrow> b \<and> m = Ok z"
  "(case w of Ok y' \<Rightarrow> f' y' | Err e \<Rightarrow> rejected co M s | Panic \<Rightarrow> Panic) = Ok z \<longleftrightarrow>
     (\<exists>y'. w = Ok y' \<and> f' y' = Ok z)"
  by (auto simp: rejected_def split: option.splits res.splits)

lemma ownersign_checksE:
  assumes "ownersign_checks L H UD info msg = Ok (g, item, wait)"
  obtains n to0d n3 it owner p h c cert where
    "get_string H (ri_session info) ''nonce3'' = Some n" "owner_sign_to0d L msg = Ok to0d"
    "nonce_from_str L n = Ok n3" "nonce_eq L n3 (td_nonce to0d) = Ok True"
    "manufacturer_trusted L UD (td_ownership_voucher to0d) = Ok True"
    "iter_entries (td_ownership_voucher to0d) = Ok it"
    "iter_last L (td_ownership_voucher to0d) it = Ok (Some (Ok owner))"
    "get_payload L (to1d_payload_des L) (ow_to1d msg) (pk_pkey (public_key owner)) = Ok p"
    "to0d_hash L msg (hash_type (to1d_to_to0d_hash p)) = Ok h"
    "hash_compare L (to1d_to_to0d_hash p) h = Ok ()"
    "ov_device_certificate_chain (td_ownership_voucher to0d) = Some c"
    "verify_device_chain L UD c = Ok cert" "public_key_from_x509 L cert = Ok (si_public_key item)"
    "g = oh_guid (ov_header (td_ownership_voucher to0d))" "si_to1d item = ow_to1d msg"
    "wait = min (td_wait_seconds to0d) (max_wait_seconds UD)"
  using assms unfolding ownersign_checks_def res_simps
  by (elim exE conjE) (rule that, assumption+, auto)

lemma ownersign_registered:
  assumes "ownersign_checks L H UD info msg = Ok (g, item, wait)"
    and "guid_key L g = Some k"
  shows "registered L UD k item"
  using assms(1)
proof (rule ownersign_checksE)
  fix n to0d n3 it owner p h c cert
  assume *: "owner_sign_to0d L msg = Ok to0d" "manufacturer_trusted L UD (td_ownership_voucher to0d) = Ok True"
    "iter_entries (td_ownership_voucher to0d) = Ok it"
    "iter_last L (td_ownership_voucher to0d) it = Ok (Some (Ok owner))"
    "get_payload L (to1d_payload_des L) (ow_to1d msg) (pk_pkey (public_key owner)) = Ok p"
    "to0d_hash L msg (hash_type (to1d_to_to0d_hash p)) = Ok h"
    "hash_compare L (to1d_to_to0d_hash p) h = Ok ()"
    "ov_device_certificate_chain (td_ownership_voucher to0d) = Some c"
    "verify_device_chain L UD c = Ok cert" "public_key_from_x509 L cert = Ok (si_public_key item)"
    "g = oh_guid (ov_header (td_ownership_voucher to0d))" "si_to1d item = ow_to1d msg"
  from iter_last_chain [OF *(3,4)] obtain ps where
    "chain_ok L (td_ownership_voucher to0d) ps" "ps \<noteq> []" "last ps = owner" by blast
  with * assms(2) show ?thesis unfolding registered_def
    by (intro exI [of _ "ow_to0d msg"] exI [of _ to0d] exI [of _ ps] exI [of _ p] exI [of _ h]
        exI [of _ c] exI [of _ cert]) (simp add: owner_sign_to0d_def to0d_hash_def)
qed

lemma ownersign_item:
  assumes "ownersign_checks L H UD info msg = Ok (g, item, wait)" "der_doc L"
  shows "wf_public_key L (si_public_key item)" "si_to1d item = ow_to1d msg" "wait \<le> max_wait_seconds UD"
  using assms(2) ownersign_checksE [OF assms(1)] public_key_from_x509_wf by (metis min.cobounded2)+

section \<open>Stored items\<close>

definition same_item :: "stored_item \<Rightarrow> stored_item \<Rightarrow> bool" where
  "same_item i j \<longleftrightarrow> si_public_key j = si_public_key i \<and> cached_inner (si_to1d j) = cached_inner (si_to1d i)"

lemma cosesign_des_items:
  assumes "cosesign_des L data = Ok cs"
  obtains items h where "length items = 4" "list_all one_item items"
    "cs_contents cs = \<lparr>tag = Some COSESIGN_TAG, header = h, contents = items\<rparr>"
    "cose_from_bytes L (0xd2 # 0x84 # concat items) = Some (cached_inner cs)"
proof -
  from assms obtain a r' bs where a: "deserialize_from_reader (Some 4) data = Ok (a, r')"
      "tag a = Some COSESIGN_TAG" "serialize_to_writer L a = Ok bs" "cose_from_bytes L bs = Some (cached_inner cs)"
      "cs_contents cs = a"
    by (auto simp: cosesign_des_def cosesign_read_def res_simps split: if_splits)
  obtain h items where ai: "a = \<lparr>tag = Some COSESIGN_TAG, header = h, contents = items\<rparr>"
    using a(2) by (cases a) auto
  with deserialize_one_items [OF a(1)] have "length items = 4" "list_all one_item items" by simp_all
  moreover from this(1) a(3) ai have "bs = 0xd2 # 0x84 # concat items" by (simp add: serialize_cose_items)
  ultimately show ?thesis using that [of items h] a(4,5) ai by simp
qed

lemma stored_item_storable:
  assumes codecs: "voucher_codecs L" and key: "wf_public_key L (si_public_key i)"
    and cs: "cosesign_des L data = Ok (si_to1d i)" and ser: "stored_item_ser L i = Ok bs"
  shows "storable_by (stored_item_ser L) (stored_item_read L) same_item i"
proof -
  obtain items h0 where items: "length items = 4" "list_all one_item items"
      "cs_contents (si_to1d i) = \<lparr>tag = Some COSESIGN_TAG, header = h0, contents = items\<rparr>"
      "cose_from_bytes L (0xd2 # 0x84 # concat items) = Some (cached_inner (si_to1d i))"
    using cosesign_des_items [OF cs] .
  let ?c = "0xd2 # 0x84 # concat items"
  from ser obtain kb a where kb: "public_key_ser L (si_public_key i) = Ok kb"
      "a = \<lparr>tag = None, header = None, contents = [kb, ?c]\<rparr>" "serialize_to_writer L a = Ok bs"
    by (auto simp: stored_item_ser_def build_array_Ok_iff rbind_Ok_iff cosesign_ser_def items(3)
        serialize_cose_items [OF items(1)] map_eq_Cons_conv)
  have "one_item kb" using kb(1) codecs by (auto simp: public_key_ser_def voucher_codecs_def intro: serde_ser_item)
  then have "byteorder_doc L" "list_all one_item [kb, ?c]" "length [kb, ?c] = 2"
    using one_item_cose [OF items(1,2)] codecs by (simp_all add: voucher_codecs_def)
  then obtain h where "array_header None h 2" and h: "\<And>x. serialize_to_writer L \<lparr>tag = None, header = x, contents = [kb, ?c]\<rparr> = Ok (h @ concat [kb, ?c])"
      "\<And>r. deserialize_from_reader (Some 2) (h @ concat [kb, ?c] @ r) =
         Ok (\<lparr>tag = None, header = Some h, contents = [kb, ?c]\<rparr>, r)"
    by (rule items_roundtrip) simp_all
  have "public_key_des L kb = Ok (si_public_key i)"
    using kb(1) key codecs by (auto simp: voucher_codecs_def item_codec_def intro: public_key_roundtrip)
  moreover have "\<exists>cs'. cosesign_des L ?c = Ok cs' \<and> cached_inner cs' = cached_inner (si_to1d i)"
    using cosesign_read_items [OF items(1,2,4), of "[]"] by (simp add: cosesign_des_def)
  moreover have "bs = h @ concat [kb, ?c]" using kb(2,3) h(1) by simp
  ultimately show ?thesis using ser h(2) [of "[]"]
    by (auto simp: storable_by_def deserialize_data_def stored_item_read_def array_get_nth same_item_def)
qed

section \<open>The device store\<close>

text \<open>A clock on which every wait of a message (a \<open>u32\<close>) ends before the largest time in seconds.\<close>

definition clock_fine :: "int \<Rightarrow> bool" where
  "clock_fine t \<longleftrightarrow> 0 \<le> t \<and> t + 2 ^ 32 * 10 ^ 9 < 2 ^ 63 * 10 ^ 9"

lemma clock_fine_wait:
  assumes "clock_fine t" "0 \<le> d" "d < 2 ^ 32"
  shows "0 \<le> t + d * 10 ^ 9" "expiry_of t d < 2 ^ 63 * 10 ^ 9"
proof -
  show "0 \<le> t + d * 10 ^ 9" using assms by (simp add: clock_fine_def)
  have "expiry_of t d \<le> t + d * 10 ^ 9" by (simp add: expiry_of_def)
  also have "\<dots> < 2 ^ 63 * 10 ^ 9" using assms by (simp add: clock_fine_def)
  finally show "expiry_of t d < 2 ^ 63 * 10 ^ 9" .
qed

definition all_registered ::
  "('t \<Rightarrow> string \<Rightarrow> stored_item entry) \<Rightarrow> ('t \<Rightarrow> bool) \<Rightarrow> (string \<Rightarrow> bool) \<Rightarrow> 'z plib_scheme \<Rightarrow> rendezvous_ud \<Rightarrow>
     't \<Rightarrow> bool" where
  "all_registered held invar valid L UD t \<longleftrightarrow> invar t \<and>
     (\<forall>k i e. valid k \<longrightarrow> held t k = Some (i, e) \<longrightarrow> registered L UD k i)"

text \<open>The keys and the items of the server: GUIDs as text, and items that are read back.\<close>

definition items_stored ::
  "(string \<Rightarrow> bool) \<Rightarrow> (stored_item \<Rightarrow> bool) \<Rightarrow> (stored_item \<Rightarrow> bool) \<Rightarrow> 'z plib_scheme \<Rightarrow> bool" where
  "items_stored valid storable encodable L \<longleftrightarrow> (\<forall>g k. guid_key L g = Some k \<longrightarrow> valid k) \<and>
     (\<forall>i data. wf_public_key L (si_public_key i) \<longrightarrow> cosesign_des L data = Ok (si_to1d i) \<longrightarrow>
        encodable i \<longrightarrow> storable i)"

text \<open>A store of devices: a store that keeps its contract, stores only what it can encode, and gives
  back items with the same key and the same signed redirection.\<close>

locale device_store = store_contract ops time held invar valid storable same
  for ops :: "('e, string, stored_item, 't) store_ops" and time held invar valid storable same +
  fixes encodable :: "stored_item \<Rightarrow> bool"
  assumes encoded: "valid k \<Longrightarrow> so_store ops E s k v = (s', Ok ()) \<Longrightarrow> encodable v"
    and same_items: "same i j \<Longrightarrow> same_item i j"
begin

lemma registered_same: "same i j \<Longrightarrow> registered L UD k i \<Longrightarrow> registered L UD k j"
  using same_items [of i j] by (simp add: registered_def same_item_def get_payload_def)

lemma all_registered_dropped:
  assumes "all_registered held invar valid L UD t" "invar t'" "\<And>k. valid k \<Longrightarrow> held t' k = held t k \<or> held t' k = None"
  shows "all_registered held invar valid L UD t'"
  using assms unfolding all_registered_def by (metis option.distinct(1))

lemma load_device_keeps:
  assumes "load_device L ops E g t = (t', r)" "all_registered held invar valid L UD t" "items_stored valid storable encodable L"
  shows "all_registered held invar valid L UD t'"
proof (cases "guid_key L g")
  case None
  with assms show ?thesis by (simp add: load_device_def guid_fmt_def)
next
  case (Some k)
  with assms have "valid k" "so_load ops E t k = (t', r)"
    by (auto simp: load_device_def items_stored_def sbind_lift_Ok guid_fmt_def)
  show ?thesis
  proof (rule all_registered_dropped [OF assms(2)])
    show "invar t'" using invar_load [of k t E] \<open>valid k\<close> assms(2) \<open>so_load ops E t k = (t', r)\<close>
      by (simp add: all_registered_def)
    show "held t' k' = held t k' \<or> held t' k' = None" if "valid k'" for k'
      using load_keeps [OF \<open>valid k\<close> that \<open>so_load ops E t k = (t', r)\<close>] by auto
  qed
qed

lemma store_device_keeps:
  assumes "store_device L ops E g i t = (t', r)" "all_registered held invar valid L UD t" "items_stored valid storable encodable L"
    and "wf_public_key L (si_public_key i)" "cosesign_des L data = Ok (si_to1d i)"
    and "\<And>k. guid_key L g = Some k \<Longrightarrow> registered L UD k i"
  shows "all_registered held invar valid L UD t'"
proof (cases "guid_key L g")
  case None
  with assms show ?thesis by (simp add: store_device_def guid_fmt_def)
next
  case (Some k)
  with assms(1,3) have k: "valid k" and st: "so_store ops E t k i = (t', r)"
    by (auto simp: store_device_def items_stored_def sbind_lift_Ok guid_fmt_def)
  from assms(2) have inv: "invar t" by (simp add: all_registered_def)
  have "registered L UD k' j" if k': "valid k'" "held t' k' = Some (j, e)" for k' j e
  proof (cases "k' = k \<and> r = Ok ()")
    case True
    with encoded [OF k] st assms(3-5) have "storable i" by (auto simp: items_stored_def)
    moreover from st True have "so_store ops E t k i = (t', Ok ())" by simp
    ultimately obtain i' where "same i i'" "j = i'" using store_holds [OF inv k] True k' by fastforce
    with registered_same assms(6) Some True show ?thesis by blast
  next
    case False
    with store_keeps [OF k k'(1) st] k' have "held t k' = Some (j, e)" by auto
    with k'(1) assms(2) show ?thesis unfolding all_registered_def by blast
  qed
  then show ?thesis using invar_store [OF k inv, where E = E and v = i] st by (simp add: all_registered_def)
qed

lemma store_device_holds:
  assumes "store_device L ops E g i t = (t', Ok ())" "invar t" "items_stored valid storable encodable L"
    and "wf_public_key L (si_public_key i)" "cosesign_des L data = Ok (si_to1d i)"
  shows "\<exists>k j. guid_key L g = Some k \<and> valid k \<and> held t' k = Some (j, None) \<and> same_item i j"
proof -
  from assms(1,3) obtain k where k: "guid_key L g = Some k" "valid k" and st: "so_store ops E t k i = (t', Ok ())"
    by (cases "guid_key L g") (auto simp: store_device_def items_stored_def sbind_lift_Ok guid_fmt_def)
  with encoded assms(3-5) have "storable i" unfolding items_stored_def by blast
  with store_holds [OF assms(2) k(2) _ st] same_items k show ?thesis by blast
qed

lemma ttl_device_keeps:
  assumes "ttl_device L ops E g d t = (t', r)" "all_registered held invar valid L UD t" "items_stored valid storable encodable L"
    and "guid_key L g = Some k" "held t k = Some (i, e)"
    and "0 \<le> time E + d * 10 ^ 9" "expiry_of (time E) d < 2 ^ 63 * 10 ^ 9"
  shows "all_registered held invar valid L UD t'" "r = Ok () \<Longrightarrow> held t' k = Some (i, Some (expiry_of (time E) d))"
proof -
  from assms(1,3,4) have k: "valid k" and st: "so_ttl ops E t k d = (t', r)"
    by (auto simp: ttl_device_def items_stored_def sbind_lift_Ok guid_fmt_def)
  show h: "held t' k = Some (i, Some (expiry_of (time E) d))" if "r = Ok ()"
    using ttl_holds [OF k _ assms(5-7)] st that by simp
  have "registered L UD k' j" if k': "valid k'" "held t' k' = Some (j, e')" for k' j e'
  proof (cases "k' = k \<and> r = Ok ()")
    case True
    with h k' assms(2,5) show ?thesis unfolding all_registered_def by auto
  next
    case False
    with ttl_keeps [OF k k'(1) st] k' have "held t k' = Some (j, e')" by auto
    with k'(1) assms(2) show ?thesis unfolding all_registered_def by blast
  qed
  then show "all_registered held invar valid L UD t'" using invar_ttl [OF k, of t E d] st assms(2) by (simp add: all_registered_def)
qed

text \<open>The two writes of \<open>ownersign\<close>.\<close>

lemma register_preserves:
  assumes "items_stored valid storable encodable L" "clock_fine (time E)" "wait < 2 ^ 32"
    and item: "wf_public_key L (si_public_key item)" "cosesign_des L data = Ok (si_to1d item)"
      "\<And>k. guid_key L g = Some k \<Longrightarrow> registered L UD k item"
  shows "preserves (all_registered held invar valid L UD) (sbind (smap_err f (store_device L ops E g item)) (\<lambda>_.
    sbind (smap_err f (ttl_device L ops E g (int wait))) (\<lambda>_. lift r)))"
  unfolding preserves_def
proof (intro allI impI)
  fix t assume t: "all_registered held invar valid L UD t"
  obtain t1 y where st: "store_device L ops E g item t = (t1, y)" by fastforce
  note reg = store_device_keeps [OF this t assms(1) item]
  show "all_registered held invar valid L UD (fst (sbind (smap_err f (store_device L ops E g item)) (\<lambda>_.
      sbind (smap_err f (ttl_device L ops E g (int wait))) (\<lambda>_. lift r)) t))"
  proof (cases "y = Ok ()")
    case True
    with st t assms(1) item obtain k j where kj: "guid_key L g = Some k" "held t1 k = Some (j, None)"
      using store_device_holds [of L E g item t t1 data] by (auto simp: all_registered_def)
    obtain t2 z where tt: "ttl_device L ops E g (int wait) t1 = (t2, z)" by fastforce
    have "all_registered held invar valid L UD t2"
      using ttl_device_keeps(1) [OF tt reg assms(1) kj] clock_fine_wait [OF assms(2), of "int wait"] assms(3) by simp
    with st tt True show ?thesis by (cases z) (simp_all add: sbind_def smap_err_def lift_def)
  next
    case False
    with reg st show ?thesis by (cases y) (simp_all add: sbind_def smap_err_def)
  qed
qed

lemma ownersign_keeps:
  assumes "items_stored valid storable encodable L" "der_doc L" "max_wait_seconds UD < 2 ^ 32" "clock_fine (time E)"
    and "cosesign_des L data = Ok (ow_to1d msg)"
  shows "preserves (all_registered held invar valid L UD) (handle_ownersign L H UD ops E info msg)"
  unfolding handle_ownersign_def
proof (rule preserves_sbind_lift, clarify)
  fix g item wait assume c: "ownersign_checks L H UD info msg = Ok (g, item, wait)"
  show "preserves (all_registered held invar valid L UD) (sbind (smap_err (from_error to0_OwnerSign) (store_device L ops E g item)) (\<lambda>_.
      sbind (smap_err (from_error to0_OwnerSign) (ttl_device L ops E g (int wait))) (\<lambda>_.
      lift (Ok (AcceptOwner wait, info)))))"
    using ownersign_item [OF c assms(2)] ownersign_registered [OF c] assms(1,3-5)
    by (intro register_preserves) auto
qed

lemma load_keeps_registered [preserves_intros]:
  "items_stored valid storable encodable L \<Longrightarrow> preserves (all_registered held invar valid L UD) (load_device L ops E g)"
  using load_device_keeps by (metis preserves_def prod.collapse)

lemma hello_rv_keeps: "items_stored valid storable encodable L \<Longrightarrow> preserves (all_registered held invar valid L UD) (handle_hello_rv L H ops E rnd info msg)"
  unfolding handle_hello_rv_def Let_def reject_def or_internal_def session_put_def
  by (intro preserves_intros)

lemma prove_to_rv_keeps: "items_stored valid storable encodable L \<Longrightarrow> preserves (all_registered held invar valid L UD) (handle_prove_to_rv L H ops E info msg)"
  unfolding handle_prove_to_rv_def reject_def by (intro preserves_intros)

end

lemma hello_keeps: "preserves P (handle_hello L H rnd info msg)"
  unfolding handle_hello_def or_internal_def session_put_def by (intro preserves_intros)

section \<open>The directory of devices\<close>

abbreviation device_ops :: "'z plib_scheme \<Rightarrow> (fs_env, string, stored_item, dir) store_ops" where
  "device_ops L \<equiv> directory_ops (stored_item_ser L) (stored_item_read L)"

interpretation devices:
  device_store "device_ops L" now "dir_held (stored_item_read L)" tmp_plain plain_key
    "storable_by (stored_item_ser L) (stored_item_read L) same_item" same_item
    "\<lambda>i. \<exists>bs. stored_item_ser L i = Ok bs"
  for L :: "'z plib_scheme"
proof unfold_locales
  fix k E s v s' assume "plain_key k" "so_store (device_ops L) E s k v = (s', Ok ())"
  then have "dir_store_data E (stored_item_ser L) s k v = (s', Ok ())" by (simp add: directory_ops_def)
  with \<open>plain_key k\<close> show "\<exists>bs. stored_item_ser L v = Ok bs"
    by (cases rule: dir_store_cases) auto
qed

lemma guid_key_plain: "text_doc L \<Longrightarrow> guid_key L g = Some k \<Longrightarrow> plain_key k"
  unfolding text_doc_def guid_key_def plain_key_def
  by (cases k) (fastforce split: if_splits)+

lemma directory_items_stored: "text_doc L \<Longrightarrow> voucher_codecs L \<Longrightarrow> items_stored plain_key (storable_by (stored_item_ser L) (stored_item_read L) same_item)
    (\<lambda>i. \<exists>bs. stored_item_ser L i = Ok bs) L"
  unfolding items_stored_def using guid_key_plain stored_item_storable by metis

section \<open>The server\<close>

text \<open>The codecs of the messages with derived (de)serialisation, and the endpoints that \<open>main\<close> sets up.\<close>

record rvlib = plib +
  c_to0_hello :: "unit codec"
  c_hello_ack :: "bytes codec"
  c_accept_owner :: "nat codec"
  c_hello_rv :: "(bytes \<times> device_sig_type \<times> bytes) codec"
  c_hello_rv_ack :: "(bytes \<times> device_sig_type \<times> bytes) codec"

definition hello_rv_des :: "'z rvlib_scheme \<Rightarrow> bytes \<Rightarrow> hello_rv result" where
  "hello_rv_des L bs =
     rbind (serde_des (c_hello_rv L) bs) (\<lambda>(g, t, b).
     rbind (rmap_err (\<lambda>_. SerdeCborError) (guid_try_from g)) (\<lambda>g.
     Ok \<lparr>hr_guid = g, hr_a_signature_info = \<lparr>sig_type = t, sig_info_bytes = b\<rparr>\<rparr>))"

definition hello_rv_ack_ser :: "'z rvlib_scheme \<Rightarrow> hello_rv_ack \<Rightarrow> bytes result" where
  "hello_rv_ack_ser L m =
     serde_ser (c_hello_rv_ack L) (nonce_bytes (hra_nonce4 m), sig_type (hra_b_signature_info m),
       sig_info_bytes (hra_b_signature_info m))"

definition rv_endpoints ::
  "'z rvlib_scheme \<Rightarrow> 's http_lib \<Rightarrow> rendezvous_ud \<Rightarrow> ('e, string, stored_item, 't) store_ops \<Rightarrow> ('e \<Rightarrow> bool) \<Rightarrow>
     ('s, 't) endpoint set" where
  "rv_endpoints L H UD ops env_ok =
     {endpoint L to0_Hello to0_HelloAck (\<lambda>bs. rmap (\<lambda>_. Hello) (serde_des (c_to0_hello L) bs))
        (\<lambda>m. serde_ser (c_hello_ack L) (nonce_bytes (ha_nonce3 m))) (handle_hello L H rnd) |rnd. True} \<union>
     {endpoint L to0_OwnerSign to0_AcceptOwner (deserialize_data (owner_sign_read L))
        (\<lambda>m. serde_ser (c_accept_owner L) (ao_wait_seconds m)) (handle_ownersign L H UD ops E) |E. env_ok E} \<union>
     {endpoint L to1_HelloRV to1_HelloRVAck (hello_rv_des L) (hello_rv_ack_ser L)
        (handle_hello_rv L H ops E rnd) |E rnd. env_ok E} \<union>
     {endpoint L to1_ProveToRV to1_RVRedirect (\<lambda>bs. rmap ProveToRV (cosesign_des L bs))
        (\<lambda>m. cosesign_ser L (rvr_to1d m)) (handle_prove_to_rv L H ops E) |E. env_ok E}"

text \<open>The endpoints pass the checks of \<open>fdo_request_filter\<close>, and no handler leaves its session.\<close>

lemma endpoint_okI:
  assumes "is_valid_previous_message OM (Some (message_spec.message_type IM))"
    and "\<And>info msg u u' res info'. handler info msg u = (u', Ok (res, info')) \<Longrightarrow>
      ses_id H (ri_session info') = ses_id H (ri_session info)"
  shows "endpoint_ok H (endpoint L IM OM des ser handler)"
  using assms unfolding endpoint_ok_def endpoint_def by (auto simp: res_simps)

lemma handlers_keep_session:
  assumes "session_doc H"
  shows "handle_hello L H rnd info m0 u = (u', Ok (r0, info')) \<Longrightarrow> ses_id H (ri_session info') = ses_id H (ri_session info)"
    and "handle_ownersign L H UD ops E info m1 u = (u', Ok (r1, info')) \<Longrightarrow> ses_id H (ri_session info') = ses_id H (ri_session info)"
    and "handle_hello_rv L H ops E rnd info m2 u = (u', Ok (r2, info')) \<Longrightarrow> ses_id H (ri_session info') = ses_id H (ri_session info)"
    and "handle_prove_to_rv L H ops E info m3 u = (u', Ok (r3, info')) \<Longrightarrow> ses_id H (ri_session info') = ses_id H (ri_session info)"
  using assms
  by (auto simp: handle_hello_def handle_ownersign_def handle_hello_rv_def handle_prove_to_rv_def session_put_def
      or_internal_def reject_def Let_def session_doc_def res_simps split: option.splits if_splits)

lemma rv_endpoints_ok:
  assumes "session_doc H" "ep \<in> rv_endpoints L H UD ops env_ok"
  shows "endpoint_ok H ep"
proof -
  have "is_valid_previous_message to0_HelloAck (Some (message_spec.message_type to0_Hello))"
    "is_valid_previous_message to0_AcceptOwner (Some (message_spec.message_type to0_OwnerSign))"
    "is_valid_previous_message to1_HelloRVAck (Some (message_spec.message_type to1_HelloRV))"
    "is_valid_previous_message to1_RVRedirect (Some (message_spec.message_type to1_ProveToRV))"
    by (simp_all add: message_defs)
  with assms(2) show ?thesis
    unfolding rv_endpoints_def by (auto intro!: endpoint_okI dest: handlers_keep_session [OF assms(1)])
qed

lemma owner_sign_to1d:
  "deserialize_data (owner_sign_read L) bs = Ok msg \<Longrightarrow> \<exists>data. cosesign_des L data = Ok (ow_to1d msg)"
  by (auto simp: deserialize_data_def owner_sign_read_def res_simps dest!: array_get_Ok_nth)

text \<open>The documented behaviour of the libraries that the device store rests on.\<close>

definition rv_doc :: "'z plib_scheme \<Rightarrow> bool" where
  "rv_doc L \<longleftrightarrow> text_doc L \<and> voucher_codecs L \<and> memcmp_doc L"

abbreviation devices_registered :: "'z plib_scheme \<Rightarrow> rendezvous_ud \<Rightarrow> dir \<Rightarrow> bool" where
  "devices_registered L \<equiv> all_registered (dir_held (stored_item_read L)) tmp_plain plain_key L"

lemma rv_endpoints_preserve:
  assumes "ep \<in> rv_endpoints L H UD (device_ops L) (\<lambda>E. clock_fine (now E))" "rv_doc L"
    and "max_wait_seconds UD < 2 ^ 32"
  shows "preserves (devices_registered L UD) (ep_handle ep info body)"
proof -
  have st: "items_stored plain_key (storable_by (stored_item_ser L) (stored_item_read L) same_item)
      (\<lambda>i. \<exists>bs. stored_item_ser L i = Ok bs) L" and der: "der_doc L"
    using assms(2) directory_items_stored [of L] unfolding rv_doc_def voucher_codecs_def by blast+
  from assms(1) show ?thesis unfolding rv_endpoints_def
    by (auto intro!: endpoint_preserves hello_keeps devices.hello_rv_keeps [OF st] devices.prove_to_rv_keeps [OF st]
        devices.ownersign_keeps [OF st der assms(3)] dest!: owner_sign_to1d)
qed

lemma rv_reachable_registered:
  assumes "server_run L H sops (rv_endpoints L H UD (device_ops L) (\<lambda>E. clock_fine (now E))) env_ok start st hist"
    and "rv_doc L" "max_wait_seconds UD < 2 ^ 32" "\<And>st. start st \<Longrightarrow> devices_registered L UD (snd st)"
  shows "devices_registered L UD (snd st)"
  using server_run_data [OF assms(1), of "devices_registered L UD"] assms(4)
    rv_endpoints_preserve [OF _ assms(2,3)] by blast

lemma empty_registered: "devices_registered L UD Map.empty"
  by (simp add: all_registered_def dir_held_def tmp_plain_def)

section \<open>Properties\<close>

text \<open>C37: in every state that a rendezvous server reaches from a store of registered devices (an empty one,
  or what an earlier run of the server left), whatever the
  clients send and whatever input and output errors occur, each stored device rests on a registration:
  a voucher for the GUID whose manufacturer is trusted, whose chain of ownership is unbroken and
  whose device certificate chain verifies to the stored device key, and a redirection that the last
  owner signed and bound by hash to the message with the voucher.\<close>

theorem rendezvous_devices_registered:
  assumes "server_run L H sops (rv_endpoints L H UD (device_ops L) (\<lambda>E. clock_fine (now E))) env_ok start st hist"
    and "rv_doc L" "max_wait_seconds UD < 2 ^ 32" "\<And>st. start st \<Longrightarrow> devices_registered L UD (snd st)"
    and "plain_key k" "dir_held (stored_item_read L) (snd st) k = Some (item, e)"
  shows "registered L UD k item"
  using rv_reachable_registered [OF assms(1-4)] assms(5,6) unfolding all_registered_def by blast

text \<open>C38: a device is redirected only after it proved its identity: when \<open>prove_to_rv\<close> answers in a
  reachable state, the redirection is that of a live registration under the GUID of the session, and
  the token is signed with the registered device key over the nonce of the session.\<close>

theorem redirect_authenticated:
  assumes "server_run L H sops (rv_endpoints L H UD (device_ops L) (\<lambda>E. clock_fine (now E))) env_ok start st hist"
    and "rv_doc L" "max_wait_seconds UD < 2 ^ 32" "\<And>st. start st \<Longrightarrow> devices_registered L UD (snd st)"
    and "handle_prove_to_rv L H (device_ops L) E info msg (snd st) = (t', Ok (RVRedirect to1d, info'))"
  shows "\<exists>gt g k item eat nt. get_string H (ri_session info) ''device_guid'' = Some gt \<and>
    guid_from_str L gt = Some g \<and> guid_key L g = Some k \<and>
    live (now E) (dir_held (stored_item_read L) (snd st) k) = Some item \<and> registered L UD k item \<and>
    to1d = si_to1d item \<and> get_eat L (ptr_token msg) (pk_pkey (si_public_key item)) = Ok eat \<and>
    get_string H (ri_session info) ''nonce4'' = Some nt \<and> nonce_from_str L nt = Ok (eat_nonce eat)"
proof -
  from assms(5) obtain nt n4 gt g item eat where
    nt: "get_string H (ri_session info) ''nonce4'' = Some nt" "nonce_from_str L nt = Ok n4"
    and gt: "get_string H (ri_session info) ''device_guid'' = Some gt" "guid_from_str L gt = Some g"
    and ld: "load_device L (device_ops L) E g (snd st) = (t', Ok (Some item))"
    and eat: "get_eat L (ptr_token msg) (pk_pkey (si_public_key item)) = Ok eat"
    and eq: "nonce_eq L n4 (eat_nonce eat) = Ok True" and c: "to1d = si_to1d item"
    by (auto simp: handle_prove_to_rv_def reject_def res_simps split: option.splits if_splits)
  from eq assms(2) have n: "eat_nonce eat = n4"
    by (cases n4; cases "eat_nonce eat")
       (auto simp: nonce_eq_def memcmp_def rv_doc_def memcmp_doc_def split: if_splits)
  from ld obtain k where k: "guid_key L g = Some k" and l: "so_load (device_ops L) E (snd st) k = (t', Ok (Some item))"
    by (cases "guid_key L g") (auto simp: load_device_def guid_fmt_def sbind_lift_Ok)
  have "plain_key k" using guid_key_plain k assms(2) by (auto simp: rv_doc_def)
  with directory.load_result [OF _ l] have lv: "live (now E) (dir_held (stored_item_read L) (snd st) k) = Some item" by simp
  then obtain e where "dir_held (stored_item_read L) (snd st) k = Some (item, e)"
    by (cases "(now E, dir_held (stored_item_read L) (snd st) k)" rule: live.cases) (auto split: if_splits)
  with rv_reachable_registered [OF assms(1-4)] \<open>plain_key k\<close> have "registered L UD k item"
    unfolding all_registered_def by blast
  with nt gt k lv c eat n show ?thesis by auto
qed

end
