(* ===== verification/Owner_Onboarding.thy ===== *)
theory Owner_Onboarding
  imports Rendezvous
begin

text \<open>
  The owner onboarding server: the handlers of \<open>owner-onboarding-server/src/handlers.rs\<close>, which are
  the owner's side of TO2. A handler is a computation on the store of ownership vouchers \<open>'t\<close>, with
  the operations \<open>ops\<close> and the write of metadata \<open>meta\<close>; \<open>UD\<close> holds the keys of the owner. The client
  of the service-info API is the function \<open>api\<close> from a query to a reply. Random bytes, generated keys
  and the iteration order of a \<open>HashSet\<close> are arguments.
\<close>

section \<open>State and libraries\<close>

record owner_ud =
  ou_owner_key :: privkey
  ou_owner_pubkey :: public_key
  ou_owner2_key :: privkey
  ou_owner2_pub :: public_key

datatype ov_metadata_key = To2Performed | To0AcceptOwnerWaitSeconds

fun ov_metadata_to_key :: "ov_metadata_key \<Rightarrow> string" where
  "ov_metadata_to_key To2Performed = ''fdo.to2_performed''"
| "ov_metadata_to_key To0AcceptOwnerWaitSeconds = ''fdo.to0_accept_owner_wait_seconds''"

text \<open>\<open>serde_json::Value\<close>; a number that is not an integer is kept as its 64 bits.\<close>

datatype json_value =
  JNull | JBool bool | JInteger int | JFloat u64 | JString string | JArray "json_value list"
| JObject "(string \<times> json_value) list"

fun json_as_str :: "json_value \<Rightarrow> string option" where
  "json_as_str (JString s) = Some s"
| "json_as_str _ = None"

record api_initial_user =
  au_username :: string
  au_password :: "string option"
  au_ssh_keys :: "string list option"

record service_info_api_reply =
  ar_initial_user :: "api_initial_user option"
  ar_extra_commands :: "(service_info_module \<times> string \<times> json_value) list option"
  ar_reboot :: "bool option"

type_synonym hello_device_tuple =
  "nat \<times> bytes \<times> bytes \<times> kex_suite \<times> cipher_suite \<times> device_sig_type \<times> bytes"

record to2lib = rvlib +
  c_hello_device :: "hello_device_tuple codec"
  c_get_ov_next_entry :: "u8 codec"
  c_dsi_ready :: "(hash_tuple option \<times> nat option) codec"
  c_osi_ready :: "nat option codec"
  c_dsi :: "(bool \<times> service_info) codec"
  c_osi :: "(bool \<times> bool \<times> service_info) codec"
  c_done :: "bytes codec"
  c_done2 :: "bytes codec"
  c_json :: "json_value codec"
  v_list :: "cbor_value list vcodec"
  v_string :: "string vcodec"

text \<open>A nonce as a header value.\<close>

definition v_nonce :: "'z vlib_scheme \<Rightarrow> nonce vcodec" where
  "v_nonce L = \<lparr>to_value = (\<lambda>n. to_value (v_bytes L) (nonce_bytes n)),
     from_value = (\<lambda>v. case nonce_of_value L v of Ok n \<Rightarrow> Some n | _ \<Rightarrow> None)\<rparr>"

definition RSF :: string where "RSF = ''Request sequence failure''"

section \<open>HelloDevice\<close>

definition handle_hello_device ::
  "'z plib_scheme \<Rightarrow> 's http_lib \<Rightarrow> owner_ud \<Rightarrow> ('e, string, voucher, 't) store_ops \<Rightarrow> 'e \<Rightarrow>
     bytes option \<Rightarrow> (nat \<Rightarrow> bytes option) \<Rightarrow> bytes option \<Rightarrow>
     's request_info \<Rightarrow> hello_device \<Rightarrow> ('t, rejection, prove_ov_hdr \<times> 's request_info) st" where
  "handle_hello_device L H UD ops E gen kexrnd rnd info msg =
     sbind (smap_err (from_error to2_HelloDevice) (load_device L ops E (hd_guid msg))) (\<lambda>ov.
     case ov of
       None \<Rightarrow> reject ResourceNotFound to2_HelloDevice ''Device not found''
     | Some ownership_voucher \<Rightarrow>
     sbind (lift (guid_fmt L (hd_guid msg))) (\<lambda>guid_text.
     sbind (session_put H to2_HelloDevice (ri_session info) ''device_guid'' (SString guid_text)) (\<lambda>session.
     if sig_type (hd_a_signature_info msg) \<notin> {StSECP256R1, StSECP384R1}
     then reject MessageBodyError to2_HelloDevice ''Invalid signature info''
     else if sig_info_bytes (hd_a_signature_info msg) \<noteq> []
     then reject MessageBodyError to2_HelloDevice ''Invalid signature info''
     else
       sbind (or_internal to2_HelloDevice (key_exchange_new (hd_kex_suite msg) gen kexrnd)) (\<lambda>a_key_exchange.
       sbind (or_internal to2_HelloDevice (nonce_new rnd)) (\<lambda>nonce6.
       sbind (or_internal to2_HelloDevice (get_public L a_key_exchange)) (\<lambda>a_public.
       sbind (lift (unwrap (header_raw L ownership_voucher))) (\<lambda>hdr.
       sbind (or_internal to2_HelloDevice
         (prove_ov_hdr_new L hdr (num_entries ownership_voucher) (ov_header_hmac ownership_voucher)
            (hd_nonce5 msg) \<lparr>sig_type = sig_type (hd_a_signature_info msg), sig_info_bytes = []\<rparr>
            a_public (ri_req_hash info))) (\<lambda>res_payload.
       sbind (session_put H to2_HelloDevice session ''nonce6'' (SNonce nonce6)) (\<lambda>session.
       sbind (session_put H to2_HelloDevice session ''ciphersuite'' (SCipher (hd_cipher_suite msg))) (\<lambda>session.
       sbind (session_put H to2_HelloDevice session ''a_key_exchange'' (SKex a_key_exchange)) (\<lambda>session.
       sbind (or_internal to2_HelloDevice (chm_insert (v_nonce L) chm_new CUPHNonce nonce6)) (\<lambda>hm.
       sbind (or_internal to2_HelloDevice (chm_insert (v_key L) hm CUPHOwnerPubKey (key_tuple (ou_owner_pubkey UD)))) (\<lambda>hm.
       sbind (or_internal to2_HelloDevice
         (cosesign_new L (prove_ov_hdr_ser L res_payload) (Some hm) (ou_owner_key UD))) (\<lambda>res.
       lift (Ok (ProveOVHdr res, info\<lparr>ri_session := session\<rparr>))))))))))))))))"

section \<open>GetOVNextEntry\<close>

text \<open>Reading the GUID of the session, with the message that the error names.\<close>

definition session_guid ::
  "'z plib_scheme \<Rightarrow> 's http_lib \<Rightarrow> message_spec \<Rightarrow> 's \<Rightarrow> ('t, rejection, guid) st" where
  "session_guid L H M s =
     (case get_string H s ''device_guid'' of
        None \<Rightarrow> reject InvalidMessageError M RSF
      | Some t \<Rightarrow> lift (unwrap_opt (guid_from_str L t)))"

definition load_voucher ::
  "'z plib_scheme \<Rightarrow> ('e, string, voucher, 't) store_ops \<Rightarrow> 'e \<Rightarrow> message_spec \<Rightarrow> guid \<Rightarrow> ('t, rejection, voucher) st" where
  "load_voucher L ops E M g =
     sbind (smap_err (from_error M) (load_device L ops E g)) (\<lambda>ov.
     case ov of
       None \<Rightarrow> reject ResourceNotFound M ''Device not found''
     | Some dev \<Rightarrow> lift (Ok dev))"

definition handle_get_ov_next_entry ::
  "'z plib_scheme \<Rightarrow> 's http_lib \<Rightarrow> ('e, string, voucher, 't) store_ops \<Rightarrow> 'e \<Rightarrow>
     's request_info \<Rightarrow> get_ov_next_entry \<Rightarrow> ('t, rejection, ov_next_entry \<times> 's request_info) st" where
  "handle_get_ov_next_entry L H ops E info msg =
     sbind (session_guid L H to2_GetOVNextEntry (ri_session info)) (\<lambda>device_guid.
     sbind (load_voucher L ops E to2_GetOVNextEntry device_guid) (\<lambda>ownership_voucher.
     sbind (lift (unwrap (voucher_entry L ownership_voucher (unat (gone_entry_num msg))))) (\<lambda>entry.
     lift (Ok (\<lparr>one_entry_num = unat (gone_entry_num msg), one_entry = entry\<rparr>, info)))))"

section \<open>ProveDevice\<close>

definition session_value_or ::
  "message_spec \<Rightarrow> 'a option \<Rightarrow> ('t, rejection, 'a) st" where
  "session_value_or M v = (case v of None \<Rightarrow> reject InvalidMessageError M RSF | Some x \<Rightarrow> lift (Ok x))"

text \<open>The key of the device: the one of the leaf of the certificate chain in its voucher.\<close>

definition device_key :: "'z plib_scheme \<Rightarrow> voucher \<Rightarrow> (rejection, pkey) res" where
  "device_key L ov =
     (case ov_device_certificate_chain ov of
        None \<Rightarrow> rejected InvalidMessageError to2_ProveDevice ''Device certificate chain not supported''
      | Some c \<Rightarrow>
     (case leaf_certificate c of
        None \<Rightarrow> rejected InvalidMessageError to2_ProveDevice ''Device certificate not supported''
      | Some cert \<Rightarrow> ok_or (x509_public_key L cert) (from_error to2_ProveDevice ())))"

text \<open>The checks of the token: the nonce of the device, and its public value of the key exchange.\<close>

definition check_device_token ::
  "'z plib_scheme \<Rightarrow> nonce \<Rightarrow> pkey \<Rightarrow> cosesign \<Rightarrow> (rejection, nonce \<times> bytes) res" where
  "check_device_token L nonce6 dev_pubkey token =
     rbind (rmap_err (from_error to2_ProveDevice) (get_unprotected_value L (v_nonce L) token EUPHNonce)) (\<lambda>n7.
     case n7 of
       None \<Rightarrow> rejected InvalidMessageError to2_ProveDevice ''Missing nonce7''
     | Some nonce7 \<Rightarrow>
     rbind (rmap_err (from_error to2_ProveDevice) (get_eat L token dev_pubkey)) (\<lambda>eat.
     rbind (rmap_err (from_error to2_ProveDevice) (payload_internal (v_prove_device L) eat)) (\<lambda>pl.
     case pl of
       None \<Rightarrow> rejected InvalidMessageError to2_ProveDevice ''Missing payload''
     | Some b_key_exchange \<Rightarrow>
     rbind (unwrap (nonce_eq L (eat_nonce eat) nonce6)) (\<lambda>same.
     if \<not> same then rejected InvalidMessageError to2_ProveDevice ''Nonce invalid''
     else Ok (nonce7, b_key_exchange)))))"

definition header_true :: "(string \<rightharpoonup> string) \<Rightarrow> string \<Rightarrow> bool" where
  "header_true headers name = (headers name = Some ''true'')"

definition handle_prove_device ::
  "'z plib_scheme \<Rightarrow> 's http_lib \<Rightarrow> owner_ud \<Rightarrow> ('e, string, voucher, 't) store_ops \<Rightarrow> 'e \<Rightarrow> bytes option \<Rightarrow>
     's request_info \<Rightarrow> prove_device \<Rightarrow> ('t, rejection, setup_device \<times> 's request_info) st" where
  "handle_prove_device L H UD ops E guid_rnd info msg =
     (let session = ri_session info in
     sbind (session_guid L H to2_ProveDevice session) (\<lambda>device_guid.
     sbind (session_value_or to2_ProveDevice (get_nonce H session ''nonce6'')) (\<lambda>nonce6.
     sbind (session_value_or to2_ProveDevice (get_kex H session ''a_key_exchange'')) (\<lambda>a_key_exchange.
     let session = ses_remove H session ''a_key_exchange'' in
     sbind (session_value_or to2_GetOVNextEntry (get_cipher H session ''ciphersuite'')) (\<lambda>ciphersuite.
     let session = ses_remove H session ''ciphersuite'' in
     sbind (load_voucher L ops E to2_ProveDevice device_guid) (\<lambda>ownership_voucher.
     sbind (lift (device_key L ownership_voucher)) (\<lambda>dev_pubkey.
     sbind (lift (check_device_token L nonce6 dev_pubkey (pd_token msg))) (\<lambda>(nonce7, b_key_exchange).
     sbind (session_put H to2_ProveDevice session ''nonce7'' (SNonce nonce7)) (\<lambda>session.
     let use_noninteroperable_kdf = header_true (ri_headers info) ''X-Non-Interoperable-KDF'' in
     sbind (or_internal to2_ProveDevice
       (derive_key L a_key_exchange OwnerService ciphersuite b_key_exchange use_noninteroperable_kdf)) (\<lambda>new_keys.
     sbind (lift (set_encryption_keys H to2_ProveDevice session (keys_from_derived ciphersuite new_keys))) (\<lambda>session.
     sbind (lift (unwrap (guid_new guid_rnd))) (\<lambda>new_guid.
     sbind (or_internal to2_ProveDevice (cosesign_new L (setup_payload_ser L
         \<lparr>sp_rendezvous_info = [], sp_guid = new_guid, sp_nonce7 = nonce7, sp_owner2_key = ou_owner2_pub UD\<rparr>)
         None (ou_owner2_key UD))) (\<lambda>new_token.
     sbind (session_put H to2_ProveDevice session ''proven_device'' (SBool True)) (\<lambda>session.
     lift (Ok (SetupDevice new_token, info\<lparr>ri_session := session\<rparr>))))))))))))))))"

section \<open>Service info\<close>

text \<open>The test of the mark that \<open>prove_device\<close> leaves in the session.\<close>

definition require_proven :: "'s http_lib \<Rightarrow> message_spec \<Rightarrow> 's \<Rightarrow> ('t, rejection, unit) st" where
  "require_proven H M s =
     (case get_bool H s ''proven_device'' of
        Some _ \<Rightarrow> lift (Ok ())
      | None \<Rightarrow> reject InvalidMessageError M RSF)"

definition handle_device_service_info_ready ::
  "'s http_lib \<Rightarrow> 's request_info \<Rightarrow> device_service_info_ready \<Rightarrow>
     ('t, rejection, owner_service_info_ready \<times> 's request_info) st" where
  "handle_device_service_info_ready H info msg =
     sbind (require_proven H to2_GetOVNextEntry (ri_session info)) (\<lambda>_.
     lift (Ok (OwnerServiceInfoReady None, info)))"

definition MAX_SERVICE_INFO_LOOPS :: u32 where "MAX_SERVICE_INFO_LOOPS = 1000"

text \<open>The list of modules of the device: the last \<open>devmod:modules\<close> of its service info, without the
  two leading integers and without duplicates. \<open>order\<close> is the iteration order of the hash set.\<close>

definition module_names :: "'z to2lib_scheme \<Rightarrow> cbor_value \<Rightarrow> (unit, string list) res" where
  "module_names L value =
     rbind (ok_or (from_value (v_list L) value) ()) (\<lambda>rawmodlist.
     rbind (rtraverse (\<lambda>m. ok_or (from_value (v_string L) m) ()) (drop 2 rawmodlist)) (\<lambda>ms.
     Ok (remdups ms)))"

fun find_modules ::
  "'z to2lib_scheme \<Rightarrow> (string list \<Rightarrow> string list) \<Rightarrow> string list option \<Rightarrow>
     (service_info_module \<times> string \<times> cbor_value) list \<Rightarrow> (unit, string list option) res" where
  "find_modules L order found [] = Ok found"
| "find_modules L order found ((module, var, value) # items) =
     (if module = Standard DevMod \<and> var = ''modules''
      then rbind (module_names L value) (\<lambda>ms. find_modules L order (Some (order ms)) items)
      else find_modules L order found items)"

fun join :: "string \<Rightarrow> string list \<Rightarrow> string" where
  "join sep [] = []"
| "join sep [s] = s"
| "join sep (s # t # ss) = s @ sep @ join sep (t # ss)"

text \<open>\<open>key.replace("|hex", "")\<close>.\<close>

fun remove_hex :: "string \<Rightarrow> string" where
  "remove_hex [] = []"
| "remove_hex (c # s) =
     (if take 4 (c # s) = ''|hex'' then remove_hex (drop 4 (c # s)) else c # remove_hex s)"

definition ends_with :: "string \<Rightarrow> string \<Rightarrow> bool" where
  "ends_with s suffix \<longleftrightarrow> length suffix \<le> length s \<and> drop (length s - length suffix) s = suffix"

definition si_add ::
  "service_info_module \<Rightarrow> string \<Rightarrow> bytes option \<Rightarrow> service_info \<Rightarrow> (unit, service_info) res" where
  "si_add module key value si = rmap_err (\<lambda>_. ()) (service_info_add si module key value)"

definition add_initial_user ::
  "'z to2lib_scheme \<Rightarrow> api_initial_user option \<Rightarrow> service_info \<Rightarrow> (unit, service_info) res" where
  "add_initial_user L user si =
     (case user of
        None \<Rightarrow> Ok si
      | Some u \<Rightarrow>
          rbind (si_add (FedoraIot SSHKey) ''active'' (enc (c_value L) (Bool True)) si) (\<lambda>si.
          rbind (si_add (FedoraIot SSHKey) ''username'' (enc (c_value L) (Text (au_username u))) si) (\<lambda>si.
          rbind (case au_password u of
                   None \<Rightarrow> Ok si
                 | Some p \<Rightarrow> si_add (FedoraIot SSHKey) ''password'' (enc (c_value L) (Text p)) si) (\<lambda>si.
          case au_ssh_keys u of
            None \<Rightarrow> Ok si
          | Some ks \<Rightarrow> si_add (FedoraIot SSHKey) ''sshkeys'' (enc (c_value L) (Text (join '';'' ks))) si))))"

definition add_extra_command ::
  "'z to2lib_scheme \<Rightarrow> service_info_module \<times> string \<times> json_value \<Rightarrow> service_info \<Rightarrow> (unit, service_info) res" where
  "add_extra_command L cmd si =
     (case cmd of (module, key, value) \<Rightarrow>
        if ends_with key ''|hex'' then
          rbind (ok_or (json_as_str value) ()) (\<lambda>s.
          rbind (ok_or (hex_decode L s) ()) (\<lambda>bs.
          si_add module (remove_hex key) (enc (c_value L) (Bytes bs)) si))
        else si_add module key (enc (c_json L) value) si)"

fun add_extra_commands ::
  "'z to2lib_scheme \<Rightarrow> (service_info_module \<times> string \<times> json_value) list \<Rightarrow> service_info \<Rightarrow> (unit, service_info) res" where
  "add_extra_commands L [] si = Ok si"
| "add_extra_commands L (cmd # cmds) si = rbind (add_extra_command L cmd si) (add_extra_commands L cmds)"

definition add_reboot :: "'z to2lib_scheme \<Rightarrow> bool option \<Rightarrow> service_info \<Rightarrow> (unit, service_info) res" where
  "add_reboot L reboot si =
     (case reboot of
        None \<Rightarrow> Ok si
      | Some b \<Rightarrow>
          rbind (si_add (FedoraIot Reboot) ''active'' (enc (c_value L) (Bool True)) si) (\<lambda>si.
          si_add (FedoraIot Reboot) ''reboot'' (enc (c_value L) (Bool b)) si))"

definition perform_service_info ::
  "'z to2lib_scheme \<Rightarrow> ((string \<times> string) list \<Rightarrow> service_info_api_reply option) \<Rightarrow> (string list \<Rightarrow> string list) \<Rightarrow>
     guid \<Rightarrow> device_service_info \<Rightarrow> u32 \<Rightarrow> (unit, owner_service_info) res" where
  "perform_service_info L api order g msg loop_num =
     (if loop_num \<noteq> 0 then Ok \<lparr>osi_is_more = False, osi_is_done = True, osi_service_info = []\<rparr>
      else
        rbind (find_modules L order None (service_info_items L (dsi_service_info msg) 0)) (\<lambda>module_list.
        rbind (ok_or module_list ()) (\<lambda>module_list.
        rbind (guid_fmt L g) (\<lambda>guid_text.
        rbind (ok_or (api [(''serviceinfo_api_version'', ''1''), (''device_guid'', guid_text),
                           (''modules'', join '','' module_list)]) ()) (\<lambda>resp.
        rbind (add_initial_user L (ar_initial_user resp) []) (\<lambda>si.
        rbind (case ar_extra_commands resp of None \<Rightarrow> Ok si | Some cmds \<Rightarrow> add_extra_commands L cmds si) (\<lambda>si.
        rbind (add_reboot L (ar_reboot resp) si) (\<lambda>si.
        Ok \<lparr>osi_is_more = False, osi_is_done = False, osi_service_info = si\<rparr>))))))))"

definition handle_device_service_info ::
  "'z to2lib_scheme \<Rightarrow> 's http_lib \<Rightarrow> ((string \<times> string) list \<Rightarrow> service_info_api_reply option) \<Rightarrow>
     (string list \<Rightarrow> string list) \<Rightarrow> 's request_info \<Rightarrow> device_service_info \<Rightarrow>
     ('t, rejection, owner_service_info \<times> 's request_info) st" where
  "handle_device_service_info L H api order info msg =
     sbind (require_proven H to2_DeviceServiceInfo (ri_session info)) (\<lambda>_.
     sbind (session_guid L H to2_GetOVNextEntry (ri_session info)) (\<lambda>device_guid.
     sbind (case get_u32 H (ri_session info) ''num_service_info_loops'' of
              Some v \<Rightarrow> lift (Ok (v, ri_session info))
            | None \<Rightarrow>
                sbind (session_put H to2_DeviceServiceInfo (ri_session info) ''num_service_info_loops'' (SU32 1))
                  (\<lambda>session. lift (Ok (0, session)))) (\<lambda>(num_loops, session).
     if num_loops > MAX_SERVICE_INFO_LOOPS
     then reject InvalidMessageError to2_DeviceServiceInfo ''Too many serviceinfo loops performed''
     else
       sbind (session_put H to2_DeviceServiceInfo session ''num_service_info_loops'' (SU32 (num_loops + 1))) (\<lambda>session.
       sbind (lift (rmap_err (\<lambda>_. Reject InternalServerError TO2DeviceServiceInfo ''Error handling serviceinfo'')
                (perform_service_info L api order device_guid msg num_loops))) (\<lambda>resp.
       lift (Ok (resp, info\<lparr>ri_session := session\<rparr>)))))))"

section \<open>Done\<close>

definition handle_done ::
  "'z plib_scheme \<Rightarrow> 's http_lib \<Rightarrow> ('e \<Rightarrow> 't \<Rightarrow> string \<Rightarrow> string \<Rightarrow> metadata_value \<Rightarrow> 't \<times> unit sres) \<Rightarrow> 'e \<Rightarrow>
     's request_info \<Rightarrow> to2_done \<Rightarrow> ('t, rejection, to2_done2 \<times> 's request_info) st" where
  "handle_done L H meta E info msg =
     (let session = ri_session info in
     sbind (require_proven H to2_GetOVNextEntry session) (\<lambda>_.
     sbind (session_value_or to2_ProveDevice (get_nonce H session ''nonce6'')) (\<lambda>nonce6.
     sbind (lift (unwrap (nonce_eq L nonce6 (dn_nonce6 msg)))) (\<lambda>same.
     if \<not> same then reject InvalidMessageError to2_ProveDevice ''Nonce6 invalid''
     else
     sbind (session_guid L H to2_GetOVNextEntry session) (\<lambda>device_guid.
     sbind (session_value_or to2_ProveDevice (get_nonce H session ''nonce7'')) (\<lambda>nonce7.
     sbind (lift (guid_fmt L device_guid)) (\<lambda>key.
     sbind (smap_err (from_error to2_ProveDevice)
       (\<lambda>t. meta E t key (to_key ov_metadata_to_key (Local To2Performed)) (MBool True))) (\<lambda>_.
     let session = ses_destroy H (ses_remove H session ''nonce7'') in
     lift (Ok (Done2 nonce7, info\<lparr>ri_session := session\<rparr>))))))))))"

end
