(* ===== verification/Owner_Sessions.thy ===== *)
theory Owner_Sessions
  imports Owner_Onboarding
begin

text \<open>
  What the owner onboarding server guarantees over all its runs. The invariant \<open>to2_session_ok\<close> of the
  stored sessions says that a session is marked as proven only with a token behind it that the
  device's key signed over the nonce of the session, and that the number of service-info rounds is
  bounded. The mark is never checked against the identity of the session later, so the invariant
  rests on the order of messages that the HTTP wrapper enforces.
\<close>

section \<open>What the handlers do to a session\<close>

lemma reject_Ok_iff [res_simps]: "reject code M s t = (t', Ok x) \<longleftrightarrow> False"
  by (simp add: reject_def)

lemma or_internal_Ok_iff [res_simps]: "or_internal M r t = (t', Ok x) \<longleftrightarrow> t' = t \<and> r = Ok x"
  by (auto simp: or_internal_def rmap_err_Ok_iff)

lemma session_put_Ok_iff [res_simps]: "session_put H M s k v t = (t', Ok s') \<longleftrightarrow> t' = t \<and> ses_insert H s k v = Some s'"
  by (auto simp: session_put_def ok_or_Ok_iff)

lemma session_value_or_Ok_iff [res_simps]: "session_value_or M v t = (t', Ok x) \<longleftrightarrow> t' = t \<and> v = Some x"
  by (auto simp: session_value_or_def reject_def split: option.splits)

lemma session_guid_Ok_iff [res_simps]:
  "session_guid L H M s t = (t', Ok g) \<longleftrightarrow>
     t' = t \<and> (\<exists>gt. get_string H s ''device_guid'' = Some gt \<and> guid_from_str L gt = Some g)"
  by (auto simp: session_guid_def res_simps split: option.splits)

lemma require_proven_Ok_iff [res_simps]:
  "require_proven H M s t = (t', Ok u) \<longleftrightarrow> t' = t \<and> get_bool H s ''proven_device'' \<noteq> None"
  by (auto simp: require_proven_def res_simps split: option.splits)

lemma ses_insert_get:
  assumes "session_doc H" "ses_insert H s k v = Some s'"
  shows "ses_id H s' = ses_id H s" "ses_get H s' k' = (if k' = k then Some v else ses_get H s k')"
  using assms unfolding session_doc_def by metis+

lemma ses_remove_get:
  assumes "session_doc H"
  shows "ses_id H (ses_remove H s k) = ses_id H s" "ses_get H (ses_remove H s k) k' = (if k' = k then None else ses_get H s k')"
  using assms unfolding session_doc_def by metis+

lemma ses_destroy_get:
  assumes "session_doc H"
  shows "ses_id H (ses_destroy H s) = ses_id H s" "ses_get H (ses_destroy H s) k = ses_get H s k"
  using assms unfolding session_doc_def by metis+

lemma hello_device_session:
  assumes "handle_hello_device L H UD ops E gen kexrnd rnd info msg t = (t', Ok (res, info'))" "session_doc H"
  shows "ses_id H (ri_session info') = ses_id H (ri_session info)"
    and "k \<notin> {''device_guid'', ''nonce6'', ''ciphersuite'', ''a_key_exchange''} \<Longrightarrow>
      ses_get H (ri_session info') k = ses_get H (ri_session info) k"
  using assms(1)
  by (auto simp: handle_hello_device_def res_simps ses_insert_get [OF assms(2)] split: option.splits if_splits)

text \<open>When \<open>prove_device\<close> answers, the checks of the token have passed against the voucher that was
  loaded for the GUID of the session.\<close>

definition token_proven :: "'z plib_scheme \<Rightarrow> voucher \<Rightarrow> nonce \<Rightarrow> encryption_keys \<Rightarrow> bool" where
  "token_proven L v n6 keys \<longleftrightarrow>
     (\<exists>pk token eat b kex c ni ks. device_key L v = Ok pk \<and> get_eat L token pk = Ok eat \<and>
        nonce_eq L (eat_nonce eat) n6 = Ok True \<and> payload_internal (v_prove_device L) eat = Ok (Some b) \<and>
        derive_key L kex OwnerService c b ni = Ok ks \<and> keys = keys_from_derived c ks)"

lemma check_device_token_Ok:
  assumes "check_device_token L n6 pk token = Ok (n7, b)"
  shows "\<exists>eat. get_eat L token pk = Ok eat \<and> payload_internal (v_prove_device L) eat = Ok (Some b) \<and>
    nonce_eq L (eat_nonce eat) n6 = Ok True \<and> get_unprotected_value L (v_nonce L) token EUPHNonce = Ok (Some n7)"
  using assms by (auto simp: check_device_token_def rejected_def res_simps split: option.splits if_splits)

lemma prove_device_answered:
  assumes "handle_prove_device L H UD ops E grnd info msg t = (t', Ok (res, info'))"
  obtains gt g n6 kex c v pk n7 b ks s1 s2 where
    "get_string H (ri_session info) ''device_guid'' = Some gt" "guid_from_str L gt = Some g"
    "get_nonce H (ri_session info) ''nonce6'' = Some n6"
    "load_voucher L ops E to2_ProveDevice g t = (t', Ok v)" "device_key L v = Ok pk"
    "check_device_token L n6 pk (pd_token msg) = Ok (n7, b)"
    "derive_key L kex OwnerService c b (header_true (ri_headers info) ''X-Non-Interoperable-KDF'') = Ok ks"
    "ses_insert H (ses_remove H (ses_remove H (ri_session info) ''a_key_exchange'') ''ciphersuite'')
       ''nonce7'' (SNonce n7) = Some s1"
    "ses_insert H s1 ENCRYPTION_KEYS_SES_KEY (SKeys (keys_from_derived c ks)) = Some s2"
    "ses_insert H s2 ''proven_device'' (SBool True) = Some (ri_session info')"
proof -
  from assms show ?thesis
    unfolding handle_prove_device_def Let_def res_simps
    by (elim exE conjE) (auto simp: res_simps set_encryption_keys_def intro!: that split: prod.splits)
qed

lemma prove_device_session:
  assumes "handle_prove_device L H UD ops E grnd info msg t = (t', Ok (res, info'))" "session_doc H"
  shows "ses_id H (ri_session info') = ses_id H (ri_session info)"
    and "k \<notin> {''a_key_exchange'', ''ciphersuite'', ''nonce7'', ENCRYPTION_KEYS_SES_KEY, ''proven_device''} \<Longrightarrow>
      ses_get H (ri_session info') k = ses_get H (ri_session info) k"
    and "\<exists>gt g n6 v. get_string H (ri_session info) ''device_guid'' = Some gt \<and> guid_from_str L gt = Some g \<and>
      get_nonce H (ri_session info) ''nonce6'' = Some n6 \<and> load_voucher L ops E to2_ProveDevice g t = (t', Ok v) \<and>
      token_proven L v n6 (session_keys H (ri_session info'))"
proof -
  from assms(1) obtain gt g n6 kex c v pk n7 b ks s1 s2 where
    a: "get_string H (ri_session info) ''device_guid'' = Some gt" "guid_from_str L gt = Some g"
    "get_nonce H (ri_session info) ''nonce6'' = Some n6"
    "load_voucher L ops E to2_ProveDevice g t = (t', Ok v)" "device_key L v = Ok pk"
    and tk: "check_device_token L n6 pk (pd_token msg) = Ok (n7, b)"
    and dk: "derive_key L kex OwnerService c b (header_true (ri_headers info) ''X-Non-Interoperable-KDF'') = Ok ks"
    and s: "ses_insert H (ses_remove H (ses_remove H (ri_session info) ''a_key_exchange'') ''ciphersuite'')
       ''nonce7'' (SNonce n7) = Some s1"
    "ses_insert H s1 ENCRYPTION_KEYS_SES_KEY (SKeys (keys_from_derived c ks)) = Some s2"
    "ses_insert H s2 ''proven_device'' (SBool True) = Some (ri_session info')"
    by (rule prove_device_answered)
  note get = ses_insert_get [OF assms(2) s(1)] ses_insert_get [OF assms(2) s(2)] ses_insert_get [OF assms(2) s(3)]
    ses_remove_get [OF assms(2)]
  show "ses_id H (ri_session info') = ses_id H (ri_session info)" by (simp add: get)
  show "k \<notin> {''a_key_exchange'', ''ciphersuite'', ''nonce7'', ENCRYPTION_KEYS_SES_KEY, ''proven_device''} \<Longrightarrow>
      ses_get H (ri_session info') k = ses_get H (ri_session info) k" by (simp add: get)
  have "session_keys H (ri_session info') = keys_from_derived c ks"
    by (simp add: session_keys_def get_keys_def get ENCRYPTION_KEYS_SES_KEY_def)
  with check_device_token_Ok [OF tk] dk a(5) have "token_proven L v n6 (session_keys H (ri_session info'))"
    unfolding token_proven_def by metis
  with a show "\<exists>gt g n6 v. get_string H (ri_session info) ''device_guid'' = Some gt \<and> guid_from_str L gt = Some g \<and>
      get_nonce H (ri_session info) ''nonce6'' = Some n6 \<and> load_voucher L ops E to2_ProveDevice g t = (t', Ok v) \<and>
      token_proven L v n6 (session_keys H (ri_session info'))" by blast
qed

lemma get_ov_next_entry_session:
  "handle_get_ov_next_entry L H ops E info msg t = (t', Ok (res, info')) \<Longrightarrow> info' = info"
  by (auto simp: handle_get_ov_next_entry_def res_simps)

lemma dsi_ready_session:
  "handle_device_service_info_ready H info msg t = (t', Ok (res, info')) \<Longrightarrow>
     info' = info \<and> get_bool H (ri_session info) ''proven_device'' \<noteq> None"
  by (auto simp: handle_device_service_info_ready_def res_simps)

lemma device_service_info_session:
  assumes "handle_device_service_info L H api order info msg t = (t', Ok (res, info'))" "session_doc H"
  shows "ses_id H (ri_session info') = ses_id H (ri_session info)"
    and "k \<noteq> ''num_service_info_loops'' \<Longrightarrow> ses_get H (ri_session info') k = ses_get H (ri_session info) k"
    and "\<exists>n. ses_get H (ri_session info') ''num_service_info_loops'' = Some (SU32 (n + 1)) \<and> n \<le> 1000"
    and "get_bool H (ri_session info) ''proven_device'' \<noteq> None"
  using assms(1)
  by (auto simp: handle_device_service_info_def res_simps ses_insert_get [OF assms(2)] MAX_SERVICE_INFO_LOOPS_def
      split: option.splits if_splits)

lemma perform_service_info_done:
  "perform_service_info L api order g msg n = Ok r \<Longrightarrow> osi_is_done r \<longleftrightarrow> n \<noteq> 0"
  by (auto simp: perform_service_info_def res_simps split: if_splits)

lemma put_u32: "session_doc H \<Longrightarrow> ses_insert H s k (SU32 n) = Some s' \<Longrightarrow> get_u32 H s' k = Some n"
  by (simp add: get_u32_def ses_insert_get)

lemma answered_round:
  assumes "handle_device_service_info L H api order info msg t = (t', Ok (res, info'))" "session_doc H"
  shows "\<exists>n. get_u32 H (ri_session info') ''num_service_info_loops'' = Some (n + 1) \<and> n \<le> 1000 \<and>
    n = (case get_u32 H (ri_session info) ''num_service_info_loops'' of None \<Rightarrow> 0 | Some m \<Rightarrow> m) \<and>
    (osi_is_done res \<longleftrightarrow> n \<noteq> 0)"
proof (cases "get_u32 H (ri_session info) ''num_service_info_loops''")
  case None
  with assms(1) obtain s1 g where "ses_insert H s1 ''num_service_info_loops'' (SU32 (0 + 1)) = Some (ri_session info')"
    "perform_service_info L api order g msg 0 = Ok res"
    by (auto simp: handle_device_service_info_def res_simps split: if_splits)
  with None show ?thesis using perform_service_info_done put_u32 [OF assms(2)] by fastforce
next
  case (Some m)
  with assms(1) obtain s1 g where "ses_insert H s1 ''num_service_info_loops'' (SU32 (m + 1)) = Some (ri_session info')"
    "perform_service_info L api order g msg m = Ok res" "m \<le> 1000"
    by (auto simp: handle_device_service_info_def res_simps MAX_SERVICE_INFO_LOOPS_def split: if_splits)
  with Some show ?thesis using perform_service_info_done put_u32 [OF assms(2)] by simp
qed

lemma done_session:
  assumes "handle_done L H meta E info msg t = (t', Ok (res, info'))" "session_doc H"
  shows "ses_id H (ri_session info') = ses_id H (ri_session info)"
    and "k \<noteq> ''nonce7'' \<Longrightarrow> ses_get H (ri_session info') k = ses_get H (ri_session info) k"
    and "get_bool H (ri_session info) ''proven_device'' \<noteq> None"
    and "\<exists>n6. get_nonce H (ri_session info) ''nonce6'' = Some n6 \<and> nonce_eq L n6 (dn_nonce6 msg) = Ok True"
  using assms(1)
  by (auto simp: handle_done_def Let_def res_simps ses_remove_get [OF assms(2)] ses_destroy_get [OF assms(2)]
      split: if_splits)

section \<open>The vouchers of the owner\<close>

text \<open>Every voucher in the store has a property \<open>V\<close>, for its key.\<close>

definition vouchers_held ::
  "('t \<Rightarrow> string \<Rightarrow> voucher entry) \<Rightarrow> ('t \<Rightarrow> bool) \<Rightarrow> (string \<Rightarrow> bool) \<Rightarrow> (string \<Rightarrow> voucher \<Rightarrow> bool) \<Rightarrow> 't \<Rightarrow> bool" where
  "vouchers_held held invar valid V t \<longleftrightarrow> invar t \<and> (\<forall>k v e. valid k \<longrightarrow> held t k = Some (v, e) \<longrightarrow> V k v)"

definition guid_keys_valid :: "'z plib_scheme \<Rightarrow> (string \<Rightarrow> bool) \<Rightarrow> bool" where
  "guid_keys_valid L valid \<longleftrightarrow> (\<forall>g k. guid_key L g = Some k \<longrightarrow> valid k)"

text \<open>A store of vouchers whose metadata, other than the TTL, does not affect what it holds.\<close>

locale voucher_store = store_contract ops time held invar valid storable same
  for ops :: "('e, string, voucher, 't) store_ops" and time held invar valid storable same +
  fixes meta :: "'e \<Rightarrow> 't \<Rightarrow> string \<Rightarrow> string \<Rightarrow> metadata_value \<Rightarrow> 't \<times> unit sres"
  assumes meta_keeps: "valid k \<Longrightarrow> valid k' \<Longrightarrow> mk \<noteq> ''store_ttl'' \<Longrightarrow> meta E s k mk b = (s', x) \<Longrightarrow> held s' k' = held s k'"
    and meta_invar: "valid k \<Longrightarrow> invar s \<Longrightarrow> invar (fst (meta E s k mk b))"
begin

lemma load_keeps_vouchers [preserves_intros]:
  assumes "guid_keys_valid L valid"
  shows "preserves (vouchers_held held invar valid V) (load_device L ops E g)"
  unfolding preserves_def
proof (intro allI impI)
  fix t assume t: "vouchers_held held invar valid V t"
  show "vouchers_held held invar valid V (fst (load_device L ops E g t))"
  proof (cases "guid_key L g")
    case None
    with t show ?thesis by (simp add: load_device_def guid_fmt_def)
  next
    case (Some k)
    obtain t' r where l: "so_load ops E t k = (t', r)" by fastforce
    have k: "valid k" using Some assms by (simp add: guid_keys_valid_def)
    with l t have "invar t'" using invar_load [of k t E] by (simp add: vouchers_held_def)
    moreover have "held t' k' = held t k' \<or> held t' k' = None" if "valid k'" for k'
      using load_keeps [OF k that l] by auto
    ultimately have "vouchers_held held invar valid V t'"
      using t unfolding vouchers_held_def by (metis option.distinct(1))
    with Some l show ?thesis by (simp add: load_device_def guid_fmt_def sbind_lift_Ok)
  qed
qed

lemma load_voucher_held:
  assumes "load_voucher L ops E M g t = (t', Ok v)" "vouchers_held held invar valid V t" "guid_keys_valid L valid"
  shows "\<exists>k. guid_key L g = Some k \<and> V k v"
proof -
  from assms(1) have ld: "load_device L ops E g t = (t', Ok (Some v))"
    by (auto simp: load_voucher_def res_simps split: option.splits)
  then obtain k where k: "guid_key L g = Some k" and l: "so_load ops E t k = (t', Ok (Some v))"
    by (cases "guid_key L g") (auto simp: load_device_def guid_fmt_def sbind_lift_Ok)
  have "valid k" using k assms(3) by (simp add: guid_keys_valid_def)
  with load_result [OF _ l] obtain e where "held t k = Some (v, e)"
    by (cases "(time E, held t k)" rule: live.cases) (auto split: if_splits)
  with k \<open>valid k\<close> assms(2) show ?thesis unfolding vouchers_held_def by blast
qed

lemma meta_keeps_vouchers:
  assumes "guid_keys_valid L valid" "guid_key L g = Some k" "mk \<noteq> ''store_ttl''"
  shows "preserves (vouchers_held held invar valid V) (\<lambda>t. meta E t k mk b)"
  unfolding preserves_def
proof (intro allI impI)
  fix t assume t: "vouchers_held held invar valid V t"
  obtain t' r where m: "meta E t k mk b = (t', r)" by fastforce
  have k: "valid k" using assms by (simp add: guid_keys_valid_def)
  with t m have "invar t'" using meta_invar [of k t E mk b] by (simp add: vouchers_held_def)
  with meta_keeps [OF k _ assms(3) m] t m show "vouchers_held held invar valid V (fst (meta E t k mk b))"
    by (simp add: vouchers_held_def)
qed

lemma load_voucher_keeps [preserves_intros]:
  "guid_keys_valid L valid \<Longrightarrow> preserves (vouchers_held held invar valid V) (load_voucher L ops E M g)"
  unfolding load_voucher_def reject_def by (intro preserves_intros)

lemmas plain_handlers = reject_def or_internal_def session_put_def session_guid_def session_value_or_def
  require_proven_def Let_def

lemma to2_handlers_keep:
  assumes "guid_keys_valid L valid"
  shows "preserves (vouchers_held held invar valid V) (handle_hello_device L H UD ops E gen kexrnd rnd info m1)"
    and "preserves (vouchers_held held invar valid V) (handle_get_ov_next_entry L H ops E info m2)"
    and "preserves (vouchers_held held invar valid V) (handle_prove_device L H UD ops E grnd info m3)"
    and "preserves (vouchers_held held invar valid V) (handle_device_service_info_ready H info m4)"
    and "preserves (vouchers_held held invar valid V) (handle_device_service_info L2 H api order info m5)"
  unfolding handle_hello_device_def handle_get_ov_next_entry_def handle_prove_device_def
    handle_device_service_info_ready_def handle_device_service_info_def plain_handlers
  by (intro preserves_intros assms)+

lemma done_keeps:
  assumes "guid_keys_valid L valid"
  shows "preserves (vouchers_held held invar valid V) (handle_done L H meta E info msg)"
  unfolding handle_done_def plain_handlers
  by (intro preserves_intros preserves_sbind_lift [where r = "guid_fmt L x" for x] meta_keeps_vouchers [OF assms])
     (auto simp: guid_fmt_def res_simps)

end

section \<open>The session invariant\<close>

definition proven_session ::
  "'z plib_scheme \<Rightarrow> 's http_lib \<Rightarrow> (string \<Rightarrow> voucher \<Rightarrow> bool) \<Rightarrow> 's \<Rightarrow> bool" where
  "proven_session L H V s \<longleftrightarrow>
     (\<exists>gt g k v n6. get_string H s ''device_guid'' = Some gt \<and> guid_from_str L gt = Some g \<and>
        guid_key L g = Some k \<and> V k v \<and> get_nonce H s ''nonce6'' = Some n6 \<and>
        token_proven L v n6 (session_keys H s))"

definition to2_session_ok ::
  "'z plib_scheme \<Rightarrow> 's http_lib \<Rightarrow> (string \<Rightarrow> voucher \<Rightarrow> bool) \<Rightarrow> 's \<Rightarrow> bool" where
  "to2_session_ok L H V s \<longleftrightarrow>
     (get_bool H s ''proven_device'' \<noteq> None \<longrightarrow> last_message H s \<noteq> None \<and> proven_session L H V s) \<and>
     (\<forall>n. get_u32 H s ''num_service_info_loops'' = Some n \<longrightarrow> 1 \<le> n \<and> n \<le> 1001)"

lemmas session_reads = get_bool_def get_u32_def get_string_def get_nonce_def session_keys_def get_keys_def
  last_message_def get_msg_type_def

abbreviation to2_keys :: "string set" where
  "to2_keys \<equiv> {''proven_device'', ''num_service_info_loops'', ''device_guid'', ''nonce6'', ENCRYPTION_KEYS_SES_KEY,
     LAST_MSG_SES_KEY}"

lemma to2_session_ok_cong:
  assumes "\<And>k. k \<in> to2_keys \<Longrightarrow> ses_get H s' k = ses_get H s k" "to2_session_ok L H V s"
  shows "to2_session_ok L H V s'"
  using assms by (simp add: to2_session_ok_def proven_session_def session_reads)

lemma to2_session_new: "session_doc H \<Longrightarrow> to2_session_ok L H V (ses_new H r)"
  by (simp add: to2_session_ok_def session_reads session_doc_def)

lemma to2_session_noted:
  assumes "session_doc H" "to2_session_ok L H V s" "ses_insert H s LAST_MSG_SES_KEY (SMsgType t) = Some s'"
  shows "to2_session_ok L H V s'"
  using assms(2)
  by (simp add: to2_session_ok_def proven_session_def session_reads ses_insert_get [OF assms(1,3)]
      LAST_MSG_SES_KEY_def ENCRYPTION_KEYS_SES_KEY_def)

lemma hello_device_keeps_ok:
  assumes "handle_hello_device L H UD ops E gen kexrnd rnd info msg t = (t', Ok (res, info'))" "session_doc H"
    and "to2_session_ok L H V (ri_session info)" "last_message H (ri_session info) = None"
  shows "to2_session_ok L H V (ri_session info')"
  using assms(3,4) hello_device_session(2) [OF assms(1,2)]
  by (auto simp: to2_session_ok_def get_bool_def get_u32_def LAST_MSG_SES_KEY_def)

lemma device_service_info_keeps_ok:
  assumes "handle_device_service_info L2 H api order info msg t = (t', Ok (res, info'))" "session_doc H"
    and "to2_session_ok L H V (ri_session info)"
  shows "to2_session_ok L H V (ri_session info')"
proof -
  obtain n :: u32 where n: "ses_get H (ri_session info') ''num_service_info_loops'' = Some (SU32 (n + 1))" "n \<le> 1000"
    using device_service_info_session(3) [OF assms(1,2)] by blast
  have "unat n \<le> 1000" using n(2) by (simp add: word_le_nat_alt)
  then have "1 \<le> n + 1 \<and> n + 1 \<le> 1001"
    by (simp add: word_le_nat_alt unat_word_ariths(1))
  with n device_service_info_session(2) [OF assms(1,2)] assms(3) show ?thesis
    by (simp add: to2_session_ok_def proven_session_def session_reads LAST_MSG_SES_KEY_def ENCRYPTION_KEYS_SES_KEY_def)
qed

lemma done_keeps_ok:
  assumes "handle_done L1 H meta E info msg t = (t', Ok (res, info'))" "session_doc H"
    and "to2_session_ok L H V (ri_session info)"
  shows "to2_session_ok L H V (ri_session info')"
  by (rule to2_session_ok_cong [OF _ assms(3)])
     (use done_session(2) [OF assms(1,2)] in \<open>auto simp: LAST_MSG_SES_KEY_def ENCRYPTION_KEYS_SES_KEY_def\<close>)

context voucher_store
begin

lemma prove_device_keeps_ok:
  assumes "handle_prove_device L H UD ops E grnd info msg t = (t', Ok (res, info'))" "session_doc H"
    and "to2_session_ok L H V (ri_session info)" "last_message H (ri_session info) \<noteq> None"
    and "vouchers_held held invar valid V t" "guid_keys_valid L valid"
  shows "to2_session_ok L H V (ri_session info')"
proof -
  from prove_device_session(3) [OF assms(1,2)] obtain gt g n6 v where
    p: "get_string H (ri_session info) ''device_guid'' = Some gt" "guid_from_str L gt = Some g"
    "get_nonce H (ri_session info) ''nonce6'' = Some n6" "load_voucher L ops E to2_ProveDevice g t = (t', Ok v)"
    "token_proven L v n6 (session_keys H (ri_session info'))" by blast
  obtain k where k: "guid_key L g = Some k" "V k v" using load_voucher_held [OF p(4) assms(5,6)] by blast
  have get: "ses_get H (ri_session info') k = ses_get H (ri_session info) k"
    if "k \<in> {''num_service_info_loops'', ''device_guid'', ''nonce6'', LAST_MSG_SES_KEY}" for k
    by (rule prove_device_session(2) [OF assms(1,2)])
       (use that in \<open>auto simp: LAST_MSG_SES_KEY_def ENCRYPTION_KEYS_SES_KEY_def\<close>)
  have "proven_session L H V (ri_session info')"
    unfolding proven_session_def using p k by (auto simp: get_string_def get_nonce_def get)
  then show ?thesis
    using assms(3,4) by (simp add: to2_session_ok_def get_u32_def last_message_def get_msg_type_def get)
qed

end

section \<open>The server\<close>

text \<open>The messages with derived (de)serialisation.\<close>

definition hello_device_des :: "'z to2lib_scheme \<Rightarrow> bytes \<Rightarrow> hello_device result" where
  "hello_device_des L bs =
     rbind (serde_des (c_hello_device L) bs) (\<lambda>(size, g, n5, kex, cipher, t, b).
     rbind (rmap_err (\<lambda>_. SerdeCborError) (guid_try_from g)) (\<lambda>g.
     rbind (rmap_err (\<lambda>_. SerdeCborError) (nonce_try_from n5)) (\<lambda>n5.
     Ok \<lparr>hd_max_device_message_size = word_of_nat size, hd_guid = g, hd_nonce5 = n5, hd_kex_suite = kex,
         hd_cipher_suite = cipher, hd_a_signature_info = \<lparr>sig_type = t, sig_info_bytes = b\<rparr>\<rparr>)))"

definition dsi_ready_des :: "'z to2lib_scheme \<Rightarrow> bytes \<Rightarrow> device_service_info_ready result" where
  "dsi_ready_des L bs =
     rmap (\<lambda>(h, n). \<lparr>dsr_replacement_hmac = map_option tuple_hash h, dsr_max_owner_service_info_size = n\<rparr>)
       (serde_des (c_dsi_ready L) bs)"

definition dsi_des :: "'z to2lib_scheme \<Rightarrow> bytes \<Rightarrow> device_service_info result" where
  "dsi_des L bs = rmap (\<lambda>(m, si). \<lparr>dsi_is_more = m, dsi_service_info = si\<rparr>) (serde_des (c_dsi L) bs)"

definition osi_ser :: "'z to2lib_scheme \<Rightarrow> owner_service_info \<Rightarrow> bytes result" where
  "osi_ser L m = serde_ser (c_osi L) (osi_is_more m, osi_is_done m, osi_service_info m)"

definition done_des :: "'z to2lib_scheme \<Rightarrow> bytes \<Rightarrow> to2_done result" where
  "done_des L bs = rbind (serde_des (c_done L) bs) (\<lambda>n. rmap Done (rmap_err (\<lambda>_. SerdeCborError) (nonce_try_from n)))"

text \<open>The endpoints that \<open>main\<close> sets up, in any environment and with any random values.\<close>

inductive_set to2_endpoints ::
  "'z to2lib_scheme \<Rightarrow> 's http_lib \<Rightarrow> owner_ud \<Rightarrow> ('e, string, voucher, 't) store_ops \<Rightarrow>
     ('e \<Rightarrow> 't \<Rightarrow> string \<Rightarrow> string \<Rightarrow> metadata_value \<Rightarrow> 't \<times> unit sres) \<Rightarrow> ('s, 't) endpoint set"
  for L H UD ops meta where
  ep_hello_device: "endpoint L to2_HelloDevice to2_ProveOVHdr (hello_device_des L) (\<lambda>m. cosesign_ser L (pov_token m))
     (handle_hello_device L H UD ops E gen kexrnd rnd) \<in> to2_endpoints L H UD ops meta"
| ep_get_ov_next_entry: "endpoint L to2_GetOVNextEntry to2_OVNextEntry
     (\<lambda>bs. rmap GetOVNextEntry (serde_des (c_get_ov_next_entry L) bs)) (ov_next_entry_ser L)
     (handle_get_ov_next_entry L H ops E) \<in> to2_endpoints L H UD ops meta"
| ep_prove_device: "endpoint L to2_ProveDevice to2_SetupDevice (\<lambda>bs. rmap ProveDevice (cosesign_des L bs))
     (\<lambda>m. cosesign_ser L (sd_token m)) (handle_prove_device L H UD ops E grnd) \<in> to2_endpoints L H UD ops meta"
| ep_dsi_ready: "endpoint L to2_DeviceServiceInfoReady to2_OwnerServiceInfoReady (dsi_ready_des L)
     (\<lambda>m. serde_ser (c_osi_ready L) (osr_max_size m)) (handle_device_service_info_ready H) \<in> to2_endpoints L H UD ops meta"
| ep_dsi: "endpoint L to2_DeviceServiceInfo to2_OwnerServiceInfo (dsi_des L) (osi_ser L)
     (handle_device_service_info L H api order) \<in> to2_endpoints L H UD ops meta"
| ep_done: "endpoint L to2_Done to2_Done2 (done_des L) (\<lambda>m. serde_ser (c_done2 L) (nonce_bytes (dn_nonce7 m)))
     (handle_done L H meta E) \<in> to2_endpoints L H UD ops meta"

lemma to2_endpoints_ok:
  assumes "session_doc H" "ep \<in> to2_endpoints L H UD ops meta"
  shows "endpoint_ok H ep"
  using assms(2)
  by cases (auto simp: message_defs intro!: endpoint_okI dest: hello_device_session(1) [OF _ assms(1)]
      prove_device_session(1) [OF _ assms(1)] device_service_info_session(1) [OF _ assms(1)]
      done_session(1) [OF _ assms(1)] get_ov_next_entry_session dsi_ready_session)

lemma endpoint_handled:
  "ep_handle (endpoint L IM OM des ser handler) info body u = (u', Ok (res, info')) \<longleftrightarrow>
     (\<exists>msg r. des body = Ok msg \<and> handler info msg u = (u', Ok (r, info')) \<and> res = msg_to_response L OM (ser r))"
  by (auto simp: endpoint_def res_simps)

lemma endpoint_in [simp]: "ep_in (endpoint L IM OM des ser handler) = IM"
  by (simp add: endpoint_def)

context voucher_store
begin

lemma to2_endpoints_preserve:
  assumes "ep \<in> to2_endpoints L H UD ops meta" "guid_keys_valid L valid"
  shows "preserves (vouchers_held held invar valid V) (ep_handle ep info body)"
  using assms(1) by cases (auto intro!: endpoint_preserves to2_handlers_keep done_keeps assms(2))

lemma to2_endpoints_keep_ok:
  assumes "ep \<in> to2_endpoints L H UD ops meta" "guid_keys_valid L valid" "session_doc H"
    and "vouchers_held held invar valid V u" "to2_session_ok L H V (ri_session info)"
    and "is_valid_previous_message (ep_in ep) (last_message H (ri_session info))"
    and "ep_handle ep info body u = (u', Ok (res, info'))"
  shows "to2_session_ok L H V (ri_session info')"
  using assms(1)
proof cases
  case ep_hello_device
  with assms(3,5-7) show ?thesis
    by (auto simp: endpoint_handled to2_HelloDevice_def intro: hello_device_keeps_ok)
next
  case ep_prove_device
  with assms(2-7) show ?thesis
    by (auto simp: endpoint_handled to2_ProveDevice_def intro: prove_device_keeps_ok)
qed (use assms(3,5,7) in \<open>auto simp: endpoint_handled dest: get_ov_next_entry_session dsi_ready_session
    intro: device_service_info_keeps_ok done_keeps_ok\<close>)

end

section \<open>The directory of vouchers\<close>

abbreviation voucher_ops :: "'z vlib_scheme \<Rightarrow> (fs_env, string, voucher, dir) store_ops" where
  "voucher_ops L \<equiv> directory_ops (voucher_ser L) (voucher_read L)"

lemma dir_meta_held:
  assumes "plain_key k" "plain_key k'" "mk \<noteq> ''store_ttl''" "dir_store_metadata E d k mk b = (d', x)"
  shows "dir_held rd d' k' = dir_held rd d k'"
  using assms(3,4)
  by (auto simp: dir_store_metadata_def Let_def dir_held_def format_xattr_def split: option.splits if_splits res.splits)

lemma dir_meta_tmp_plain:
  assumes "plain_key k" "tmp_plain d"
  shows "tmp_plain (fst (dir_store_metadata E d k mk b))"
  using assms tmp_plain_upd(1) [OF assms(2,1)]
  by (auto simp: dir_store_metadata_def Let_def split: option.splits res.splits)

interpretation voucher_dir:
  voucher_store "voucher_ops L" now "dir_held (voucher_read L)" tmp_plain plain_key
    "storable_by (voucher_ser L) (voucher_read L) equiv_voucher" equiv_voucher dir_store_metadata
  for L :: "'z vlib_scheme"
  by unfold_locales (fact dir_meta_held, fact dir_meta_tmp_plain)

text \<open>The voucher under a key in one of the initial states.\<close>

definition initial_voucher :: "'z vlib_scheme \<Rightarrow> ('t \<times> dir \<Rightarrow> bool) \<Rightarrow> string \<Rightarrow> voucher \<Rightarrow> bool" where
  "initial_voucher L start k v \<longleftrightarrow> (\<exists>st e. start st \<and> dir_held (voucher_read L) (snd st) k = Some (v, e))"

text \<open>The initial states of an owner server with two directory stores: without sessions, or with sessions
  that an earlier run left.\<close>

definition to2_start ::
  "'z plib_scheme \<Rightarrow> 's http_lib \<Rightarrow> (bytes \<Rightarrow> ('s \<times> bytes) result) \<Rightarrow> (dir \<times> dir \<Rightarrow> bool) \<Rightarrow> bool" where
  "to2_start L H srd start \<longleftrightarrow>
     (\<forall>st. start st \<longrightarrow> tmp_plain (fst st) \<and> tmp_plain (snd st) \<and>
        (\<forall>k s e. plain_key k \<longrightarrow> dir_held srd (fst st) k = Some (s, e) \<longrightarrow> to2_session_ok L H (initial_voucher L start) s))"

lemma to2_start_empty:
  "(\<And>t u. start (t, u) \<Longrightarrow> t = Map.empty \<and> tmp_plain u) \<Longrightarrow> to2_start L H srd start"
proof -
  assume "\<And>t u. start (t, u) \<Longrightarrow> t = Map.empty \<and> tmp_plain u"
  then have "fst st = Map.empty \<and> tmp_plain (snd st)" if "start st" for st using that by (cases st) simp
  then show ?thesis by (auto simp: to2_start_def tmp_plain_def dir_held_None)
qed

definition same_values :: "'s http_lib \<Rightarrow> ('s \<Rightarrow> 's \<Rightarrow> bool) \<Rightarrow> bool" where
  "same_values H same \<longleftrightarrow> (\<forall>s s' k. same s s' \<longrightarrow> ses_get H s' k = ses_get H s k)"

lemma to2_reachable:
  assumes "server_run L H (directory_ops sser srd)
      (to2_endpoints L H UD (voucher_ops L) dir_store_metadata) env_ok start st hist"
    and "session_env H (storable_by sser srd same) same" "same_values H same" "text_doc L"
    and "to2_start L H srd start" "\<And>E. env_ok E \<Longrightarrow> clock_ok (now E)"
    and "plain_key k" "dir_held srd (fst st) k = Some (s, e)"
  shows "to2_session_ok L H (initial_voucher L start) s"
proof -
  let ?Q = "to2_session_ok L H (initial_voucher L start)"
  let ?P = "vouchers_held (dir_held (voucher_read L)) tmp_plain plain_key (initial_voucher L start)"
  have doc: "session_doc H" using assms(2) by (simp add: session_env_def)
  have keys: "guid_keys_valid L plain_key" using guid_key_plain assms(4) by (auto simp: guid_keys_valid_def)
  have "directory_sessions.sessions_all srd ?Q (fst st) \<and> ?P (snd st)"
  proof (rule directory_sessions.run_sessions_all [OF assms(1)])
    show "directory_sessions.sessions_all srd ?Q (fst st) \<and> ?P (snd st)" if "start st" for st
      using assms(5) that
      by (cases st) (auto simp: directory_sessions.sessions_all_def vouchers_held_def to2_start_def initial_voucher_def)
    show "to2_session_ok L H (initial_voucher L start) s'" if "?Q s" "same s s'" for s s'
      by (rule to2_session_ok_cong [OF _ that(1)]) (use assms(3) that(2) in \<open>auto simp: same_values_def\<close>)
    show "preserves ?P (ep_handle ep info body)"
      if "ep \<in> to2_endpoints L H UD (voucher_ops L) dir_store_metadata" for ep info body
      using that by (rule voucher_dir.to2_endpoints_preserve [OF _ keys])
    show "?Q (ri_session info')"
      if "ep \<in> to2_endpoints L H UD (voucher_ops L) dir_store_metadata" "?P u" "?Q (ri_session info)"
        "is_valid_previous_message (ep_in ep) (last_message H (ri_session info))"
        "ep_handle ep info body u = (u', Ok (res, info'))" for ep info body u u' res info'
      using that(1) keys doc that(2-5) by (rule voucher_dir.to2_endpoints_keep_ok)
  qed (fact assms(6) to2_session_new [OF doc] to2_session_noted [OF doc] assms(2))+
  with assms(7,8) show ?thesis by (auto simp: directory_sessions.sessions_all_def)
qed

section \<open>Properties\<close>

lemma nonce_eq_True:
  assumes "nonce_eq L a b = Ok True" "memcmp_doc L"
  shows "a = b"
  using assms by (cases a; cases b) (auto simp: nonce_eq_def memcmp_def memcmp_doc_def split: if_splits)

text \<open>C6: the owner serves only devices that proved themselves: when one of the handlers after ProveDevice
  answers in a reachable state, for a session of the store, there is a voucher that the owner held under
  the GUID of the session, a token that verifies under the key of the leaf of its certificate chain, whose
  nonce is the one the server drew for this session, and the session keys were derived from the public
  value in that token.\<close>

theorem service_info_for_proven_device:
  assumes "server_run L H (directory_ops sser srd)
      (to2_endpoints L H UD (voucher_ops L) dir_store_metadata) env_ok start st hist"
    and "session_env H (storable_by sser srd same) same" "same_values H same" "text_doc L" "memcmp_doc L"
    and "to2_start L H srd start" "\<And>E. env_ok E \<Longrightarrow> clock_ok (now E)"
    and "plain_key sid" "dir_held srd (fst st) sid = Some (ri_session info, e)"
    and "handle_device_service_info_ready H info m1 (snd st) = (u', Ok r1) \<or>
      handle_device_service_info L H api order info m2 (snd st) = (u', Ok r2) \<or>
      handle_done L H dir_store_metadata E info m3 (snd st) = (u', Ok r3)"
  shows "\<exists>gt g k v pk token eat n6 b kex c ni ks.
    get_string H (ri_session info) ''device_guid'' = Some gt \<and> guid_from_str L gt = Some g \<and>
    guid_key L g = Some k \<and> initial_voucher L start k v \<and>
    device_key L v = Ok pk \<and> get_eat L token pk = Ok eat \<and> eat_nonce eat = n6 \<and>
    get_nonce H (ri_session info) ''nonce6'' = Some n6 \<and>
    payload_internal (v_prove_device L) eat = Ok (Some b) \<and> derive_key L kex OwnerService c b ni = Ok ks \<and>
    session_keys H (ri_session info) = keys_from_derived c ks"
proof -
  have doc: "session_doc H" using assms(2) by (simp add: session_env_def)
  have "get_bool H (ri_session info) ''proven_device'' \<noteq> None"
    using assms(10) dsi_ready_session [of H info m1] device_service_info_session(4) [OF _ doc]
      done_session(3) [OF _ doc] by (metis surj_pair)
  with to2_reachable [OF assms(1-4,6-9)] have "proven_session L H (initial_voucher L start) (ri_session info)"
    by (simp add: to2_session_ok_def)
  then show ?thesis
    unfolding proven_session_def token_proven_def using nonce_eq_True [OF _ assms(5)] by blast
qed

text \<open>C40: the rounds of service info are counted without wrap-around: in a reachable state the counter of a
  session is at most 1001, an answered request moves it up by one, and every answer but the first one
  tells the device that the owner is done.\<close>

theorem service_info_rounds_bounded:
  assumes "server_run L H (directory_ops sser srd)
      (to2_endpoints L H UD (voucher_ops L) dir_store_metadata) env_ok start st hist"
    and "session_env H (storable_by sser srd same) same" "same_values H same" "text_doc L"
    and "to2_start L H srd start" "\<And>E. env_ok E \<Longrightarrow> clock_ok (now E)"
    and "plain_key sid" "dir_held srd (fst st) sid = Some (ri_session info, e)"
    and "handle_device_service_info L H api order info msg (snd st) = (u', Ok (res, info'))"
  shows "\<exists>n. get_u32 H (ri_session info') ''num_service_info_loops'' = Some n \<and> unat n \<le> 1001 \<and>
    (case get_u32 H (ri_session info) ''num_service_info_loops'' of
       None \<Rightarrow> unat n = 1 \<and> \<not> osi_is_done res
     | Some m \<Rightarrow> unat n = unat m + 1 \<and> osi_is_done res)"
proof -
  have doc: "session_doc H" using assms(2) by (simp add: session_env_def)
  from to2_reachable [OF assms(1-8)] have inv: "1 \<le> m \<and> m \<le> 1001"
    if "get_u32 H (ri_session info) ''num_service_info_loops'' = Some m" for m
    using that by (simp add: to2_session_ok_def)
  obtain n where n: "get_u32 H (ri_session info') ''num_service_info_loops'' = Some (n + 1)" "n \<le> 1000"
    "n = (case get_u32 H (ri_session info) ''num_service_info_loops'' of None \<Rightarrow> 0 | Some m \<Rightarrow> m)"
    "osi_is_done res \<longleftrightarrow> n \<noteq> 0"
    using answered_round [OF assms(9) doc] by blast
  have "unat n \<le> 1000" using n(2) by (simp add: word_le_nat_alt)
  then have "unat (n + 1) = unat n + 1" by (simp add: unat_word_ariths(1))
  moreover have "n \<noteq> 0 \<longleftrightarrow> get_u32 H (ri_session info) ''num_service_info_loops'' \<noteq> None"
    using n(3) inv by (cases "get_u32 H (ri_session info) ''num_service_info_loops''") fastforce+
  ultimately show ?thesis
    using n \<open>unat n \<le> 1000\<close>
    by (cases "get_u32 H (ri_session info) ''num_service_info_loops''") simp_all
qed

end
