(* ===== verification/Device_Credential.thy ===== *)
theory Device_Credential
  imports Owner_Onboarding
begin

text \<open>
  Device credentials: \<open>data-formats/src/devicecredential/file.rs\<close> and the locations of
  \<open>util/src/device_credential_locations.rs\<close>. Keys are stored in the credential or wrapped by a TPM; the
  crate \<open>tss_esapi\<close> is a part of the library record, with the parsed public area of a TPM object as the
  datatype \<open>tpm_public\<close> and a loaded signing key as an opaque private key. The file system of the
  locations is a map from paths to contents; an environment says which system calls succeed and what a
  failed write leaves in the file.
\<close>

section \<open>Key storage\<close>

datatype key_storage =
  Plain (ks_hmac_secret: bytes) (ks_private_key: bytes)
| Tpm (ks_signing_public: bytes) (ks_signing_private: bytes) (ks_hmac_public: bytes) (ks_hmac_private: bytes)

datatype tpm_hash = TpmSha256 | TpmSha384 | TpmSha512 | TpmOtherHash

datatype ecc_scheme = EcDsa tpm_hash | OtherEccScheme

datatype ecc_curve = NistP192 | NistP224 | NistP256 | NistP384 | NistP521 | OtherCurve

text \<open>The public area of a TPM object, as far as the code reads it: of a keyed hash, whether its scheme is
  HMAC and the hash of the scheme.\<close>

datatype tpm_public = TpmKeyedHash bool tpm_hash | TpmRsa | TpmEcc ecc_scheme ecc_curve | TpmOtherPublic

record devlib = to2lib +
  hmac_sign :: "bytes \<Rightarrow> message_digest \<Rightarrow> bytes \<Rightarrow> bytes option"
  private_key_from_der :: "bytes \<Rightarrow> privkey option"
  tpm_available :: bool
  tpm_unmarshall :: "bytes \<Rightarrow> tpm_public option"
  tpm_hmac :: "bytes \<Rightarrow> tpm_public \<Rightarrow> tpm_hash \<Rightarrow> bytes \<Rightarrow> bytes option"
  tpm_load_signer :: "bytes \<Rightarrow> tpm_public \<Rightarrow> privkey option"
  c_credential :: "(bool \<times> protocol_version \<times> string \<times> bytes \<times> rendezvous_info \<times> hash_tuple \<times> key_storage) codec"

definition semi_tpm :: "'z devlib_scheme \<Rightarrow> unit result" where
  "semi_tpm L = (if tpm_available L then Ok () else Err TssError)"

fun hmac_scheme :: "tpm_public \<Rightarrow> (tpm_hash \<times> hash_type) result" where
  "hmac_scheme (TpmKeyedHash is_hmac h) =
     (if \<not> is_hmac then Err UnsupportedAlgorithm
      else case h of
             TpmSha256 \<Rightarrow> Ok (h, Sha256)
           | TpmSha384 \<Rightarrow> Ok (h, Sha384)
           | _ \<Rightarrow> Err UnsupportedAlgorithm)"
| "hmac_scheme _ = Err UnsupportedAlgorithm"

fun perform_hmac :: "'z devlib_scheme \<Rightarrow> key_storage \<Rightarrow> bytes \<Rightarrow> hash_type \<Rightarrow> hash result" where
  "perform_hmac L (Plain secret key) data hmac_type =
     rbind (ok_or (hmac_sign L secret (get_md hmac_type) data) CryptoStack) (\<lambda>ov_hmac.
     hash_from_digest hmac_type ov_hmac)"
| "perform_hmac L (Tpm spub spriv hpub hpriv) data hmac_type =
     rbind (semi_tpm L) (\<lambda>_.
     rbind (ok_or (tpm_unmarshall L hpub) TssError) (\<lambda>hmac_public.
     rbind (hmac_scheme hmac_public) (\<lambda>(hash_algo, ht).
     rbind (ok_or (tpm_hmac L hpriv hmac_public hash_algo data) TssError) (\<lambda>hmac.
     hash_from_digest ht hmac))))"

section \<open>Credentials\<close>

record device_credential =
  dc_active :: bool
  dc_protver :: protocol_version
  dc_device_info :: string
  dc_guid :: guid
  dc_rvinfo :: rendezvous_info
  dc_pubkey_hash :: hash
  dc_key_storage :: key_storage

definition credential_ser :: "'z devlib_scheme \<Rightarrow> device_credential \<Rightarrow> bytes result" where
  "credential_ser L c = serde_ser (c_credential L)
     (dc_active c, dc_protver c, dc_device_info c, guid_bytes (dc_guid c), dc_rvinfo c,
      hash_tuple (dc_pubkey_hash c), dc_key_storage c)"

definition credential_des :: "'z devlib_scheme \<Rightarrow> bytes \<Rightarrow> device_credential result" where
  "credential_des L bs =
     rbind (serde_des (c_credential L) bs) (\<lambda>(active, protver, dinfo, g, rv, h, ks).
     rbind (rmap_err (\<lambda>_. SerdeCborError) (guid_try_from g)) (\<lambda>g.
     Ok \<lparr>dc_active = active, dc_protver = protver, dc_device_info = dinfo, dc_guid = g, dc_rvinfo = rv,
         dc_pubkey_hash = tuple_hash h, dc_key_storage = ks\<rparr>))"

definition verify_hmac :: "'z devlib_scheme \<Rightarrow> device_credential \<Rightarrow> bytes \<Rightarrow> hash \<Rightarrow> unit result" where
  "verify_hmac L c data hmac =
     rbind (perform_hmac L (dc_key_storage c) data (hash_type hmac)) (\<lambda>ours.
     rbind (hash_eq L hmac ours) (\<lambda>same. if \<not> same then Err IncorrectHash else Ok ()))"

definition get_signer :: "'z devlib_scheme \<Rightarrow> device_credential \<Rightarrow> privkey result" where
  "get_signer L c =
     (case dc_key_storage c of
        Plain secret key \<Rightarrow> ok_or (private_key_from_der L key) CryptoStack
      | Tpm spub spriv hpub hpriv \<Rightarrow>
          rbind (semi_tpm L) (\<lambda>_.
          rbind (ok_or (tpm_unmarshall L spub) TssError) (\<lambda>signing_public.
          ok_or (tpm_load_signer L spriv signing_public) TssError)))"

section \<open>The COSE signer of the TPM\<close>

datatype signature_algorithm = ES256 | ES384 | ES512

fun cose_digest :: "tpm_hash \<Rightarrow> tpm_hash result" where
  "cose_digest TpmOtherHash = Err Cose"
| "cose_digest h = Ok h"

fun curve_parameters :: "ecc_curve \<Rightarrow> (signature_algorithm \<times> tpm_hash \<times> nat) result" where
  "curve_parameters NistP256 = Ok (ES256, TpmSha256, 32)"
| "curve_parameters NistP384 = Ok (ES384, TpmSha384, 48)"
| "curve_parameters NistP521 = Ok (ES512, TpmSha512, 66)"
| "curve_parameters _ = Err Cose"

text \<open>\<open>public_to_parameters\<close>: a key that is neither RSA nor ECC, and an RSA key, are \<open>unimplemented!\<close>.\<close>

fun public_to_parameters :: "tpm_public \<Rightarrow> ((signature_algorithm \<times> tpm_hash) \<times> tpm_hash \<times> nat) result" where
  "public_to_parameters (TpmEcc scheme curve) =
     (case scheme of
        OtherEccScheme \<Rightarrow> Err Cose
      | EcDsa hash_alg \<Rightarrow>
          rbind (cose_digest hash_alg) (\<lambda>param_hash_alg.
          rbind (curve_parameters curve) (\<lambda>(sig_alg, correct_hash_alg, key_length).
          if hash_alg \<noteq> correct_hash_alg then Err Cose
          else Ok ((sig_alg, param_hash_alg), hash_alg, key_length))))"
| "public_to_parameters _ = Panic"

text \<open>\<open>copy_from_slice\<close> into a zeroed buffer of \<open>2 * key_length\<close> bytes; a factor that is too long fails
  the assertion.\<close>

definition copy_at :: "nat \<Rightarrow> bytes \<Rightarrow> bytes \<Rightarrow> bytes" where
  "copy_at offset src dst = take offset dst @ src @ drop (offset + length src) dst"

definition merge_ec_signature :: "bytes \<Rightarrow> bytes \<Rightarrow> nat \<Rightarrow> bytes result" where
  "merge_ec_signature bytes_r bytes_s key_length =
     (if length bytes_r > key_length \<or> length bytes_s > key_length then Panic
      else
        let signature_bytes = replicate (key_length * 2) 0;
            signature_bytes = copy_at (key_length - length bytes_r) bytes_r signature_bytes;
            signature_bytes = copy_at (key_length - length bytes_s + key_length) bytes_s signature_bytes
        in Ok signature_bytes)"

section \<open>Locations\<close>

datatype deactivation_method = NoDeactivation | Delete | Deactivate

record file_system_path =
  fp_path :: string
  fp_deactivation_method :: deactivation_method

datatype file_call = ReadFile | WriteFile | DeleteFile

type_synonym files = "string \<rightharpoonup> bytes"

record file_env =
  call_ok :: "file_call \<Rightarrow> bool"
  torn :: "bytes option"

text \<open>A location resolves to itself when its file exists.\<close>

definition resolve_path :: "files \<Rightarrow> file_system_path \<Rightarrow> (unit, file_system_path) res option" where
  "resolve_path fs loc = (if fs (fp_path loc) \<noteq> None then Some (Ok loc) else None)"

text \<open>Environment variables: present with a text, or with a value that is not text.\<close>

definition resolve_env ::
  "files \<Rightarrow> (string \<rightharpoonup> string option) \<Rightarrow> string \<Rightarrow> (unit, file_system_path) res option" where
  "resolve_env fs env var =
     (case env var of
        None \<Rightarrow> None
      | Some None \<Rightarrow> Some (Err ())
      | Some (Some p) \<Rightarrow>
          resolve_path fs \<lparr>fp_path = p, fp_deactivation_method =
            (if env (var @ ''_DELETE'') = None
             then if env (var @ ''_DEACTIVATE'') = None then NoDeactivation else Deactivate
             else Delete)\<rparr>)"

fun first_some :: "'a option list \<Rightarrow> 'a option" where
  "first_some [] = None"
| "first_some (None # xs) = first_some xs"
| "first_some (Some x # xs) = Some x"

definition find_credential :: "files \<Rightarrow> (string \<rightharpoonup> string option) \<Rightarrow> (unit, file_system_path) res option" where
  "find_credential fs env = first_some
     [resolve_path fs \<lparr>fp_path = ''/sys/firmware/qemu_fw_cfg/by_name/opt/device_onboarding/devicecredential/raw'',
        fp_deactivation_method = NoDeactivation\<rparr>,
      resolve_env fs env ''DEVICE_CREDENTIAL'',
      resolve_path fs \<lparr>fp_path = ''/etc/device-credentials'', fp_deactivation_method = Deactivate\<rparr>]"

definition read_file :: "file_env \<Rightarrow> files \<Rightarrow> string \<Rightarrow> (unit, bytes) res" where
  "read_file E fs p = (if call_ok E ReadFile then ok_or (fs p) () else Err ())"

definition read_credential ::
  "'z devlib_scheme \<Rightarrow> file_env \<Rightarrow> files \<Rightarrow> file_system_path \<Rightarrow> (unit, device_credential) res" where
  "read_credential L E fs loc =
     rbind (read_file E fs (fp_path loc)) (\<lambda>contents. rmap_err (\<lambda>_. ()) (credential_des L contents))"

definition perform_deactivation ::
  "'z devlib_scheme \<Rightarrow> file_env \<Rightarrow> file_system_path \<Rightarrow> (files, unit, unit) st" where
  "perform_deactivation L E loc fs =
     (case rbind (read_credential L E fs loc) (\<lambda>fdc.
             rmap_err (\<lambda>_. ()) (credential_ser L (fdc\<lparr>dc_active := False\<rparr>))) of
        Ok new_dc_contents \<Rightarrow>
          if call_ok E WriteFile then (fs(fp_path loc \<mapsto> new_dc_contents), Ok ())
          else (fs(fp_path loc := torn E), Err ())
      | Err e \<Rightarrow> (fs, Err e)
      | Panic \<Rightarrow> (fs, Panic))"

definition deactivate :: "'z devlib_scheme \<Rightarrow> file_env \<Rightarrow> file_system_path \<Rightarrow> (files, unit, unit) st" where
  "deactivate L E loc =
     (case fp_deactivation_method loc of
        NoDeactivation \<Rightarrow> lift (Ok ())
      | Delete \<Rightarrow> (\<lambda>fs. if call_ok E DeleteFile \<and> fs (fp_path loc) \<noteq> None
                     then (fs(fp_path loc := None), Ok ()) else (fs, Err ()))
      | Deactivate \<Rightarrow> perform_deactivation L E loc)"

section \<open>Lemmas\<close>

lemma credential_roundtrip:
  assumes "codec_doc (c_credential L)" "credential_ser L c = Ok bs" "length (guid_bytes (dc_guid c)) = 16"
  shows "credential_des L bs = Ok c"
proof -
  have "serde_des (c_credential L) bs = Ok (dc_active c, dc_protver c, dc_device_info c, guid_bytes (dc_guid c),
      dc_rvinfo c, hash_tuple (dc_pubkey_hash c), dc_key_storage c)"
    using serde_roundtrip [OF assms(1)] assms(2) by (simp add: credential_ser_def)
  with assms(3) show ?thesis
    by (simp add: credential_des_def guid_try_from_def bstr16_check_def hash_tuple_def)
qed

lemma credential_guid: "credential_des L bs = Ok c \<Longrightarrow> length (guid_bytes (dc_guid c)) = 16"
  by (auto simp: credential_des_def guid_try_from_def bstr16_check_def res_simps split: if_splits)

text \<open>The HMAC that the device accepts is the one its own key makes.\<close>

lemma verify_hmac_Ok:
  assumes "verify_hmac L c data hmac = Ok ()" "memcmp_doc L"
  shows "\<exists>ours. perform_hmac L (dc_key_storage c) data (hash_type hmac) = Ok ours \<and> hash_value ours = hash_value hmac"
  using assms
  by (auto simp: verify_hmac_def hash_eq_def memcmp_def memcmp_doc_def res_simps split: if_splits)

lemma from_be_bytes_zeros: "from_be_bytes (replicate n 0 @ bs) = from_be_bytes bs"
proof (induction bs rule: rev_induct)
  case Nil
  then show ?case by (induction n) (simp_all flip: replicate_append_same add: from_be_bytes_def)
next
  case (snoc b bs)
  then show ?case by (simp flip: append_assoc)
qed

lemma merge_ec_signature_Ok:
  assumes "length r \<le> n" "length s \<le> n"
  shows "merge_ec_signature r s n = Ok (replicate (n - length r) 0 @ r @ replicate (n - length s) 0 @ s)"
  using assms by (simp add: merge_ec_signature_def copy_at_def Let_def)

lemma deactivate_inactive:
  assumes "deactivate L E loc fs = (fs', Ok ())" "codec_doc (c_credential L)"
    and "fp_deactivation_method loc = Deactivate" "call_ok E' ReadFile"
  shows "\<exists>c. read_credential L E fs loc = Ok c \<and> read_credential L E' fs' loc = Ok (c\<lparr>dc_active := False\<rparr>)"
proof -
  from assms(1,3) obtain c bs where c: "read_credential L E fs loc = Ok c"
    and bs: "credential_ser L (c\<lparr>dc_active := False\<rparr>) = Ok bs" "fs' = fs(fp_path loc \<mapsto> bs)"
    by (auto simp: deactivate_def perform_deactivation_def res_simps split: res.splits if_splits)
  from c obtain data where "credential_des L data = Ok c" by (auto simp: read_credential_def res_simps)
  from credential_guid [OF this] have "credential_des L bs = Ok (c\<lparr>dc_active := False\<rparr>)"
    using credential_roundtrip [OF assms(2) bs(1)] by simp
  with c bs(2) assms(4) show ?thesis by (simp add: read_credential_def read_file_def)
qed

end
