(* ===== verification/Http_Client.thy ===== *)
theory Http_Client
  imports Http_Sessions
begin

text \<open>
  The HTTP client of the devices and of the owner: \<open>http-wrapper/src/client.rs\<close>. The state of a
  \<open>ServiceClient\<close> is the record \<open>service_client\<close>; the crate \<open>reqwest\<close> with everything behind it is the
  function \<open>post\<close> on a state \<open>'w\<close> of the world, which may answer anything or fail. A computation works on
  the world and the client. \<open>http_reply\<close> keeps the headers as the client reads them: a header whose value
  is not text is present without a text.
\<close>

section \<open>State and errors\<close>

datatype client_error =
  Crypto | Parse | DataFormat error | RequestFailed | MissingMessageType | InvalidMessageType string
| InvalidMessage message_type message_type | ServerError error_message
| RequestEncryptionNotSatisfied encryption_requirement | ResponseEncryptionNotSatisfied encryption_requirement
| InvalidSequenceRequest | InvalidSequenceResponse | UrlParseError | InvalidUrl string string

record service_client =
  sc_protocol_version :: protocol_version
  sc_base_url :: string
  sc_authorization_token :: "string option"
  sc_encryption_keys :: encryption_keys
  sc_last_message_type :: "message_type option"
  sc_non_interoperable_kdf_required :: "bool option"

record http_request =
  rq_url :: string
  rq_authorization :: "string option"
  rq_noninteroperable_kdf :: bool
  rq_body :: bytes

record http_reply =
  rp_status :: nat
  rp_headers :: "string \<rightharpoonup> string option"
  rp_body :: "bytes option"

definition trim_end_slashes :: "string \<Rightarrow> string" where
  "trim_end_slashes s = rev (dropWhile (\<lambda>c. c = CHR ''/'') (rev s))"

definition service_client_new :: "protocol_version \<Rightarrow> string \<Rightarrow> service_client" where
  "service_client_new v base_url =
     \<lparr>sc_protocol_version = v, sc_base_url = trim_end_slashes base_url, sc_authorization_token = None,
      sc_encryption_keys = keys_unencrypted, sc_last_message_type = None,
      sc_non_interoperable_kdf_required = None\<rparr>"

section \<open>Numbers as text\<close>

text \<open>\<open>Display\<close> of an unsigned integer, and \<open>u8::from_str\<close>.\<close>

definition digit_char :: "nat \<Rightarrow> char" where
  "digit_char n = char_of (48 + n)"

fun nat_fmt :: "nat \<Rightarrow> string" where
  "nat_fmt n = (if n < 10 then [digit_char n] else nat_fmt (n div 10) @ [digit_char (n mod 10)])"

declare nat_fmt.simps [simp del]

definition is_digit :: "char \<Rightarrow> bool" where
  "is_digit c \<longleftrightarrow> (48 :: nat) \<le> of_char c \<and> of_char c < (58 :: nat)"

definition u8_from_str :: "string \<Rightarrow> nat option" where
  "u8_from_str s =
     (let ds = (if s \<noteq> [] \<and> hd s = CHR ''+'' then tl s else s) in
      if ds = [] \<or> \<not> list_all is_digit ds then None
      else let n = foldl (\<lambda>a c. a * 10 + (of_char c - 48)) 0 ds in
        if n < 256 then Some n else None)"

section \<open>Sending a request\<close>

text \<open>The two tests of encryption requirements before anything is sent.\<close>

definition request_encryption :: "message_spec \<Rightarrow> encryption_keys \<Rightarrow> (client_error, unit) res" where
  "request_encryption OM keys =
     (case encryption_requirement OM of
        None \<Rightarrow> Ok ()
      | Some req \<Rightarrow>
          if req = MustBeEncrypted \<and> keys_is_none keys \<or> req = MustNotBeEncrypted \<and> keys_is_some keys
          then Err (RequestEncryptionNotSatisfied req) else Ok ())"

definition response_encryption ::
  "message_spec \<Rightarrow> encryption_keys \<Rightarrow> encryption_keys option \<Rightarrow> (client_error, unit) res" where
  "response_encryption SM keys new_keys =
     (case encryption_requirement SM of
        None \<Rightarrow> Ok ()
      | Some req \<Rightarrow>
          let is_response_encrypted = (keys_is_some keys \<or> new_keys \<noteq> None) in
          if req = MustBeEncrypted \<and> \<not> is_response_encrypted \<or> req = MustNotBeEncrypted \<and> is_response_encrypted
          then Err (ResponseEncryptionNotSatisfied req) else Ok ())"

definition request_url :: "service_client \<Rightarrow> message_spec \<Rightarrow> string" where
  "request_url c OM =
     sc_base_url c @ ''/fdo/'' @ nat_fmt (unat (protocol_version_u16 (sc_protocol_version c))) @ ''/msg/'' @
     nat_fmt (unat (message_type_u8 (message_spec.message_type OM)))"

definition is_success :: "http_reply \<Rightarrow> bool" where
  "is_success r \<longleftrightarrow> 200 \<le> rp_status r \<and> rp_status r < 300"

definition reply_message_type :: "http_reply \<Rightarrow> (client_error, message_type) res" where
  "reply_message_type r =
     (case rp_headers r ''message-type'' of
        None \<Rightarrow> if is_success r then Err MissingMessageType else Ok message_type.Error
      | Some None \<Rightarrow> Err (InvalidMessageType ''non-string'')
      | Some (Some s) \<Rightarrow>
          rbind (ok_or (u8_from_str s) (InvalidMessageType s)) (\<lambda>n.
          rmap_err (\<lambda>_. InvalidMessageType s) (message_type_try_from (word_of_nat n))))"

definition note_kdf :: "http_reply \<Rightarrow> service_client \<Rightarrow> service_client" where
  "note_kdf r c =
     (if sc_non_interoperable_kdf_required c = None
      then c\<lparr>sc_non_interoperable_kdf_required := Some (rp_headers r ''X-Non-Interoperable-KDF'' = Some (Some ''true''))\<rparr>
      else c)"

definition note_token :: "http_reply \<Rightarrow> service_client \<Rightarrow> (client_error, service_client) res" where
  "note_token r c =
     (case rp_headers r ''authorization'' of
        None \<Rightarrow> Ok c
      | Some None \<Rightarrow> Panic
      | Some (Some t) \<Rightarrow> Ok (c\<lparr>sc_authorization_token := Some t\<rparr>))"

definition error_message_des :: "'z plib_scheme \<Rightarrow> bytes \<Rightarrow> error_message result" where
  "error_message_des L bs =
     rmap (\<lambda>(code, prev, s, t, u). \<lparr>em_error_code = code, em_previous_message_type = prev, em_error_string = s,
         em_error_timestamp = t, em_error_uuid = u\<rparr>) (serde_des (c_error L) bs)"

definition read_reply ::
  "'z plib_scheme \<Rightarrow> 's http_lib \<Rightarrow> message_spec \<Rightarrow> (bytes \<Rightarrow> 'sm result) \<Rightarrow> service_client \<Rightarrow> message_type \<Rightarrow>
     http_reply \<Rightarrow> (client_error, 'sm) res" where
  "read_reply L H SM des c msgtype r =
     (if is_success r then
        if msgtype \<noteq> message_spec.message_type SM
        then Err (InvalidMessage msgtype (message_spec.message_type SM))
        else
          rbind (ok_or (rp_body r) RequestFailed) (\<lambda>resp.
          rbind (rmap_err (\<lambda>_. Crypto) (keys_decrypt H (sc_encryption_keys c) resp)) (\<lambda>resp.
          rmap_err DataFormat (des resp)))
      else
        if msgtype \<noteq> message_spec.message_type error_message_spec
        then Err (InvalidMessage msgtype (message_spec.message_type error_message_spec))
        else
          rbind (ok_or (rp_body r) RequestFailed) (\<lambda>resp.
          rbind (rmap_err DataFormat (error_message_des L resp)) (\<lambda>e. Err (ServerError e))))"

text \<open>Access to the client and to the network.\<close>

definition the_client :: "('w \<times> service_client, 'e, service_client) st" where
  "the_client s = (s, Ok (snd s))"

definition set_client :: "service_client \<Rightarrow> ('w \<times> service_client, 'e, unit) st" where
  "set_client c s = ((fst s, c), Ok ())"

definition network ::
  "('w \<Rightarrow> http_request \<Rightarrow> 'w \<times> http_reply option) \<Rightarrow> http_request \<Rightarrow> ('w \<times> service_client, client_error, http_reply) st" where
  "network post rq s = (case post (fst s) rq of (w, r) \<Rightarrow> ((w, snd s), ok_or r RequestFailed))"

definition send_request ::
  "'z plib_scheme \<Rightarrow> 's http_lib \<Rightarrow> ('w \<Rightarrow> http_request \<Rightarrow> 'w \<times> http_reply option) \<Rightarrow> message_spec \<Rightarrow> message_spec \<Rightarrow>
     ('om \<Rightarrow> bytes result) \<Rightarrow> (bytes \<Rightarrow> 'sm result) \<Rightarrow> 'om \<Rightarrow> encryption_keys option \<Rightarrow>
     ('w \<times> service_client, client_error, 'sm) st" where
  "send_request L H post OM SM ser des to_send new_keys =
     sbind the_client (\<lambda>c.
     if \<not> is_valid_previous_message OM (sc_last_message_type c) then lift (Err InvalidSequenceRequest)
     else if \<not> is_valid_previous_message SM (Some (message_spec.message_type OM)) then lift (Err InvalidSequenceResponse)
     else
       let c = c\<lparr>sc_last_message_type := Some (message_spec.message_type SM)\<rparr> in
       sbind (set_client c) (\<lambda>_.
       sbind (lift (request_encryption OM (sc_encryption_keys c))) (\<lambda>_.
       sbind (lift (response_encryption SM (sc_encryption_keys c) new_keys)) (\<lambda>_.
       sbind (lift (rmap_err DataFormat (ser to_send))) (\<lambda>data.
       sbind (lift (rmap_err (\<lambda>_. Crypto) (keys_encrypt H (sc_encryption_keys c) data))) (\<lambda>data.
       let rq = \<lparr>rq_url = request_url c OM, rq_authorization = sc_authorization_token c,
                 rq_noninteroperable_kdf = (\<not> interoperable_kdf_available L), rq_body = data\<rparr>;
           c = (case new_keys of Some k \<Rightarrow> c\<lparr>sc_encryption_keys := k\<rparr> | None \<Rightarrow> c) in
       sbind (set_client c) (\<lambda>_.
       sbind (network post rq) (\<lambda>resp.
       let c = note_kdf resp c in
       sbind (set_client c) (\<lambda>_.
       sbind (lift (reply_message_type resp)) (\<lambda>msgtype.
       sbind (lift (note_token resp c)) (\<lambda>c.
       sbind (set_client c) (\<lambda>_.
       lift (read_reply L H SM des c msgtype resp)))))))))))))"

section \<open>The query of the JSON client\<close>

text \<open>\<open>JsonClient::send_get\<close> builds the query string of its parameters.\<close>

fun query_string :: "(string \<times> string) list \<Rightarrow> string" where
  "query_string [] = []"
| "query_string [(k, v)] = k @ ''='' @ v"
| "query_string ((k, v) # p # ps) = k @ ''='' @ v @ ''&'' @ query_string (p # ps)"

section \<open>Lemmas\<close>

lemma digit_char_code: "n < 10 \<Longrightarrow> of_char (digit_char n) = 48 + n"
  by (simp add: digit_char_def)

lemma digit_char_digit: "n < 10 \<Longrightarrow> is_digit (digit_char n)"
  by (simp add: is_digit_def digit_char_code)

lemma nat_fmt_digits: "nat_fmt n \<noteq> [] \<and> list_all is_digit (nat_fmt n)"
  by (induction n rule: nat_fmt.induct) (subst (1 2) nat_fmt.simps, auto simp: digit_char_digit)

lemma nat_fmt_value: "foldl (\<lambda>a c. a * 10 + (of_char c - 48)) 0 (nat_fmt n) = n"
proof (induction n rule: nat_fmt.induct)
  case (1 n)
  show ?case
  proof (cases "n < 10")
    case True
    then show ?thesis by (subst nat_fmt.simps) (simp add: digit_char_code)
  next
    case False
    with 1 show ?thesis by (subst nat_fmt.simps) (simp add: digit_char_code)
  qed
qed

lemma u8_text_roundtrip:
  assumes "n < 256"
  shows "u8_from_str (nat_fmt n) = Some n"
proof -
  have "hd (nat_fmt n) \<noteq> CHR ''+''"
    using nat_fmt_digits [of n] by (cases "nat_fmt n") (auto simp: is_digit_def)
  with nat_fmt_digits [of n] nat_fmt_value [of n] assms show ?thesis by (simp add: u8_from_str_def)
qed

lemma the_client_Ok_iff [res_simps]: "the_client s = (s', Ok c) \<longleftrightarrow> s' = s \<and> c = snd s"
  by (auto simp: the_client_def)

lemma set_client_Ok_iff [res_simps]: "set_client c s = (s', Ok u) \<longleftrightarrow> s' = (fst s, c)"
  by (auto simp: set_client_def)

lemma network_Ok_iff [res_simps]:
  "network post rq s = (s', Ok r) \<longleftrightarrow> post (fst s) rq = (fst s', Some r) \<and> snd s' = snd s"
  by (cases s') (auto simp: network_def ok_or_Ok_iff split: prod.splits)

text \<open>The client after a request: \<open>after_request\<close> is its state when the request goes out.\<close>

definition after_request :: "message_spec \<Rightarrow> encryption_keys option \<Rightarrow> service_client \<Rightarrow> service_client" where
  "after_request SM new_keys c =
     (let c = c\<lparr>sc_last_message_type := Some (message_spec.message_type SM)\<rparr> in
      case new_keys of Some k \<Rightarrow> c\<lparr>sc_encryption_keys := k\<rparr> | None \<Rightarrow> c)"

lemma after_request_simps [simp]:
  "sc_last_message_type (after_request SM nk c) = Some (message_spec.message_type SM)"
  "sc_encryption_keys (after_request SM nk c) = (case nk of Some k \<Rightarrow> k | None \<Rightarrow> sc_encryption_keys c)"
  "sc_authorization_token (after_request SM nk c) = sc_authorization_token c"
  by (cases nk; simp add: after_request_def)+

lemma note_kdf_simps [simp]:
  "sc_last_message_type (note_kdf r c) = sc_last_message_type c"
  "sc_encryption_keys (note_kdf r c) = sc_encryption_keys c"
  "sc_authorization_token (note_kdf r c) = sc_authorization_token c"
  by (simp_all add: note_kdf_def)

lemma note_token_Ok:
  assumes "note_token r c = Ok c'"
  shows "sc_last_message_type c' = sc_last_message_type c" "sc_encryption_keys c' = sc_encryption_keys c"
  using assms by (auto simp: note_token_def split: option.splits)

lemma send_request_Ok_iff:
  "send_request L H post OM SM ser des m new_keys s = (s', Ok r) \<longleftrightarrow>
     is_valid_previous_message OM (sc_last_message_type (snd s)) \<and>
     is_valid_previous_message SM (Some (message_spec.message_type OM)) \<and>
     request_encryption OM (sc_encryption_keys (snd s)) = Ok () \<and>
     response_encryption SM (sc_encryption_keys (snd s)) new_keys = Ok () \<and>
     (\<exists>plain body resp mt. ser m = Ok plain \<and> keys_encrypt H (sc_encryption_keys (snd s)) plain = Ok body \<and>
        post (fst s) \<lparr>rq_url = request_url (snd s) OM, rq_authorization = sc_authorization_token (snd s),
          rq_noninteroperable_kdf = (\<not> interoperable_kdf_available L), rq_body = body\<rparr> = (fst s', Some resp) \<and>
        reply_message_type resp = Ok mt \<and>
        note_token resp (note_kdf resp (after_request SM new_keys (snd s))) = Ok (snd s') \<and>
        read_reply L H SM des (snd s') mt resp = Ok r)"
proof (cases "is_valid_previous_message OM (sc_last_message_type (snd s)) \<and>
    is_valid_previous_message SM (Some (message_spec.message_type OM))")
  case True
  show ?thesis
    unfolding send_request_def after_request_def Let_def res_simps
    by (cases s') (simp add: True request_url_def res_simps, metis fst_conv snd_conv)
next
  case False
  then show ?thesis by (auto simp: send_request_def res_simps)
qed

text \<open>A request that is answered: the client accepted the sequence, and its state is updated.\<close>

lemma send_request_answered:
  assumes "send_request L H post OM SM ser des m new_keys s = (s', Ok r)"
  shows "is_valid_previous_message OM (sc_last_message_type (snd s))"
    and "is_valid_previous_message SM (Some (message_spec.message_type OM))"
    and "sc_last_message_type (snd s') = Some (message_spec.message_type SM)"
    and "sc_encryption_keys (snd s') = (case new_keys of Some k \<Rightarrow> k | None \<Rightarrow> sc_encryption_keys (snd s))"
  using assms unfolding send_request_Ok_iff by (auto dest: note_token_Ok)

end
