(* ===== verification/Device_Client.thy ===== *)
theory Device_Client
  imports Device_Credential Http_Client
begin

text \<open>
  The device's side of TO1 and TO2: \<open>client-linuxapp/src/main.rs\<close>. A function that talks to a server is a
  computation on the world \<open>'w\<close> and the \<open>service_client\<close>; the network is the function \<open>post\<close> of
  \<open>Http_Client\<close>, so a statement about a function of the client holds against every server. Random
  bytes, generated keys and the identifiers of error messages are arguments. The execution of service
  info, the marker file and the deactivation of the credential are the record \<open>device_env\<close>.
\<close>

section \<open>Errors\<close>

record error_result =
  er_code :: error_code
  er_string :: string
  er_message :: message_type

datatype client_failure = RequestError error_result | ResponseError error_result

fun failure_result :: "client_failure \<Rightarrow> error_result" where
  "failure_result (RequestError e) = e"
| "failure_result (ResponseError e) = e"

definition req_err :: "error_code \<Rightarrow> string \<Rightarrow> message_type \<Rightarrow> client_failure" where
  "req_err code s m = RequestError \<lparr>er_code = code, er_string = s, er_message = m\<rparr>"

definition resp_err :: "error_code \<Rightarrow> string \<Rightarrow> message_type \<Rightarrow> client_failure" where
  "resp_err code s m = ResponseError \<lparr>er_code = code, er_string = s, er_message = m\<rparr>"

type_synonym 'w poster = "'w \<Rightarrow> http_request \<Rightarrow> 'w \<times> http_reply option"

definition send_client_error ::
  "'z plib_scheme \<Rightarrow> 's http_lib \<Rightarrow> 'w poster \<Rightarrow> nat \<Rightarrow> error_result \<Rightarrow>
     'w \<times> service_client \<Rightarrow> 'w \<times> service_client" where
  "send_client_error L H post uuid e s =
     fst (send_request L H post error_message_spec error_message_spec (error_message_ser L) (error_message_des L)
       (error_message_new (er_code e) (er_message e) (er_string e) uuid) None s)"

text \<open>The \<open>match\<close> around every step: a failure is reported to the server, then the protocol is abandoned.\<close>

definition reported ::
  "'z plib_scheme \<Rightarrow> 's http_lib \<Rightarrow> 'w poster \<Rightarrow> nat \<Rightarrow> ('w \<times> service_client, client_failure, 'a) st \<Rightarrow>
     ('w \<times> service_client, error_result, 'a) st" where
  "reported L H post uuid m s =
     (case m s of
        (s', Ok x) \<Rightarrow> (s', Ok x)
      | (s', Err f) \<Rightarrow> (send_client_error L H post uuid (failure_result f) s', Err (failure_result f))
      | (s', Panic) \<Rightarrow> (s', Panic))"

definition or_fail :: "client_failure \<Rightarrow> ('e, 'a) res \<Rightarrow> ('s, client_failure, 'a) st" where
  "or_fail f r = lift (rmap_err (\<lambda>_. f) r)"

definition fail_if :: "bool \<Rightarrow> client_failure \<Rightarrow> ('s, client_failure, unit) st" where
  "fail_if b f = lift (if b then Err f else Ok ())"

section \<open>TO1\<close>

definition hello_rv_ser :: "'z rvlib_scheme \<Rightarrow> hello_rv \<Rightarrow> bytes result" where
  "hello_rv_ser L m = serde_ser (c_hello_rv L)
     (guid_bytes (hr_guid m), sig_type (hr_a_signature_info m), sig_info_bytes (hr_a_signature_info m))"

definition hello_rv_ack_des :: "'z rvlib_scheme \<Rightarrow> bytes \<Rightarrow> hello_rv_ack result" where
  "hello_rv_ack_des L bs =
     rbind (serde_des (c_hello_rv_ack L) bs) (\<lambda>(n, t, b).
     rbind (rmap_err (\<lambda>_. SerdeCborError) (nonce_try_from n)) (\<lambda>n.
     Ok \<lparr>hra_nonce4 = n, hra_b_signature_info = \<lparr>sig_type = t, sig_info_bytes = b\<rparr>\<rparr>))"

definition perform_hellorv ::
  "'z devlib_scheme \<Rightarrow> 's http_lib \<Rightarrow> 'w poster \<Rightarrow> device_credential \<Rightarrow>
     ('w \<times> service_client, client_failure, cosesign) st" where
  "perform_hellorv L H post devcred =
     sbind (smap_err (\<lambda>_. req_err InternalServerError ''Error sending HelloRV'' TO1HelloRV)
       (send_request L H post to1_HelloRV to1_HelloRVAck (hello_rv_ser L) (hello_rv_ack_des L)
          \<lparr>hr_guid = dc_guid devcred, hr_a_signature_info = \<lparr>sig_type = StSECP384R1, sig_info_bytes = []\<rparr>\<rparr> None))
       (\<lambda>hello_rv_ack.
     let b_sig_info = hra_b_signature_info hello_rv_ack in
     sbind (fail_if (sig_type b_sig_info \<noteq> StSECP384R1)
       (resp_err InvalidMessageError ''Unsupported sig type returned'' TO1HelloRVAck)) (\<lambda>_.
     sbind (fail_if (sig_info_bytes b_sig_info \<noteq> [])
       (resp_err InvalidMessageError ''Non-empty sig info returned'' TO1HelloRVAck)) (\<lambda>_.
     sbind (or_fail (req_err InternalServerError ''Error creating EATokenPayload'' TO1HelloRVAck)
       (new_eat (v_bytes L) None (hra_nonce4 hello_rv_ack) (dc_guid devcred))) (\<lambda>eat.
     sbind (or_fail (resp_err InternalServerError ''Error getting Cose signer'' TO1HelloRVAck)
       (get_signer L devcred)) (\<lambda>signer.
     or_fail (resp_err InternalServerError ''Error signing new token'' TO1HelloRVAck)
       (from_eat L eat None signer))))))"

definition perform_provetorv ::
  "'z devlib_scheme \<Rightarrow> 's http_lib \<Rightarrow> 'w poster \<Rightarrow> cosesign \<Rightarrow>
     ('w \<times> service_client, client_failure, cosesign) st" where
  "perform_provetorv L H post token =
     sbind (smap_err (\<lambda>_. resp_err InvalidMessageError ''Error proving self to rendezvous server'' TO1RVRedirect)
       (send_request L H post to1_ProveToRV to1_RVRedirect (\<lambda>m. cosesign_ser L (ptr_token m))
          (\<lambda>bs. rmap RVRedirect (cosesign_des L bs)) (ProveToRV token) None)) (\<lambda>rv_redirect.
     lift (Ok (rvr_to1d rv_redirect)))"

definition perform_to1 ::
  "'z devlib_scheme \<Rightarrow> 's http_lib \<Rightarrow> 'w poster \<Rightarrow> nat \<Rightarrow> device_credential \<Rightarrow>
     ('w \<times> service_client, error_result, cosesign) st" where
  "perform_to1 L H post uuid devcred =
     sbind (reported L H post uuid (perform_hellorv L H post devcred)) (\<lambda>token.
     reported L H post uuid (perform_provetorv L H post token))"

text \<open>\<open>get_to1d\<close>: the first client of the list that succeeds.\<close>

fun get_to1d ::
  "'z devlib_scheme \<Rightarrow> 's http_lib \<Rightarrow> 'w poster \<Rightarrow> nat \<Rightarrow> device_credential \<Rightarrow> service_client list \<Rightarrow>
     ('w, unit, cosesign) st" where
  "get_to1d L H post uuid devcred [] w = (w, Err ())"
| "get_to1d L H post uuid devcred (client # clients) w =
     (case perform_to1 L H post uuid devcred (w, client) of
        ((w', _), Ok to1d) \<Rightarrow> (w', Ok to1d)
      | ((w', _), Err _) \<Rightarrow> get_to1d L H post uuid devcred clients w'
      | ((w', _), Panic) \<Rightarrow> (w', Panic))"

text \<open>\<open>get_to2_urls\<close>; \<open>ip_text\<close> is the \<open>Display\<close> of an address.\<close>

fun transport_text :: "transport_protocol \<Rightarrow> string option" where
  "transport_text TpHttp = Some ''http''"
| "transport_text TpHttps = Some ''https''"
| "transport_text _ = None"

fun get_to2_urls :: "(ip_address \<Rightarrow> string) \<Rightarrow> to2_address list \<Rightarrow> string list" where
  "get_to2_urls ip_text [] = []"
| "get_to2_urls ip_text (a # as) =
     (case transport_text (ta_protocol a) of
        None \<Rightarrow> []
      | Some prot \<Rightarrow>
          (case ta_dns a of None \<Rightarrow> [] | Some d \<Rightarrow> [prot @ ''://'' @ d @ '':'' @ nat_fmt (ta_port a)]) @
          (case ta_ip a of None \<Rightarrow> [] | Some ip \<Rightarrow> [prot @ ''://'' @ ip_text ip @ '':'' @ nat_fmt (ta_port a)])) @
     get_to2_urls ip_text as"

section \<open>TO2: the owner proves itself\<close>

definition hello_device_ser :: "'z to2lib_scheme \<Rightarrow> hello_device \<Rightarrow> bytes result" where
  "hello_device_ser L m = serde_ser (c_hello_device L)
     (unat (hd_max_device_message_size m), guid_bytes (hd_guid m), nonce_bytes (hd_nonce5 m), hd_kex_suite m,
      hd_cipher_suite m, sig_type (hd_a_signature_info m), sig_info_bytes (hd_a_signature_info m))"

definition prove_ov_hdr_des :: "'z plib_scheme \<Rightarrow> bytes \<Rightarrow> prove_ov_hdr_payload result" where
  "prove_ov_hdr_des L = deserialize_data (prove_ov_hdr_read L)"

text \<open>The checks of \<open>perform_hellodevice\<close> on the payload, whose signature is not verified yet.\<close>

definition check_manufacturer_key :: "'z devlib_scheme \<Rightarrow> device_credential \<Rightarrow> bytes \<Rightarrow> (client_failure, unit) res" where
  "check_manufacturer_key L devcred hdr =
     rbind (rmap_err (\<lambda>_. resp_err MessageBodyError ''Error deserializing OV Header'' TO2ProveOVHdr)
       (ov_header_des L hdr)) (\<lambda>header.
     rbind (rmap_err (\<lambda>_. resp_err InvalidMessageError ''Error computing manufacturer public key hash'' TO2ProveOVHdr)
       (manufacturer_public_key_hash L header (hash_type (dc_pubkey_hash devcred)))) (\<lambda>pubkey_hash.
     rmap_err (\<lambda>_. resp_err InvalidMessageError ''Error comparing manufacturer public key hash'' TO2ProveOVHdr)
       (hash_compare L (dc_pubkey_hash devcred) pubkey_hash)))"

definition perform_hellodevice ::
  "'z devlib_scheme \<Rightarrow> 's http_lib \<Rightarrow> 'w poster \<Rightarrow> device_credential \<Rightarrow> nonce \<Rightarrow> device_sig_type \<Rightarrow> kex_suite \<Rightarrow>
     cipher_suite \<Rightarrow> ('w \<times> service_client, client_failure, cosesign \<times> prove_ov_hdr_payload \<times> hash) st" where
  "perform_hellodevice L H post devcred nonce5 sigtype kexsuite ciphersuite =
     sbind (smap_err (\<lambda>_. req_err InternalServerError ''Error sending HelloDevice'' TO2ProveOVHdr)
       (send_request L H post to2_HelloDevice to2_ProveOVHdr (hello_device_ser L)
          (\<lambda>bs. rmap ProveOVHdr (cosesign_des L bs))
          (hello_device_new (dc_guid devcred) nonce5 kexsuite ciphersuite \<lparr>sig_type = sigtype, sig_info_bytes = []\<rparr>)
          None)) (\<lambda>prove_ov_hdr.
     let prove_ov_hdr = pov_token prove_ov_hdr in
     sbind (or_fail (resp_err MessageBodyError ''Error parsing unverified payload'' TO2ProveOVHdr)
       (get_payload_unverified L (prove_ov_hdr_des L) prove_ov_hdr)) (\<lambda>pl.
     sbind (lift (unwrap (nonce_eq L nonce5 (po_nonce5 pl)))) (\<lambda>same_nonce.
     sbind (fail_if (\<not> same_nonce) (resp_err InvalidMessageError ''Nonce5 value is mismatched'' TO2ProveOVHdr)) (\<lambda>_.
     sbind (fail_if (sig_type (po_b_signature_info pl) \<noteq> sigtype)
       (resp_err InvalidMessageError ''Invalid signature type returned'' TO2ProveOVHdr)) (\<lambda>_.
     sbind (fail_if (sig_info_bytes (po_b_signature_info pl) \<noteq> [])
       (resp_err InvalidMessageError ''Non-empty signature info returned'' TO2ProveOVHdr)) (\<lambda>_.
     sbind (or_fail (resp_err InvalidMessageError ''Error, invalid message'' TO2ProveOVHdr)
       (verify_hmac L devcred (po_ov_header pl) (po_hmac pl))) (\<lambda>_.
     sbind (lift (check_manufacturer_key L devcred (po_ov_header pl))) (\<lambda>_.
     lift (Ok (prove_ov_hdr, pl, po_hmac pl))))))))))"

definition get_nonce6 :: "'z plib_scheme \<Rightarrow> cosesign \<Rightarrow> (client_failure, nonce) res" where
  "get_nonce6 L prove_ov_hdr =
     rbind (rmap_err (\<lambda>_. resp_err MessageBodyError ''Error getting nonce6'' TO2ProveOVHdr)
       (get_unprotected_value L (v_nonce L) prove_ov_hdr CUPHNonce)) (\<lambda>n.
     ok_or n (resp_err MessageBodyError ''Missing nonce6'' TO2ProveOVHdr))"

text \<open>\<open>get_ov_entries\<close>: the requests for the entries from \<open>entry_num\<close> on, \<open>left\<close> of them. The number is
  cast to 8 bits on the way.\<close>

fun get_ov_entries_from ::
  "'z to2lib_scheme \<Rightarrow> 's http_lib \<Rightarrow> 'w poster \<Rightarrow> nat \<Rightarrow> nat \<Rightarrow> parsed_array \<Rightarrow>
     ('w \<times> service_client, unit, parsed_array) st" where
  "get_ov_entries_from L H post entry_num 0 entries = lift (Ok entries)"
| "get_ov_entries_from L H post entry_num (Suc left) entries =
     sbind (smap_err (\<lambda>_. ()) (send_request L H post to2_GetOVNextEntry to2_OVNextEntry
       (\<lambda>m. serde_ser (c_get_ov_next_entry L) (gone_entry_num m)) (deserialize_data (ov_next_entry_read L))
       (GetOVNextEntry (word_of_nat entry_num)) None)) (\<lambda>entry_result.
     if one_entry_num entry_result \<noteq> entry_num then lift (Err ())
     else
       sbind (lift (rmap_err (\<lambda>_. ()) (array_push entries (ov_entry_ser L (one_entry entry_result))))) (\<lambda>entries.
       get_ov_entries_from L H post (entry_num + 1) left entries))"

definition get_ov_entries ::
  "'z to2lib_scheme \<Rightarrow> 's http_lib \<Rightarrow> 'w poster \<Rightarrow> nat \<Rightarrow> ('w \<times> service_client, unit, parsed_array) st" where
  "get_ov_entries L H post num = get_ov_entries_from L H post 0 num new_empty"

text \<open>The verification of the reconstructed voucher and of the two signatures of the owner.\<close>

definition verify_owner ::
  "'z plib_scheme \<Rightarrow> cosesign \<Rightarrow> prove_ov_hdr_payload \<Rightarrow> hash \<Rightarrow> cosesign \<Rightarrow> parsed_array \<Rightarrow>
     (client_failure, prove_ov_hdr_payload) res" where
  "verify_owner L prove_ov_hdr pl header_hmac to1d entries =
     rbind (rmap_err (\<lambda>_. resp_err MessageBodyError ''Error reconstructing Ownership Voucher'' TO2OVNextEntry)
       (from_parts L Version1_1 (po_ov_header pl) header_hmac entries)) (\<lambda>ownership_voucher.
     rbind (rmap_err (\<lambda>_. resp_err InternalServerError ''Error initializing iterator'' TO2OVNextEntry)
       (iter_entries ownership_voucher)) (\<lambda>it.
     rbind (unwrap (iter_last L ownership_voucher it)) (\<lambda>last_entry.
     rbind (ok_or last_entry (resp_err InvalidMessageError ''Error validating ownership voucher'' TO2OVNextEntry)) (\<lambda>last_entry.
     rbind (rmap_err (\<lambda>_. resp_err InvalidMessageError ''Last entry on ownership voucher was wrong'' TO2OVNextEntry)
       last_entry) (\<lambda>ov_owner_entry.
     rbind (rmap_err (\<lambda>_. resp_err InvalidMessageError ''Error validating ProveOVHdr signature'' TO2OVNextEntry)
       (get_payload L (prove_ov_hdr_des L) prove_ov_hdr (pk_pkey (public_key ov_owner_entry)))) (\<lambda>pl.
     rbind (rmap_err (\<lambda>_. resp_err InvalidMessageError
         ''Error validating to1d after receiving full ownership voucher'' TO2OVNextEntry)
       (cosesign_verify L to1d (pk_pkey (public_key ov_owner_entry)))) (\<lambda>_.
     Ok pl)))))))"

definition get_and_verify_ov_header_signature ::
  "'z to2lib_scheme \<Rightarrow> 's http_lib \<Rightarrow> 'w poster \<Rightarrow> cosesign \<Rightarrow> prove_ov_hdr_payload \<Rightarrow> hash \<Rightarrow> cosesign \<Rightarrow>
     ('w \<times> service_client, client_failure, prove_ov_hdr_payload) st" where
  "get_and_verify_ov_header_signature L H post prove_ov_hdr pl header_hmac to1d =
     sbind (smap_err (\<lambda>_. resp_err InternalServerError ''Error getting remaining OV entries'' TO2OVNextEntry)
       (get_ov_entries L H post (po_num_ov_entries pl))) (\<lambda>entries.
     lift (verify_owner L prove_ov_hdr pl header_hmac to1d entries))"

section \<open>TO2: the device proves itself\<close>

definition perform_key_derivation ::
  "'z to2lib_scheme \<Rightarrow> bytes option \<Rightarrow> (nat \<Rightarrow> bytes option) \<Rightarrow> prove_ov_hdr_payload \<Rightarrow> kex_suite \<Rightarrow> cipher_suite \<Rightarrow>
     ('w \<times> service_client, client_failure, key_exchange \<times> encryption_keys) st" where
  "perform_key_derivation L gen kexrnd pl kexsuite ciphersuite =
     sbind the_client (\<lambda>client.
     sbind (lift (ok_or (sc_non_interoperable_kdf_required client)
       (resp_err InternalServerError ''Error getting non-interoperable KDF requirement'' TO2OVNextEntry))) (\<lambda>non_interop.
     sbind (or_fail (resp_err InternalServerError ''Error creating device side of key exchange'' TO2OVNextEntry)
       (key_exchange_new kexsuite gen kexrnd)) (\<lambda>b_key_exchange.
     sbind (or_fail (resp_err InternalServerError ''Error performing key derivation'' TO2OVNextEntry)
       (derive_key L b_key_exchange Device ciphersuite (po_a_key_exchange pl) non_interop)) (\<lambda>new_keys.
     lift (Ok (b_key_exchange, keys_from_derived ciphersuite new_keys))))))"

definition prove_device_token ::
  "'z devlib_scheme \<Rightarrow> device_credential \<Rightarrow> key_exchange \<Rightarrow> nonce \<Rightarrow> nonce \<Rightarrow> (client_failure, cosesign) res" where
  "prove_device_token L devcred b_key_exchange nonce6 nonce7 =
     rbind (rmap_err (\<lambda>_. resp_err InternalServerError ''Error building prove device payload'' TO2OVNextEntry)
       (get_public L b_key_exchange)) (\<lambda>pub.
     rbind (rmap_err (\<lambda>_. resp_err InternalServerError ''Error building provedevice EAT'' TO2OVNextEntry)
       (new_eat (v_prove_device L) (Some pub) nonce6 (dc_guid devcred))) (\<lambda>eat.
     rbind (rmap_err (\<lambda>_. resp_err MessageBodyError ''Error adding nonce7 to unprotected'' TO2OVNextEntry)
       (chm_insert (v_nonce L) chm_new EUPHNonce nonce7)) (\<lambda>unprotected.
     rbind (rmap_err (\<lambda>_. resp_err InternalServerError ''Error getting Cose signer'' TO2OVNextEntry)
       (get_signer L devcred)) (\<lambda>signer.
     rmap_err (\<lambda>_. resp_err InternalServerError ''Error signing ProveDevice EAT'' TO2OVNextEntry)
       (from_eat L eat (Some unprotected) signer)))))"

definition perform_provedevice ::
  "'z devlib_scheme \<Rightarrow> 's http_lib \<Rightarrow> 'w poster \<Rightarrow> device_credential \<Rightarrow> key_exchange \<Rightarrow> nonce \<Rightarrow> nonce \<Rightarrow>
     encryption_keys \<Rightarrow> ('w \<times> service_client, client_failure, unit) st" where
  "perform_provedevice L H post devcred b_key_exchange nonce6 nonce7 new_keys =
     sbind (lift (prove_device_token L devcred b_key_exchange nonce6 nonce7)) (\<lambda>token.
     sbind (smap_err (\<lambda>_. resp_err InternalServerError ''Error proving device'' TO2SetupDevice)
       (send_request L H post to2_ProveDevice to2_SetupDevice (\<lambda>m. cosesign_ser L (pd_token m))
          (\<lambda>bs. rmap SetupDevice (cosesign_des L bs)) (ProveDevice token) (Some new_keys))) (\<lambda>setup_device.
     lift (Ok ())))"

definition perform_deviceserviceinfoready ::
  "'z to2lib_scheme \<Rightarrow> 's http_lib \<Rightarrow> 'w poster \<Rightarrow> ('w \<times> service_client, client_failure, unit) st" where
  "perform_deviceserviceinfoready L H post =
     sbind (smap_err (\<lambda>_. resp_err InternalServerError ''Error getting OwnerServiceInfoReady'' TO2OwnerServiceInfoReady)
       (send_request L H post to2_DeviceServiceInfoReady to2_OwnerServiceInfoReady
          (\<lambda>m. serde_ser (c_dsi_ready L)
             (map_option hash_tuple (dsr_replacement_hmac m), dsr_max_owner_service_info_size m))
          (\<lambda>bs. rmap OwnerServiceInfoReady (serde_des (c_osi_ready L) bs))
          \<lparr>dsr_replacement_hmac = None, dsr_max_owner_service_info_size = None\<rparr> None)) (\<lambda>_.
     lift (Ok ()))"

definition done2_des :: "'z to2lib_scheme \<Rightarrow> bytes \<Rightarrow> to2_done2 result" where
  "done2_des L bs = rbind (serde_des (c_done2 L) bs) (\<lambda>n. rmap Done2 (rmap_err (\<lambda>_. SerdeCborError) (nonce_try_from n)))"

definition perform_done ::
  "'z to2lib_scheme \<Rightarrow> 's http_lib \<Rightarrow> 'w poster \<Rightarrow> nonce \<Rightarrow> nonce \<Rightarrow> ('w \<times> service_client, client_failure, unit) st" where
  "perform_done L H post nonce7 nonce6 =
     sbind (smap_err (\<lambda>_. resp_err InternalServerError ''Error sending Done2'' TO2Done2)
       (send_request L H post to2_Done to2_Done2 (\<lambda>m. serde_ser (c_done L) (nonce_bytes (dn_nonce6 m)))
          (done2_des L) (Done nonce6) None)) (\<lambda>done2.
     sbind (lift (unwrap (nonce_eq L nonce7 (dn_nonce7 done2)))) (\<lambda>same.
     fail_if (\<not> same) (resp_err InvalidMessageError ''Nonce7 did not match in Done2'' TO2Done2)))"

section \<open>TO2\<close>

record 'w device_env =
  de_serviceinfos :: "('w \<times> service_client, unit, bool) st"
  de_mark_executed :: "'w \<Rightarrow> 'w \<times> (unit, unit) res"
  de_deactivate :: "'w \<Rightarrow> 'w \<times> (unit, unit) res"

record to2_random =
  tr_nonce5 :: "bytes option"
  tr_nonce7 :: "bytes option"
  tr_kex_gen :: "bytes option"
  tr_kex_random :: "nat \<Rightarrow> bytes option"
  tr_uuid :: nat

definition on_world :: "('w \<Rightarrow> 'w \<times> ('e, 'a) res) \<Rightarrow> ('w \<times> service_client, 'e, 'a) st" where
  "on_world m s = (case m (fst s) of (w, r) \<Rightarrow> ((w, snd s), r))"

definition get_nonce_for :: "bytes option \<Rightarrow> message_type \<Rightarrow> ('s, client_failure, nonce) st" where
  "get_nonce_for rnd m = or_fail (resp_err InternalServerError ''Error generating nonce'' m) (nonce_new rnd)"

text \<open>\<open>perform_to2\<close> up to the SetupDevice message: the nonces of both sides.\<close>

definition to2_authenticate ::
  "'z devlib_scheme \<Rightarrow> 's http_lib \<Rightarrow> 'w poster \<Rightarrow> to2_random \<Rightarrow> device_credential \<Rightarrow> cosesign \<Rightarrow>
     ('w \<times> service_client, error_result, nonce \<times> nonce) st" where
  "to2_authenticate L H post R devcred to1d =
     sbind (reported L H post (tr_uuid R) (get_nonce_for (tr_nonce5 R) TO1RVRedirect)) (\<lambda>nonce5.
     sbind (reported L H post (tr_uuid R)
       (perform_hellodevice L H post devcred nonce5 StSECP384R1 Ecdh384 A256Gcm)) (\<lambda>(prove_ov_hdr, pl, header_hmac).
     sbind (reported L H post (tr_uuid R) (lift (get_nonce6 L prove_ov_hdr))) (\<lambda>nonce6.
     sbind (reported L H post (tr_uuid R)
       (get_and_verify_ov_header_signature L H post prove_ov_hdr pl header_hmac to1d)) (\<lambda>pl.
     sbind (reported L H post (tr_uuid R)
       (perform_key_derivation L (tr_kex_gen R) (tr_kex_random R) pl Ecdh384 A256Gcm)) (\<lambda>(b_key_exchange, new_keys).
     sbind (reported L H post (tr_uuid R) (get_nonce_for (tr_nonce7 R) TO2OVNextEntry)) (\<lambda>nonce7.
     sbind (reported L H post (tr_uuid R)
       (perform_provedevice L H post devcred b_key_exchange nonce6 nonce7 new_keys)) (\<lambda>_.
     lift (Ok (nonce6, nonce7)))))))))"

definition perform_to2 ::
  "'z devlib_scheme \<Rightarrow> 's http_lib \<Rightarrow> 'w poster \<Rightarrow> 'w device_env \<Rightarrow> to2_random \<Rightarrow> device_credential \<Rightarrow> cosesign \<Rightarrow>
     ('w \<times> service_client, error_result, bool) st" where
  "perform_to2 L H post env R devcred to1d =
     sbind (to2_authenticate L H post R devcred to1d) (\<lambda>(nonce6, nonce7).
     sbind (reported L H post (tr_uuid R) (perform_deviceserviceinfoready L H post)) (\<lambda>_.
     sbind (reported L H post (tr_uuid R) (smap_err (\<lambda>_. resp_err InternalServerError
         ''Error performing the ServiceInfo roundtrips'' TO2OwnerServiceInfo) (de_serviceinfos env))) (\<lambda>reboot_required.
     sbind (reported L H post (tr_uuid R) (smap_err (\<lambda>_. resp_err InternalServerError
         ''Error creating the device onboarding executed marker file'' TO2OwnerServiceInfo)
         (on_world (de_mark_executed env)))) (\<lambda>_.
     sbind (reported L H post (tr_uuid R) (smap_err (\<lambda>_. resp_err InternalServerError
         ''Error deactivating device credential'' TO2OwnerServiceInfo) (on_world (de_deactivate env)))) (\<lambda>_.
     sbind (reported L H post (tr_uuid R) (perform_done L H post nonce7 nonce6)) (\<lambda>_.
     lift (Ok reboot_required)))))))"

section \<open>What the steps establish\<close>

lemma reported_Ok_iff [res_simps]: "reported L H post uuid m s = (s', Ok x) \<longleftrightarrow> m s = (s', Ok x)"
  by (auto simp: reported_def split: prod.splits res.splits)

lemma or_fail_Ok_iff [res_simps]: "or_fail f r s = (s', Ok x) \<longleftrightarrow> s' = s \<and> r = Ok x"
  by (auto simp: or_fail_def rmap_err_Ok_iff)

lemma fail_if_Ok_iff [res_simps]: "fail_if b f s = (s', Ok u) \<longleftrightarrow> s' = s \<and> \<not> b"
  by (auto simp: fail_if_def)

lemma on_world_Ok_iff [res_simps]: "on_world m s = (s', Ok x) \<longleftrightarrow> m (fst s) = (fst s', Ok x) \<and> snd s' = snd s"
  by (cases s') (auto simp: on_world_def split: prod.splits)

lemma get_ov_entries_from_length:
  "get_ov_entries_from L H post k n entries s = (s', Ok es) \<Longrightarrow> array_len es = array_len entries + n"
proof (induction n arbitrary: k entries s)
  case (Suc n)
  then show ?case
    by (auto simp: res_simps array_push_def array_len_def split: if_splits dest!: Suc.IH)
qed (simp add: array_len_def)

lemma get_ov_entries_length: "get_ov_entries L H post n s = (s', Ok es) \<Longrightarrow> array_len es = n"
  using get_ov_entries_from_length [of L H post 0 n new_empty s s' es]
  by (simp add: get_ov_entries_def new_empty_def array_len_def)

text \<open>A verified payload is the one that was read before the verification.\<close>

lemma get_payload_same:
  assumes "get_payload L des c k = Ok x" "get_payload_unverified L des c = Ok y" "cose_doc L"
  shows "x = y"
proof -
  from assms(1) obtain z where z: "cose_get L (cached_inner c) (Some k) = Some z" "des (snd z) = Ok x"
    by (auto simp: get_payload_def res_simps)
  with assms(3) have "cose_get L (cached_inner c) None = Some z" unfolding cose_doc_def by blast
  with z(2) assms(2) show ?thesis by (simp add: get_payload_unverified_def split: prod.splits)
qed

text \<open>The owner that the device accepts: the chain of the voucher starts at the manufacturer of the
  credential, its header carries the HMAC of the device, and the last key of the chain signed the answer
  to the nonce of the device and the redirection.\<close>

definition owner_accepted ::
  "'z devlib_scheme \<Rightarrow> device_credential \<Rightarrow> cosesign \<Rightarrow> nonce \<Rightarrow> prove_ov_hdr_payload \<Rightarrow> bool" where
  "owner_accepted L devcred to1d n5 pl \<longleftrightarrow>
     (\<exists>token v ps h ours owner.
        chain_ok L v ps \<and> ps \<noteq> [] \<and> length ps = po_num_ov_entries pl \<and> owner = public_key (last ps) \<and>
        ov_header_des L (po_ov_header pl) = Ok (ov_header v) \<and> ov_header_hmac v = po_hmac pl \<and>
        manufacturer_public_key_hash L (ov_header v) (hash_type (dc_pubkey_hash devcred)) = Ok h \<and>
        hash_value h = hash_value (dc_pubkey_hash devcred) \<and>
        perform_hmac L (dc_key_storage devcred) (po_ov_header pl) (hash_type (po_hmac pl)) = Ok ours \<and>
        hash_value ours = hash_value (po_hmac pl) \<and>
        get_payload L (prove_ov_hdr_des L) token (pk_pkey owner) = Ok pl \<and> po_nonce5 pl = n5 \<and>
        cosesign_verify L to1d (pk_pkey owner) = Ok ())"

lemma hash_compare_value: "hash_compare L a b = Ok () \<Longrightarrow> memcmp_doc L \<Longrightarrow> hash_value b = hash_value a"
  by (auto simp: hash_compare_def hash_eq_def memcmp_def memcmp_doc_def res_simps split: if_splits)

lemma hellodevice_checked:
  assumes "perform_hellodevice L H post devcred n5 sigtype kex cipher s = (s', Ok (token, pl, hmac))" "memcmp_doc L"
  shows "get_payload_unverified L (prove_ov_hdr_des L) token = Ok pl" "po_nonce5 pl = n5" "hmac = po_hmac pl"
    and "\<exists>ours. perform_hmac L (dc_key_storage devcred) (po_ov_header pl) (hash_type (po_hmac pl)) = Ok ours \<and>
      hash_value ours = hash_value (po_hmac pl)"
    and "\<exists>hdr h. ov_header_des L (po_ov_header pl) = Ok hdr \<and>
      manufacturer_public_key_hash L hdr (hash_type (dc_pubkey_hash devcred)) = Ok h \<and>
      hash_value h = hash_value (dc_pubkey_hash devcred)"
proof -
  from assms(1) show "get_payload_unverified L (prove_ov_hdr_des L) token = Ok pl" "hmac = po_hmac pl"
    by (auto simp: perform_hellodevice_def Let_def res_simps)
  from assms(1) have n: "nonce_eq L n5 (po_nonce5 pl) = Ok True" and v: "verify_hmac L devcred (po_ov_header pl) (po_hmac pl) = Ok ()"
    and c: "check_manufacturer_key L devcred (po_ov_header pl) = Ok ()"
    by (auto simp: perform_hellodevice_def Let_def res_simps)
  from n assms(2) show "po_nonce5 pl = n5"
    by (cases n5; cases "po_nonce5 pl") (auto simp: nonce_eq_def memcmp_def memcmp_doc_def split: if_splits)
  from verify_hmac_Ok [OF v assms(2)] show "\<exists>ours. perform_hmac L (dc_key_storage devcred) (po_ov_header pl)
      (hash_type (po_hmac pl)) = Ok ours \<and> hash_value ours = hash_value (po_hmac pl)" .
  from c show "\<exists>hdr h. ov_header_des L (po_ov_header pl) = Ok hdr \<and>
      manufacturer_public_key_hash L hdr (hash_type (dc_pubkey_hash devcred)) = Ok h \<and>
      hash_value h = hash_value (dc_pubkey_hash devcred)"
    by (auto simp: check_manufacturer_key_def res_simps dest!: hash_compare_value [OF _ assms(2)])
qed

lemma verify_owner_checked:
  assumes "verify_owner L token pl0 hmac to1d entries = Ok pl"
  shows "\<exists>v ps. chain_ok L v ps \<and> ps \<noteq> [] \<and> ov_header_des L (po_ov_header pl0) = Ok (ov_header v) \<and>
    ov_header_hmac v = hmac \<and> ov_entries v = entries \<and>
    get_payload L (prove_ov_hdr_des L) token (pk_pkey (public_key (last ps))) = Ok pl \<and>
    cosesign_verify L to1d (pk_pkey (public_key (last ps))) = Ok ()"
proof -
  from assms obtain v it p where v: "from_parts L Version1_1 (po_ov_header pl0) hmac entries = Ok v"
    and it: "iter_entries v = Ok it" "iter_last L v it = Ok (Some (Ok p))"
    and sig: "get_payload L (prove_ov_hdr_des L) token (pk_pkey (public_key p)) = Ok pl"
      "cosesign_verify L to1d (pk_pkey (public_key p)) = Ok ()"
    by (auto simp: verify_owner_def res_simps)
  from v have "ov_header_des L (po_ov_header pl0) = Ok (ov_header v)" "ov_header_hmac v = hmac" "ov_entries v = entries"
    by (auto simp: from_parts_def res_simps)
  with iter_last_chain [OF it] sig show ?thesis by blast
qed

lemma provedevice_keys:
  "perform_provedevice L H post devcred kex n6 n7 keys s = (s', Ok u) \<Longrightarrow> sc_encryption_keys (snd s') = keys"
  by (auto simp: perform_provedevice_def res_simps dest!: send_request_answered(4))

section \<open>Properties\<close>

text \<open>C5: against every server and network, TO2 gets past the SetupDevice message only when the owner has
  proved itself to the device: the server presented a voucher whose header carries the HMAC under the
  device's own secret and names the manufacturer key of the credential, with as many entries as the
  signed answer says and an unbroken chain of signatures; the last key of that chain signed the answer
  with the nonce that the device drew and also the redirection of TO1; and the keys the device goes on
  with are derived from the public value in that signed answer.\<close>

theorem device_accepts_owner_only:
  assumes "to2_authenticate L H post R devcred to1d s = (s', Ok (n6, n7))" "memcmp_doc L" "cose_doc L"
  shows "\<exists>n5 pl kex ni ks. nonce_new (tr_nonce5 R) = Ok n5 \<and> owner_accepted L devcred to1d n5 pl \<and>
    derive_key L kex Device A256Gcm (po_a_key_exchange pl) ni = Ok ks \<and>
    sc_encryption_keys (snd s') = keys_from_derived A256Gcm ks"
proof -
  from assms(1) obtain n5 s1 token pl0 hmac s2 pl kex keys s3 where n5: "nonce_new (tr_nonce5 R) = Ok n5"
    and hd: "perform_hellodevice L H post devcred n5 StSECP384R1 Ecdh384 A256Gcm s = (s1, Ok (token, pl0, hmac))"
    and gv: "get_and_verify_ov_header_signature L H post token pl0 hmac to1d s1 = (s2, Ok pl)"
    and kd: "perform_key_derivation L (tr_kex_gen R) (tr_kex_random R) pl Ecdh384 A256Gcm s2 = (s3, Ok (kex, keys))"
    and pd: "perform_provedevice L H post devcred kex n6 n7 keys s3 = (s', Ok ())"
    by (auto simp: to2_authenticate_def get_nonce_for_def res_simps)
  note h = hellodevice_checked [OF hd assms(2)]
  from gv obtain entries where en: "array_len entries = po_num_ov_entries pl0"
    and vo: "verify_owner L token pl0 hmac to1d entries = Ok pl"
    by (auto simp: get_and_verify_ov_header_signature_def res_simps dest: get_ov_entries_length)
  from verify_owner_checked [OF vo] obtain v ps where v: "chain_ok L v ps" "ps \<noteq> []"
    "ov_header_des L (po_ov_header pl0) = Ok (ov_header v)" "ov_header_hmac v = hmac" "ov_entries v = entries"
    "get_payload L (prove_ov_hdr_des L) token (pk_pkey (public_key (last ps))) = Ok pl"
    "cosesign_verify L to1d (pk_pkey (public_key (last ps))) = Ok ()" by blast
  from get_payload_same [OF v(6) h(1) assms(3)] have pl: "pl0 = pl" by simp
  have "length ps = po_num_ov_entries pl" using v(1,5) en pl by (simp add: chain_ok_def)
  moreover obtain hk ours where "manufacturer_public_key_hash L (ov_header v) (hash_type (dc_pubkey_hash devcred)) = Ok hk"
    "hash_value hk = hash_value (dc_pubkey_hash devcred)"
    "perform_hmac L (dc_key_storage devcred) (po_ov_header pl) (hash_type (po_hmac pl)) = Ok ours"
    "hash_value ours = hash_value (po_hmac pl)"
    using h(4,5) v(3) pl by auto
  ultimately have "owner_accepted L devcred to1d n5 pl"
    unfolding owner_accepted_def using v h(2,3) pl
    by (intro exI [of _ token] exI [of _ v] exI [of _ ps] exI [of _ hk] exI [of _ ours]) simp
  moreover from kd obtain ni ks where "derive_key L kex Device A256Gcm (po_a_key_exchange pl) ni = Ok ks"
    "keys = keys_from_derived A256Gcm ks"
    by (auto simp: perform_key_derivation_def res_simps)
  ultimately show ?thesis using n5 provedevice_keys [OF pd] by blast
qed

end
