(* ===== verification/Registration.thy ===== *)
theory Registration
  imports Rendezvous
begin

text \<open>
  The owner's side of TO0 and its composition with the rendezvous server: the message that
  \<open>report_to_rendezvous\<close> of \<open>owner-onboarding-server/src/main.rs\<close> builds from a voucher, its wire form,
  and the fact that the handler of the rendezvous server accepts it.
\<close>

definition build_owner_sign ::
  "'z plib_scheme \<Rightarrow> voucher \<Rightarrow> nat \<Rightarrow> nonce \<Rightarrow> to2_address list \<Rightarrow> privkey \<Rightarrow> owner_sign result" where
  "build_owner_sign L ov registration_period nonce3 owner_addresses key =
     rbind (to0_data_new L ov registration_period nonce3) (\<lambda>to0d.
     rbind (to0_data_ser L to0d) (\<lambda>to0d_vec.
     rbind (hash_from_data L Sha384 to0d_vec) (\<lambda>to0d_hash.
     rbind (cosesign_new L (to1d_payload_ser L
              \<lparr>to2_addresses = owner_addresses, to1d_to_to0d_hash = to0d_hash\<rparr>) None key) (\<lambda>to1d.
     owner_sign_new L to0d_vec to1d))))"

section \<open>Wire forms\<close>

lemma to0_data_roundtrip:
  assumes "sendable_voucher L v" "item_codec (c_u32 L)" "length (nonce_bytes n) = 16"
    and "to0_data_new L v wait n = Ok d"
  shows "\<exists>bs d'. to0_data_ser L d = Ok bs \<and> deserialize_data (to0_data_read L) bs = Ok d' \<and>
    equiv_voucher v (td_ownership_voucher d') \<and> td_wait_seconds d' = wait \<and> td_nonce d' = n"
proof -
  have codecs: "byteorder_doc L" "item_codec (c_bytebuf L)"
    using assms(1) by (simp_all add: sendable_voucher_def voucher_codecs_def)
  obtain vb where vb: "voucher_ser L v = Ok vb" "one_item vb"
      "\<forall>r. \<exists>v'. voucher_read L (vb @ r) = Ok (v', r) \<and> equiv_voucher v v'"
    using sendable_roundtrip [OF assms(1)] by blast
  then obtain v' where v': "voucher_des L vb = Ok v'" "equiv_voucher v v'"
    by (metis append_Nil2 voucher_des_def rmap.simps(1) fst_conv)
  from assms(4) vb(1) obtain wb nb where w: "serde_ser (c_u32 L) wait = Ok wb" "nonce_ser L n = Ok nb"
      "d = \<lparr>td_contents = \<lparr>tag = None, header = None, contents = [vb, wb, nb]\<rparr>,
        td_ownership_voucher = v, td_wait_seconds = wait, td_nonce = n\<rparr>"
    by (auto simp: to0_data_new_def res_simps build_array_Ok_iff map_eq_Cons_conv Cons_eq_map_conv)
  have "list_all one_item [vb, wb, nb]"
    using vb(2) w(1,2) assms(2) codecs(2) by (auto simp: nonce_ser_def serde_ser_item)
  from array_of_items [OF codecs(1) this, of 3] obtain h where
    h: "serialize_to_writer L \<lparr>tag = None, header = None, contents = [vb, wb, nb]\<rparr> = Ok (h @ concat [vb, wb, nb])"
      "deserialize_from_reader (Some 3) (h @ concat [vb, wb, nb]) =
        Ok (\<lparr>tag = None, header = Some h, contents = [vb, wb, nb]\<rparr>, [])" by auto
  have "serde_des (c_u32 L) wb = Ok wait" "nonce_des L nb = Ok n"
    using w(1,2) assms(2,3) codecs(2) by (simp_all add: serde_item_roundtrip nonce_roundtrip item_codec_def)
  with h v' w(3) show ?thesis
    by (simp add: to0_data_ser_def deserialize_data_def to0_data_read_def array_get_nth)
qed

text \<open>Addresses whose IP address has the bytes of its kind.\<close>

definition wf_address :: "to2_address \<Rightarrow> bool" where
  "wf_address a \<longleftrightarrow> (case ta_ip a of None \<Rightarrow> True | Some ip \<Rightarrow> ip_address_visit_bytes (ip_octets ip) = Ok ip)"

lemma to1d_payload_roundtrip:
  assumes "codec_doc (c_to1d L)" "list_all wf_address (to2_addresses p)" "to1d_payload_ser L p = Ok bs"
  shows "to1d_payload_des L bs = Ok p"
proof -
  have "tuple_address (address_tuple a) = Ok a" if "wf_address a" for a
    using that by (cases a) (auto simp: wf_address_def tuple_address_def address_tuple_def split: option.splits)
  with assms(2) have "rtraverse tuple_address (map address_tuple (to2_addresses p)) = Ok (to2_addresses p)"
    by (auto simp: rtraverse_Ok_iff list_all2_conv_all_nth list_all_length)
  with assms(1,3) serde_roundtrip [of "c_to1d L"] show ?thesis
    by (simp add: to1d_payload_ser_def to1d_payload_des_def)
qed

lemma owner_sign_roundtrip:
  assumes "byteorder_doc L" "item_codec (c_bytebuf L)" "cose_doc L" "cosesign_new L (Ok p) None k = Ok cs"
    and "owner_sign_new L db cs = Ok m" "public_eq L pk (public_of L k)"
  shows "\<exists>bs m'. owner_sign_ser L m = Ok bs \<and> deserialize_data (owner_sign_read L) bs = Ok m' \<and>
    ow_to0d m' = db \<and> get_payload L des (ow_to1d m') pk = des p"
proof -
  from cosesign_new_item [OF assms(3,4)] obtain cb where cb: "cosesign_ser L cs = Ok cb" "one_item cb" by blast
  from cosesign_new_des [OF assms(3,4) cb(1)] assms(6) obtain cs' where
    cs': "cosesign_des L cb = Ok cs'" "get_payload L des cs' pk = des p" by blast
  from assms(5) cb(1) obtain w where w: "serde_ser (c_bytebuf L) db = Ok w"
      "m = \<lparr>ow_contents = \<lparr>tag = None, header = None, contents = [w, cb]\<rparr>, ow_to0d = db, ow_to1d = cs\<rparr>"
    by (auto simp: owner_sign_new_def res_simps build_array_Ok_iff map_eq_Cons_conv Cons_eq_map_conv)
  have "list_all one_item [w, cb]" using cb(2) w(1) assms(2) by (simp add: serde_ser_item)
  from array_of_items [OF assms(1) this, of 2] obtain h where
    h: "serialize_to_writer L \<lparr>tag = None, header = None, contents = [w, cb]\<rparr> = Ok (h @ concat [w, cb])"
      "deserialize_from_reader (Some 2) (h @ concat [w, cb]) =
        Ok (\<lparr>tag = None, header = Some h, contents = [w, cb]\<rparr>, [])" by auto
  have "serde_des (c_bytebuf L) w = Ok db" using w(1) assms(2) by (simp add: serde_item_roundtrip)
  with h cs' w(2) show ?thesis
    by (simp add: owner_sign_ser_def deserialize_data_def owner_sign_read_def array_get_nth)
qed

lemma iter_last_Ok:
  assumes "chain_ok L v ps" "ps \<noteq> []" "iter_entries v = Ok it"
  shows "iter_last L v it = Ok (Some (Ok (last ps)))"
proof -
  have "iter_collect L v it = Ok (map Ok ps)"
    using assms(1,3) iter_all_Ok_iff [of L v ps] by (simp add: iter_all_def)
  with assms(2) show ?thesis by (simp add: iter_last_def last_map)
qed

section \<open>Properties\<close>

text \<open>The documented behaviour of the libraries on both sides.\<close>

definition to0_doc :: "'z plib_scheme \<Rightarrow> bool" where
  "to0_doc L \<longleftrightarrow> rv_doc L \<and> cose_doc L \<and> codec_doc (c_entry L) \<and> item_codec (c_u32 L) \<and> codec_doc (c_to1d L)"

lemma registration_checks:
  assumes "to0_doc L" "sendable_voucher L v" "chain_ok L v ps" "ps \<noteq> []"
    and key: "public_eq L (pk_pkey (public_key (last ps))) (public_of L key)"
    and "list_all wf_address addrs" "length (nonce_bytes n3) = 16"
    and build: "build_owner_sign L v period n3 addrs key = Ok m"
    and ses: "get_string H (ri_session info) ''nonce3'' = Some (nonce_fmt L n3)"
    and trust: "manufacturer_trusted L UD v = Ok True" "ov_device_certificate_chain v = Some c"
      "verify_device_chain L UD c = Ok cert" "public_key_from_x509 L cert = Ok dk"
  shows "\<exists>bs m' item. owner_sign_ser L m = Ok bs \<and> deserialize_data (owner_sign_read L) bs = Ok m' \<and>
    ownersign_checks L H UD info m' =
      Ok (oh_guid (ov_header v), item, min period (max_wait_seconds UD)) \<and>
    item = \<lparr>si_public_key = dk, si_to1d = ow_to1d m'\<rparr>"
proof -
  note docs = assms(1) [unfolded to0_doc_def rv_doc_def]
  from build obtain d db h p cs where b: "to0_data_new L v period n3 = Ok d" "to0_data_ser L d = Ok db"
      "hash_from_data L Sha384 db = Ok h"
      "to1d_payload_ser L \<lparr>to2_addresses = addrs, to1d_to_to0d_hash = h\<rparr> = Ok p"
      "cosesign_new L (Ok p) None key = Ok cs" "owner_sign_new L db cs = Ok m"
    by (auto simp: build_owner_sign_def res_simps) (metis cosesign_new_payload)
  from to0_data_roundtrip [OF assms(2) _ assms(7) b(1)] docs b(2) obtain d' where
    d': "deserialize_data (to0_data_read L) db = Ok d'" "equiv_voucher v (td_ownership_voucher d')"
      "td_wait_seconds d' = period" "td_nonce d' = n3" by auto
  let ?v = "td_ownership_voucher d'"
  have "byteorder_doc L" "item_codec (c_bytebuf L)" using docs by (simp_all add: voucher_codecs_def)
  from owner_sign_roundtrip [OF this _ b(5,6) key, of "to1d_payload_des L"] docs obtain bs m' where
    m': "owner_sign_ser L m = Ok bs" "deserialize_data (owner_sign_read L) bs = Ok m'" "ow_to0d m' = db"
      "get_payload L (to1d_payload_des L) (ow_to1d m') (pk_pkey (public_key (last ps))) = to1d_payload_des L p" by blast
  have pl: "to1d_payload_des L p = Ok \<lparr>to2_addresses = addrs, to1d_to_to0d_hash = h\<rparr>"
    using docs assms(6) b(4) by (intro to1d_payload_roundtrip) simp_all
  obtain it where it: "iter_entries ?v = Ok it" by (simp add: iter_entries_def)
  have last: "iter_last L ?v it = Ok (Some (Ok (last ps)))"
    using assms(3,4) d'(2) it by (intro iter_last_Ok) (simp_all add: chain_ok_equiv)
  have nonce: "nonce_from_str L (nonce_fmt L n3) = Ok n3" "nonce_eq L n3 n3 = Ok True"
    using docs assms(7) by (auto intro: nonce_text_roundtrip simp: nonce_eq_def memcmp_def memcmp_doc_def)
  have trusted: "manufacturer_trusted L UD ?v = Ok True"
    using trust(1) by (simp add: manufacturer_trusted_def equiv_voucher_fields(5) [OF d'(2)] split: option.splits)
  have hash: "hash_type h = Sha384" "hash_compare L h h = Ok ()"
    using b(3) docs by (auto dest: hash_from_data_Ok(1) intro: hash_compare_refl)
  have "ownersign_checks L H UD info m' = Ok (oh_guid (ov_header v),
      \<lparr>si_public_key = dk, si_to1d = ow_to1d m'\<rparr>, min period (max_wait_seconds UD))"
    using ses d'(1,3,4) m'(3,4) pl it last nonce trusted hash b(3) trust(2-)
    by (simp add: ownersign_checks_def owner_sign_to0d_def to0d_hash_def equiv_voucher_fields(2,4) [OF d'(2)] min_def)
  with m'(1,2) show ?thesis by auto
qed


end
