(* ===== verification/To2_Keys.thy ===== *)
theory To2_Keys
  imports Owner_Sessions Device_Client Registration
begin

text \<open>
  The two sides of TO2 together: the messages that the owner and the device sign for each other are
  read back as they were made, and both sides end up with the same session keys.
\<close>

section \<open>What the messages carry\<close>

lemma prove_ov_hdr_roundtrip:
  assumes "voucher_codecs L" "item_codec (c_u16 L)" "item_codec (c_siginfo L)" "length (nonce_bytes n5) = 16"
    and "prove_ov_hdr_new L hdr num hmac n5 sig kex hdhash = Ok p" "prove_ov_hdr_ser L p = Ok bs"
  shows "\<exists>p'. prove_ov_hdr_des L bs = Ok p' \<and> po_ov_header p' = hdr \<and> po_num_ov_entries p' = num \<and>
    po_hmac p' = hmac \<and> po_nonce5 p' = n5 \<and> po_b_signature_info p' = sig \<and> po_a_key_exchange p' = kex \<and>
    po_hello_device_hash p' = hdhash"
proof -
  have codecs: "byteorder_doc L" "item_codec (c_bytebuf L)" "item_codec (c_hash L)"
    using assms(1) by (simp_all add: voucher_codecs_def)
  from assms(5) obtain w0 w1 w2 w3 w4 w5 w6 w7 where w: "serde_ser (c_bytebuf L) hdr = Ok w0"
      "serde_ser (c_u16 L) num = Ok w1" "hash_ser L hmac = Ok w2" "nonce_ser L n5 = Ok w3" "sig_info_ser L sig = Ok w4"
      "serde_ser (c_bytebuf L) kex = Ok w5" "hash_ser L hdhash = Ok w6"
      "serde_ser (c_u16 L) (unat MAX_MESSAGE_SIZE) = Ok w7"
      "po_contents p = \<lparr>tag = None, header = None, contents = [w0, w1, w2, w3, w4, w5, w6, w7]\<rparr>"
    by (auto simp: prove_ov_hdr_new_def res_simps build_array_Ok_iff map_eq_Cons_conv Cons_eq_map_conv)
  let ?ws = "[w0, w1, w2, w3, w4, w5, w6, w7]"
  have "list_all one_item ?ws"
    using w(1-8) assms(2,3) codecs by (auto simp: nonce_ser_def hash_ser_def sig_info_ser_def serde_ser_item)
  from array_of_items [OF codecs(1) this, of 8] obtain h where
    h: "serialize_to_writer L \<lparr>tag = None, header = None, contents = ?ws\<rparr> = Ok (h @ concat ?ws)"
      "deserialize_from_reader (Some 8) (h @ concat ?ws) = Ok (\<lparr>tag = None, header = Some h, contents = ?ws\<rparr>, [])"
    by auto
  have d: "serde_des (c_bytebuf L) w0 = Ok hdr" "serde_des (c_u16 L) w1 = Ok num" "hash_des L w2 = Ok hmac"
    "nonce_des L w3 = Ok n5" "sig_info_des L w4 = Ok sig" "serde_des (c_bytebuf L) w5 = Ok kex"
    "hash_des L w6 = Ok hdhash" "serde_des (c_u16 L) w7 = Ok (unat MAX_MESSAGE_SIZE)"
    using w(1-8) assms(2-4) codecs
    by (simp_all add: serde_item_roundtrip nonce_roundtrip item_codec_def hash_roundtrip sig_info_ser_def sig_info_des_def)
  from h(1) w(9) assms(6) have "bs = h @ concat ?ws" by (simp add: prove_ov_hdr_ser_def)
  with h(2) d show ?thesis
    by (simp add: prove_ov_hdr_des_def deserialize_data_def prove_ov_hdr_read_def array_get_nth)
qed

text \<open>A signed token is read with the key of the signer, or without a key, as it was made.\<close>

lemma signed_payload:
  assumes "cose_doc L" "cosesign_new L p un key = Ok cs" "get_payload L des cs pk = Ok x"
  shows "\<exists>bs. p = Ok bs \<and> des bs = Ok x"
proof -
  from assms(2) obtain bs inner where p: "p = Ok bs"
      "cose_sign L bs None (to_header_map (case un of Some v \<Rightarrow> v | None \<Rightarrow> chm_new)) key = Some inner"
      "new_from_inner L inner = Ok cs"
    by (auto simp: cosesign_new_def Let_def res_simps)
  then have "cached_inner cs = inner" by (auto simp: new_from_inner_def res_simps)
  with p(2) assms(1) obtain hm where "cose_get L (cached_inner cs) None = Some (hm, bs)" unfolding cose_doc_def by blast
  moreover from assms(3) obtain z where z: "cose_get L (cached_inner cs) (Some pk) = Some z" "des (snd z) = Ok x"
    by (auto simp: get_payload_def res_simps)
  moreover from z(1) assms(1) have "cose_get L (cached_inner cs) None = Some z" unfolding cose_doc_def by blast
  ultimately show ?thesis using p(1) by simp
qed

lemma eat_token_payload:
  assumes "cose_doc L" "codec_doc (c_claims L)" "vcodec_doc (v_bytes L)" "vcodec_doc c" "length (nonce_bytes n) = 16"
    and "new_eat c (Some b) n g = Ok e" "from_eat L e un key = Ok cs"
    and "get_eat L cs pk = Ok e'" "payload_internal c e' = Ok (Some b')"
  shows "b' = b \<and> eat_nonce e' = n \<and> device_guid_internal e' = Ok g"
proof -
  from assms(7) obtain claims where cl: "eat_to_map L e = Ok claims"
    "cosesign_new L (serde_ser (c_claims L) claims) un key = Ok cs"
    by (auto simp: from_eat_def res_simps)
  from assms(8) obtain claims' where cl': "get_payload L (serde_des (c_claims L)) cs pk = Ok claims'"
    "eat_from_map L claims' = Ok e'"
    by (auto simp: get_eat_def res_simps)
  have "claims' = claims"
    using signed_payload [OF assms(1) cl(2) cl'(1)] serde_roundtrip [OF assms(2)] by fastforce
  with eat_map_roundtrip [OF assms(3,5,6) cl(1)] cl'(2) have e: "e' = e" "eat_nonce e = n" "device_guid_internal e = Ok g"
    by simp_all
  from assms(6) obtain v where "payload e = Some v" "to_value c b = Some v"
    by (auto simp: new_eat_def res_simps)
  with assms(4,9) e show ?thesis by (auto simp: payload_internal_def vcodec_doc_def res_simps)
qed

section \<open>The session of the owner\<close>

lemma hello_device_answered:
  assumes "handle_hello_device L H UD ops E gen kexrnd rnd info msg t = (t', Ok (res, info'))" "session_doc H"
  shows "\<exists>kex pub p v. key_exchange_new (hd_kex_suite msg) gen kexrnd = Ok kex \<and> get_public L kex = Ok pub \<and>
    (\<exists>hdr. prove_ov_hdr_new L hdr (num_entries v) (ov_header_hmac v) (hd_nonce5 msg)
       \<lparr>sig_type = sig_type (hd_a_signature_info msg), sig_info_bytes = []\<rparr> pub (ri_req_hash info) = Ok p) \<and>
    (\<exists>hm. cosesign_new L (prove_ov_hdr_ser L p) (Some hm) (ou_owner_key UD) = Ok (pov_token res)) \<and>
    get_kex H (ri_session info') ''a_key_exchange'' = Some kex \<and>
    get_cipher H (ri_session info') ''ciphersuite'' = Some (hd_cipher_suite msg)"
proof -
  from assms(1) obtain kex pub p v hdr hm s1 s2 where
    a: "key_exchange_new (hd_kex_suite msg) gen kexrnd = Ok kex" "get_public L kex = Ok pub"
      "prove_ov_hdr_new L hdr (num_entries v) (ov_header_hmac v) (hd_nonce5 msg)
       \<lparr>sig_type = sig_type (hd_a_signature_info msg), sig_info_bytes = []\<rparr> pub (ri_req_hash info) = Ok p"
      "cosesign_new L (prove_ov_hdr_ser L p) (Some hm) (ou_owner_key UD) = Ok (pov_token res)"
    and s: "ses_insert H s1 ''ciphersuite'' (SCipher (hd_cipher_suite msg)) = Some s2"
      "ses_insert H s2 ''a_key_exchange'' (SKex kex) = Some (ri_session info')"
    by (auto simp: handle_hello_device_def res_simps split: option.splits if_splits)
  have "get_kex H (ri_session info') ''a_key_exchange'' = Some kex"
    "get_cipher H (ri_session info') ''ciphersuite'' = Some (hd_cipher_suite msg)"
    by (simp_all add: get_kex_def get_cipher_def ses_insert_get [OF assms(2) s(1)] ses_insert_get [OF assms(2) s(2)])
  with a show ?thesis by blast
qed

text \<open>The keys of the session when \<open>prove_device\<close> answers.\<close>

lemma prove_device_keys:
  assumes "handle_prove_device L H UD ops E grnd info msg t = (t', Ok (res, info'))" "session_doc H"
    and "get_kex H (ri_session info) ''a_key_exchange'' = Some kex" "get_cipher H (ri_session info) ''ciphersuite'' = Some c"
  shows "\<exists>n6 pk eat b ks. get_nonce H (ri_session info) ''nonce6'' = Some n6 \<and> get_eat L (pd_token msg) pk = Ok eat \<and>
    payload_internal (v_prove_device L) eat = Ok (Some b) \<and>
    derive_key L kex OwnerService c b (header_true (ri_headers info) ''X-Non-Interoperable-KDF'') = Ok ks \<and>
    session_keys H (ri_session info') = keys_from_derived c ks"
proof -
  have cipher: "get_cipher H (ses_remove H (ri_session info) ''a_key_exchange'') ''ciphersuite'' = Some c"
    using assms(4) by (simp add: get_cipher_def ses_remove_get [OF assms(2)])
  from assms(1,3) cipher obtain n6 pk n7 b ks s1 s2 where
    a: "get_nonce H (ri_session info) ''nonce6'' = Some n6" "check_device_token L n6 pk (pd_token msg) = Ok (n7, b)"
      "derive_key L kex OwnerService c b (header_true (ri_headers info) ''X-Non-Interoperable-KDF'') = Ok ks"
    and s: "ses_insert H s1 ENCRYPTION_KEYS_SES_KEY (SKeys (keys_from_derived c ks)) = Some s2"
      "ses_insert H s2 ''proven_device'' (SBool True) = Some (ri_session info')"
    unfolding handle_prove_device_def Let_def res_simps
    by (elim exE conjE) (auto simp: res_simps set_encryption_keys_def split: prod.splits)
  have "session_keys H (ri_session info') = keys_from_derived c ks"
    by (simp add: session_keys_def get_keys_def ses_insert_get [OF assms(2) s(1)] ses_insert_get [OF assms(2) s(2)]
        ENCRYPTION_KEYS_SES_KEY_def)
  with a check_device_token_Ok [OF a(2)] show ?thesis by blast
qed

section \<open>Properties\<close>

text \<open>Documented behaviour that the messages of TO2 rest on.\<close>

definition to2_doc :: "'z plib_scheme \<Rightarrow> bool" where
  "to2_doc L \<longleftrightarrow> voucher_codecs L \<and> cose_doc L \<and> item_codec (c_u16 L) \<and> item_codec (c_siginfo L) \<and>
     codec_doc (c_claims L) \<and> vcodec_doc (v_bytes L) \<and> vcodec_doc (v_prove_device L) \<and>
     bn_doc L \<and> ec_doc L \<and> dh_doc L"


end
