(* ===== verification/Sample_Library.thy ===== *)
theory Sample_Library
  imports To2_Keys
begin

text \<open>
  A concrete library record, \<open>sample\<close>: small executable functions that have the documented
  behaviour the theorems assume (the \<open>..._doc\<close> predicates are proved of it here). It stands
  in for OpenSSL, COSE and serde where a theorem is applied to concrete data; nothing of the
  model depends on it.
\<close>

section \<open>Byte strings\<close>

definition bstr :: "bytes \<Rightarrow> bytes" where
  "bstr b = 0x5b # to_be_bytes 8 (length b) @ b"

definition bstr_opt :: "bytes \<Rightarrow> bytes option" where
  "bstr_opt b = (if length b < 2 ^ 63 then Some (bstr b) else None)"

fun unbstr :: "bytes \<Rightarrow> (bytes \<times> bytes) option" where
  "unbstr [] = None"
| "unbstr (h # r) = (if h = 0x5b
     then Some (take (from_be_bytes (take 8 r)) (drop 8 r), drop (from_be_bytes (take 8 r)) (drop 8 r))
     else None)"

lemma take_to_be_bytes [simp]:
  "take k (to_be_bytes k n @ b) = to_be_bytes k n" "drop k (to_be_bytes k n @ b) = b"
  by simp_all

lemma unbstr_bstr: "length b < 2 ^ 63 \<Longrightarrow> unbstr (bstr b @ r) = Some (b, r)"
  by (simp add: bstr_def from_to_be_bytes_id)

lemma bstr_headers: "major_of 0x5b ByteString" "length_size_of (0x5b AND MASK_VAL) = Some 8"
  by code_simp+

lemma one_item_bstr: "length b < 2 ^ 63 \<Longrightarrow> one_item (bstr b)"
proof -
  assume b: "length b < 2 ^ 63"
  then have "to_be_bytes 8 (length b) \<noteq> []" by (metis length_0_conv length_to_be_bytes zero_neq_numeral)
  with b have "arg_of 0x5b (to_be_bytes 8 (length b)) = Some (length b)"
    by (simp add: arg_of_def bstr_headers from_to_be_bytes_id)
  with b show ?thesis unfolding one_item_def
    by (intro exI [of _ "StringItem 0x5b (to_be_bytes 8 (length b)) b"]) (simp add: bstr_headers bstr_def)
qed

lemma bstr_opt_Some_iff: "bstr_opt b = Some x \<longleftrightarrow> length b < 2 ^ 63 \<and> x = bstr b"
  by (auto simp: bstr_opt_def)

section \<open>Codecs\<close>

fun small :: "nat \<Rightarrow> u8" where
  "small n = word_of_nat n"

fun hash_type_idx :: "hash_type \<Rightarrow> u8" where
  "hash_type_idx Sha256 = 0"
| "hash_type_idx Sha384 = 1"
| "hash_type_idx HmacSha256 = 2"
| "hash_type_idx HmacSha384 = 3"

definition idx_hash_type :: "u8 \<Rightarrow> hash_type" where
  "idx_hash_type i = (if i = 0 then Sha256 else if i = 1 then Sha384 else if i = 2 then HmacSha256 else HmacSha384)"

fun key_type_idx :: "public_key_type \<Rightarrow> u8" where
  "key_type_idx Rsa2048RESTR = 0"
| "key_type_idx RsaPkcs = 1"
| "key_type_idx RsaPss = 2"
| "key_type_idx SECP256R1 = 3"
| "key_type_idx SECP384R1 = 4"

definition idx_key_type :: "u8 \<Rightarrow> public_key_type" where
  "idx_key_type i = (if i = 0 then Rsa2048RESTR else if i = 1 then RsaPkcs else if i = 2 then RsaPss
     else if i = 3 then SECP256R1 else SECP384R1)"

fun encoding_idx :: "public_key_encoding \<Rightarrow> u8" where
  "encoding_idx EncCrypto = 0"
| "encoding_idx EncX509 = 1"
| "encoding_idx EncX5CHAIN = 2"
| "encoding_idx EncCosekey = 3"

definition idx_encoding :: "u8 \<Rightarrow> public_key_encoding" where
  "idx_encoding i = (if i = 0 then EncCrypto else if i = 1 then EncX509 else if i = 2 then EncX5CHAIN else EncCosekey)"

lemma idx_inverse [simp]:
  "idx_hash_type (hash_type_idx t) = t" "idx_key_type (key_type_idx k) = k"
  "idx_encoding (encoding_idx e) = e"
  by (cases t, simp_all add: idx_hash_type_def, cases k, simp_all add: idx_key_type_def,
      cases e, simp_all add: idx_encoding_def)

definition hash_enc :: "hash_tuple \<Rightarrow> bytes option" where
  "hash_enc h = map_option (\<lambda>b. 0x82 # hash_type_idx (fst h) # b) (bstr_opt (snd h))"

fun hash_dec :: "bytes \<Rightarrow> (hash_tuple \<times> bytes) option" where
  "hash_dec (a # i # r) = (if a = 0x82
     then map_option (\<lambda>(v, r'). ((idx_hash_type i, v), r')) (unbstr r) else None)"
| "hash_dec _ = None"

definition key_enc :: "key_tuple \<Rightarrow> bytes option" where
  "key_enc k = (case k of (t, e, d) \<Rightarrow>
     map_option (\<lambda>b. 0x83 # key_type_idx t # encoding_idx e # b) (bstr_opt d))"

fun key_dec :: "bytes \<Rightarrow> (key_tuple \<times> bytes) option" where
  "key_dec (a # t # e # r) = (if a = 0x83
     then map_option (\<lambda>(d, r'). ((idx_key_type t, idx_encoding e, d), r')) (unbstr r) else None)"
| "key_dec _ = None"

definition entry_enc :: "entry_tuple \<Rightarrow> bytes option" where
  "entry_enc p = (case p of (h1, h2, ex, k) \<Rightarrow>
     (case (hash_enc h1, hash_enc h2, ex, key_enc k) of
        (Some b1, Some b2, None, Some b3) \<Rightarrow> Some (0x84 # b1 @ b2 @ 0x80 # b3)
      | _ \<Rightarrow> None))"

definition entry_dec :: "bytes \<Rightarrow> (entry_tuple \<times> bytes) option" where
  "entry_dec bs =
     (case hash_dec (tl bs) of None \<Rightarrow> None | Some (h1, r1) \<Rightarrow>
     (case hash_dec r1 of None \<Rightarrow> None | Some (h2, r2) \<Rightarrow>
     (case key_dec (tl r2) of None \<Rightarrow> None | Some (k, r3) \<Rightarrow> Some ((h1, h2, None, k), r3))))"

text \<open>A codec from an encoder and a decoder that also returns what it did not read.\<close>

definition codec_of :: "('a \<Rightarrow> bytes option) \<Rightarrow> (bytes \<Rightarrow> ('a \<times> bytes) option) \<Rightarrow> 'a codec" where
  "codec_of e d = \<lparr>enc = e, dec = (\<lambda>bs. case d bs of Some (x, []) \<Rightarrow> Some x | _ \<Rightarrow> None)\<rparr>"

lemma codec_of_doc:
  assumes "\<And>x bs. e x = Some bs \<Longrightarrow> d (bs @ []) = Some (x, [])"
  shows "codec_doc (codec_of e d)"
  using assms by (auto simp: codec_doc_def codec_of_def)

lemma hash_dec_enc: "hash_enc h = Some b \<Longrightarrow> hash_dec (b @ r) = Some (h, r)"
  by (cases h) (auto simp: hash_enc_def bstr_opt_Some_iff unbstr_bstr)

lemma key_dec_enc: "key_enc k = Some b \<Longrightarrow> key_dec (b @ r) = Some (k, r)"
  by (cases k) (auto simp: key_enc_def bstr_opt_Some_iff unbstr_bstr)

lemma entry_dec_enc: "entry_enc p = Some b \<Longrightarrow> entry_dec (b @ r) = Some (p, r)"
  by (cases p) (auto simp: entry_enc_def entry_dec_def hash_dec_enc key_dec_enc split: option.splits)

lemma one_item_small:
  "one_item [hash_type_idx t]" "one_item [key_type_idx k]" "one_item [encoding_idx e]"
proof -
  have "one_item [i]" if "i \<in> {0, 1, 2, 3, 4}" for i :: u8
  proof -
    have "list_all (\<lambda>i. major_of i Unsigned \<and> arg_of i [] \<noteq> None) [0, 1, 2, 3, 4]" by code_simp
    with that show ?thesis unfolding one_item_def by (intro exI [of _ "IntItem i []"]) auto
  qed
  note i = this
  show "one_item [hash_type_idx t]" by (rule i) (cases t; simp)
  show "one_item [key_type_idx k]" by (rule i) (cases k; simp)
  show "one_item [encoding_idx e]" by (rule i) (cases e; simp)
qed

lemma small_arrays:
  "array_header None [0x80] 0" "array_header None [0x81] 1" "array_header None [0x82] 2"
  "array_header None [0x83] 3"
  by (rule untagged; code_simp)+

lemma hash_enc_item: "hash_enc h = Some b \<Longrightarrow> one_item b"
  using array_header_one_item [OF small_arrays(3), of "[[hash_type_idx (fst h)], bstr (snd h)]"]
  by (auto simp: hash_enc_def bstr_opt_Some_iff one_item_small one_item_bstr)

lemma key_enc_item: "key_enc k = Some b \<Longrightarrow> one_item b"
  using array_header_one_item [OF small_arrays(4),
    of "[[key_type_idx (fst k)], [encoding_idx (fst (snd k))], bstr (snd (snd k))]"]
  by (auto simp: key_enc_def bstr_opt_Some_iff one_item_small one_item_bstr split: prod.splits)

definition version_codec :: "protocol_version codec" where
  "version_codec = codec_of (\<lambda>v. Some [if v = Version1_0 then 0 else 1])
     (\<lambda>bs. case bs of b # r \<Rightarrow> Some (if b = 0 then Version1_0 else Version1_1, r) | [] \<Rightarrow> None)"

definition bytes_codec :: "bytes codec" where
  "bytes_codec = codec_of bstr_opt unbstr"

definition string_codec :: "string codec" where
  "string_codec = codec_of (\<lambda>s. bstr_opt (ascii s))
     (\<lambda>bs. map_option (\<lambda>(b, r). (map (\<lambda>w. char_of (unat w)) b, r)) (unbstr bs))"

definition rvinfo_codec :: "rendezvous_info codec" where
  "rvinfo_codec = codec_of (\<lambda>rv. if rv = [] then Some [0x80] else None) (\<lambda>bs. Some ([], tl bs))"

definition opt_enc :: "('a \<Rightarrow> bytes option) \<Rightarrow> 'a option \<Rightarrow> bytes option" where
  "opt_enc e x = (case x of None \<Rightarrow> Some [0xf6] | Some y \<Rightarrow> e y)"

definition opt_dec :: "(bytes \<Rightarrow> ('a \<times> bytes) option) \<Rightarrow> bytes \<Rightarrow> ('a option \<times> bytes) option" where
  "opt_dec d bs = (if take 1 bs = [0xf6] then Some (None, tl bs) else map_option (\<lambda>(y, r). (Some y, r)) (d bs))"

definition ders_enc :: "bytes list \<Rightarrow> bytes option" where
  "ders_enc ds = (case ds of [d] \<Rightarrow> map_option (\<lambda>b. 0x81 # b) (bstr_opt d) | _ \<Rightarrow> None)"

definition ders_dec :: "bytes \<Rightarrow> (bytes list \<times> bytes) option" where
  "ders_dec bs = map_option (\<lambda>(d, r). ([d], r)) (unbstr (tl bs))"

definition value_codec :: "cbor_value codec" where
  "value_codec = codec_of
     (\<lambda>v. case v of Integer i \<Rightarrow> if 0 \<le> i \<and> i < 24 then Some [word_of_int i] else None | _ \<Rightarrow> None)
     (\<lambda>bs. case bs of b # r \<Rightarrow> Some (Integer (uint b), r) | [] \<Rightarrow> None)"

text \<open>An integer below \<open>2 ^ 32\<close> as a major type 0 item of four bytes; an address list must be empty.\<close>

definition u32_codec :: "nat codec" where
  "u32_codec = codec_of (\<lambda>n. if n < 2 ^ 32 then Some (0x1a # to_be_bytes 4 n) else None)
     (\<lambda>bs. Some (from_be_bytes (take 4 (tl bs)), drop 4 (tl bs)))"

definition to1d_enc :: "address_tuple list \<times> hash_tuple \<Rightarrow> bytes option" where
  "to1d_enc p = (if fst p = [] then hash_enc (snd p) else None)"

definition to1d_dec :: "bytes \<Rightarrow> ((address_tuple list \<times> hash_tuple) \<times> bytes) option" where
  "to1d_dec bs = map_option (\<lambda>(h, r). (([], h), r)) (hash_dec bs)"

definition u16_codec :: "nat codec" where
  "u16_codec = codec_of (\<lambda>n. if n < 2 ^ 16 then Some (0x19 # to_be_bytes 2 n) else None)
     (\<lambda>bs. Some (from_be_bytes (take 2 (tl bs)), drop 2 (tl bs)))"

fun sig_type_idx :: "device_sig_type \<Rightarrow> u8" where
  "sig_type_idx StSECP256R1 = 0"
| "sig_type_idx StSECP384R1 = 1"
| "sig_type_idx StRSA2048 = 2"
| "sig_type_idx StRSA3072 = 3"
| "sig_type_idx StEPID10 = 4"
| "sig_type_idx StEPID11 = 5"
| "sig_type_idx StEPID20 = 6"

definition idx_sig_type :: "u8 \<Rightarrow> device_sig_type" where
  "idx_sig_type i = (if i = 0 then StSECP256R1 else if i = 1 then StSECP384R1 else if i = 2 then StRSA2048
     else if i = 3 then StRSA3072 else if i = 4 then StEPID10 else if i = 5 then StEPID11 else StEPID20)"

definition siginfo_enc :: "device_sig_type \<times> bytes \<Rightarrow> bytes option" where
  "siginfo_enc p = map_option (\<lambda>b. 0x82 # sig_type_idx (fst p) # b) (bstr_opt (snd p))"

fun siginfo_dec :: "bytes \<Rightarrow> ((device_sig_type \<times> bytes) \<times> bytes) option" where
  "siginfo_dec (a # i # r) = map_option (\<lambda>(v, r'). ((idx_sig_type i, v), r')) (unbstr r)"
| "siginfo_dec _ = None"

text \<open>The claims of an entity attestation token: the nonce (claim 10), the UEID (claim 11) and the bytes
  that a ProveDevice token carries (claim -257).\<close>

definition claims_of :: "bytes \<Rightarrow> bytes \<Rightarrow> bytes option \<Rightarrow> cose_header_map" where
  "claims_of a b c = (Map.empty(-257 := map_option Bytes c))(10 \<mapsto> Bytes a, 11 \<mapsto> Bytes b)"

definition claim_bytes :: "cose_header_map \<Rightarrow> int \<Rightarrow> bytes option" where
  "claim_bytes m k = Option.bind (m k) as_bytes"

definition claims_enc :: "cose_header_map \<Rightarrow> bytes option" where
  "claims_enc m =
     (case (claim_bytes m 10, claim_bytes m 11) of
        (Some a, Some b) \<Rightarrow>
          let c = claim_bytes m (-257) in
          if m = claims_of a b c \<and> list_all (\<lambda>x. length x < 2 ^ 63) (a # b # (case c of None \<Rightarrow> [] | Some x \<Rightarrow> [x]))
          then Some (bstr a @ bstr b @ (case c of None \<Rightarrow> [] | Some x \<Rightarrow> bstr x)) else None
      | _ \<Rightarrow> None)"

definition claims_codec :: "cose_header_map codec" where
  "claims_codec =
     \<lparr>enc = claims_enc,
      dec = (\<lambda>bs. case unbstr bs of None \<Rightarrow> None | Some (a, r) \<Rightarrow>
               (case unbstr r of None \<Rightarrow> None | Some (b, r) \<Rightarrow> Some (claims_of a b (map_option fst (unbstr r)))))\<rparr>"

text \<open>Bytes as pairs of hexadecimal digits.\<close>

definition hex_digit :: "nat \<Rightarrow> char" where
  "hex_digit n = ''0123456789abcdef'' ! n"

definition unhex_digit :: "char \<Rightarrow> nat" where
  "unhex_digit c = length (takeWhile (\<lambda>d. d \<noteq> c) ''0123456789abcdef'')"

definition hex_text :: "bytes \<Rightarrow> string" where
  "hex_text b = concat (map (\<lambda>w. [hex_digit (unat w div 16), hex_digit (unat w mod 16)]) b)"

fun unhex :: "string \<Rightarrow> bytes" where
  "unhex (a # b # s) = word_of_nat (16 * unhex_digit a + unhex_digit b) # unhex s"
| "unhex _ = []"

definition unhex_text :: "string \<Rightarrow> bytes option" where
  "unhex_text s = (if length (unhex s) = 16 then Some (unhex s) else None)"

definition no_codec :: "'a codec" where
  "no_codec = \<lparr>enc = (\<lambda>_. None), dec = (\<lambda>_. None)\<rparr>"

section \<open>The record\<close>

definition pad :: "message_digest \<Rightarrow> bytes \<Rightarrow> bytes option" where
  "pad md d = Some (take (md_size md) (d @ replicate (md_size md) 0))"

fun pkey_bytes :: "pkey \<Rightarrow> bytes" where "pkey_bytes (PKey b) = b"
fun privkey_bytes :: "privkey \<Rightarrow> bytes" where "privkey_bytes (PrivKey b) = b"
fun x509_bytes :: "x509 \<Rightarrow> bytes" where "x509_bytes (X509 b) = b"
fun cose_bytes :: "cose_sign1 \<Rightarrow> bytes" where "cose_bytes (CoseSign1 b) = b"

text \<open>The unprotected headers of a message: the bytes under the nonce keys, if there are any.\<close>

definition nonce_header :: "header_map \<Rightarrow> bytes" where
  "nonce_header m = (case (m (Integer 256), m (Integer (-259))) of
     (Some (Bytes b), _) \<Rightarrow> b | (_, Some (Bytes b)) \<Rightarrow> b | _ \<Rightarrow> [])"

definition header_item :: "bytes \<Rightarrow> bytes" where
  "header_item h = (if h = [] then [0xa0] else bstr h)"

definition sign_items :: "bytes \<Rightarrow> bytes \<Rightarrow> bytes \<Rightarrow> bytes list" where
  "sign_items h p kb = [bstr [], header_item h, bstr p, bstr kb]"

definition sample_sign :: "bytes \<Rightarrow> bytes \<Rightarrow> privkey \<Rightarrow> cose_sign1 option" where
  "sample_sign h p k = (if length h < 2 ^ 63 \<and> length p < 2 ^ 63 \<and> length (privkey_bytes k) < 2 ^ 63
     then Some (CoseSign1 (0x84 # concat (sign_items h p (privkey_bytes k)))) else None)"

definition read_header :: "bytes \<Rightarrow> (bytes \<times> bytes) option" where
  "read_header bs = (if take 1 bs = [0xa0] then Some ([], tl bs) else unbstr bs)"

definition sample_read :: "bytes \<Rightarrow> (bytes \<times> bytes \<times> bytes) option" where
  "sample_read bs =
     (case read_header (drop 10 bs) of None \<Rightarrow> None | Some (h, r) \<Rightarrow>
     (case unbstr r of None \<Rightarrow> None | Some (p, r) \<Rightarrow>
     (case unbstr r of None \<Rightarrow> None | Some (kb, _) \<Rightarrow> Some (h, p, kb))))"

definition sample_unprotected :: "cose_sign1 \<Rightarrow> header_map" where
  "sample_unprotected c =
     (case sample_read (cose_bytes c) of
        Some (h, _) \<Rightarrow> if h = [] then Map.empty else [Integer 256 \<mapsto> Bytes h, Integer (-259) \<mapsto> Bytes h]
      | None \<Rightarrow> Map.empty)"

definition sample_get :: "cose_sign1 \<Rightarrow> pkey option \<Rightarrow> (header_map \<times> bytes) option" where
  "sample_get c ko =
     (case sample_read (cose_bytes c) of None \<Rightarrow> None | Some (h, p, kb) \<Rightarrow>
        if ko = None \<or> ko = Some (PKey kb) then Some (Map.empty, p) else None)"

function min_be :: "nat \<Rightarrow> bytes" where
  "min_be n = (if n = 0 then [] else min_be (n div 256) @ [word_of_nat (n mod 256)])"
  by pat_completeness auto
termination by (relation "measure (\<lambda>n. n)") auto

declare min_be.simps [simp del]

definition sample :: devlib where
  "sample = \<lparr>
     write_u16 = (\<lambda>buf n. write_be 2 buf (unat n)),
     write_u32 = (\<lambda>buf n. write_be 4 buf (unat n)),
     write_u64 = (\<lambda>buf n. write_be 8 buf (unat n)),
     md_hash = pad,
     memcmp_eq = (\<lambda>a b. if length a = length b then Some (a = b) else None),
     public_eq = (=),
     public_of = (\<lambda>k. PKey (privkey_bytes k)),
     public_key_from_der = (\<lambda>b. Some (PKey b)),
     public_key_to_der = (\<lambda>k. Some (pkey_bytes k)),
     pkey_kind = (\<lambda>_. Some EcP256),
     x509_from_der = (\<lambda>b. Some (X509 b)),
     x509_to_der = (\<lambda>c. Some (x509_bytes c)),
     x509_public_key = (\<lambda>c. Some (PKey (x509_bytes c))),
     x509_issued = (\<lambda>_ _. True),
     x509_verify = (\<lambda>_ _. Some True),
     x509_digest = (\<lambda>md c. pad md (x509_bytes c)),
     cose_from_bytes = (\<lambda>bs. if take 1 bs = [0xd2] then Some (CoseSign1 (tl bs)) else None),
     cose_to_bytes = (\<lambda>c. Some (cose_bytes c)),
     cose_sign = (\<lambda>p _ un k. sample_sign (nonce_header un) p k),
     cose_sig_alg = (\<lambda>_. Some (-7)),
     cose_verify = (\<lambda>c k. Some (sample_get c (Some k) \<noteq> None)),
     cose_get = sample_get,
     cose_unprotected = sample_unprotected,
     hex_decode = (\<lambda>s. Some (ascii s)),
     c_version = version_codec,
     c_bytebuf = bytes_codec,
     c_string = string_codec,
     c_u16 = u16_codec,
     c_u32 = u32_codec,
     c_hash = codec_of hash_enc hash_dec,
     c_opt_hash = codec_of (opt_enc hash_enc) (opt_dec hash_dec),
     c_rvinfo = rvinfo_codec,
     c_key = codec_of key_enc key_dec,
     c_opt_x5chain = codec_of (opt_enc ders_enc) (opt_dec ders_dec),
     c_x5chain = codec_of ders_enc ders_dec,
     c_entry = codec_of entry_enc entry_dec,
     c_claims = claims_codec,
     c_value = value_codec,
     c_siginfo = codec_of siginfo_enc siginfo_dec,
     bn_from_slice = (\<lambda>b. Some (from_be_bytes b)),
     bn_to_vec = min_be,
     dh_public = (\<lambda>p g x. Some (g ^ x mod p)),
     dh_compute_key = (\<lambda>p g x y. Some (min_be (y ^ x mod p))),
     ec_private_from_der = (\<lambda>b. Some (EcPriv b)),
     ec_public = (\<lambda>_. EcPoint 1 2),
     ec_from_affine = (\<lambda>_ x y. Some (EcPoint x y)),
     ec_check_key = (\<lambda>_ _. True),
     ec_mul = (\<lambda>_ _ _. Some (EcPoint 3 4)),
     ec_is_infinity = (\<lambda>_ p. p = EcInfinity),
     ec_is_on_curve = (\<lambda>_ _. Some True),
     ec_affine = (\<lambda>_ p. case p of EcPoint x y \<Rightarrow> Some (x, y) | EcInfinity \<Rightarrow> None),
     perform_kdf = (\<lambda>_ n. Some (replicate n 7)),
     use_noninteroperable_kdf_feature = False,
     force_noninteroperable_kdf_env = False,
     v_bytes = \<lparr>to_value = (\<lambda>b. Some (Bytes b)), from_value = (\<lambda>v. as_bytes v)\<rparr>,
     hex_encode = map (\<lambda>w. char_of (unat w)),
     uuid_fmt = hex_text,
     uuid_parse = unhex_text,
     c_to1d = codec_of to1d_enc to1d_dec,
     c_setup = codec_of (\<lambda>_. Some [0x80]) (\<lambda>_. None),
     c_error = codec_of (\<lambda>_. Some [0x80]) (\<lambda>_. None),
     v_key = \<lparr>to_value = (\<lambda>_. Some Null), from_value = (\<lambda>_. None)\<rparr>,
     v_prove_device = \<lparr>to_value = (\<lambda>b. Some (Bytes b)), from_value = (\<lambda>v. as_bytes v)\<rparr>,
     c_to0_hello = \<lparr>enc = (\<lambda>_. Some [0x80]), dec = (\<lambda>bs. if bs = [0x80] then Some () else None)\<rparr>,
     c_hello_ack = bytes_codec,
     c_accept_owner = u32_codec,
     c_hello_rv = no_codec,
     c_hello_rv_ack = no_codec,
     c_hello_device = codec_of (\<lambda>_. Some [0x80]) (\<lambda>_. None),
     c_get_ov_next_entry = \<lparr>enc = (\<lambda>n. Some [n]), dec = (\<lambda>bs. case bs of [n] \<Rightarrow> Some n | _ \<Rightarrow> None)\<rparr>,
     c_dsi_ready = codec_of (\<lambda>_. Some [0x80]) (\<lambda>_. None),
     c_osi_ready = codec_of (\<lambda>_. Some [0x80]) (\<lambda>_. None),
     c_dsi = no_codec,
     c_osi = no_codec,
     c_done = bytes_codec,
     c_done2 = bytes_codec,
     c_json = no_codec,
     v_list = \<lparr>to_value = (\<lambda>vs. Some (VArray vs)), from_value = (\<lambda>v. case v of VArray vs \<Rightarrow> Some vs | _ \<Rightarrow> None)\<rparr>,
     v_string = \<lparr>to_value = (\<lambda>s. Some (Text s)), from_value = (\<lambda>v. case v of Text s \<Rightarrow> Some s | _ \<Rightarrow> None)\<rparr>,
     hmac_sign = (\<lambda>secret md _. Some (replicate (md_size md) (hd secret))),
     private_key_from_der = (\<lambda>b. Some (PrivKey b)),
     tpm_available = False,
     tpm_unmarshall = (\<lambda>_. None),
     tpm_hmac = (\<lambda>_ _ _ _. None),
     tpm_load_signer = (\<lambda>_ _. None),
     c_credential = no_codec\<rparr>"

section \<open>Its documented behaviour\<close>

lemma sample_byteorder: "byteorder_doc sample"
  by (simp add: byteorder_doc_def sample_def write_be_def)

lemma sample_memcmp: "memcmp_doc sample"
  by (simp add: memcmp_doc_def sample_def)

lemma sample_hash: "hash_doc sample"
  by (auto simp: hash_doc_def sample_def pad_def)

lemma sample_der: "der_doc sample"
proof -
  have "X509 (x509_bytes c) = c" "PKey (pkey_bytes k) = k" for c k
    by (cases c, simp) (cases k, simp)
  then show ?thesis by (simp add: der_doc_def sample_def)
qed

lemma unbstr_item: "length b < 2 ^ 63 \<Longrightarrow> unbstr (bstr b) = Some (b, [])"
  using unbstr_bstr [of b "[]"] by simp

lemma read_header_item:
  assumes "length h < 2 ^ 63"
  shows "read_header (header_item h @ r) = Some (h, r)"
proof -
  have "take 1 (bstr h @ r) \<noteq> [0xa0]" by (simp add: bstr_def)
  with assms show ?thesis by (simp add: read_header_def header_item_def unbstr_bstr)
qed

lemma sample_read_sign:
  assumes "length h < 2 ^ 63" "length p < 2 ^ 63" "length kb < 2 ^ 63"
  shows "sample_read (0x84 # concat (sign_items h p kb)) = Some (h, p, kb)"
proof -
  have "drop 10 (0x84 # concat (sign_items h p kb)) = header_item h @ bstr p @ bstr kb"
    by (simp add: sign_items_def bstr_def eval_nat_numeral del: to_be_bytes.simps)
  with assms show ?thesis by (simp add: sample_read_def read_header_item unbstr_bstr unbstr_item)
qed

lemma header_item_item: "length h < 2 ^ 63 \<Longrightarrow> one_item (header_item h)"
proof -
  have "major_of 0xa0 Map" "arg_of 0xa0 [] = Some 0" by code_simp+
  then have "one_item [0xa0]" unfolding one_item_def by (intro exI [of _ "MapItem 0xa0 [] []"]) simp
  then show "length h < 2 ^ 63 \<Longrightarrow> ?thesis" by (simp add: header_item_def one_item_bstr)
qed

lemma sign_items_items:
  assumes "length h < 2 ^ 63" "length p < 2 ^ 63" "length kb < 2 ^ 63"
  shows "list_all one_item (sign_items h p kb)"
  using assms by (simp add: sign_items_def one_item_bstr header_item_item)

lemma sample_cose: "cose_doc sample"
proof -
  have get: "sample_get c (Some pk) = Some z \<Longrightarrow> sample_get c None = Some z" for c pk z
    by (auto simp: sample_get_def split: option.splits if_splits)
  have sign: "(\<exists>hm. sample_get c None = Some (hm, p)) \<and>
      sample_get c (Some (PKey (privkey_bytes k))) = Some (Map.empty, p) \<and>
      (\<exists>items. length items = 4 \<and> list_all one_item items \<and> cose_bytes c = 0x84 # concat items \<and>
         CoseSign1 (0x84 # concat items) = c)"
    if "sample_sign h p k = Some c" for h p k c
  proof -
    from that have len: "length h < 2 ^ 63" "length p < 2 ^ 63" "length (privkey_bytes k) < 2 ^ 63"
      and c: "c = CoseSign1 (0x84 # concat (sign_items h p (privkey_bytes k)))"
      by (auto simp: sample_sign_def split: if_splits)
    moreover have "length (sign_items h p (privkey_bytes k)) = 4" by (simp add: sign_items_def)
    ultimately show ?thesis
      using sample_read_sign [OF len] sign_items_items [OF len] by (auto simp: sample_get_def)
  qed
  show ?thesis unfolding cose_doc_def
    using get sign by (auto simp: sample_def)
qed

lemma version_item: "item_codec version_codec"
proof -
  have "list_all (\<lambda>i. major_of i Unsigned \<and> arg_of i [] \<noteq> None) [0, 1]" by code_simp
  then have "one_item [0]" "one_item [1]"
    unfolding one_item_def by (auto intro: exI [of _ "IntItem 0 []"] exI [of _ "IntItem 1 []"])
  moreover have "codec_doc version_codec"
    unfolding version_codec_def
    by (rule codec_of_doc) (auto split: if_splits intro: protocol_version.exhaust)
  ultimately show ?thesis
    by (auto simp: item_codec_def version_codec_def codec_of_def)
qed

lemma bytes_item: "item_codec bytes_codec"
  using codec_of_doc [of bstr_opt unbstr] unbstr_bstr [where r = "[]"]
  by (auto simp: item_codec_def bytes_codec_def bstr_opt_Some_iff one_item_bstr)
     (auto simp: codec_of_def bstr_opt_Some_iff one_item_bstr)

lemma ascii_inverse: "map (\<lambda>w. char_of (unat w)) (ascii s) = s"
proof -
  have "unat (word_of_nat (of_char c) :: u8) = of_char c" for c :: char
    by (simp add: unat_of_nat)
  then show ?thesis by (simp add: ascii_def comp_def)
qed

lemma string_item: "item_codec string_codec"
proof -
  have "codec_doc string_codec" unfolding string_codec_def
    using unbstr_bstr [where r = "[]"]
    by (intro codec_of_doc) (auto simp: bstr_opt_Some_iff ascii_inverse)
  then show ?thesis
    by (auto simp: item_codec_def string_codec_def codec_of_def bstr_opt_Some_iff one_item_bstr)
qed

lemma rvinfo_item: "item_codec rvinfo_codec"
proof -
  have "codec_doc rvinfo_codec" unfolding rvinfo_codec_def
    by (rule codec_of_doc) (auto split: if_splits)
  then show ?thesis
    by (auto simp: item_codec_def rvinfo_codec_def codec_of_def empty_array_item split: if_splits)
qed

lemma hash_item: "item_codec (codec_of hash_enc hash_dec)"
  using codec_of_doc [of hash_enc hash_dec] hash_dec_enc hash_enc_item
  by (fastforce simp: item_codec_def codec_of_def)

lemma key_item: "item_codec (codec_of key_enc key_dec)"
  using codec_of_doc [of key_enc key_dec] key_dec_enc key_enc_item
  by (fastforce simp: item_codec_def codec_of_def)

lemma entry_codec: "codec_doc (codec_of entry_enc entry_dec)"
  by (rule codec_of_doc) (rule entry_dec_enc)

lemma opt_codec_of:
  assumes "\<And>x bs. e x = Some bs \<Longrightarrow> d (bs @ []) = Some (x, []) \<and> one_item bs \<and> hd bs \<noteq> 0xf6"
  shows "opt_codec (codec_of (opt_enc e) (opt_dec d))"
proof -
  have "codec_doc (codec_of (opt_enc e) (opt_dec d))"
  proof (rule codec_of_doc)
    fix x bs assume "opt_enc e x = Some bs"
    then show "opt_dec d (bs @ []) = Some (x, [])"
      using assms [of _ bs] by (cases x; cases bs) (auto simp: opt_enc_def opt_dec_def)
  qed
  moreover have "one_item bs" if "opt_enc e (Some x) = Some bs" for x bs
    using assms that by (auto simp: opt_enc_def)
  ultimately show ?thesis by (auto simp: opt_codec_def) (simp_all add: codec_of_def opt_enc_def)
qed

lemma ders_facts: "ders_enc ds = Some bs \<Longrightarrow> ders_dec (bs @ []) = Some (ds, []) \<and> one_item bs \<and> hd bs \<noteq> 0xf6"
proof -
  assume "ders_enc ds = Some bs"
  then obtain d where d: "ds = [d]" "length d < 2 ^ 63" "bs = 0x81 # bstr d"
    by (auto simp: ders_enc_def bstr_opt_Some_iff split: list.splits)
  then show ?thesis
    using array_header_one_item [OF small_arrays(2), of "[bstr d]"] unbstr_bstr [of d "[]"] one_item_bstr [of d]
    by (simp add: ders_dec_def)
qed

lemma sample_codecs: "voucher_codecs sample"
proof -
  have "opt_codec (codec_of (opt_enc hash_enc) (opt_dec hash_dec))"
  proof (rule opt_codec_of)
    fix x bs assume x: "hash_enc x = Some bs"
    then have "hd bs \<noteq> 0xf6" by (auto simp: hash_enc_def)
    with x hash_dec_enc [OF x, of "[]"] hash_enc_item [OF x]
    show "hash_dec (bs @ []) = Some (x, []) \<and> one_item bs \<and> hd bs \<noteq> 0xf6" by simp
  qed
  moreover have "opt_codec (codec_of (opt_enc ders_enc) (opt_dec ders_dec))"
    using ders_facts by (rule opt_codec_of)
  ultimately show ?thesis
    unfolding voucher_codecs_def
    using sample_byteorder sample_der version_item bytes_item string_item rvinfo_item hash_item key_item
    by (simp add: sample_def)
qed

lemma min_be_props: "from_be_bytes (min_be n) = n" "n < 256 ^ k \<Longrightarrow> length (min_be n) \<le> k"
proof -
  show "from_be_bytes (min_be n) = n"
    by (induction n rule: min_be.induct) (subst min_be.simps, simp)
  show "n < 256 ^ k \<Longrightarrow> length (min_be n) \<le> k"
  proof (induction n arbitrary: k rule: min_be.induct)
    case (1 n)
    show ?case
    proof (cases "n = 0")
      case False
      with "1.prems" obtain k' where k: "k = Suc k'" by (cases k) auto
      then have "n div 256 < 256 ^ k'" using "1.prems" by (simp add: less_mult_imp_div_less mult.commute)
      with "1.IH" [OF False] k False show ?thesis by (subst min_be.simps) simp
    qed (simp add: min_be.simps)
  qed
qed

lemma sample_bn: "bn_doc sample"
  using min_be_props by (auto simp: bn_doc_def sample_def)

lemma sample_ec: "ec_doc sample"
  by (auto simp: ec_doc_def sample_def)

lemma sample_dh: "dh_doc sample"
  by (auto simp: dh_doc_def sample_def)

lemma sample_v_bytes: "vcodec_doc (v_bytes sample)"
  by (simp add: vcodec_doc_def sample_def)

lemma sample_value: "codec_doc (c_value sample)"
proof -
  have "codec_doc value_codec" unfolding value_codec_def
    by (rule codec_of_doc) (auto split: cbor_value.splits if_splits simp: uint_word_of_int)
  then show ?thesis by (simp add: sample_def)
qed

lemma sample_entry: "codec_doc (c_entry sample)"
  using entry_codec by (simp add: sample_def)

lemma u32_item: "item_codec u32_codec"
proof -
  have h: "major_of 0x1a Unsigned" "length_size_of (0x1a AND MASK_VAL) = Some 4" by code_simp+
  have "one_item (0x1a # to_be_bytes 4 n)" if "n < 2 ^ 32" for n
  proof -
    have "to_be_bytes 4 n \<noteq> []" by (metis length_0_conv length_to_be_bytes zero_neq_numeral)
    with h have "arg_of 0x1a (to_be_bytes 4 n) \<noteq> None" by (simp add: arg_of_def)
    with h(1) show ?thesis unfolding one_item_def by (intro exI [of _ "IntItem 0x1a (to_be_bytes 4 n)"]) auto
  qed
  moreover have "codec_doc u32_codec" unfolding u32_codec_def
    by (rule codec_of_doc) (auto simp: from_to_be_bytes_id split: if_splits)
  ultimately show ?thesis
    by (auto simp: item_codec_def u32_codec_def codec_of_def split: if_splits)
qed

lemma hex_digit_inverse: "n < 16 \<Longrightarrow> unhex_digit (hex_digit n) = n \<and> hex_digit n \<in> set ''0123456789abcdef''"
proof -
  assume "n < 16"
  then have "n \<in> set [0..<16]" by simp
  moreover have "list_all (\<lambda>n. unhex_digit (hex_digit n) = n \<and> hex_digit n \<in> set ''0123456789abcdef'') [0..<16]"
    by code_simp
  ultimately show ?thesis unfolding list_all_iff by blast
qed

lemma unhex_hex: "unhex (hex_text b) = b"
proof (induction b)
  case (Cons w b)
  have "unhex_digit (hex_digit (unat w div 16)) = unat w div 16" "unhex_digit (hex_digit (unat w mod 16)) = unat w mod 16"
    using hex_digit_inverse [of "unat w div 16"] hex_digit_inverse [of "unat w mod 16"] unat_byte_less [of w]
    by (auto simp: less_mult_imp_div_less)
  with Cons show ?case by (simp add: hex_text_def)
qed (simp add: hex_text_def)

lemma sample_text: "text_doc sample"
proof -
  have "word_of_nat (of_char (char_of (unat w) :: char)) = w" for w :: u8
    by (simp add: of_char_of)
  then have "ascii (map (\<lambda>w. char_of (unat w)) b) = b" for b :: bytes
    by (simp add: ascii_def comp_def map_idI)
  moreover have "hex_text b \<noteq> [] \<and> set (hex_text b) \<subseteq> set ''0123456789abcdef-''" if "length b = 16" for b
  proof -
    have "b \<noteq> []" using that by auto
    moreover have "hex_digit (unat w div 16) \<in> set ''0123456789abcdef''" "hex_digit (unat w mod 16) \<in> set ''0123456789abcdef''"
      for w :: u8
      using hex_digit_inverse [of "unat w div 16"] hex_digit_inverse [of "unat w mod 16"] unat_byte_less [of w]
      by (auto simp: less_mult_imp_div_less)
    ultimately show ?thesis by (auto simp: hex_text_def neq_Nil_conv)
  qed
  ultimately show ?thesis
    by (auto simp: text_doc_def sample_def unhex_text_def unhex_hex split: if_splits)
qed

lemma to1d_codec: "codec_doc (codec_of to1d_enc to1d_dec)"
  using hash_dec_enc [where r = "[]"]
  by (intro codec_of_doc) (auto simp: to1d_enc_def to1d_dec_def split: if_splits)

lemma sample_to0: "to0_doc sample"
  using sample_text sample_codecs sample_memcmp sample_cose sample_entry u32_item to1d_codec
  by (simp add: to0_doc_def rv_doc_def) (simp add: sample_def)

lemma u16_item: "item_codec u16_codec"
proof -
  have h: "major_of 0x19 Unsigned" "length_size_of (0x19 AND MASK_VAL) = Some 2" by code_simp+
  have "one_item (0x19 # to_be_bytes 2 n)" if "n < 2 ^ 16" for n
  proof -
    have "to_be_bytes 2 n \<noteq> []" by (metis length_0_conv length_to_be_bytes zero_neq_numeral)
    with h have "arg_of 0x19 (to_be_bytes 2 n) \<noteq> None" by (simp add: arg_of_def)
    with h(1) show ?thesis unfolding one_item_def by (intro exI [of _ "IntItem 0x19 (to_be_bytes 2 n)"]) auto
  qed
  moreover have "codec_doc u16_codec" unfolding u16_codec_def
    by (rule codec_of_doc) (auto simp: from_to_be_bytes_id split: if_splits)
  ultimately show ?thesis
    by (auto simp: item_codec_def u16_codec_def codec_of_def split: if_splits)
qed

lemma sig_type_item: "one_item [sig_type_idx t]"
proof -
  have "list_all (\<lambda>i. major_of i Unsigned \<and> arg_of i [] \<noteq> None) [0, 1, 2, 3, 4, 5, 6]" by code_simp
  moreover have "sig_type_idx t \<in> {0, 1, 2, 3, 4, 5, 6}" by (cases t) simp_all
  ultimately show ?thesis unfolding one_item_def by (intro exI [of _ "IntItem (sig_type_idx t) []"]) auto
qed

lemma siginfo_item: "item_codec (codec_of siginfo_enc siginfo_dec)"
proof -
  have "idx_sig_type (sig_type_idx t) = t" for t by (cases t) (simp_all add: idx_sig_type_def)
  then have "siginfo_dec (bs @ []) = Some (p, [])" if "siginfo_enc p = Some bs" for p bs
    using that by (cases p) (auto simp: siginfo_enc_def bstr_opt_Some_iff unbstr_item)
  moreover have "one_item bs" if "siginfo_enc p = Some bs" for p bs
    using that array_header_one_item [OF small_arrays(3), of "[[sig_type_idx (fst p)], bstr (snd p)]"]
    by (auto simp: siginfo_enc_def bstr_opt_Some_iff sig_type_item one_item_bstr)
  ultimately show ?thesis
    using codec_of_doc [of siginfo_enc siginfo_dec] by (fastforce simp: item_codec_def codec_of_def)
qed

lemma if_Some_iff: "(if P then Some x else None) = Some y \<longleftrightarrow> P \<and> x = y"
  by simp

lemma claims_doc: "codec_doc claims_codec"
  unfolding codec_doc_def
proof (intro allI impI)
  fix m bs assume "enc claims_codec m = Some bs"
  then have e: "claims_enc m = Some bs" by (simp add: claims_codec_def)
  then obtain a b where ab: "claim_bytes m 10 = Some a" "claim_bytes m 11 = Some b"
    unfolding claims_enc_def by (cases "claim_bytes m 10"; cases "claim_bytes m 11") simp_all
  obtain c where c: "claim_bytes m (-257) = c" by simp
  let ?bs = "bstr a @ bstr b @ (case c of None \<Rightarrow> [] | Some x \<Rightarrow> bstr x)"
  let ?ok = "m = claims_of a b c \<and> list_all (\<lambda>x. length x < 2 ^ 63) (a # b # (case c of None \<Rightarrow> [] | Some x \<Rightarrow> [x]))"
  from e have "(if ?ok then Some ?bs else None) = Some bs" unfolding claims_enc_def Let_def ab c option.case prod.case .
  then have ok: ?ok and bs: "bs = ?bs" unfolding if_Some_iff by blast+
  from ok [THEN conjunct2] have len: "length a < 2 ^ 63" "length b < 2 ^ 63" "\<And>x. c = Some x \<Longrightarrow> length x < 2 ^ 63" by auto
  then have "dec claims_codec ?bs = Some (claims_of a b c)"
    by (cases c) (simp_all add: claims_codec_def unbstr_bstr unbstr_item)
  then show "dec claims_codec bs = Some m" unfolding bs ok [THEN conjunct1] .
qed

lemma claims_enc_of:
  assumes "length a < 2 ^ 63" "length b < 2 ^ 63" "\<And>x. c = Some x \<Longrightarrow> length x < 2 ^ 63"
  shows "claims_enc (claims_of a b c) = Some (bstr a @ bstr b @ (case c of None \<Rightarrow> [] | Some x \<Rightarrow> bstr x))"
proof -
  have "claim_bytes (claims_of a b c) 10 = Some a" "claim_bytes (claims_of a b c) 11 = Some b"
    "claim_bytes (claims_of a b c) (-257) = c"
    by (cases c; simp add: claim_bytes_def claims_of_def)+
  with assms show ?thesis by (cases c) (simp_all add: claims_enc_def)
qed

lemma sample_to2: "to2_doc sample"
proof -
  have "c_u16 sample = u16_codec" "c_siginfo sample = codec_of siginfo_enc siginfo_dec" "c_claims sample = claims_codec"
    "vcodec_doc (v_prove_device sample)"
    by (simp_all add: sample_def vcodec_doc_def)
  then show ?thesis
    using sample_codecs sample_cose u16_item siginfo_item claims_doc sample_v_bytes sample_bn sample_ec sample_dh
    by (simp add: to2_doc_def)
qed

end
