(* ===== verification/Witnesses.thy ===== *)
theory Witnesses
  imports Sample_Library
begin

text \<open>
  Applications of the theorems about library-dependent operations to concrete data, with the
  library record \<open>sample\<close>.
\<close>

section \<open>Concrete data\<close>

definition sample_key :: "bytes \<Rightarrow> public_key" where
  "sample_key b = \<lparr>key_type = SECP256R1, encoding = EncX509, key_data = b, pk_pkey = PKey b, certs = None\<rparr>"

lemma sample_key_wf: "wf_public_key sample (sample_key b)"
  by (simp add: wf_public_key_def sample_key_def public_key_new_def parse_data_def sample_def)

definition sample_message :: "bytes \<Rightarrow> bytes \<Rightarrow> cosesign" where
  "sample_message p kb =
     \<lparr>cs_contents = \<lparr>tag = Some COSESIGN_TAG, header = Some [0x84], contents = sign_items [] p kb\<rparr>,
      cached_inner = CoseSign1 (0x84 # concat (sign_items [] p kb))\<rparr>"

lemma sample_message_new:
  assumes "length p < 2 ^ 63" "length kb < 2 ^ 63"
  shows "cosesign_new sample (Ok p) None (PrivKey kb) = Ok (sample_message p kb)"
proof -
  have "new_from_inner sample (CoseSign1 (0x84 # concat (sign_items [] p kb))) =
      Ok (sample_message p kb)"
    unfolding sample_message_def
    using sign_items_items [of "[]" p kb] assms
    by (intro new_from_inner_items) (simp_all add: sign_items_def sample_def)
  moreover have "nonce_header (to_header_map chm_new) = []" by (simp add: nonce_header_def chm_new_def)
  ultimately show ?thesis using assms
    by (simp add: cosesign_new_def) (simp add: sample_def sample_sign_def)
qed

section \<open>Values\<close>

theorem hash_compare_computed_witness:
  "hash_compare sample \<lparr>hash_type = Sha256, hash_value = 1 # replicate 31 0\<rparr>
     \<lparr>hash_type = Sha256, hash_value = 2 # replicate 31 0\<rparr> = Err IncorrectHash \<and>
   hash_compare sample \<lparr>hash_type = Sha256, hash_value = 1 # replicate 31 0\<rparr>
     \<lparr>hash_type = Sha256, hash_value = [1]\<rparr> = Panic"
  using hash_compare_computed [OF sample_memcmp sample_hash, of Sha256 "[1]" _ "[2]"]
  by (simp add: hash_from_data_def) (simp add: sample_def pad_def eval_nat_numeral)


section \<open>Signed messages\<close>

theorem cosesign_new_send_witness:
  "\<exists>bs cs'. cosesign_ser sample (sample_message [1, 2, 3] [9]) = Ok bs \<and> one_item bs \<and>
    cosesign_read sample (bs @ [7]) = Ok (cs', [7]) \<and>
    cached_inner cs' = cached_inner (sample_message [1, 2, 3] [9]) \<and>
    contents (cs_contents cs') = contents (cs_contents (sample_message [1, 2, 3] [9])) \<and>
    cosesign_verify sample cs' (PKey [9]) = Ok () \<and> get_payload sample Ok cs' (PKey [9]) = Ok [1, 2, 3] \<and>
    get_payload_unverified sample Ok cs' = Ok [1, 2, 3]"
  using cosesign_new_send [OF sample_cose, of None "[1, 2, 3]" "PrivKey [9]"
      "sample_message [1, 2, 3] [9]" "PKey [9]" "[7]" Ok]
  by (simp add: sample_message_new plain_map_empty) (simp add: sample_def)


theorem x5chain_verify_iff_witness:
  "x5chain_verify sample (\<lambda>c. Ok (c = X509 [3])) (X5Chain [X509 [1], X509 [2], X509 [3]]) = Ok (X509 [1])"
proof -
  have "signed_by sample c d" for c d by (simp add: signed_by_def sample_def)
  then show ?thesis
    by (intro x5chain_verify_iff [THEN iffD2]) (auto intro!: exI [of _ 1])
qed

theorem with_certs_contains_witness:
  "\<exists>bag. with_certs sample [X509 [1], X509 [2]] = Ok bag \<and>
     bag_contains sample bag (X509 [2]) = Ok True \<and> bag_contains sample bag (X509 [3]) = Ok False"
proof -
  obtain bag where bag: "with_certs sample [X509 [1], X509 [2]] = Ok bag"
    by (simp add: with_certs_def add_cert_def sample_def pad_def)
  show ?thesis
    using bag with_certs_contains [OF sample_memcmp bag, of "X509 [2]"]
      with_certs_contains [OF sample_memcmp bag, of "X509 [3]"]
    by (simp add: sample_def pad_def eval_nat_numeral)
qed

section \<open>Vouchers\<close>

text \<open>A header and a voucher whose manufacturer has the private key \<open>PrivKey [9]\<close>.\<close>

definition sample_hmac :: hash where
  "sample_hmac = \<lparr>hash_type = HmacSha256, hash_value = replicate 32 3\<rparr>"

definition sample_ws :: "bytes list" where
  "sample_ws = [[1], bstr (replicate 16 0), [0x80], bstr (ascii ''dev''),
     [0x83, 3, 1] @ bstr [9], [0x82, 2] @ bstr (replicate 32 3)]"

definition sample_header :: ov_header where
  "sample_header =
     \<lparr>oh_contents = \<lparr>tag = None, header = None, contents = sample_ws\<rparr>, oh_protocol_version = Version1_1,
      oh_guid = Guid (replicate 16 0), oh_rendezvous_info = [], oh_device_info = ''dev'',
      oh_manufacturer_public_key = sample_key [9], oh_device_certificate_chain_hash = Some sample_hmac\<rparr>"

lemmas sample_codec_defs = sample_def serde_ser_def version_codec_def bytes_codec_def rvinfo_codec_def
  string_codec_def codec_of_def bstr_opt_def key_enc_def opt_enc_def hash_enc_def

lemma sample_header_new:
  "ov_header_new sample Version1_1 (Guid (replicate 16 0)) [] ''dev'' (sample_key [9]) (Some sample_hmac) =
     Ok sample_header"
proof -
  have "trim ''dev'' = ''dev''" by (simp add: trim_def is_space_def)
  then show ?thesis
    by (simp add: ov_header_new_def Let_def build_array_rtraverse guid_ser_def public_key_ser_def
        opt_hash_ser_def sample_codec_defs key_tuple_def sample_key_def hash_tuple_def sample_hmac_def
        sample_header_def sample_ws_def ascii_def)
qed

definition sample_header_bytes :: bytes where
  "sample_header_bytes = 0x86 # concat sample_ws"

lemma sample_header_ser: "serialize_to_writer L (oh_contents sample_header) = Ok sample_header_bytes"
  by (simp add: serialize_to_writer_def sample_header_def sample_header_bytes_def sample_ws_def
      encode_item_start_def MASK_VAL_def)

lemma sample_header_length: "length sample_header_bytes < 2 ^ 63"
  by (simp add: sample_header_bytes_def sample_ws_def bstr_def ascii_def)

definition sample_voucher :: "x5chain option \<Rightarrow> bytes \<Rightarrow> voucher" where
  "sample_voucher c cb =
     \<lparr>ov_contents = \<lparr>tag = None, header = None, contents =
        [[1], bstr sample_header_bytes, [0x82, 2] @ bstr (replicate 32 3), cb, [0x80]]\<rparr>,
      ov_protocol_version = Version1_1, ov_header = sample_header, ov_header_hmac = sample_hmac,
      ov_device_certificate_chain = c, ov_entries = new_empty\<rparr>"

lemma sample_voucher_new:
  "voucher_new sample sample_header sample_hmac (Some (X5Chain [X509 [4]])) =
     Ok (sample_voucher (Some (X5Chain [X509 [4]])) (0x81 # bstr [4]))"
  "voucher_new sample sample_header sample_hmac None = Ok (sample_voucher None [0xf6])"
  using sample_header_length
  by (simp_all add: voucher_new_def Let_def sample_header_ser new_empty_bytes build_array_rtraverse
      hash_ser_def opt_x5chain_ser_def x5chain_ders_def sample_codec_defs hash_tuple_def sample_hmac_def
      ders_enc_def sample_voucher_def)

abbreviation chained_voucher :: voucher where
  "chained_voucher \<equiv> sample_voucher (Some (X5Chain [X509 [4]])) (0x81 # bstr [4])"

lemma sample_fresh: "fresh_voucher sample chained_voucher"
proof -
  have "check_device_info (trim ''dev'') = Ok ()" by code_simp
  with sample_codecs sample_key_wf sample_header_new sample_voucher_new(1) show ?thesis
    unfolding fresh_voucher_def
    by (intro conjI exI [of _ Version1_1] exI [of _ "Guid (replicate 16 0)"] exI [of _ "[]"] exI [of _ "''dev''"]
        exI [of _ "sample_key [9]"] exI [of _ sample_hmac] exI [of _ sample_header]
        exI [of _ "X5Chain [X509 [4]]"]) simp_all
qed


text \<open>A PEM library: a block is five dashes, the characters of its tag each behind a 1, its bytes
  each behind a 2, and a 3.\<close>

definition sample_pem_encode :: "pem_block \<Rightarrow> string" where
  "sample_pem_encode b = ''-----'' @ concat (map (\<lambda>c. [CHR 0x01, c]) (fst b)) @
     concat (map (\<lambda>w. [CHR 0x02, char_of (unat w)]) (snd b)) @ [CHR 0x03]"

fun sample_pem_block :: "string \<Rightarrow> bytes \<Rightarrow> bytes \<Rightarrow> (pem_block \<times> bytes) option" where
  "sample_pem_block t d [] = None"
| "sample_pem_block t d [x] = (if x = 3 then Some ((t, d), []) else None)"
| "sample_pem_block t d (x # y # r) =
     (if x = 3 then Some ((t, d), y # r)
      else if x = 1 then sample_pem_block (t @ [char_of (unat y)]) d r
      else sample_pem_block t (d @ [y]) r)"

function sample_pem_many :: "bytes \<Rightarrow> pem_block list option" where
  "sample_pem_many bs =
     (if bs = [] then Some []
      else (case sample_pem_block [] [] (drop 5 bs) of
              None \<Rightarrow> None
            | Some (b, r) \<Rightarrow> if length r < length bs then map_option (Cons b) (sample_pem_many r) else None))"
  by pat_completeness auto
termination by (relation "measure length") auto

declare sample_pem_many.simps [simp del]

definition sample_pem :: pem_lib where
  "sample_pem = \<lparr>pem_parse = (\<lambda>bs. map_option fst (sample_pem_block [] [] (drop 5 bs))),
     pem_parse_many = sample_pem_many, pem_encode = sample_pem_encode\<rparr>"

lemma unat_of_char: "unat (word_of_nat (of_char c) :: u8) = of_char c"
  by (simp add: unat_of_nat)

lemma sample_pem_block_encode:
  "sample_pem_block [] [] (drop 5 (ascii (sample_pem_encode b) @ r)) = Some (b, r)"
proof -
  have bytes: "sample_pem_block t d (ascii (concat (map (\<lambda>w. [CHR 0x02, char_of (unat w)]) ws) @ [CHR 0x03]) @ r) =
      Some ((t, d @ ws), r)" for t d ws
  proof (induction ws arbitrary: d)
    case Nil
    show ?case by (cases r) simp_all
  qed simp
  have "sample_pem_block t d (ascii (concat (map (\<lambda>c. [CHR 0x01, c]) s) @ e) @ r) =
      sample_pem_block (t @ s) d (ascii e @ r)" for t d s e
    by (induction s arbitrary: t) (simp_all add: unat_of_char)
  from this [of "[]" "[]" "fst b" "concat (map (\<lambda>w. [CHR 0x02, char_of (unat w)]) (snd b)) @ [CHR 0x03]"]
    bytes [of "fst b" "[]" "snd b"] show ?thesis
    by (simp add: sample_pem_encode_def)
qed

lemma sample_pem_doc: "pem_doc sample_pem"
proof -
  have "sample_pem_many (ascii (concat (map sample_pem_encode bs))) = Some bs" for bs
  proof (induction bs)
    case (Cons b bs)
    have "length (ascii (sample_pem_encode b)) > 0" "ascii (sample_pem_encode b) \<noteq> []"
      by (simp_all add: sample_pem_encode_def)
    with Cons sample_pem_block_encode [of b "ascii (concat (map sample_pem_encode bs))"] show ?case
      by (subst sample_pem_many.simps) simp
  qed (simp add: sample_pem_many.simps)
  then show ?thesis
    using sample_pem_block_encode [where r = "[]"]
    by (auto simp: pem_doc_def sample_pem_def sample_pem_encode_def)
qed


theorem voucher_without_chain_unreadable_witness:
  "\<exists>bs. voucher_ser sample (sample_voucher None [0xf6]) = Ok bs \<and>
    voucher_des sample bs = Err (ArrayParseError (UnsupportedMajorType 7))"
  by (rule voucher_without_chain_unreadable [OF sample_codecs sample_voucher_new(2)])

text \<open>The sample voucher has no entries, so its owner is the manufacturer.\<close>

lemma sample_voucher_iter: "iter_all sample (sample_voucher c cb) = Ok (map Ok [])"
  unfolding iter_all_Ok_iff by (simp add: chain_ok_def sample_voucher_def array_len_def new_empty_def)

lemma sample_guid_des: "guid_des sample (bstr (replicate 16 0)) = Ok (Guid (replicate 16 0))"
  using unbstr_bstr [of "replicate 16 0" "[]"]
  by (simp add: guid_des_def serde_des_def sample_def bytes_codec_def codec_of_def guid_try_from_def
      bstr16_check_def)

lemma sample_string_des: "serde_des (c_string sample) (bstr (ascii ''dev'')) = Ok ''dev''"
  using string_item by (intro serde_roundtrip)
    (simp_all add: sample_codec_defs item_codec_def ascii_def)

lemma sample_hdr_info: "\<exists>h. get_hdr_info_hash sample sample_header Sha256 = Ok h \<and> length (hash_value h) = 32"
  using sample_guid_des sample_string_des
  by (simp add: get_hdr_info_hash_def array_get_nth sample_header_def sample_ws_def hash_from_data_def)
     (simp add: sample_def pad_def)

lemma sample_bytebuf_des: "length b < 2 ^ 63 \<Longrightarrow> serde_des (c_bytebuf sample) (bstr b) = Ok b"
  using unbstr_bstr [of b "[]"] by (simp add: serde_des_def sample_def bytes_codec_def codec_of_def)

lemma sample_hdr_hash:
  "\<exists>h. last_hash_and_owner sample (sample_voucher c cb) = Ok (h, sample_key [9]) \<and> length (hash_value h) = 32"
proof -
  have "md_hash sample md d = pad md d" for md d by (simp add: sample_def)
  with sample_bytebuf_des [of sample_header_bytes] sample_header_length show ?thesis
    by (simp add: last_hash_and_owner_def hdr_hash_def sample_voucher_def array_is_empty_def array_get_nth
      array_get_raw_def new_empty_def voucher_hash_type_def sample_hmac_def hash_from_data_def
      sample_header_def array_len_def check_bounds_def nth_or_panic_def pad_def)
qed

lemma sample_payload_ser:
  assumes "length (hash_value lh) = 32" "length (hash_value hi) = 32"
  shows "\<exists>pb. ov_payload_ser sample \<lparr>hash_previous_entry = lh, hash_header_info = hi, extra = None,
     public_key = sample_key [5]\<rparr> = Ok pb \<and> length pb = 101"
  using assms
  by (simp add: ov_payload_ser_def sample_codec_defs entry_enc_def hash_tuple_def key_tuple_def
      sample_key_def bstr_def)

lemma sample_extend_size:
  "\<exists>v'. voucher_extend sample (sample_voucher c cb) (PrivKey [9]) None (sample_key [5]) = Ok v' \<and>
     tag (ov_contents v') = None \<and> length (contents (ov_contents v')) = 5 \<and>
     length (concat (contents (ov_contents v'))) \<le> 1000 + length cb \<and>
     ov_device_certificate_chain v' = c \<and> ov_header v' = sample_header"
proof -
  obtain hi where hi: "get_hdr_info_hash sample sample_header Sha256 = Ok hi" "length (hash_value hi) = 32"
    using sample_hdr_info by blast
  obtain lh where lh: "last_hash_and_owner sample (sample_voucher c cb) = Ok (lh, sample_key [9])"
      "length (hash_value lh) = 32"
    using sample_hdr_hash by blast
  obtain pb where pb: "ov_payload_ser sample \<lparr>hash_previous_entry = lh, hash_header_info = hi, extra = None,
      public_key = sample_key [5]\<rparr> = Ok pb" "length pb = 101"
    using sample_payload_ser [OF lh(2) hi(2)] by blast
  have new: "cosesign_new sample (Ok pb) None (PrivKey [9]) = Ok (sample_message pb [9])"
    using pb(2) by (intro sample_message_new) simp_all
  obtain bs where bs: "cosesign_ser sample (sample_message pb [9]) = Ok bs" "length bs = 132"
    using pb(2) by (simp add: cosesign_ser_def sample_message_def serialize_cose_items sign_items_def header_item_def bstr_def)
  have es: "serialize_to_writer sample \<lparr>tag = None, header = None, contents = [bs]\<rparr> = Ok (0x81 # bs)"
    by (simp add: serialize_to_writer_def encode_item_start_def MASK_VAL_def)
  have eq: "public_eq sample (PKey [9]) (public_of sample (PrivKey [9]))" by (simp add: sample_def)
  have v: "ov_header (sample_voucher c cb) = sample_header" "voucher_hash_type (sample_voucher c cb) = Sha256"
    "ov_entries (sample_voucher c cb) = new_empty" "length (contents (ov_contents (sample_voucher c cb))) = 5"
    by (simp_all add: sample_voucher_def voucher_hash_type_def sample_hmac_def)
  show ?thesis unfolding voucher_extend_def v
    using hi(1) lh(1) pb(1) new bs es eq v(4)
    by (simp add: matches_pkey_def sample_key_def ov_payload_new_def ov_entry_ser_def array_push_def
        new_empty_def array_set_def check_bounds_def set_or_panic_def)
       (simp add: sample_voucher_def sample_header_bytes_def sample_ws_def bstr_def ascii_def)
qed

lemma sample_extend:
  "\<exists>v'. voucher_extend sample (sample_voucher c cb) (PrivKey [9]) None (sample_key [5]) = Ok v'"
  using sample_extend_size by blast

theorem iter_entries_iff_chain_witness:
  "\<exists>v' p. voucher_extend sample (sample_voucher None [0xf6]) (PrivKey [9]) None (sample_key [5]) = Ok v' \<and>
     entry_ok sample v' 0 (oh_manufacturer_public_key (ov_header v')) p \<and> public_key p = sample_key [5]"
proof -
  obtain v' where v': "voucher_extend sample (sample_voucher None [0xf6]) (PrivKey [9]) None (sample_key [5]) = Ok v'"
    using sample_extend by blast
  have "chain_ok sample (sample_voucher None [0xf6]) []" by (rule sample_voucher_iter [unfolded iter_all_Ok_iff])
  from extend_chain [OF sample_cose sample_memcmp sample_entry sample_key_wf this v'] obtain p where
    p: "iter_all sample v' = Ok (map Ok [p])" "public_key p = sample_key [5]"
    by (auto simp: iter_all_Ok_iff simp del: list.map)
  from iter_entries_iff_chain [THEN iffD1, OF p(1)] p(2) v' show ?thesis by auto
qed

theorem extend_verifies_witness:
  "\<exists>v' p. voucher_extend sample (sample_voucher None [0xf6]) (PrivKey [9]) None (sample_key [5]) = Ok v' \<and>
     iter_all sample v' = Ok (map Ok [p]) \<and> public_key p = sample_key [5] \<and> extra p = None"
  using sample_extend extend_verifies [OF sample_cose sample_memcmp sample_entry sample_key_wf sample_voucher_iter]
  by fastforce


end
