(* ===== verification/Server_Witnesses.thy ===== *)
theory Server_Witnesses
  imports Witnesses
begin

text \<open>
  Applications of the theorems about servers to concrete data: a session library whose sessions are
  association lists, the library record \<open>sample\<close>, and a directory on which every system call succeeds.
\<close>

section \<open>A session library\<close>

type_synonym sample_session = "string \<times> (string \<times> session_value) list"

definition sample_http :: "sample_session http_lib" where
  "sample_http = \<lparr>
     ses_new = (\<lambda>r. (replicate (Suc r) (CHR ''A''), [])),
     ses_get = (\<lambda>s k. map_of (snd s) k),
     ses_insert = (\<lambda>s k v. Some (fst s, (k, v) # snd s)),
     ses_remove = (\<lambda>s k. (fst s, filter (\<lambda>x. fst x \<noteq> k) (snd s))),
     ses_destroy = (\<lambda>s. s),
     ses_id = (\<lambda>s. if base64_text (fst s) then fst s else ''A''),
     ses_id_from_cookie = (\<lambda>c. if base64_text c then Some c else None),
     ses_validate = Some,
     ses_into_cookie = (\<lambda>s. Some (fst s)),
     enc0_new = (\<lambda>p k. Some (rev p)),
     enc0_open = (\<lambda>c k. Some (rev c))\<rparr>"

lemma map_of_filter_ne: "map_of (filter (\<lambda>x. fst x \<noteq> k) l) k' = (if k' = k then None else map_of l k')"
  by (induction l) auto

lemma sample_http_doc: "session_doc sample_http" "enc0_doc sample_http"
  by (auto simp: session_doc_def enc0_doc_def sample_http_def map_of_filter_ne)
     (simp_all add: base64_text_def)

text \<open>A codec for sessions that keeps the identifier and the last message.\<close>

definition session_ser :: "sample_session \<Rightarrow> bytes result" where
  "session_ser s = Ok ((case last_message sample_http s of None \<Rightarrow> [0, 0] | Some t \<Rightarrow> [1, message_type_u8 t]) @
     ascii (ses_id sample_http s))"

definition session_rd :: "bytes \<Rightarrow> (sample_session \<times> bytes) result" where
  "session_rd bs =
     (case bs of
        f # t # r \<Rightarrow>
          rbind (if f = 0 then Ok [] else
                   case message_type_try_from t of Ok m \<Rightarrow> Ok [(LAST_MSG_SES_KEY, SMsgType m)] | _ \<Rightarrow> Err EmptyData)
            (\<lambda>l. Ok ((map (\<lambda>w. char_of (unat w)) r, l), []))
      | _ \<Rightarrow> Err EmptyData)"

definition same_session :: "sample_session \<Rightarrow> sample_session \<Rightarrow> bool" where
  "same_session s s' \<longleftrightarrow> ses_id sample_http s' = ses_id sample_http s \<and>
     last_message sample_http s' = last_message sample_http s"

lemma message_type_decodes: "message_type_try_from (message_type_u8 t) = Ok t"
proof -
  have "message_type_from_u8 (message_type_u8 t) = Some t"
    unfolding message_type_from_u8_def by (rule find_unique) (simp_all add: all_message_types_complete)
  then show ?thesis by (simp add: message_type_try_from_def)
qed

lemma sample_session_env: "session_env sample_http (storable_by session_ser session_rd same_session) same_session"
proof -
  have "storable_by session_ser session_rd same_session s" for s
  proof -
    let ?i = "ses_id sample_http s"
    have b: "base64_text ?i" by (simp add: sample_http_def base64_text_def)
    show ?thesis
    proof (cases "last_message sample_http s")
      case None
      then have "session_ser s = Ok ([0, 0] @ ascii ?i)" by (simp add: session_ser_def)
      moreover have "deserialize_data session_rd ([0, 0] @ ascii ?i) = Ok (?i, [])"
        by (simp add: deserialize_data_def session_rd_def ascii_inverse)
      moreover have "same_session s (?i, [])"
        using None b by (simp add: same_session_def last_message_def get_msg_type_def) (simp add: sample_http_def)
      ultimately show ?thesis unfolding storable_by_def by blast
    next
      case (Some t)
      then have "session_ser s = Ok ([1, message_type_u8 t] @ ascii ?i)" by (simp add: session_ser_def)
      moreover have "deserialize_data session_rd ([1, message_type_u8 t] @ ascii ?i) =
          Ok (?i, [(LAST_MSG_SES_KEY, SMsgType t)])"
        by (simp add: deserialize_data_def session_rd_def ascii_inverse message_type_decodes)
      moreover have "same_session s (?i, [(LAST_MSG_SES_KEY, SMsgType t)])"
        using Some b by (simp add: same_session_def last_message_def get_msg_type_def) (simp add: sample_http_def)
      ultimately show ?thesis unfolding storable_by_def by blast
    qed
  qed
  with sample_http_doc(1) show ?thesis by (simp add: session_env_def same_session_def)
qed

section \<open>A run of the rendezvous server\<close>

definition sample_ud :: rendezvous_ud where
  "sample_ud = \<lparr>max_wait_seconds = 100, trusted_manufacturer_keys = None, trusted_device_keys = None\<rparr>"

abbreviation sample_sops :: "(fs_env, string, sample_session, dir) store_ops" where
  "sample_sops \<equiv> directory_ops session_ser session_rd"

abbreviation sample_endpoints :: "(sample_session, dir) endpoint set" where
  "sample_endpoints \<equiv> rv_endpoints sample sample_http sample_ud (device_ops sample) (\<lambda>E. clock_fine (now E))"

definition hello_endpoint :: "(sample_session, 'u) endpoint" where
  "hello_endpoint = endpoint sample to0_Hello to0_HelloAck (\<lambda>bs. rmap (\<lambda>_. Hello) (serde_des (c_to0_hello sample) bs))
     (\<lambda>m. serde_ser (c_hello_ack sample) (nonce_bytes (ha_nonce3 m))) (handle_hello sample sample_http (Some (replicate 16 7)))"

text \<open>A client without a session sends \<open>Hello\<close>.\<close>

definition hello_nonce :: string where
  "hello_nonce = nonce_fmt sample (Nonce (replicate 16 7))"

lemma hello_handled:
  "handle_phase sample sample_http sample_sops (calm_fs 5 []) 3 hello_endpoint None Map.empty [0x80] (d, u) =
     ((d, u), Ok (msg_to_response sample to0_HelloAck (serde_ser (c_hello_ack sample) (replicate 16 7)),
       \<lparr>ri_session = (''AAAA'', [(''nonce3'', SString hello_nonce)]),
        ri_req_hash = \<lparr>hash_type = Sha256, hash_value = 0x80 # replicate 31 0\<rparr>, ri_headers = Map.empty\<rparr>))"
proof -
  have h: "hash_from_data sample Sha256 [0x80] = Ok \<lparr>hash_type = Sha256, hash_value = 0x80 # replicate 31 0\<rparr>"
    by (simp add: hash_from_data_def) (simp add: sample_def pad_def eval_nat_numeral)
  have s: "ses_new sample_http 3 = (''AAAA'', [])" "ses_get sample_http (i, l) k = map_of l k"
    "ses_insert sample_http (i, l) k v = Some (i, (k, v) # l)" for i l k v
    by (simp_all add: sample_http_def eval_nat_numeral)
  have "serde_des (c_to0_hello sample) [0x80] = Ok ()" by (simp add: serde_des_def) (simp add: sample_def)
  then show ?thesis
    by (simp add: handle_phase_def hello_endpoint_def endpoint_def retrieve_session_def parse_request_def h s
        last_message_def get_msg_type_def session_keys_def get_keys_def encryption_met_def message_defs
        keys_unencrypted_def keys_is_some_def keys_is_none_def keys_decrypt_def handle_hello_def or_internal_def
        session_put_def nonce_new_def new_nonce_or_guid_val_def hello_nonce_def on_store_def on_data_def
        sbind_def lift_def)
qed

lemma calm_store: "ser v = Ok bs \<Longrightarrow> \<exists>d. so_store (directory_ops ser rd) (calm_fs t ps) Map.empty k v = (d, Ok ())"
  by (simp add: directory_ops_def dir_store_data_def create_file_def rename_file_def calm_fs_def Let_def
      tmp_path_def get_path_def)

lemma calm_ttl: "\<exists>d'. so_ttl (directory_ops ser rd) (calm_fs t ps) d k n = (d', Ok ())"
  by (cases "d (get_path k)") (simp_all add: directory_ops_def calm_fs_def Let_def dir_store_metadata_def)

abbreviation hello_info :: "sample_session request_info" where
  "hello_info \<equiv> \<lparr>ri_session = (''AAAA'', [(''nonce3'', SString hello_nonce)]),
     ri_req_hash = \<lparr>hash_type = Sha256, hash_value = 0x80 # replicate 31 0\<rparr>, ri_headers = Map.empty\<rparr>"

lemma hello_session:
  "ses_id sample_http (''AAAA'', l) = ''AAAA''" "ses_into_cookie sample_http (''AAAA'', l) = Some ''AAAA''"
  "ses_insert sample_http (''AAAA'', l) k v = Some (''AAAA'', (k, v) # l)"
  "session_keys sample_http (''AAAA'', [(LAST_MSG_SES_KEY, v), (''nonce3'', w)]) = keys_unencrypted"
  by (simp_all add: sample_http_def base64_text_def session_keys_def get_keys_def ENCRYPTION_KEYS_SES_KEY_def
      LAST_MSG_SES_KEY_def)

lemma hello_stored:
  "session_saved sample_http sample_sops (calm_fs 5 []) to0_HelloAck hello_info Map.empty"
  "\<exists>d. store_session sample_http sample_sops (calm_fs 5 []) to0_Hello to0_HelloAck res hello_info Map.empty =
     (d, Ok (res, Some ''AAAA'', keys_unencrypted))"
proof -
  let ?s = "(''AAAA'', [(LAST_MSG_SES_KEY, SMsgType (message_spec.message_type to0_HelloAck)), (''nonce3'', SString hello_nonce)])"
  obtain bs where "session_ser ?s = Ok bs" by (simp add: session_ser_def)
  with calm_store [of session_ser ?s bs session_rd 5 "[]" "''AAAA''"] obtain d1 where
    d1: "so_store sample_sops (calm_fs 5 []) Map.empty ''AAAA'' ?s = (d1, Ok ())" by blast
  obtain d2 where d2: "so_ttl sample_sops (calm_fs 5 []) d1 ''AAAA'' SESSION_TTL_SECS = (d2, Ok ())"
    using calm_ttl by blast
  show "session_saved sample_http sample_sops (calm_fs 5 []) to0_HelloAck hello_info Map.empty"
    using d1 by (simp add: session_saved_def answered_session_def hello_session)
  show "\<exists>d. store_session sample_http sample_sops (calm_fs 5 []) to0_Hello to0_HelloAck res hello_info Map.empty =
     (d, Ok (res, Some ''AAAA'', keys_unencrypted))"
    using d1 d2 by (simp add: store_session_def store_store_session_def hello_session sbind_def lift_def
        smap_err_def Let_def)
qed

lemma hello_run:
  "server_run sample sample_http sample_sops sample_endpoints (\<lambda>E. clock_ok (now E)) (\<lambda>st. st = (Map.empty, u))
     (fst (serve sample sample_http sample_sops (calm_fs 5 []) 3 hello_endpoint None Map.empty [0x80] (Map.empty, u)))
     [(''AAAA'', to0_Hello, to0_HelloAck)]"
proof -
  have ev: "new_events sample sample_http sample_sops (calm_fs 5 []) 3 hello_endpoint None Map.empty [0x80] (Map.empty, u) =
      [(''AAAA'', to0_Hello, to0_HelloAck)]"
    by (simp add: new_events_def hello_handled hello_session)
       (simp add: hello_endpoint_def endpoint_def hello_stored)
  have "hello_endpoint \<in> sample_endpoints" by (auto simp: rv_endpoints_def hello_endpoint_def)
  moreover have "clock_ok (now (calm_fs 5 []))"
    by (simp add: clock_ok_def calm_fs_def SESSION_TTL_SECS_def expiry_of_def)
  ultimately show ?thesis
    using run_request [OF run_start, of "\<lambda>st. st = (Map.empty, u)" "(Map.empty, u)" hello_endpoint sample_endpoints
        "\<lambda>E. clock_ok (now E)" "calm_fs 5 []" sample_http 3 sample sample_sops None Map.empty "[0x80]"] ev by simp
qed

theorem session_messages_in_order_witness:
  "run_from None (session_log ''AAAA'' [(''AAAA'', to0_Hello, to0_HelloAck)])"
  by (rule session_messages_in_order [OF hello_run sample_session_env])
     (auto intro: rv_endpoints_ok [OF sample_http_doc(1)] simp: tmp_plain_def dir_held_def)

lemma hello_served:
  "\<exists>d rs. fdo_request sample sample_http sample_sops (calm_fs 5 []) 3 to0_Hello to0_HelloAck
     (\<lambda>bs. rmap (\<lambda>_. Hello) (serde_des (c_to0_hello sample) bs))
     (\<lambda>m. serde_ser (c_hello_ack sample) (nonce_bytes (ha_nonce3 m))) (handle_hello sample sample_http (Some (replicate 16 7)))
     None Map.empty [0x80] (Map.empty, ()) = ((d, ()), Ok rs)"
proof -
  let ?res = "msg_to_response sample to0_HelloAck (serde_ser (c_hello_ack sample) (replicate 16 7))"
  obtain d where d: "store_session sample_http sample_sops (calm_fs 5 []) to0_Hello to0_HelloAck ?res hello_info Map.empty =
     (d, Ok (?res, Some ''AAAA'', keys_unencrypted))"
    using hello_stored(2) [of ?res] by (elim exE)
  have "enc (c_hello_ack sample) = bstr_opt" by (simp add: sample_def bytes_codec_def codec_of_def)
  then have "serde_ser (c_hello_ack sample) (replicate 16 7) = Ok (bstr (replicate 16 7))"
    by (simp add: serde_ser_def bstr_opt_def)
  then obtain v where v: "?res = Ok v" by (simp add: msg_to_response_def)
  have io: "ep_in hello_endpoint = to0_Hello" "ep_out hello_endpoint = to0_HelloAck"
    by (simp_all add: hello_endpoint_def endpoint_def)
  have "encrypt_and_generate_response sample sample_http to0_Hello to0_HelloAck v (Some ''AAAA'') keys_unencrypted =
      Ok (http_response sample to0_HelloAck v (Some ''AAAA''))"
    by (simp add: encrypt_and_generate_response_def message_defs keys_unencrypted_def keys_is_none_def keys_is_some_def
        keys_encrypt_def)
  with v d have "\<exists>rs. serve sample sample_http sample_sops (calm_fs 5 []) 3 hello_endpoint None Map.empty [0x80] (Map.empty, ()) =
      ((d, ()), Ok rs)"
    by (simp add: serve_def sbind_def hello_handled io on_store_def lift_def)
  then show ?thesis unfolding serve_endpoint [symmetric] hello_endpoint_def by blast
qed

theorem fdo_request_guarded_witness:
  "\<exists>t1 ses body msg. retrieve_session sample_http sample_sops (calm_fs 5 []) 3 to0_Hello None Map.empty = (t1, Ok ses) \<and>
    is_valid_previous_message to0_Hello (last_message sample_http ses) \<and>
    encryption_met to0_Hello (session_keys sample_http ses) \<and>
    keys_decrypt sample_http (session_keys sample_http ses) [0x80] = Ok body \<and>
    rmap (\<lambda>_. Hello) (serde_des (c_to0_hello sample) body) = Ok msg"
  using hello_served by (elim exE) (rule fdo_request_guarded, assumption, blast)

theorem response_encrypted_as_required_witness:
  "\<exists>(rs :: response) msg info0 info res val. handle_hello sample sample_http (Some (replicate 16 7)) info0 msg () = ((), Ok (res, info)) \<and>
    msg_to_response sample to0_HelloAck (serde_ser (c_hello_ack sample) (nonce_bytes (ha_nonce3 res))) = Ok val \<and>
    rs_body rs = val \<and> rs_message_type rs = 21"
proof -
  obtain d rs where rs: "fdo_request sample sample_http sample_sops (calm_fs 5 []) 3 to0_Hello to0_HelloAck
     (\<lambda>bs. rmap (\<lambda>_. Hello) (serde_des (c_to0_hello sample) bs))
     (\<lambda>m. serde_ser (c_hello_ack sample) (nonce_bytes (ha_nonce3 m))) (handle_hello sample sample_http (Some (replicate 16 7)))
     None Map.empty [0x80] (Map.empty, ()) = ((d, ()), Ok rs)"
    using hello_served by blast
  have "encryption_requirement to0_HelloAck = Some MustNotBeEncrypted" "message_spec.message_type to0_HelloAck = TO0HelloAck"
    by (simp_all add: message_defs)
  moreover from response_encrypted_as_required [OF rs sample_http_doc] obtain msg info0 info res val where
    "handle_hello sample sample_http (Some (replicate 16 7)) info0 msg () = ((), Ok (res, info))"
    "msg_to_response sample to0_HelloAck (serde_ser (c_hello_ack sample) (nonce_bytes (ha_nonce3 res))) = Ok val"
    "encryption_requirement to0_HelloAck = Some MustNotBeEncrypted \<longrightarrow> rs_body rs = val"
    "rs_message_type rs = message_type_u8 (message_spec.message_type to0_HelloAck)" by (elim exE conjE)
  ultimately show ?thesis
    by (intro exI [of _ rs] exI [of _ msg] exI [of _ info0] exI [of _ info] exI [of _ res] exI [of _ val]) simp
qed

section \<open>A registration\<close>


definition reg_nonce :: nonce where "reg_nonce = Nonce (replicate 16 7)"

lemma sample_sizes:
  "length b < 2 ^ 63 \<Longrightarrow> serde_ser (c_bytebuf sample) b = Ok (bstr b)"
  "n < 2 ^ 32 \<Longrightarrow> serde_ser (c_u32 sample) n = Ok (0x1a # to_be_bytes 4 n)"
  by (simp_all add: serde_ser_def sample_def bytes_codec_def u32_codec_def codec_of_def bstr_opt_def)

lemma sample_build:
  assumes "tag (ov_contents v) = None" "length (contents (ov_contents v)) = 5"
    and "length (concat (contents (ov_contents v))) \<le> 2000"
  shows "\<exists>m. build_owner_sign sample v 60 reg_nonce [] (PrivKey [5]) = Ok m"
proof -
  let ?vb = "0x85 # concat (contents (ov_contents v))" and ?nb = "bstr (replicate 16 7)"
  have vb: "voucher_ser sample v = Ok ?vb"
    using assms(1,2) by (simp add: voucher_ser_def serialize_to_writer_def encode_item_start_def MASK_VAL_def)
  have nb: "nonce_ser sample reg_nonce = Ok ?nb" by (simp add: nonce_ser_def reg_nonce_def sample_sizes)
  let ?wb = "0x1a # to_be_bytes 4 60"
  let ?db = "0x83 # ?vb @ ?wb @ ?nb"
  let ?d = "\<lparr>td_contents = \<lparr>tag = None, header = None, contents = [?vb, ?wb, ?nb]\<rparr>, td_ownership_voucher = v,
    td_wait_seconds = 60, td_nonce = reg_nonce\<rparr>"
  have d: "to0_data_new sample v 60 reg_nonce = Ok ?d"
    using vb nb by (simp add: to0_data_new_def build_array_rtraverse sample_sizes)
  have db: "to0_data_ser sample ?d = Ok ?db"
    by (simp add: to0_data_ser_def serialize_to_writer_def encode_item_start_def MASK_VAL_def)
  obtain h where h: "hash_from_data sample Sha384 ?db = Ok h" "length (hash_value h) = 48"
    by (simp add: hash_from_data_def) (simp add: sample_def pad_def)
  obtain p where p: "to1d_payload_ser sample \<lparr>to2_addresses = [], to1d_to_to0d_hash = h\<rparr> = Ok p" "length p < 2 ^ 63"
  proof -
    have "enc (c_to1d sample) = to1d_enc" by (simp add: sample_def codec_of_def)
    then show ?thesis using that h(2)
      by (auto simp: to1d_payload_ser_def serde_ser_def to1d_enc_def hash_enc_def bstr_opt_def hash_tuple_def bstr_def)
  qed
  have c: "cosesign_new sample (Ok p) None (PrivKey [5]) = Ok (sample_message p [5])"
    using p(2) by (intro sample_message_new) simp_all
  have "\<exists>cb. cosesign_ser sample (sample_message p [5]) = Ok cb"
    by (simp add: cosesign_ser_def sample_message_def serialize_cose_items sign_items_def)
  moreover have "length ?db < 2 ^ 63" using assms(3) by (simp add: bstr_def)
  then have "serde_ser (c_bytebuf sample) ?db = Ok (bstr ?db)" by (rule sample_sizes)
  ultimately have "\<exists>m. owner_sign_new sample ?db (sample_message p [5]) = Ok m"
    by (auto simp: owner_sign_new_def build_array_rtraverse)
  with d db h p c show ?thesis by (simp add: build_owner_sign_def)
qed

lemma sample_owner:
  obtains v where "voucher_extend sample chained_voucher (PrivKey [9]) None (sample_key [5]) = Ok v"
    "handed_on sample (Suc 0) v" "\<exists>ps. iter_all sample v = Ok (map Ok ps) \<and> public_key (last ps) = sample_key [5]"
    "\<exists>m. build_owner_sign sample v 60 reg_nonce [] (PrivKey [5]) = Ok m"
    "ov_device_certificate_chain v = Some (X5Chain [X509 [4]])" "oh_guid (ov_header v) = Guid (replicate 16 0)"
proof -
  obtain v where v: "voucher_extend sample chained_voucher (PrivKey [9]) None (sample_key [5]) = Ok v"
     "tag (ov_contents v) = None" "length (contents (ov_contents v)) = 5"
     "length (concat (contents (ov_contents v))) \<le> 1000 + length (0x81 # bstr [4])"
     "ov_device_certificate_chain v = Some (X5Chain [X509 [4]])" "ov_header v = sample_header"
    using sample_extend_size by blast
  have h: "handed_on sample (Suc 0) v"
    by (rule extended [OF made [OF sample_fresh] _ sample_key_wf v(1)]) simp
  have "chain_ok sample chained_voucher []" by (rule sample_voucher_iter [unfolded iter_all_Ok_iff])
  from extend_chain [OF sample_cose sample_memcmp sample_entry sample_key_wf this v(1)] obtain p where
    "chain_ok sample v [p]" "public_key p = sample_key [5]" by auto
  then have "iter_all sample v = Ok (map Ok [p]) \<and> public_key (last [p]) = sample_key [5]"
    by (simp only: iter_all_Ok_iff) simp
  then have i: "\<exists>ps. iter_all sample v = Ok (map Ok ps) \<and> public_key (last ps) = sample_key [5]" by blast
  have b: "\<exists>m. build_owner_sign sample v 60 reg_nonce [] (PrivKey [5]) = Ok m"
    using v(4) by (intro sample_build v(2,3)) (simp add: bstr_def)
  from that [OF v(1) h i b v(5)] v(6) show ?thesis by (simp add: sample_header_def)
qed

lemma sample_trust:
  "manufacturer_trusted sample sample_ud v = Ok True"
  "verify_device_chain sample sample_ud (X5Chain [X509 [4]]) = Ok (X509 [4])"
  "public_key_from_x509 sample (X509 [4]) = Ok (sample_key [4])"
proof -
  show "manufacturer_trusted sample sample_ud v = Ok True" by (simp add: manufacturer_trusted_def sample_ud_def)
  show "verify_device_chain sample sample_ud (X5Chain [X509 [4]]) = Ok (X509 [4])"
    by (simp add: verify_device_chain_def sample_ud_def insecure_verify_without_root_verification_def x5chain_verify_def)
  show "public_key_from_x509 sample (X509 [4]) = Ok (sample_key [4])"
    by (simp add: public_key_from_x509_def key_type_from_pkey_def sample_key_def) (simp add: sample_def)
qed

definition owner_info :: "sample_session request_info" where
  "owner_info = \<lparr>ri_session = (''AAAA'', [(''nonce3'', SString (nonce_fmt sample reg_nonce))]),
     ri_req_hash = \<lparr>hash_type = Sha256, hash_value = []\<rparr>, ri_headers = Map.empty\<rparr>"

lemma owner_info_nonce: "get_string sample_http (ri_session owner_info) ''nonce3'' = Some (nonce_fmt sample reg_nonce)"
  by (simp add: get_string_def owner_info_def) (simp add: sample_http_def)

lemma reg_nonce_length: "length (nonce_bytes reg_nonce) = 16" by (simp add: reg_nonce_def)

lemma sample_key_eq: "public_eq sample (pk_pkey (sample_key [5])) (public_of sample (PrivKey [5]))"
  by (simp add: sample_key_def) (simp add: sample_def)

text \<open>Storing an item that was read from a message, for the sample GUID.\<close>

lemma sample_guid_key: "guid_key sample (Guid (replicate 16 0)) = Some (hex_text (replicate 16 0))"
  by (simp add: guid_key_def) (simp add: sample_def)

lemma item_stores:
  assumes "cosesign_des sample data = Ok (si_to1d item)" "si_public_key item = sample_key [4]"
  shows "\<exists>d1 d2. store_device sample (device_ops sample) (calm_fs 5 []) (Guid (replicate 16 0)) item Map.empty = (d1, Ok ()) \<and>
    ttl_device sample (device_ops sample) (calm_fs 5 []) (Guid (replicate 16 0)) n d1 = (d2, Ok ())"
proof -
  obtain items h where items: "length items = 4" "cs_contents (si_to1d item) =
      \<lparr>tag = Some COSESIGN_TAG, header = h, contents = items\<rparr>"
    using cosesign_des_items [OF assms(1)] by metis
  have "enc (c_key sample) = key_enc" by (simp add: sample_def codec_of_def)
  then obtain kb where "public_key_ser sample (sample_key [4]) = Ok kb"
    by (simp add: public_key_ser_def serde_ser_def key_tuple_def sample_key_def key_enc_def bstr_opt_def)
  then have "\<exists>bs. stored_item_ser sample item = Ok bs"
    by (simp add: stored_item_ser_def build_array_rtraverse assms(2) cosesign_ser_def items(2)
        serialize_cose_items [OF items(1)])
       (simp add: serialize_to_writer_def encode_item_start_def MASK_VAL_def)
  then obtain d1 where "so_store (device_ops sample) (calm_fs 5 []) Map.empty (hex_text (replicate 16 0)) item = (d1, Ok ())"
    using calm_store [of "stored_item_ser sample" item] by metis
  moreover obtain d2 where "so_ttl (device_ops sample) (calm_fs 5 []) d1 (hex_text (replicate 16 0)) n = (d2, Ok ())"
    using calm_ttl by blast
  ultimately show ?thesis
    by (simp add: store_device_def ttl_device_def guid_fmt_def sample_guid_key)
qed


text \<open>A directory that holds one registered device, with the key \<open>[4]\<close>, from time 5 on for 60 seconds.\<close>

lemma sample_registration:
  obtains d item where "devices_registered sample sample_ud d" "si_public_key item = sample_key [4]"
    "dir_held (stored_item_read sample) d (hex_text (replicate 16 0)) = Some (item, Some (expiry_of 5 60))"
proof -
  obtain v where v: "voucher_extend sample chained_voucher (PrivKey [9]) None (sample_key [5]) = Ok v"
    "handed_on sample (Suc 0) v" "\<exists>ps. iter_all sample v = Ok (map Ok ps) \<and> public_key (last ps) = sample_key [5]"
    "\<exists>m. build_owner_sign sample v 60 reg_nonce [] (PrivKey [5]) = Ok m"
    "ov_device_certificate_chain v = Some (X5Chain [X509 [4]])" "oh_guid (ov_header v) = Guid (replicate 16 0)"
    by (rule sample_owner)
  from v(3,4) obtain ps m where ps: "chain_ok sample v ps" "public_key (last ps) = sample_key [5]"
    and m: "build_owner_sign sample v 60 reg_nonce [] (PrivKey [5]) = Ok m" by (auto simp: iter_all_Ok_iff)
  from handed_on_chain [OF v(2) sample_cose sample_memcmp sample_entry] ps(1)
  have s: "sendable_voucher sample v" and ne: "ps \<noteq> []" by (auto simp: chain_ok_def)
  have key: "public_eq sample (pk_pkey (public_key (last ps))) (public_of sample (PrivKey [5]))"
    using ps(2) sample_key_eq by simp
  have wf: "list_all wf_address []" by simp
  let ?i = "\<lambda>m'. \<lparr>si_public_key = sample_key [4], si_to1d = ow_to1d m'\<rparr>"
  from registration_checks [OF sample_to0 s ps(1) ne key wf reg_nonce_length m owner_info_nonce
      sample_trust(1) v(5) sample_trust(2,3)]
  obtain bs m' where b: "deserialize_data (owner_sign_read sample) bs = Ok m'"
    "ownersign_checks sample sample_http sample_ud owner_info m' = Ok (oh_guid (ov_header v), ?i m',
       min 60 (max_wait_seconds sample_ud))" by blast
  then have c: "ownersign_checks sample sample_http sample_ud owner_info m' = Ok (Guid (replicate 16 0), ?i m', 60)"
    using v(6) by (simp add: sample_ud_def)
  from owner_sign_to1d [OF b(1)] obtain data where data: "cosesign_des sample data = Ok (ow_to1d m')" ..
  with item_stores [of data "?i m'" 60] obtain d1 d2 where
    st: "store_device sample (device_ops sample) (calm_fs 5 []) (Guid (replicate 16 0)) (?i m') Map.empty = (d1, Ok ())"
    "ttl_device sample (device_ops sample) (calm_fs 5 []) (Guid (replicate 16 0)) 60 d1 = (d2, Ok ())" by auto
  have doc: "text_doc sample" "voucher_codecs sample" using sample_to0 by (simp_all add: to0_doc_def rv_doc_def)
  note stored = directory_items_stored [OF doc]
  have reg1: "devices_registered sample sample_ud d1"
    using devices.store_device_keeps [OF st(1) empty_registered stored _ _ ownersign_registered [OF c]] data sample_key_wf
    by simp
  obtain j where j: "dir_held (stored_item_read sample) d1 (hex_text (replicate 16 0)) = Some (j, None)" "same_item (?i m') j"
    using devices.store_device_holds [OF st(1) _ stored, of data] data sample_key_wf sample_guid_key
    by (auto simp: tmp_plain_def)
  have clock: "0 \<le> now (calm_fs 5 []) + 60 * 10 ^ 9" "expiry_of (now (calm_fs 5 [])) 60 < 2 ^ 63 * 10 ^ 9"
    by (simp_all add: calm_fs_def expiry_of_def)
  note ttl = devices.ttl_device_keeps [OF st(2) reg1 stored sample_guid_key j(1) clock]
  show ?thesis using that [OF ttl(1), of j] ttl(2) j(2) by (simp add: same_item_def calm_fs_def)
qed

theorem rendezvous_devices_registered_witness:
  "\<exists>item. registered sample sample_ud (hex_text (replicate 16 0)) item"
proof -
  obtain d item where d: "devices_registered sample sample_ud d"
    "dir_held (stored_item_read sample) d (hex_text (replicate 16 0)) = Some (item, Some (expiry_of 5 60))"
    using sample_registration by metis
  have run: "server_run sample sample_http sample_sops sample_endpoints (\<lambda>E. clock_ok (now E)) (\<lambda>st. st = (Map.empty, d))
     (Map.empty, d) []" by (rule run_start) simp
  have "rv_doc sample" "plain_key (hex_text (replicate 16 0))"
    using sample_to0 guid_key_plain [OF _ sample_guid_key] by (auto simp: to0_doc_def rv_doc_def)
  moreover have "max_wait_seconds sample_ud < 2 ^ 32" by (simp add: sample_ud_def)
  ultimately have "registered sample sample_ud (hex_text (replicate 16 0)) item"
    using d by (intro rendezvous_devices_registered [OF run]) auto
  then show ?thesis ..
qed

section \<open>A redirection\<close>

definition device_token :: cosesign where
  "device_token = sample_message (bstr (replicate 16 7) @ bstr (1 # replicate 16 0)) [4]"

lemma device_token_eat:
  "\<exists>eat. get_eat sample device_token (PKey [4]) = Ok eat \<and> eat_nonce eat = reg_nonce"
proof -
  let ?p = "bstr (replicate 16 7) @ bstr (1 # replicate 16 0)"
  have "length ?p < 2 ^ 63" by (simp add: bstr_def)
  then have "sample_read (0x84 # concat (sign_items [] ?p [4])) = Some ([], ?p, [4])" by (intro sample_read_sign) simp_all
  moreover have "cose_get sample = sample_get" "c_claims sample = claims_codec" by (simp_all add: sample_def)
  moreover have "dec claims_codec ?p = Some [10 \<mapsto> Bytes (replicate 16 7), 11 \<mapsto> Bytes (1 # replicate 16 0)]"
    by (simp add: claims_codec_def unbstr_bstr unbstr_item claims_of_def)
  ultimately have "get_eat sample device_token (PKey [4]) =
      eat_from_map sample [10 \<mapsto> Bytes (replicate 16 7), 11 \<mapsto> Bytes (1 # replicate 16 0)]"
    by (simp add: get_eat_def get_payload_def device_token_def sample_message_def sample_get_def serde_des_def)
  also have "\<exists>eat. \<dots> = Ok eat \<and> eat_nonce eat = reg_nonce"
    by (simp add: eat_from_map_def Let_def nonce_of_value_def nonce_try_from_def bstr16_check_def guid_try_from_def
        reg_nonce_def) (simp add: sample_def EAT_RAND_def)
  finally show ?thesis .
qed

definition device_info :: "sample_session request_info" where
  "device_info = \<lparr>ri_session = (''AAAA'', [(''nonce4'', SString (nonce_fmt sample reg_nonce)),
       (''device_guid'', SString (hex_text (replicate 16 0)))]),
     ri_req_hash = \<lparr>hash_type = Sha256, hash_value = []\<rparr>, ri_headers = Map.empty\<rparr>"

lemma device_info_session:
  "get_string sample_http (ri_session device_info) ''nonce4'' = Some (nonce_fmt sample reg_nonce)"
  "get_string sample_http (ri_session device_info) ''device_guid'' = Some (hex_text (replicate 16 0))"
  "guid_from_str sample (hex_text (replicate 16 0)) = Some (Guid (replicate 16 0))"
proof -
  show "get_string sample_http (ri_session device_info) ''nonce4'' = Some (nonce_fmt sample reg_nonce)"
    "get_string sample_http (ri_session device_info) ''device_guid'' = Some (hex_text (replicate 16 0))"
    by (simp_all add: get_string_def device_info_def) (simp_all add: sample_http_def)
  show "guid_from_str sample (hex_text (replicate 16 0)) = Some (Guid (replicate 16 0))"
    by (simp add: guid_from_str_def) (simp add: sample_def unhex_text_def unhex_hex)
qed

theorem redirect_authenticated_witness:
  "\<exists>d t' to1d item. handle_prove_to_rv sample sample_http (device_ops sample) (calm_fs 6 []) device_info
       (ProveToRV device_token) d = (t', Ok (RVRedirect to1d, device_info)) \<and>
     registered sample sample_ud (hex_text (replicate 16 0)) item \<and> to1d = si_to1d item"
proof -
  obtain d item where d: "devices_registered sample sample_ud d" "si_public_key item = sample_key [4]"
    "dir_held (stored_item_read sample) d (hex_text (replicate 16 0)) = Some (item, Some (expiry_of 5 60))"
    using sample_registration by metis
  let ?k = "hex_text (replicate 16 0)"
  have doc: "rv_doc sample" "plain_key ?k"
    using sample_to0 guid_key_plain [OF _ sample_guid_key] by (auto simp: to0_doc_def rv_doc_def)
  obtain d' r where ld: "dir_load_data (calm_fs 6 []) (stored_item_read sample) d ?k = (d', Ok r)"
    using dir_load_calm [OF d(3)] by blast
  then have "r = live (now (calm_fs 6 [])) (dir_held (stored_item_read sample) d ?k)" by (rule dir_load_result)
  then have r: "r = Some item" using d(3) by (simp add: calm_fs_def expiry_of_def)
  obtain eat where eat: "get_eat sample device_token (PKey [4]) = Ok eat" "eat_nonce eat = reg_nonce"
    using device_token_eat by blast
  have n: "nonce_from_str sample (nonce_fmt sample reg_nonce) = Ok reg_nonce" "nonce_eq sample reg_nonce reg_nonce = Ok True"
    using doc(1) reg_nonce_length by (auto intro: nonce_text_roundtrip simp: rv_doc_def nonce_eq_def memcmp_def memcmp_doc_def)
  have h: "handle_prove_to_rv sample sample_http (device_ops sample) (calm_fs 6 []) device_info
       (ProveToRV device_token) d = (d', Ok (RVRedirect (si_to1d item), device_info))"
    using ld r d(2) eat n
    by (simp add: handle_prove_to_rv_def device_info_session load_device_def guid_fmt_def sample_guid_key
        directory_ops_def sbind_lift_Ok smap_err_def sbind_def lift_def sample_key_def)
  have run: "server_run sample sample_http sample_sops sample_endpoints (\<lambda>E. clock_ok (now E)) (\<lambda>st. st = (Map.empty, d))
     (Map.empty, d) []" by (rule run_start) simp
  have "max_wait_seconds sample_ud < 2 ^ 32" by (simp add: sample_ud_def)
  from redirect_authenticated [OF run doc(1) this _, of "calm_fs 6 []" device_info "ProveToRV device_token" d'
      "si_to1d item" device_info] d(1) h
  obtain g k item' where "guid_key sample g = Some k" "registered sample sample_ud k item'" "si_to1d item = si_to1d item'"
    "guid_from_str sample ?k = Some g"
    by (auto simp: device_info_session)
  with h have "handle_prove_to_rv sample sample_http (device_ops sample) (calm_fs 6 []) device_info
       (ProveToRV device_token) d = (d', Ok (RVRedirect (si_to1d item'), device_info))"
    "registered sample sample_ud ?k item'"
    by (auto simp: device_info_session sample_guid_key)
  then show ?thesis by blast
qed

end
