(* ===== verification/To2_Witnesses.thy ===== *)
theory To2_Witnesses
  imports Server_Witnesses "HOL-Library.Countable"
begin

text \<open>
  Applications of the theorems about TO2 to concrete data, with the library records \<open>sample\<close> and
  \<open>sample_http\<close>: a stored session of a device that has proved itself, a complete key exchange between
  the handlers of the owner and the device, and a TO2 of the device against a scripted network.
\<close>

section \<open>Sessions that are stored completely\<close>

instance x509 :: countable by countable_datatype
instance x5chain :: countable by countable_datatype
instance nonce :: countable by countable_datatype
instance message_type :: countable by countable_datatype
instance cipher_suite :: countable by countable_datatype
instance kex_suite :: countable by countable_datatype
instance key_exchange :: countable by countable_datatype
instance derived_keys :: countable by countable_datatype

instance encryption_keys_ext :: (countable) countable
proof (rule countable_classI)
  fix x y :: "'a encryption_keys_ext"
  assume "to_nat (ek_cipher_suite x, ek_keys x, encryption_keys.more x) =
    to_nat (ek_cipher_suite y, ek_keys y, encryption_keys.more y)"
  then show "x = y" by simp
qed

instance session_value :: countable by countable_datatype

definition full_ser :: "sample_session \<Rightarrow> bytes result" where
  "full_ser s = Ok (min_be (to_nat s))"

definition full_rd :: "bytes \<Rightarrow> (sample_session \<times> bytes) result" where
  "full_rd bs = Ok (from_nat (from_be_bytes bs), [])"

lemma full_env:
  "session_env sample_http (storable_by full_ser full_rd (=)) (=)" "same_values sample_http (=)"
proof -
  have "storable_by full_ser full_rd (=) s" for s
    by (simp add: storable_by_def full_ser_def full_rd_def deserialize_data_def min_be_props)
  then show "session_env sample_http (storable_by full_ser full_rd (=)) (=)"
    by (simp add: session_env_def sample_http_doc)
  show "same_values sample_http (=)" by (simp add: same_values_def)
qed

section \<open>Directories with one file\<close>

definition one_file :: "string \<Rightarrow> bytes \<Rightarrow> dir" where
  "one_file k bs = [get_path k \<mapsto> \<lparr>is_file = True, f_data = bs, f_xattrs = Map.empty\<rparr>]"

lemma one_file_held: "deserialize_data rd bs = Ok v \<Longrightarrow> dir_held rd (one_file k bs) k = Some (v, None)"
  by (simp add: dir_held_def one_file_def read_value_def)

lemma one_file_plain: "tmp_plain (one_file k bs)"
  by (simp add: tmp_plain_def one_file_def)

lemma one_file_load:
  assumes "deserialize_data rd bs = Ok v"
  shows "so_load (directory_ops ser rd) (calm_fs t ps) (one_file k bs) k = (one_file k bs, Ok (Some v))"
  using assms
  by (simp add: directory_ops_def dir_load_data_def one_file_def read_value_def calm_fs_def Let_def)

text \<open>The device of the sample voucher, and the voucher as the owner's store holds it.\<close>

abbreviation sample_guid :: guid where "sample_guid \<equiv> Guid (replicate 16 0)"

abbreviation sample_guid_text :: string where "sample_guid_text \<equiv> hex_text (replicate 16 0)"

lemma sample_guid_from_str: "guid_from_str sample sample_guid_text = Some sample_guid"
  by (rule device_info_session(3))

lemma stored_voucher:
  obtains bs v where "voucher_ser sample chained_voucher = Ok bs" "deserialize_data (voucher_read sample) bs = Ok v"
    "ov_device_certificate_chain v = Some (X5Chain [X509 [4]])" "same_voucher chained_voucher v"
proof -
  obtain bs where bs: "voucher_ser sample chained_voucher = Ok bs"
    "\<And>r. \<exists>x'. voucher_read sample (bs @ r) = Ok (x', r) \<and> same_voucher chained_voucher x'"
    using vouchers.sendable_ser [OF sample_fresh] by blast
  then obtain v where v: "voucher_read sample bs = Ok (v, [])" "same_voucher chained_voucher v"
    by (metis append_Nil2)
  then have "v = chained_voucher\<lparr>ov_contents := ov_contents v, ov_header := ov_header v\<rparr>"
    by (simp add: same_voucher_def)
  then have "ov_device_certificate_chain v = ov_device_certificate_chain
      (chained_voucher\<lparr>ov_contents := ov_contents v, ov_header := ov_header v\<rparr>)" by simp
  then have "ov_device_certificate_chain v = Some (X5Chain [X509 [4]])" by (simp add: sample_voucher_def)
  with v bs(1) that show ?thesis by (simp add: deserialize_data_def)
qed

lemma sample_device_key:
  assumes "ov_device_certificate_chain v = Some (X5Chain [X509 [4]])"
  shows "device_key sample v = Ok (PKey [4])"
  using assms by (simp add: device_key_def leaf_certificate_def) (simp add: sample_def)

section \<open>Tokens\<close>

definition headed_message :: "bytes \<Rightarrow> bytes \<Rightarrow> bytes \<Rightarrow> cosesign" where
  "headed_message h p kb =
     \<lparr>cs_contents = \<lparr>tag = Some COSESIGN_TAG, header = Some [0x84], contents = sign_items h p kb\<rparr>,
      cached_inner = CoseSign1 (0x84 # concat (sign_items h p kb))\<rparr>"

lemma headed_message_new:
  assumes "nonce_header (to_header_map un) = h" "length h < 2 ^ 63" "length p < 2 ^ 63" "length kb < 2 ^ 63"
  shows "cosesign_new sample (Ok p) (Some un) (PrivKey kb) = Ok (headed_message h p kb)"
proof -
  have "new_from_inner sample (CoseSign1 (0x84 # concat (sign_items h p kb))) = Ok (headed_message h p kb)"
    unfolding headed_message_def using sign_items_items [OF assms(2-4)]
    by (intro new_from_inner_items) (simp_all add: sign_items_def sample_def)
  moreover have "cose_sign sample p None (to_header_map un) (PrivKey kb) = sample_sign h p (PrivKey kb)"
    by (simp add: sample_def assms(1))
  moreover have "sample_sign h p (PrivKey kb) = Some (CoseSign1 (0x84 # concat (sign_items h p kb)))"
    using assms(2-4) by (simp add: sample_sign_def)
  ultimately show ?thesis by (simp add: cosesign_new_def)
qed

lemma headed_message_read:
  assumes "length h < 2 ^ 63" "length p < 2 ^ 63" "length kb < 2 ^ 63"
  shows "get_payload sample des (headed_message h p kb) (PKey kb) = des p"
    and "get_payload_unverified sample des (headed_message h p kb) = des p"
    and "length h = 16 \<Longrightarrow> key \<in> {CUPHNonce, EUPHNonce} \<Longrightarrow>
      get_unprotected_value sample (v_nonce sample) (headed_message h p kb) key = Ok (Some (Nonce h))"
proof -
  have c: "cose_get sample = sample_get" "cose_unprotected sample = sample_unprotected"
    "from_value (v_bytes sample) (Bytes h) = Some h"
    by (simp_all add: sample_def)
  note r = sample_read_sign [OF assms]
  show "get_payload sample des (headed_message h p kb) (PKey kb) = des p"
    "get_payload_unverified sample des (headed_message h p kb) = des p"
    using r by (simp_all add: get_payload_def get_payload_unverified_def c headed_message_def sample_get_def)
  assume "length h = 16" "key \<in> {CUPHNonce, EUPHNonce}"
  then show "get_unprotected_value sample (v_nonce sample) (headed_message h p kb) key = Ok (Some (Nonce h))"
    using r by (auto simp: get_unprotected_value_def header_value_def headed_message_def c sample_unprotected_def
        cbor_value_of_def v_nonce_def nonce_of_value_def nonce_try_from_def bstr16_check_def)
qed

definition sample_credential :: device_credential where
  "sample_credential = \<lparr>dc_active = True, dc_protver = Version1_1, dc_device_info = ''dev'', dc_guid = sample_guid,
     dc_rvinfo = [], dc_pubkey_hash = \<lparr>hash_type = Sha256, hash_value = [0x83, 3, 1] @ bstr [9] @ replicate 19 0\<rparr>,
     dc_key_storage = Plain [3] [4]\<rparr>"

definition proof_claims :: "bytes \<Rightarrow> bytes \<Rightarrow> bytes" where
  "proof_claims n6 pub = bstr n6 @ bstr (1 # replicate 16 0) @ bstr pub"

lemma sample_v_nonce: "to_value (v_nonce sample) n = Some (Bytes (nonce_bytes n))"
  by (simp add: v_nonce_def) (simp add: sample_def)

lemma sample_token:
  assumes "get_public sample kex = Ok pub" "length pub < 1000" "length n6 = 16" "length n7 = 16"
  shows "prove_device_token sample sample_credential kex (Nonce n6) (Nonce n7) =
    Ok (headed_message n7 (proof_claims n6 pub) [4])"
proof -
  have v: "to_value (v_prove_device sample) pub = Some (Bytes pub)" "to_value (v_bytes sample) b = Some (Bytes b)"
    "enc (c_claims sample) = claims_enc" "private_key_from_der sample [4] = Some (PrivKey [4])" for b
    by (simp_all add: sample_def claims_codec_def)
  let ?e = "\<lparr>payload = Some (Bytes pub), eat_nonce = Nonce n6, device_guid = 1 # replicate 16 0, other_claims = chm_new\<rparr>"
  have "new_eat (v_prove_device sample) (Some pub) (Nonce n6) sample_guid = Ok ?e"
    by (simp add: new_eat_def v as_ueid_def EAT_RAND_def)
  moreover have "eat_to_map sample ?e = Ok (claims_of n6 (1 # replicate 16 0) (Some pub))"
    by (simp add: eat_to_map_def chm_insert_def v claims_of_def chm_new_def)
  moreover have "claims_enc (claims_of n6 (1 # replicate 16 0) (Some pub)) = Some (proof_claims n6 pub)"
    using assms(2,3) by (subst claims_enc_of) (simp_all add: proof_claims_def)
  moreover have "cosesign_new sample (Ok (proof_claims n6 pub)) (Some [-259 \<mapsto> Bytes n7]) (PrivKey [4]) =
      Ok (headed_message n7 (proof_claims n6 pub) [4])"
    using assms(2-4) by (intro headed_message_new) (simp_all add: nonce_header_def proof_claims_def bstr_def)
  ultimately show ?thesis using assms(1)
    by (simp add: prove_device_token_def sample_credential_def chm_insert_def chm_new_def sample_v_nonce v
        get_signer_def from_eat_def serde_ser_def)
qed

lemma sample_token_eat:
  assumes "length pub < 1000" "length n6 = 16" "length n7 = 16"
  shows "\<exists>eat. get_eat sample (headed_message n7 (proof_claims n6 pub) [4]) (PKey [4]) = Ok eat \<and>
    eat_nonce eat = Nonce n6 \<and> payload_internal (v_prove_device sample) eat = Ok (Some pub)"
proof -
  have len: "length n7 < 2 ^ 63" "length (proof_claims n6 pub) < 2 ^ 63" "length [4 :: u8] < 2 ^ 63"
    using assms by (simp_all add: proof_claims_def bstr_def)
  have v: "from_value (v_prove_device sample) (Bytes b) = Some b" "from_value (v_bytes sample) (Bytes b) = Some b"
    "dec (c_claims sample) = dec claims_codec" for b
    by (simp_all add: sample_def)
  have "dec claims_codec (proof_claims n6 pub) = Some (claims_of n6 (1 # replicate 16 0) (Some pub))"
    using assms(1,2) by (simp add: claims_codec_def proof_claims_def unbstr_bstr unbstr_item)
  then have "get_eat sample (headed_message n7 (proof_claims n6 pub) [4]) (PKey [4]) =
      eat_from_map sample (claims_of n6 (1 # replicate 16 0) (Some pub))"
    by (simp add: get_eat_def headed_message_read [OF len] serde_des_def v)
  also have "\<exists>eat. \<dots> = Ok eat \<and> eat_nonce eat = Nonce n6 \<and> payload_internal (v_prove_device sample) eat = Ok (Some pub)"
    using assms(2) by (simp add: eat_from_map_def Let_def claims_of_def nonce_of_value_def nonce_try_from_def
        bstr16_check_def guid_try_from_def v EAT_RAND_def payload_internal_def)
  finally show ?thesis .
qed

section \<open>Keys\<close>

definition owner_kex :: key_exchange where "owner_kex = Ecdh Ecdh384 [1] (replicate 48 5)"
definition device_kex :: key_exchange where "device_kex = Ecdh Ecdh384 [2] (replicate 48 6)"

definition fixed_random :: "u8 \<Rightarrow> nat \<Rightarrow> bytes option" where
  "fixed_random b n = Some (replicate n b)"

lemma sample_kex_new:
  "key_exchange_new Ecdh384 (Some [1]) (fixed_random 5) = Ok owner_kex"
  "key_exchange_new Ecdh384 (Some [2]) (fixed_random 6) = Ok device_kex"
  by (simp_all add: key_exchange_new_def fixed_random_def owner_kex_def device_kex_def)

lemma sample_public:
  "get_public sample owner_kex = Ok (encode_ecdh_bstr (min_be 1) (min_be 2) (replicate 48 5))"
  "get_public sample device_kex = Ok (encode_ecdh_bstr (min_be 1) (min_be 2) (replicate 48 6))"
  by (simp_all add: owner_kex_def device_kex_def ossl_def) (simp_all add: sample_def)

lemma min_be_small: "min_be (Suc 0) = [1]" "min_be 2 = [2]" "min_be 3 = [3]"
  by (simp_all add: min_be.simps)

lemma sample_publics_length: "length (encode_ecdh_bstr (min_be 1) (min_be 2) (replicate 48 r)) < 1000"
  by (simp add: encode_ecdh_bstr_def min_be_small)

lemma sample_derive:
  assumes "s \<in> {[1], [2]}"
  shows "\<exists>k. derive_key sample (Ecdh Ecdh384 s (replicate 48 r)) side A256Gcm
    (encode_ecdh_bstr (min_be 1) (min_be 2) (replicate 48 r')) ni = Ok (Combined k)"
proof -
  have dec: "decode_ecdh_bstr (encode_ecdh_bstr (min_be 1) (min_be 2) (replicate 48 r')) =
      Ok (min_be 1, min_be 2, replicate 48 r')"
    by (rule decode_encode_ecdh) (simp_all add: min_be_small)
  have s: "bn_from_slice sample b = Some (from_be_bytes b)" "ec_from_affine sample g x y = Some (EcPoint x y)"
    "ec_check_key sample g p" "ec_private_from_der sample b = Some (EcPriv b)"
    "ec_mul sample g p k = Some (EcPoint 3 4)" "\<not> ec_is_infinity sample g (EcPoint 3 4)"
    "ec_is_on_curve sample g p = Some True" "ec_affine sample g (EcPoint x y) = Some (x, y)"
    "perform_kdf sample a n = Some (replicate n 7)" for b g x y p k a n
    by (simp_all add: sample_def)
  show ?thesis using dec by (cases side) (simp_all add: derive_key_def ossl_def s Let_def)
qed

section \<open>A session of a device that has proved itself\<close>

definition proven_keys :: encryption_keys where
  "proven_keys = (case derive_key sample owner_kex OwnerService A256Gcm
     (encode_ecdh_bstr (min_be 1) (min_be 2) (replicate 48 6)) False of
       Ok ks \<Rightarrow> keys_from_derived A256Gcm ks | _ \<Rightarrow> keys_unencrypted)"

definition proven_ses :: sample_session where
  "proven_ses = (''AAAA'', [(''proven_device'', SBool True), (''device_guid'', SString sample_guid_text),
     (''nonce6'', SNonce (Nonce (replicate 16 7))), (''num_service_info_loops'', SU32 5),
     (LAST_MSG_SES_KEY, SMsgType TO2OwnerServiceInfo), (ENCRYPTION_KEYS_SES_KEY, SKeys proven_keys)])"

definition proven_info :: "sample_session request_info" where
  "proven_info = \<lparr>ri_session = proven_ses, ri_req_hash = \<lparr>hash_type = Sha256, hash_value = []\<rparr>, ri_headers = Map.empty\<rparr>"

lemma proven_ses_reads:
  "get_bool sample_http proven_ses ''proven_device'' = Some True"
  "get_string sample_http proven_ses ''device_guid'' = Some sample_guid_text"
  "get_nonce sample_http proven_ses ''nonce6'' = Some (Nonce (replicate 16 7))"
  "get_u32 sample_http proven_ses ''num_service_info_loops'' = Some 5"
  "last_message sample_http proven_ses = Some TO2OwnerServiceInfo"
  "session_keys sample_http proven_ses = proven_keys"
  by (simp_all add: session_reads proven_ses_def LAST_MSG_SES_KEY_def ENCRYPTION_KEYS_SES_KEY_def)
     (simp_all add: sample_http_def)

lemma proven_ses_token:
  assumes "ov_device_certificate_chain v = Some (X5Chain [X509 [4]])"
  shows "token_proven sample v (Nonce (replicate 16 7)) proven_keys"
proof -
  let ?n = "replicate 16 7 :: bytes" and ?pub = "encode_ecdh_bstr (min_be 1) (min_be 2) (replicate 48 6)"
  obtain eat where eat: "get_eat sample (headed_message (replicate 16 8) (proof_claims ?n ?pub) [4]) (PKey [4]) = Ok eat"
    "eat_nonce eat = Nonce ?n" "payload_internal (v_prove_device sample) eat = Ok (Some ?pub)"
    using sample_token_eat [OF sample_publics_length, of ?n "replicate 16 8" 6] by auto
  obtain ks where ks: "derive_key sample owner_kex OwnerService A256Gcm ?pub False = Ok ks"
    using sample_derive [of "[1]"] unfolding owner_kex_def by blast
  have "nonce_eq sample (Nonce ?n) (Nonce ?n) = Ok True"
    using sample_memcmp by (simp add: nonce_eq_def memcmp_def memcmp_doc_def)
  then show ?thesis unfolding token_proven_def proven_keys_def ks res.case
    using sample_device_key [OF assms] eat ks by metis
qed

lemma full_read: "deserialize_data full_rd (min_be (to_nat s)) = Ok s"
  by (simp add: deserialize_data_def full_rd_def min_be_props)

text \<open>An owner server whose stores hold this session and the voucher of the device.\<close>

abbreviation proven_sessions :: dir where
  "proven_sessions \<equiv> one_file ''AAAA'' (min_be (to_nat proven_ses))"

lemma proven_start:
  obtains u where "to2_start sample sample_http full_rd (\<lambda>st. st = (proven_sessions, u))"
proof -
  obtain bs v where v: "deserialize_data (voucher_read sample) bs = Ok v"
    "ov_device_certificate_chain v = Some (X5Chain [X509 [4]])"
    by (rule stored_voucher)
  let ?u = "one_file sample_guid_text bs"
  let ?start = "\<lambda>st. st = (proven_sessions, ?u)"
  have iv: "initial_voucher sample ?start sample_guid_text v"
    unfolding initial_voucher_def using one_file_held [OF v(1), of sample_guid_text] by auto
  have "proven_session sample sample_http (initial_voucher sample ?start) proven_ses"
    unfolding proven_session_def proven_ses_reads
    using sample_guid_from_str sample_guid_key iv proven_ses_token [OF v(2)] by blast
  then have ok: "to2_session_ok sample sample_http (initial_voucher sample ?start) proven_ses"
    by (simp add: to2_session_ok_def proven_ses_reads word_le_nat_alt)
  have only: "s = proven_ses" if "dir_held full_rd proven_sessions k = Some (s, e)" for k s e
    using that full_read [of proven_ses]
    by (auto simp: dir_held_def one_file_def read_value_def split: if_splits)
  have "to2_start sample sample_http full_rd ?start"
    unfolding to2_start_def
  proof (intro allI impI, elim ssubst, intro conjI allI impI)
    fix k s e assume "dir_held full_rd (fst (proven_sessions, ?u)) k = Some (s, e)"
    then show "to2_session_ok sample sample_http (initial_voucher sample ?start) s" using only ok by fastforce
  qed (simp_all add: one_file_plain)
  then show ?thesis by (rule that)
qed

lemma proven_run:
  "server_run sample sample_http (directory_ops full_ser full_rd)
     (to2_endpoints sample sample_http UD (voucher_ops sample) dir_store_metadata) (\<lambda>E. clock_ok (now E))
     (\<lambda>st. st = (proven_sessions, u)) (proven_sessions, u) []"
  by (rule run_start) simp

lemma proven_held: "plain_key ''AAAA''" "dir_held full_rd proven_sessions ''AAAA'' = Some (proven_ses, None)"
  by (simp add: plain_key_def) (rule one_file_held [OF full_read])

definition ready_message :: device_service_info_ready where
  "ready_message = \<lparr>dsr_replacement_hmac = None, dsr_max_owner_service_info_size = None\<rparr>"

lemma proven_ready:
  "handle_device_service_info_ready sample_http proven_info m u = (u, Ok (OwnerServiceInfoReady None, proven_info))"
  by (simp add: handle_device_service_info_ready_def require_proven_def proven_info_def proven_ses_reads sbind_lift_Ok)

theorem service_info_for_proven_device_witness:
  "\<exists>(start :: dir \<times> dir \<Rightarrow> bool) (u :: dir). handle_device_service_info_ready sample_http proven_info ready_message u =
      (u, Ok (OwnerServiceInfoReady None, proven_info)) \<and>
    (\<exists>k v pk token eat b kex c ni ks. guid_key sample sample_guid = Some k \<and> initial_voucher sample start k v \<and>
      device_key sample v = Ok pk \<and> get_eat sample token pk = Ok eat \<and> eat_nonce eat = Nonce (replicate 16 7) \<and>
      payload_internal (v_prove_device sample) eat = Ok (Some b) \<and> derive_key sample kex OwnerService c b ni = Ok ks \<and>
      proven_keys = keys_from_derived c ks)"
proof -
  obtain u where u: "to2_start sample sample_http full_rd (\<lambda>st. st = (proven_sessions, u))" by (rule proven_start)
  have h: "dir_held full_rd (fst (proven_sessions, u)) ''AAAA'' = Some (ri_session proven_info, None)"
    using proven_held(2) by (simp add: proven_info_def)
  have r: "handle_device_service_info_ready sample_http proven_info ready_message (snd (proven_sessions, u)) =
      (u, Ok (OwnerServiceInfoReady None, proven_info))" by (simp add: proven_ready)
  from service_info_for_proven_device [OF proven_run full_env _ sample_memcmp u _ proven_held(1) h disjI1 [OF r]]
    sample_text obtain k v pk token eat b kex c ni ks where
    "guid_key sample sample_guid = Some k" "initial_voucher sample (\<lambda>st. st = (proven_sessions, u)) k v"
    "device_key sample v = Ok pk" "get_eat sample token pk = Ok eat" "eat_nonce eat = Nonce (replicate 16 7)"
    "payload_internal (v_prove_device sample) eat = Ok (Some b)" "derive_key sample kex OwnerService c b ni = Ok ks"
    "proven_keys = keys_from_derived c ks"
    by (auto simp: proven_info_def proven_ses_reads sample_guid_from_str)
  with proven_ready [of ready_message u] show ?thesis
    by (intro exI [of _ "\<lambda>st. st = (proven_sessions, u)"] exI [of _ u]) blast
qed

lemma proven_round:
  "\<exists>info'. handle_device_service_info sample sample_http api order proven_info msg u =
     (u, Ok (\<lparr>osi_is_more = False, osi_is_done = True, osi_service_info = []\<rparr>, info'))"
proof -
  have "ses_insert sample_http proven_ses k v = Some (''AAAA'', (k, v) # snd proven_ses)" for k v
    by (simp add: sample_http_def proven_ses_def)
  then show ?thesis
    by (simp add: handle_device_service_info_def require_proven_def session_guid_def proven_info_def proven_ses_reads
        sample_guid_from_str sbind_lift_Ok session_put_def perform_service_info_def MAX_SERVICE_INFO_LOOPS_def
        word_le_nat_alt word_less_nat_alt)
qed

definition second_message :: device_service_info where
  "second_message = \<lparr>dsi_is_more = False, dsi_service_info = []\<rparr>"

theorem service_info_rounds_bounded_witness:
  "\<exists>(u :: dir) info'. handle_device_service_info sample sample_http (\<lambda>_. None) id proven_info second_message u =
     (u, Ok (\<lparr>osi_is_more = False, osi_is_done = True, osi_service_info = []\<rparr>, info')) \<and>
     (\<exists>n. get_u32 sample_http (ri_session info') ''num_service_info_loops'' = Some n \<and> unat n = 6)"
proof -
  obtain u where u: "to2_start sample sample_http full_rd (\<lambda>st. st = (proven_sessions, u))" by (rule proven_start)
  have h: "dir_held full_rd (fst (proven_sessions, u)) ''AAAA'' = Some (ri_session proven_info, None)"
    using proven_held(2) by (simp add: proven_info_def)
  obtain info' where r: "handle_device_service_info sample sample_http (\<lambda>_. None) id proven_info second_message u =
     (u, Ok (\<lparr>osi_is_more = False, osi_is_done = True, osi_service_info = []\<rparr>, info'))"
    using proven_round [of "\<lambda>_. None" id second_message u] by (elim exE)
  then have r': "handle_device_service_info sample sample_http (\<lambda>_. None) id proven_info second_message (snd (proven_sessions, u)) =
     (u, Ok (\<lparr>osi_is_more = False, osi_is_done = True, osi_service_info = []\<rparr>, info'))" by simp
  have n: "get_u32 sample_http (ri_session proven_info) ''num_service_info_loops'' = Some 5"
    by (simp add: proven_info_def proven_ses_reads)
  from service_info_rounds_bounded [OF proven_run full_env sample_text u _ proven_held(1) h r']
  have "\<exists>n. get_u32 sample_http (ri_session info') ''num_service_info_loops'' = Some n \<and> unat n = 6"
    unfolding n by auto
  with r show ?thesis by blast
qed

section \<open>The owner answers a HelloDevice\<close>

lemma sample_ov_answer:
  assumes "num < 2 ^ 16" "length pub < 1000" "length (hash_value h) < 100"
  shows "\<exists>p bs. prove_ov_hdr_new sample sample_header_bytes num sample_hmac (Nonce (replicate 16 9))
      \<lparr>sig_type = StSECP384R1, sig_info_bytes = []\<rparr> pub h = Ok p \<and> prove_ov_hdr_ser sample p = Ok bs \<and> length bs < 3000"
proof -
  have c: "enc (c_u16 sample) n = (if n < 2 ^ 16 then Some (0x19 # to_be_bytes 2 n) else None)"
    "enc (c_hash sample) = hash_enc" "enc (c_siginfo sample) = siginfo_enc" "enc (c_bytebuf sample) = bstr_opt" for n
    by (simp_all add: sample_def u16_codec_def bytes_codec_def codec_of_def)
  have len: "length sample_header_bytes < 1000"
    by (simp add: sample_header_bytes_def sample_ws_def bstr_def ascii_def)
  have m: "unat MAX_MESSAGE_SIZE < 2 ^ 16" using unsigned_less [of MAX_MESSAGE_SIZE, where 'a = nat] by simp
  let ?ws = "[bstr sample_header_bytes, 0x19 # to_be_bytes 2 num, 0x82 # 2 # bstr (replicate 32 3), bstr (replicate 16 9),
      0x82 # 1 # bstr [], bstr pub, 0x82 # hash_type_idx (hash_type h) # bstr (hash_value h),
      0x19 # to_be_bytes 2 (unat MAX_MESSAGE_SIZE)]"
  have "build_array
       [serde_ser (c_bytebuf sample) sample_header_bytes, serde_ser (c_u16 sample) num, hash_ser sample sample_hmac,
        nonce_ser sample (Nonce (replicate 16 9)), sig_info_ser sample \<lparr>sig_type = StSECP384R1, sig_info_bytes = []\<rparr>,
        serde_ser (c_bytebuf sample) pub, hash_ser sample h, serde_ser (c_u16 sample) (unat MAX_MESSAGE_SIZE)] =
      Ok \<lparr>tag = None, header = None, contents = ?ws\<rparr>"
    using assms len m
    by (simp add: build_array_rtraverse nonce_ser_def hash_ser_def sig_info_ser_def serde_ser_def c
        hash_enc_def siginfo_enc_def bstr_opt_def hash_tuple_def sample_hmac_def)
  moreover have "serialize_to_writer sample \<lparr>tag = None, header = None, contents = ?ws\<rparr> = Ok (0x88 # concat ?ws)"
    by (simp add: serialize_to_writer_def encode_item_start_def MASK_VAL_def)
  moreover have "length (0x88 # concat ?ws) < 3000" using assms len by (simp add: bstr_def)
  ultimately show ?thesis by (simp add: prove_ov_hdr_new_def prove_ov_hdr_ser_def)
qed

definition owner_keys :: owner_ud where
  "owner_keys = \<lparr>ou_owner_key = PrivKey [5], ou_owner_pubkey = sample_key [5], ou_owner2_key = PrivKey [6],
     ou_owner2_pub = sample_key [6]\<rparr>"

definition hello_message :: hello_device where
  "hello_message = hello_device_new sample_guid (Nonce (replicate 16 9)) Ecdh384 A256Gcm
     \<lparr>sig_type = StSECP384R1, sig_info_bytes = []\<rparr>"

definition new_info :: "sample_session request_info" where
  "new_info = \<lparr>ri_session = (''AAAA'', []), ri_req_hash = \<lparr>hash_type = Sha256, hash_value = []\<rparr>, ri_headers = Map.empty\<rparr>"

definition hello_values :: "(string \<times> session_value) list" where
  "hello_values = [(''a_key_exchange'', SKex owner_kex), (''ciphersuite'', SCipher A256Gcm),
     (''nonce6'', SNonce (Nonce (replicate 16 7))), (''device_guid'', SString sample_guid_text)]"

lemma sample_session_ops:
  "ses_insert sample_http (i, l) k v = Some (i, (k, v) # l)" "ses_get sample_http (i, l) k = map_of l k"
  "ses_remove sample_http (i, l) k = (i, filter (\<lambda>x. fst x \<noteq> k) l)"
  by (simp_all add: sample_http_def)

abbreviation owner_pub :: bytes where
  "owner_pub \<equiv> encode_ecdh_bstr (min_be 1) (min_be 2) (replicate 48 5)"

abbreviation device_pub :: bytes where
  "device_pub \<equiv> encode_ecdh_bstr (min_be 1) (min_be 2) (replicate 48 6)"

lemma owner_hello:
  assumes "so_load ops E t sample_guid_text = (t, Ok (Some v))" "header_raw sample v = Ok sample_header_bytes"
    and "ov_header_hmac v = sample_hmac"
  shows "\<exists>p bs. handle_hello_device sample sample_http owner_keys ops E (Some [1]) (fixed_random 5) (Some (replicate 16 7))
      new_info hello_message t = (t, Ok (ProveOVHdr (headed_message (replicate 16 7) bs [5]),
        new_info\<lparr>ri_session := (''AAAA'', hello_values)\<rparr>)) \<and>
    prove_ov_hdr_new sample sample_header_bytes (num_entries v) sample_hmac (Nonce (replicate 16 9))
      \<lparr>sig_type = StSECP384R1, sig_info_bytes = []\<rparr> owner_pub \<lparr>hash_type = Sha256, hash_value = []\<rparr> = Ok p \<and>
    prove_ov_hdr_ser sample p = Ok bs \<and> length bs < 3000"
proof -
  have "num_entries v < 2 ^ 16" by (simp add: num_entries_def)
  from sample_ov_answer [OF this sample_publics_length, of "\<lparr>hash_type = Sha256, hash_value = []\<rparr>" 5] obtain p bs where
    p: "prove_ov_hdr_new sample sample_header_bytes (num_entries v) sample_hmac (Nonce (replicate 16 9))
      \<lparr>sig_type = StSECP384R1, sig_info_bytes = []\<rparr> owner_pub \<lparr>hash_type = Sha256, hash_value = []\<rparr> = Ok p"
      "prove_ov_hdr_ser sample p = Ok bs" "length bs < 3000" by auto
  have c: "cosesign_new sample (Ok bs) (Some [256 \<mapsto> Bytes (replicate 16 7), 257 \<mapsto> Null]) (PrivKey [5]) =
      Ok (headed_message (replicate 16 7) bs [5])"
    using p(3) by (intro headed_message_new) (simp_all add: nonce_header_def)
  have k: "to_value (v_key sample) x = Some Null" for x by (simp add: sample_def)
  have "load_device sample ops E sample_guid t = (t, Ok (Some v))"
    using assms(1) by (simp add: load_device_def guid_fmt_def sample_guid_key sbind_lift_Ok)
  with p c assms(2,3) have "handle_hello_device sample sample_http owner_keys ops E (Some [1]) (fixed_random 5) (Some (replicate 16 7))
      new_info hello_message t = (t, Ok (ProveOVHdr (headed_message (replicate 16 7) bs [5]),
        new_info\<lparr>ri_session := (''AAAA'', hello_values)\<rparr>))"
    by (simp add: handle_hello_device_def hello_message_def hello_device_new_def smap_err_def sbind_def lift_def
        guid_fmt_def sample_guid_key session_put_def sample_session_ops new_info_def or_internal_def sample_kex_new
        nonce_new_def new_nonce_or_guid_val_def sample_public chm_insert_def sample_v_nonce k owner_keys_def
        chm_new_def hello_values_def)
  with p show ?thesis by blast
qed

lemma same_sample_voucher:
  assumes "same_voucher chained_voucher v"
  shows "header_raw sample v = Ok sample_header_bytes" "ov_header_hmac v = sample_hmac"
proof -
  from assms have c: "contents (ov_contents v) = contents (ov_contents chained_voucher)"
    and v: "v = chained_voucher\<lparr>ov_contents := ov_contents v, ov_header := ov_header v\<rparr>"
    by (simp_all add: same_voucher_def same_array_def)
  from c have "length (contents (ov_contents v)) = 5" "contents (ov_contents v) ! 1 = bstr sample_header_bytes"
    by (simp_all add: sample_voucher_def)
  then show "header_raw sample v = Ok sample_header_bytes"
    by (simp add: header_raw_def array_get_nth sample_bytebuf_des [OF sample_header_length])
  have "ov_header_hmac v = ov_header_hmac (chained_voucher\<lparr>ov_contents := ov_contents v, ov_header := ov_header v\<rparr>)"
    using v by simp
  then show "ov_header_hmac v = sample_hmac" by (simp add: sample_voucher_def)
qed

section \<open>The owner answers a ProveDevice\<close>

lemma owner_proof:
  assumes "so_load ops E t sample_guid_text = (t, Ok (Some v))"
    and "ov_device_certificate_chain v = Some (X5Chain [X509 [4]])"
  shows "\<exists>res info3. handle_prove_device sample sample_http owner_keys ops E (Some (replicate 16 1))
      (new_info\<lparr>ri_session := (''AAAA'', hello_values)\<rparr>)
      (ProveDevice (headed_message (replicate 16 8) (proof_claims (replicate 16 7) device_pub) [4])) t = (t, Ok (res, info3))"
proof -
  let ?token = "headed_message (replicate 16 8) (proof_claims (replicate 16 7) device_pub) [4]"
  obtain eat where eat: "get_eat sample ?token (PKey [4]) = Ok eat"
    "eat_nonce eat = Nonce (replicate 16 7)" "payload_internal (v_prove_device sample) eat = Ok (Some device_pub)"
    using sample_token_eat [OF sample_publics_length, of "replicate 16 7" "replicate 16 8" 6] by auto
  have len: "length (replicate 16 8 :: bytes) < 2 ^ 63" "length (proof_claims (replicate 16 7) device_pub) < 2 ^ 63"
    "length [4 :: u8] < 2 ^ 63"
    by (simp_all add: proof_claims_def bstr_def encode_ecdh_bstr_def min_be_small)
  have tok: "check_device_token sample (Nonce (replicate 16 7)) (PKey [4]) ?token = Ok (Nonce (replicate 16 8), device_pub)"
    using eat headed_message_read(3) [OF len, of EUPHNonce] sample_memcmp
    by (simp add: check_device_token_def nonce_eq_def memcmp_def memcmp_doc_def)
  obtain ks where ks: "derive_key sample owner_kex OwnerService A256Gcm device_pub False = Ok ks"
    using sample_derive [of "[1]"] unfolding owner_kex_def by blast
  have "enc (c_setup sample) x = Some [0x80]" for x by (simp add: sample_def codec_of_def)
  then have "\<exists>new. cosesign_new sample (setup_payload_ser sample sp) None (PrivKey [6]) = Ok new" for sp
    using sample_message_new [of "[0x80]" "[6]"] by (simp add: setup_payload_ser_def serde_ser_def)
  then obtain new where new: "cosesign_new sample (setup_payload_ser sample \<lparr>sp_rendezvous_info = [],
      sp_guid = Guid (replicate 16 1), sp_nonce7 = Nonce (replicate 16 8), sp_owner2_key = sample_key [6]\<rparr>)
      None (PrivKey [6]) = Ok new" by blast
  have lv: "load_voucher sample ops E M sample_guid t = (t, Ok v)" for M
    using assms(1) by (simp add: load_voucher_def load_device_def guid_fmt_def sample_guid_key sbind_def lift_def smap_err_def)
  have "header_true Map.empty x = False" for x by (simp add: header_true_def)
  with lv tok ks new sample_device_key [OF assms(2)] show ?thesis
    by (simp add: handle_prove_device_def Let_def new_info_def session_guid_def session_value_or_def get_string_def
        get_nonce_def get_kex_def get_cipher_def sample_session_ops hello_values_def sample_guid_from_str
        sbind_def lift_def session_put_def or_internal_def set_encryption_keys_def guid_new_def
        new_nonce_or_guid_val_def owner_keys_def)
qed


end
