(* ===== verification/Device_Witness.thy ===== *)
theory Device_Witness
  imports To2_Witnesses
begin

text \<open>
  A TO2 of the device against a network that answers from a script: the messages of an owner that has
  the sample voucher, extended once.
\<close>

section \<open>A scripted network\<close>

fun scripted :: "http_reply list \<Rightarrow> http_request \<Rightarrow> http_reply list \<times> http_reply option" where
  "scripted [] rq = ([], None)"
| "scripted (r # rs) rq = (rs, Some r)"

definition reply :: "message_spec \<Rightarrow> bytes \<Rightarrow> http_reply" where
  "reply SM body = \<lparr>rp_status = 200,
     rp_headers = [''message-type'' \<mapsto> Some (nat_fmt (unat (message_type_u8 (message_spec.message_type SM))))],
     rp_body = Some body\<rparr>"

definition answered :: "message_spec \<Rightarrow> encryption_keys option \<Rightarrow> service_client \<Rightarrow> service_client" where
  "answered SM nk c = (after_request SM nk c)\<lparr>sc_non_interoperable_kdf_required :=
     Some (case sc_non_interoperable_kdf_required c of Some b \<Rightarrow> b | None \<Rightarrow> False)\<rparr>"

lemma scripted_request:
  assumes "is_valid_previous_message OM (sc_last_message_type c)"
    and "is_valid_previous_message SM (Some (message_spec.message_type OM))"
    and "request_encryption OM (sc_encryption_keys c) = Ok ()"
    and "response_encryption SM (sc_encryption_keys c) nk = Ok ()"
    and "ser m = Ok plain" "keys_encrypt H (sc_encryption_keys c) plain = Ok body"
    and "keys_decrypt H (case nk of Some k \<Rightarrow> k | None \<Rightarrow> sc_encryption_keys c) rbody = Ok rplain"
    and "des rplain = Ok x"
  shows "send_request L H scripted OM SM ser des m nk (reply SM rbody # w, c) = ((w, answered SM nk c), Ok x)"
proof -
  let ?r = "reply SM rbody"
  have b: "u8_from_str (nat_fmt (unat (message_type_u8 t))) = Some (unat (message_type_u8 t))" for t
    by (rule u8_text_roundtrip) (rule unat_byte_less)
  have mt: "reply_message_type ?r = Ok (message_spec.message_type SM)"
    by (simp add: reply_message_type_def reply_def b message_type_decodes)
  have kdf: "note_kdf ?r (after_request SM nk c) = answered SM nk c"
    by (cases nk; cases "sc_non_interoperable_kdf_required c")
       (simp_all add: note_kdf_def answered_def after_request_def reply_def)
  have tk: "note_token ?r d = Ok d" for d by (simp add: note_token_def reply_def)
  have "sc_encryption_keys (answered SM nk c) = (case nk of Some k \<Rightarrow> k | None \<Rightarrow> sc_encryption_keys c)"
    by (simp add: answered_def)
  then have "read_reply L H SM des (answered SM nk c) (message_spec.message_type SM) ?r = Ok x"
    using assms(7,8) by (simp add: read_reply_def is_success_def reply_def)
  with assms mt kdf tk show ?thesis unfolding send_request_Ok_iff by auto
qed

section \<open>The voucher as the device sees it\<close>

lemma device_header:
  obtains hdr where "ov_header_des sample sample_header_bytes = Ok hdr" "same_header sample_header hdr"
proof -
  have "check_device_info (trim ''dev'') = Ok ()" by code_simp
  from ov_header_roundtrip [OF sample_codecs _ sample_key_wf this sample_header_new] sample_header_ser [of sample]
  have "\<forall>r. \<exists>hdr'. ov_header_read sample (sample_header_bytes @ r) = Ok (hdr', r) \<and> same_header sample_header hdr'"
    by simp
  then obtain hdr where "ov_header_read sample (sample_header_bytes @ []) = Ok (hdr, [])" "same_header sample_header hdr"
    by blast
  with that show ?thesis by (simp add: ov_header_des_def)
qed

lemma device_voucher:
  obtains ebs e w p where "ov_entry_des sample ebs = Ok e" "ov_entry_ser sample e = Ok ebs" "one_item ebs"
    "from_parts sample Version1_1 sample_header_bytes sample_hmac \<lparr>tag = None, header = None, contents = [ebs]\<rparr> = Ok w"
    "chain_ok sample w [p]" "public_key p = sample_key [5]"
proof -
  let ?v = "sample_voucher None [0xf6]"
  obtain v' where v': "voucher_extend sample ?v (PrivKey [9]) None (sample_key [5]) = Ok v'"
    using sample_extend by blast
  have "chain_ok sample ?v []" by (rule sample_voucher_iter [unfolded iter_all_Ok_iff])
  from extend_chain [OF sample_cose sample_memcmp sample_entry sample_key_wf this v'] obtain p where
    p: "chain_ok sample v' [p]" "public_key p = sample_key [5]" by auto
  from extend_Ok [OF v'] obtain pl cs ebs where cs: "cosesign_new sample pl None (PrivKey [9]) = Ok cs"
    "cosesign_ser sample cs = Ok ebs" and ext: "extends_with sample ?v v' ebs" by metis
  obtain pb where pb: "pl = Ok pb" using cosesign_new_payload [OF cs(1)] by blast
  from cosesign_new_parts [OF sample_cose _ cs(1) [unfolded pb]] obtain items where items: "length items = 4"
      "list_all one_item items" "cs = \<lparr>cs_contents = \<lparr>tag = Some COSESIGN_TAG, header = Some [0x84], contents = items\<rparr>,
        cached_inner = cached_inner cs\<rparr>"
      "cose_from_bytes sample (0xd2 # 0x84 # concat items) = Some (cached_inner cs)"
    by (metis (no_types, lifting) option.case(1) plain_map_empty)
  have ebs: "ebs = 0xd2 # 0x84 # concat items"
    using cs(2) by (subst (asm) items(3)) (simp add: cosesign_ser_def serialize_cose_items items(1))
  let ?e = "OVEntry \<lparr>cs_contents = \<lparr>tag = Some COSESIGN_TAG, header = Some [0xd2, 0x84], contents = items\<rparr>,
     cached_inner = cached_inner cs\<rparr>"
  have e: "ov_entry_des sample ebs = Ok ?e" "ov_entry_ser sample ?e = Ok ebs" "one_item ebs"
    using cosesign_read_items [OF items(1,2,4), of "[]"] one_item_cose [OF items(1,2)]
    by (simp_all add: ebs ov_entry_des_def cosesign_des_def ov_entry_ser_def cosesign_ser_def serialize_cose_items items(1))
  obtain hdr where hdr: "ov_header_des sample sample_header_bytes = Ok hdr" "same_header sample_header hdr"
    by (rule device_header)
  let ?es = "\<lparr>tag = None, header = None, contents = [ebs]\<rparr>"
  have es: "serialize_to_writer sample ?es = Ok (0x81 # ebs)"
    by (simp add: serialize_to_writer_def encode_item_start_def MASK_VAL_def)
  let ?w = "\<lparr>ov_contents = \<lparr>tag = None, header = None, contents = [[1], bstr sample_header_bytes,
       [0x82, 2] @ bstr (replicate 32 3), [0xf6], 0x81 # ebs]\<rparr>, ov_protocol_version = Version1_1, ov_header = hdr,
     ov_header_hmac = sample_hmac, ov_device_certificate_chain = None, ov_entries = ?es\<rparr>"
  have c: "enc (c_version sample) Version1_1 = Some [1]" "enc (c_bytebuf sample) = bstr_opt" "enc (c_hash sample) = hash_enc"
    "enc (c_opt_x5chain sample) None = Some [0xf6]"
    by (simp_all add: sample_def version_codec_def bytes_codec_def codec_of_def opt_enc_def)
  have w: "from_parts sample Version1_1 sample_header_bytes sample_hmac ?es = Ok ?w"
    using sample_header_length c
    by (simp add: from_parts_def build_array_rtraverse es hdr(1) hash_ser_def opt_x5chain_ser_def serde_ser_def
        hash_enc_def bstr_opt_def hash_tuple_def sample_hmac_def)
  have "equiv_voucher v' ?w"
    using ext hdr(2)
    by (auto simp: extends_with_def equiv_voucher_def same_array_def sample_voucher_def new_empty_def es)
  with p(1) have "chain_ok sample ?w [p]" by (simp add: chain_ok_equiv)
  from that [OF e w this p(2)] show ?thesis .
qed

section \<open>The messages of the owner\<close>

text \<open>What the device reads of a message depends on the signed message inside only.\<close>

lemma read_cached:
  assumes "cached_inner c = cached_inner c'"
  shows "get_payload L des c k = get_payload L des c' k" "get_payload_unverified L des c = get_payload_unverified L des c'"
    "get_unprotected_value L vc c key = get_unprotected_value L vc c' key" "cosesign_verify L c k = cosesign_verify L c' k"
  using assms by (simp_all add: get_payload_def get_payload_unverified_def get_unprotected_value_def cosesign_verify_def)

lemma headed_message_sent:
  assumes "length h < 2 ^ 63" "length p < 2 ^ 63" "length kb < 2 ^ 63"
  obtains bs cs where "cosesign_ser sample (headed_message h p kb) = Ok bs" "cosesign_des sample bs = Ok cs"
    "cached_inner cs = cached_inner (headed_message h p kb)"
proof -
  let ?i = "sign_items h p kb"
  have i: "length ?i = 4" by (simp add: sign_items_def)
  have "cose_from_bytes sample (0xd2 # 0x84 # concat ?i) = Some (cached_inner (headed_message h p kb))"
    by (simp add: sample_def headed_message_def)
  from cosesign_read_items [OF i sign_items_items [OF assms] this, of "[]"] that show ?thesis
    by (simp add: cosesign_des_def cosesign_ser_def headed_message_def serialize_cose_items i)
qed

lemma entry_sent:
  assumes "ov_entry_des sample ebs = Ok e" "ov_entry_ser sample e = Ok ebs" "one_item ebs"
  obtains bs where "deserialize_data (ov_next_entry_read sample) bs = Ok \<lparr>one_entry_num = 0, one_entry = e\<rparr>"
    "ov_next_entry_ser sample \<lparr>one_entry_num = 0, one_entry = e\<rparr> = Ok bs"
proof -
  let ?n = "0x19 # to_be_bytes 2 0 :: bytes"
  have n: "serde_ser (c_u16 sample) 0 = Ok ?n"
    by (simp add: serde_ser_def sample_def u16_codec_def codec_of_def)
  have u16: "item_codec (c_u16 sample)" using sample_to2 by (simp add: to2_doc_def)
  have d: "serde_des (c_u16 sample) ?n = Ok 0" "one_item ?n"
    using serde_item_roundtrip [OF u16 n] serde_ser_item [OF u16 n] by simp_all
  have "list_all one_item [?n, ebs]" using assms(3) d(2) by simp
  from array_of_items [OF sample_byteorder this, of 2] obtain h where
    "serialize_to_writer sample \<lparr>tag = None, header = None, contents = [?n, ebs]\<rparr> = Ok (h @ concat [?n, ebs])"
    "deserialize_from_reader (Some 2) (h @ concat [?n, ebs]) = Ok (\<lparr>tag = None, header = Some h, contents = [?n, ebs]\<rparr>, [])"
    by auto
  with that [of "h @ concat [?n, ebs]"] d(1) assms(1,2) n show ?thesis
    by (simp add: deserialize_data_def ov_next_entry_read_def ov_next_entry_ser_def array_get_nth build_array_rtraverse)
qed

section \<open>The steps of the device\<close>

lemma request_rules:
  "request_encryption to2_HelloDevice keys_unencrypted = Ok ()" "request_encryption to2_GetOVNextEntry keys_unencrypted = Ok ()"
  "request_encryption to2_ProveDevice keys_unencrypted = Ok ()"
  "response_encryption to2_ProveOVHdr keys_unencrypted None = Ok ()"
  "response_encryption to2_OVNextEntry keys_unencrypted None = Ok ()"
  "response_encryption to2_SetupDevice keys_unencrypted (Some k) = Ok ()"
  "is_valid_previous_message to2_HelloDevice None" "is_valid_previous_message to2_ProveOVHdr (Some (message_spec.message_type to2_HelloDevice))"
  "is_valid_previous_message to2_GetOVNextEntry (Some (message_spec.message_type to2_ProveOVHdr))"
  "is_valid_previous_message to2_OVNextEntry (Some (message_spec.message_type to2_GetOVNextEntry))"
  "is_valid_previous_message to2_ProveDevice (Some (message_spec.message_type to2_OVNextEntry))"
  "is_valid_previous_message to2_SetupDevice (Some (message_spec.message_type to2_ProveDevice))"
  "keys_encrypt H keys_unencrypted x = Ok x" "keys_decrypt H keys_unencrypted x = Ok x"
  by (simp_all add: request_encryption_def response_encryption_def message_defs keys_unencrypted_def keys_is_none_def
      keys_is_some_def keys_encrypt_def keys_decrypt_def)

abbreviation client0 :: service_client where "client0 \<equiv> service_client_new Version1_1 ''http://owner''"
abbreviation client1 :: service_client where "client1 \<equiv> answered to2_ProveOVHdr None client0"
abbreviation client2 :: service_client where "client2 \<equiv> answered to2_OVNextEntry None client1"

lemma client_states:
  "sc_encryption_keys client0 = keys_unencrypted" "sc_last_message_type client0 = None"
  "sc_encryption_keys client1 = keys_unencrypted" "sc_last_message_type client1 = Some (message_spec.message_type to2_ProveOVHdr)"
  "sc_encryption_keys client2 = keys_unencrypted" "sc_last_message_type client2 = Some (message_spec.message_type to2_OVNextEntry)"
  "sc_non_interoperable_kdf_required client2 = Some False"
  by (simp_all add: service_client_new_def answered_def)

lemma pad_short: "length d \<le> md_size md \<Longrightarrow> pad md d = Some (d @ replicate (md_size md - length d) 0)"
  by (simp add: pad_def)

lemma sample_verifies:
  "verify_hmac sample sample_credential hb sample_hmac = Ok ()"
  "check_manufacturer_key sample sample_credential sample_header_bytes = Ok ()"
proof -
  have h: "hmac_sign sample [3] MdSha256 d = Some (replicate 32 3)" "memcmp_eq sample a a = Some True" for a d
    by (simp_all add: sample_def)
  show "verify_hmac sample sample_credential hb sample_hmac = Ok ()"
    by (simp add: verify_hmac_def sample_credential_def sample_hmac_def h hash_from_digest_def hash_eq_def memcmp_def)
  obtain hdr where hdr: "ov_header_des sample sample_header_bytes = Ok hdr" "same_header sample_header hdr"
    by (rule device_header)
  have "contents (oh_contents hdr) = sample_ws"
    using hdr(2) by (simp add: same_header_def same_array_def sample_header_def)
  moreover have "length ([0x83, 3, 1] @ bstr [9]) = 13" by (simp add: bstr_def)
  then have "md_hash sample MdSha256 ([0x83, 3, 1] @ bstr [9]) = Some ([0x83, 3, 1] @ bstr [9] @ replicate 19 0)"
    using pad_short [of "[0x83, 3, 1] @ bstr [9]" MdSha256] by (simp add: sample_def)
  ultimately have "array_get_hash sample (Some 6) (oh_contents hdr) 4 Sha256 = Ok (dc_pubkey_hash sample_credential)"
    by (simp add: array_get_hash_def array_get_raw_def check_bounds_def nth_or_panic_def sample_ws_def hash_from_data_def
        sample_credential_def)
  with hdr(1) show "check_manufacturer_key sample sample_credential sample_header_bytes = Ok ()"
    by (simp add: check_manufacturer_key_def manufacturer_public_key_hash_def sample_credential_def hash_compare_def
        hash_eq_def memcmp_def h)
qed

lemma device_hello:
  assumes "cosesign_des sample bs = Ok tok"
    and "get_payload_unverified sample (prove_ov_hdr_des sample) tok = Ok pl"
    and "po_ov_header pl = sample_header_bytes" "po_hmac pl = sample_hmac" "po_nonce5 pl = Nonce (replicate 16 9)"
    and "po_b_signature_info pl = \<lparr>sig_type = StSECP384R1, sig_info_bytes = []\<rparr>"
  shows "perform_hellodevice sample sample_http scripted sample_credential (Nonce (replicate 16 9)) StSECP384R1 Ecdh384 A256Gcm
    (reply to2_ProveOVHdr bs # w, client0) = ((w, client1), Ok (tok, pl, sample_hmac))"
proof -
  have "hello_device_ser sample m = Ok [0x80]" for m
    by (cases m) (simp add: hello_device_ser_def serde_ser_def sample_def codec_of_def)
  then have "send_request sample sample_http scripted to2_HelloDevice to2_ProveOVHdr (hello_device_ser sample)
      (\<lambda>bs. rmap ProveOVHdr (cosesign_des sample bs)) m None (reply to2_ProveOVHdr bs # w, client0) =
      ((w, client1), Ok (ProveOVHdr tok))" for m
    using assms(1) by (intro scripted_request [where rplain = bs and plain = "[0x80]" and body = "[0x80]"])
      (simp_all add: client_states request_rules)
  moreover have "nonce_eq sample (Nonce (replicate 16 9)) (Nonce (replicate 16 9)) = Ok True"
    using sample_memcmp by (simp add: nonce_eq_def memcmp_def memcmp_doc_def)
  ultimately show ?thesis
    using assms(2-6) by (simp add: perform_hellodevice_def Let_def sbind_def smap_err_def or_fail_def fail_if_def lift_def
        sample_verifies)
qed

lemma device_entries:
  assumes "deserialize_data (ov_next_entry_read sample) bs = Ok \<lparr>one_entry_num = 0, one_entry = e\<rparr>"
    and "ov_entry_ser sample e = Ok ebs"
  shows "get_ov_entries sample sample_http scripted 1 (reply to2_OVNextEntry bs # w, client1) =
    ((w, client2), Ok \<lparr>tag = None, header = None, contents = [ebs]\<rparr>)"
proof -
  have "enc (c_get_ov_next_entry sample) n = Some [n]" for n by (simp add: sample_def)
  then have "send_request sample sample_http scripted to2_GetOVNextEntry to2_OVNextEntry
      (\<lambda>m. serde_ser (c_get_ov_next_entry sample) (gone_entry_num m)) (deserialize_data (ov_next_entry_read sample))
      (GetOVNextEntry 0) None (reply to2_OVNextEntry bs # w, client1) =
      ((w, client2), Ok \<lparr>one_entry_num = 0, one_entry = e\<rparr>)"
    using assms(1) by (intro scripted_request) (simp_all add: client_states request_rules serde_ser_def)
  then show ?thesis
    using assms(2) by (simp add: get_ov_entries_def sbind_def smap_err_def lift_def array_push_def new_empty_def)
qed

lemma device_verifies:
  assumes "from_parts sample Version1_1 sample_header_bytes sample_hmac entries = Ok w" "chain_ok sample w [p]"
    and "public_key p = sample_key [5]" "po_ov_header pl = sample_header_bytes"
    and "get_payload sample (prove_ov_hdr_des sample) tok (PKey [5]) = Ok pl" "cosesign_verify sample to1d (PKey [5]) = Ok ()"
  shows "verify_owner sample tok pl sample_hmac to1d entries = Ok pl"
proof -
  obtain it where it: "iter_entries w = Ok it" by (simp add: iter_entries_def)
  have "iter_last sample w it = Ok (Some (Ok (last [p])))" using assms(2) it by (intro iter_last_Ok) simp_all
  with assms it show ?thesis by (simp add: verify_owner_def sample_key_def)
qed

lemma device_proves:
  assumes "cosesign_des sample bs = Ok sd" "cosesign_ser sample token = Ok tb"
    and "prove_device_token sample sample_credential device_kex n6 n7 = Ok token"
    and "keys = keys_from_derived A256Gcm (Combined k)"
  shows "perform_provedevice sample sample_http scripted sample_credential device_kex n6 n7 keys
    (reply to2_SetupDevice (rev bs) # w, client2) = ((w, answered to2_SetupDevice (Some keys) client2), Ok ())"
proof -
  have "keys_decrypt sample_http keys (rev bs) = Ok bs"
    by (simp add: keys_decrypt_def assms(4) keys_from_derived_def) (simp add: sample_http_def)
  then have "send_request sample sample_http scripted to2_ProveDevice to2_SetupDevice (\<lambda>m. cosesign_ser sample (pd_token m))
      (\<lambda>bs. rmap SetupDevice (cosesign_des sample bs)) (ProveDevice token) (Some keys)
      (reply to2_SetupDevice (rev bs) # w, client2) = ((w, answered to2_SetupDevice (Some keys) client2), Ok (SetupDevice sd))"
    using assms(1,2) by (intro scripted_request [where rplain = bs and plain = tb and body = tb])
      (simp_all add: client_states request_rules)
  with assms(3) show ?thesis by (simp add: perform_provedevice_def sbind_def smap_err_def lift_def)
qed

definition sample_random :: to2_random where
  "sample_random = \<lparr>tr_nonce5 = Some (replicate 16 9), tr_nonce7 = Some (replicate 16 8), tr_kex_gen = Some [2],
     tr_kex_random = fixed_random 6, tr_uuid = 0\<rparr>"

definition sample_to1d :: cosesign where
  "sample_to1d = headed_message [] [1] [5]"

lemma sample_authenticates:
  "\<exists>replies s'. to2_authenticate sample sample_http scripted sample_random sample_credential sample_to1d (replies, client0) =
     (s', Ok (Nonce (replicate 16 7), Nonce (replicate 16 8)))"
proof -
  obtain ebs e w p where ent: "ov_entry_des sample ebs = Ok e" "ov_entry_ser sample e = Ok ebs" "one_item ebs"
    and fp: "from_parts sample Version1_1 sample_header_bytes sample_hmac \<lparr>tag = None, header = None, contents = [ebs]\<rparr> = Ok w"
    "chain_ok sample w [p]" "public_key p = sample_key [5]"
    by (rule device_voucher)
  from sample_ov_answer [of 1 owner_pub "\<lparr>hash_type = Sha256, hash_value = []\<rparr>"] sample_publics_length [of 5] obtain a hb where
    a: "prove_ov_hdr_new sample sample_header_bytes 1 sample_hmac (Nonce (replicate 16 9))
      \<lparr>sig_type = StSECP384R1, sig_info_bytes = []\<rparr> owner_pub \<lparr>hash_type = Sha256, hash_value = []\<rparr> = Ok a"
      "prove_ov_hdr_ser sample a = Ok hb" "length hb < 3000" by auto
  have doc: "voucher_codecs sample" "item_codec (c_u16 sample)" "item_codec (c_siginfo sample)"
    using sample_to2 by (simp_all add: to2_doc_def)
  obtain pl where pl: "prove_ov_hdr_des sample hb = Ok pl" "po_ov_header pl = sample_header_bytes" "po_num_ov_entries pl = 1"
    "po_hmac pl = sample_hmac" "po_nonce5 pl = Nonce (replicate 16 9)"
    "po_b_signature_info pl = \<lparr>sig_type = StSECP384R1, sig_info_bytes = []\<rparr>" "po_a_key_exchange pl = owner_pub"
    using prove_ov_hdr_roundtrip [OF doc _ a(1,2)] by auto
  let ?n6 = "replicate 16 7 :: bytes" and ?n7 = "replicate 16 8 :: bytes"
  have len: "length ?n6 < 2 ^ 63" "length hb < 2 ^ 63" "length [5 :: u8] < 2 ^ 63" using a(3) by simp_all
  obtain tb tok where tok: "cosesign_des sample tb = Ok tok" "cached_inner tok = cached_inner (headed_message ?n6 hb [5])"
    using headed_message_sent [OF len] by metis
  note rd = read_cached [OF tok(2)] headed_message_read [OF len]
  have tk: "get_payload sample (prove_ov_hdr_des sample) tok (PKey [5]) = Ok pl"
    "get_payload_unverified sample (prove_ov_hdr_des sample) tok = Ok pl" "get_nonce6 sample tok = Ok (Nonce ?n6)"
    by (simp_all add: rd pl(1) get_nonce6_def)
  obtain nb where nb: "deserialize_data (ov_next_entry_read sample) nb = Ok \<lparr>one_entry_num = 0, one_entry = e\<rparr>"
    using entry_sent [OF ent] by metis
  have vt: "cosesign_verify sample sample_to1d (PKey [5]) = Ok ()"
    using sample_read_sign [of "[]" "[1]" "[5]"]
    by (simp add: cosesign_verify_def sample_to1d_def headed_message_def) (simp add: sample_def sample_get_def)
  obtain k where k: "derive_key sample device_kex Device A256Gcm (po_a_key_exchange pl) False = Ok (Combined k)"
    using sample_derive [of "[2]" 6 Device 5 False] unfolding pl(7) device_kex_def by blast
  let ?keys = "keys_from_derived A256Gcm (Combined k)" and ?token = "headed_message ?n7 (proof_claims ?n6 device_pub) [4]"
  have pd: "prove_device_token sample sample_credential device_kex (Nonce ?n6) (Nonce ?n7) = Ok ?token"
    by (rule sample_token [OF sample_public(2) sample_publics_length]) simp_all
  have "length ?n7 < 2 ^ 63" "length (proof_claims ?n6 device_pub) < 2 ^ 63" "length [4 :: u8] < 2 ^ 63"
    by (simp_all add: proof_claims_def bstr_def encode_ecdh_bstr_def min_be_small)
  then obtain sb sd where sd: "cosesign_des sample sb = Ok sd" "cosesign_ser sample ?token = Ok sb"
    using headed_message_sent by metis
  let ?rs = "[reply to2_ProveOVHdr tb, reply to2_OVNextEntry nb, reply to2_SetupDevice (rev sb)]"
  have "to2_authenticate sample sample_http scripted sample_random sample_credential sample_to1d (?rs, client0) =
      (([], answered to2_SetupDevice (Some ?keys) client2), Ok (Nonce ?n6, Nonce ?n7))"
    using device_hello [OF tok(1) tk(2) pl(2,4,5,6)] device_entries [OF nb ent(2)]
      device_verifies [OF fp pl(2) tk(1) vt] device_proves [OF sd pd refl, of k]
    by (simp add: to2_authenticate_def sbind_def reported_def get_nonce_for_def or_fail_def lift_def sample_random_def
        nonce_new_def new_nonce_or_guid_val_def tk(3) get_and_verify_ov_header_signature_def smap_err_def pl(3)
        perform_key_derivation_def the_client_def client_states sample_kex_new k)
  then show ?thesis by blast
qed

theorem device_accepts_owner_only_witness:
  "\<exists>replies s' pl kex ni ks. to2_authenticate sample sample_http scripted sample_random sample_credential sample_to1d (replies, client0) =
     (s', Ok (Nonce (replicate 16 7), Nonce (replicate 16 8))) \<and>
   owner_accepted sample sample_credential sample_to1d (Nonce (replicate 16 9)) pl \<and>
   derive_key sample kex Device A256Gcm (po_a_key_exchange pl) ni = Ok ks \<and>
   sc_encryption_keys (snd s') = keys_from_derived A256Gcm ks"
proof -
  obtain replies s' where a: "to2_authenticate sample sample_http scripted sample_random sample_credential sample_to1d
     (replies, client0) = (s', Ok (Nonce (replicate 16 7), Nonce (replicate 16 8)))"
    using sample_authenticates by blast
  have "nonce_new (tr_nonce5 sample_random) = Ok (Nonce (replicate 16 9))"
    by (simp add: sample_random_def nonce_new_def new_nonce_or_guid_val_def)
  with device_accepts_owner_only [OF a sample_memcmp sample_cose] a show ?thesis by fastforce
qed

end
