(* ===== verification/Manufacturing.thy ===== *)
theory Manufacturing
  imports Owner_Sessions
begin

text \<open>
  The manufacturing server: the handlers of DIUN (\<open>manufacturing-server/src/handlers/diun.rs\<close>) and DI
  (\<open>handlers/di.rs\<close>), with the messages of both protocols (\<open>data-formats/src/messages/v11/di.rs\<close> and
  \<open>diun.rs\<close>). DIUN proves the server to the device and receives the device's key over an encrypted
  session; DI makes the certificate and the voucher of the device. The data of the server are the store of
  vouchers and the store of public keys. The X.509 builder of OpenSSL is a part of the record \<open>M\<close>;
  random bytes are arguments.
\<close>

section \<open>Messages\<close>

record diun_connect =
  dcn_nonce_diun_1 :: nonce
  dcn_kex_suite :: kex_suite
  dcn_cipher_suite :: cipher_suite
  dcn_key_exchange :: bytes

datatype diun_accept = Accept (dac_token: cosesign)

datatype accept_payload = AcceptPayload (ap_key_exchange: bytes)

datatype request_key_parameters = RequestKeyParameters (rkp_tenant_id: "string option")

record provide_key_parameters =
  pkp_key_type :: public_key_type
  pkp_key_storage_types_allowed :: "key_storage_type list option"

record provide_key =
  prk_public_key :: bytes
  prk_public_key_storage :: key_storage_type

datatype diun_done = DiunDone (dd_mfg_string_type: mfg_string_type)

datatype app_start = AppStart (as_mfg_info: bytes)

datatype set_credentials = SetCredentials (scr_ov_header: ov_header)

datatype set_hmac = SetHMAC (sh_hmac: hash)

datatype di_done = DiDone

section \<open>Libraries\<close>

datatype x509_name = X509Name bytes
datatype asn1_time = Asn1Time bytes

text \<open>What the code gives to \<open>X509Builder\<close> before it signs.\<close>

record certificate_request =
  cr_version :: nat
  cr_not_after :: asn1_time
  cr_not_before :: asn1_time
  cr_issuer_name :: x509_name
  cr_subject_name :: x509_name
  cr_pubkey :: pkey
  cr_serial_number :: bytes

record mfg_lib =
  c_connect :: "(bytes \<times> kex_suite \<times> cipher_suite \<times> bytes) codec"
  c_accept_payload :: "bytes codec"
  c_key_request :: "string option codec"
  c_key_parameters :: "(public_key_type \<times> key_storage_type list option) codec"
  c_provide_key :: "(bytes \<times> key_storage_type) codec"
  c_diun_done :: "mfg_string_type codec"
  c_app_start :: "bytes codec"
  c_set_hmac :: "hash_tuple codec"
  c_di_done :: "unit codec"
  name_with_cn :: "string \<Rightarrow> x509_name option"
  x509_not_after :: "x509 \<Rightarrow> asn1_time"
  x509_subject_name :: "x509 \<Rightarrow> x509_name"
  days_from_now :: "nat \<Rightarrow> asn1_time option"
  x509_build :: "certificate_request \<Rightarrow> privkey \<Rightarrow> message_digest \<Rightarrow> x509 option"

text \<open>A certificate that was built carries the key it was built with, names its issuer and verifies under
  the key that signed it.\<close>

definition build_doc :: "'z openssl_scheme \<Rightarrow> mfg_lib \<Rightarrow> bool" where
  "build_doc L M \<longleftrightarrow>
     (\<forall>r k md cert. x509_build M r k md = Some cert \<longrightarrow>
        x509_public_key L cert = Some (cr_pubkey r) \<and>
        (\<forall>issuer. x509_subject_name M issuer = cr_issuer_name r \<longrightarrow> x509_issued L issuer cert) \<and>
        (\<forall>pk. public_eq L pk (public_of L k) \<longrightarrow> x509_verify L cert pk = Some True))"

definition app_start_new :: "'z codecs_scheme \<Rightarrow> cbor_value \<Rightarrow> app_start result" where
  "app_start_new L mfg_info = rmap AppStart (serde_ser (c_value L) mfg_info)"

definition app_start_mfg_info :: "'z codecs_scheme \<Rightarrow> app_start \<Rightarrow> cbor_value result" where
  "app_start_mfg_info L m = serde_des (c_value L) (as_mfg_info m)"

text \<open>A public key as a header value.\<close>

definition v_public_key :: "'z plib_scheme \<Rightarrow> public_key vcodec" where
  "v_public_key L = \<lparr>to_value = (\<lambda>k. to_value (v_key L) (key_tuple k)),
     from_value = (\<lambda>v. case from_value (v_key L) v of
        None \<Rightarrow> None | Some t \<Rightarrow> (case visit_key L t of Ok k \<Rightarrow> Some k | _ \<Rightarrow> None))\<rparr>"

section \<open>State\<close>

record diun_configuration =
  dc_mfg_string_type :: mfg_string_type
  dc_key_type :: public_key_type
  dc_allowed_key_storage_types :: "key_storage_type list"
  dc_key :: privkey
  dc_public_keys :: public_key

record manufacturing_ud =
  mu_manufacturer_cert :: x509
  mu_manufacturer_key :: "privkey option"
  mu_device_cert_key :: privkey
  mu_device_cert_chain :: x5chain
  mu_owner_cert :: "public_key option"
  mu_rendezvous_info :: rendezvous_info
  mu_enable_di :: bool
  mu_diun_configuration :: "diun_configuration option"

definition PERFORMED_DIUN_SES_KEY :: string where "PERFORMED_DIUN_SES_KEY = ''mfg_global_diun_performed''"
definition DEVICE_KEY_FROM_DIUN_SES_KEY :: string where
  "DEVICE_KEY_FROM_DIUN_SES_KEY = ''mfg_global_device_key_from_diun''"
definition OV_HEADER_SES_KEY :: string where "OV_HEADER_SES_KEY = ''mfg_di_ov_header''"
definition DEVICE_CERTIFICATE_SES_KEY :: string where "DEVICE_CERTIFICATE_SES_KEY = ''mfg_di_device_certificate''"
definition DIUN_KEYS_SES_KEY :: string where "DIUN_KEYS_SES_KEY = ''mfg_diun_keys''"

lemmas mfg_ses_keys = PERFORMED_DIUN_SES_KEY_def DEVICE_KEY_FROM_DIUN_SES_KEY_def OV_HEADER_SES_KEY_def
  DEVICE_CERTIFICATE_SES_KEY_def DIUN_KEYS_SES_KEY_def ENCRYPTION_KEYS_SES_KEY_def LAST_MSG_SES_KEY_def

section \<open>DIUN\<close>

definition fail_if_no_diun :: "message_spec \<Rightarrow> manufacturing_ud \<Rightarrow> ('t, rejection, unit) st" where
  "fail_if_no_diun IM UD =
     (if mu_diun_configuration UD = None then reject InternalServerError IM ''DIUN is disabled'' else lift (Ok ()))"

definition accept_payload_ser :: "mfg_lib \<Rightarrow> accept_payload \<Rightarrow> bytes result" where
  "accept_payload_ser M p = serde_ser (c_accept_payload M) (ap_key_exchange p)"

definition handle_diun_connect ::
  "'z plib_scheme \<Rightarrow> mfg_lib \<Rightarrow> 's http_lib \<Rightarrow> manufacturing_ud \<Rightarrow> bytes option \<Rightarrow> (nat \<Rightarrow> bytes option) \<Rightarrow>
     's request_info \<Rightarrow> diun_connect \<Rightarrow> ('t, rejection, diun_accept \<times> 's request_info) st" where
  "handle_diun_connect L M H UD gen kexrnd info msg =
     sbind (fail_if_no_diun diun_Connect UD) (\<lambda>_.
     let use_noninteroperable_kdf = header_true (ri_headers info) ''X-Non-Interoperable-KDF'' in
     sbind (or_internal diun_Connect (key_exchange_new (dcn_kex_suite msg) gen kexrnd)) (\<lambda>b_key_exchange.
     sbind (or_internal diun_Connect (derive_key L b_key_exchange OwnerService (dcn_cipher_suite msg)
       (dcn_key_exchange msg) use_noninteroperable_kdf)) (\<lambda>new_keys.
     sbind (session_put H diun_Connect (ri_session info) DIUN_KEYS_SES_KEY
       (SKeys (keys_from_derived (dcn_cipher_suite msg) new_keys))) (\<lambda>session.
     sbind (or_internal diun_Connect (get_public L b_key_exchange)) (\<lambda>pub.
     sbind (lift (unwrap (chm_insert (v_nonce L) chm_new CUPHNonce (dcn_nonce_diun_1 msg)))) (\<lambda>protected.
     sbind (lift (unwrap_opt (mu_diun_configuration UD))) (\<lambda>conf.
     sbind (lift (unwrap (chm_insert (v_public_key L) chm_new CUPHOwnerPubKey (dc_public_keys conf)))) (\<lambda>unprotected.
     sbind (or_internal diun_Connect (cosesign_new_with_protected L (accept_payload_ser M (AcceptPayload pub))
       protected (Some unprotected) (dc_key conf))) (\<lambda>token.
     lift (Ok (Accept token, info\<lparr>ri_session := session\<rparr>)))))))))))"

definition handle_request_key_parameters ::
  "'s http_lib \<Rightarrow> manufacturing_ud \<Rightarrow> 's request_info \<Rightarrow> request_key_parameters \<Rightarrow>
     ('t, rejection, provide_key_parameters \<times> 's request_info) st" where
  "handle_request_key_parameters H UD info msg =
     sbind (fail_if_no_diun diun_RequestKeyParameters UD) (\<lambda>_.
     case get_keys H (ri_session info) DIUN_KEYS_SES_KEY of
       None \<Rightarrow> reject InvalidMessageError diun_RequestKeyParameters ''Sequence error: no diun_keys''
     | Some new_keys \<Rightarrow>
         let session = ses_remove H (ri_session info) DIUN_KEYS_SES_KEY in
         sbind (lift (set_encryption_keys H diun_RequestKeyParameters session new_keys)) (\<lambda>session.
         sbind (lift (unwrap_opt (mu_diun_configuration UD))) (\<lambda>conf.
         lift (Ok (\<lparr>pkp_key_type = dc_key_type conf,
                    pkp_key_storage_types_allowed =
                      (if dc_allowed_key_storage_types conf = [] then None
                       else Some (dc_allowed_key_storage_types conf))\<rparr>,
                   info\<lparr>ri_session := session\<rparr>)))))"

definition handle_provide_key ::
  "'s http_lib \<Rightarrow> manufacturing_ud \<Rightarrow> 's request_info \<Rightarrow> provide_key \<Rightarrow>
     ('t, rejection, diun_done \<times> 's request_info) st" where
  "handle_provide_key H UD info msg =
     sbind (fail_if_no_diun diun_ProvideKey UD) (\<lambda>_.
     sbind (session_put H diun_ProvideKey (ri_session info) DEVICE_KEY_FROM_DIUN_SES_KEY (SBytes (prk_public_key msg)))
       (\<lambda>session.
     sbind (session_put H diun_ProvideKey session PERFORMED_DIUN_SES_KEY (SBool True)) (\<lambda>session.
     sbind (lift (unwrap_opt (mu_diun_configuration UD))) (\<lambda>conf.
     lift (Ok (DiunDone (dc_mfg_string_type conf), info\<lparr>ri_session := session\<rparr>))))))"

section \<open>DI\<close>

definition fail_if_no_di_and_not_from_diun ::
  "'s http_lib \<Rightarrow> message_spec \<Rightarrow> 's \<Rightarrow> manufacturing_ud \<Rightarrow> ('t, rejection, unit) st" where
  "fail_if_no_di_and_not_from_diun H IM session UD =
     (if \<not> mu_enable_di UD \<and> get_bool H session PERFORMED_DIUN_SES_KEY = None
      then reject InternalServerError IM ''Plain DI is disabled'' else lift (Ok ()))"

definition create_device_certificate ::
  "mfg_lib \<Rightarrow> bytes option \<Rightarrow> x509 \<Rightarrow> privkey \<Rightarrow> string \<Rightarrow> pkey \<Rightarrow> (unit, x509) res" where
  "create_device_certificate M serial_rnd signer signer_key subject_name device_pkey =
     rbind (ok_or (name_with_cn M subject_name) ()) (\<lambda>device_subject.
     rbind (ok_or (days_from_now M 0) ()) (\<lambda>not_before.
     rbind (ok_or serial_rnd ()) (\<lambda>serial.
     ok_or (x509_build M \<lparr>cr_version = 2, cr_not_after = x509_not_after M signer, cr_not_before = not_before,
         cr_issuer_name = x509_subject_name M signer, cr_subject_name = device_subject, cr_pubkey = device_pkey,
         cr_serial_number = serial\<rparr> signer_key MdSha384) ())))"

definition create_device_cert_chain :: "x5chain \<Rightarrow> x509 \<Rightarrow> ('e, x5chain) res" where
  "create_device_cert_chain c device_certificate = unwrap (x5chain_new (device_certificate # chain c))"

text \<open>The key of the device: the one it sent in DIUN, or the one the store of public keys has for it.\<close>

definition find_device_key ::
  "'s http_lib \<Rightarrow> ('e, string, bytes, 'p) store_ops option \<Rightarrow> 'e \<Rightarrow> 's \<Rightarrow> string \<Rightarrow>
     ('t \<times> 'p, rejection, bytes option) st" where
  "find_device_key H pks E session mfg_info =
     (case get_bytes H session DEVICE_KEY_FROM_DIUN_SES_KEY of
        Some key \<Rightarrow> lift (Ok (Some key))
      | None \<Rightarrow>
          (case pks of
             None \<Rightarrow> lift (Ok None)
           | Some ops \<Rightarrow> smap_err (from_error di_AppStart) (on_data (\<lambda>p. so_load ops E p mfg_info))))"

text \<open>The header of the new voucher, with the certificate chain of the device.\<close>

definition new_device_header ::
  "'z plib_scheme \<Rightarrow> mfg_lib \<Rightarrow> manufacturing_ud \<Rightarrow> bytes option \<Rightarrow> bytes option \<Rightarrow> string \<Rightarrow> bytes \<Rightarrow>
     (rejection, ov_header \<times> x5chain) res" where
  "new_device_header L M UD serial_rnd guid_rnd mfg_info key =
     rbind (ok_or (public_key_from_der L key) (from_error di_AppStart ())) (\<lambda>device_pkey.
     rbind (unwrap_opt (leaf_certificate (mu_device_cert_chain UD))) (\<lambda>signer.
     rbind (rmap_err (from_error di_AppStart)
       (create_device_certificate M serial_rnd signer (mu_device_cert_key UD) mfg_info device_pkey)) (\<lambda>device_certificate.
     rbind (create_device_cert_chain (mu_device_cert_chain UD) device_certificate) (\<lambda>device_certificate_chain.
     rbind (rtraverse (\<lambda>cert. ok_or (x509_to_der L cert) (from_error di_AppStart ()))
       (chain device_certificate_chain)) (\<lambda>ders.
     rbind (rmap_err (from_error di_AppStart) (hash_from_data L Sha384 (concat ders))) (\<lambda>chain_hash.
     rbind (rmap_err (from_error di_AppStart) (guid_new guid_rnd)) (\<lambda>guid.
     rbind (rmap_err (from_error di_AppStart) (public_key_from_x509 L (mu_manufacturer_cert UD))) (\<lambda>manufacturer_key.
     rbind (rmap_err (from_error di_AppStart) (ov_header_new L Version1_1 guid (mu_rendezvous_info UD) mfg_info
       manufacturer_key (Some chain_hash))) (\<lambda>new_voucher_header.
     Ok (new_voucher_header, device_certificate_chain))))))))))"

definition handle_app_start ::
  "'z plib_scheme \<Rightarrow> mfg_lib \<Rightarrow> 's http_lib \<Rightarrow> manufacturing_ud \<Rightarrow> ('e, string, bytes, 'p) store_ops option \<Rightarrow> 'e \<Rightarrow>
     bytes option \<Rightarrow> bytes option \<Rightarrow> 's request_info \<Rightarrow> app_start \<Rightarrow>
     ('t \<times> 'p, rejection, set_credentials \<times> 's request_info) st" where
  "handle_app_start L M H UD pks E serial_rnd guid_rnd info msg =
     sbind (fail_if_no_di_and_not_from_diun H di_AppStart (ri_session info) UD) (\<lambda>_.
     sbind (or_internal di_AppStart (app_start_mfg_info L msg)) (\<lambda>mfg_info.
     case as_str mfg_info of
       None \<Rightarrow> reject InternalServerError di_AppStart ''MFG Info is not a string''
     | Some mfg_info \<Rightarrow>
     sbind (find_device_key H pks E (ri_session info) mfg_info) (\<lambda>key.
     case key of
       None \<Rightarrow> reject InternalServerError di_AppStart ''No public key located''
     | Some key \<Rightarrow>
     sbind (lift (new_device_header L M UD serial_rnd guid_rnd mfg_info key))
       (\<lambda>(new_voucher_header, device_certificate_chain).
     sbind (or_internal di_AppStart (ov_header_ser L new_voucher_header)) (\<lambda>serialized.
     sbind (session_put H di_AppStart (ri_session info) OV_HEADER_SES_KEY (SString (hex_encode L serialized))) (\<lambda>session.
     sbind (session_put H di_AppStart session DEVICE_CERTIFICATE_SES_KEY (SChain device_certificate_chain)) (\<lambda>session.
     lift (Ok (SetCredentials new_voucher_header, info\<lparr>ri_session := session\<rparr>)))))))))"

text \<open>The voucher that \<open>set_hmac\<close> makes, extended to the owner when the server holds the key of the
  manufacturer.\<close>

definition make_voucher ::
  "'z plib_scheme \<Rightarrow> manufacturing_ud \<Rightarrow> ov_header \<Rightarrow> hash \<Rightarrow> x5chain \<Rightarrow> (rejection, voucher) res" where
  "make_voucher L UD hdr hmac dev_chain =
     rbind (rmap_err (from_error di_SetHMAC) (voucher_new L hdr hmac (Some dev_chain))) (\<lambda>ov.
     case mu_manufacturer_key UD of
       None \<Rightarrow> Ok ov
     | Some manufacturer_key \<Rightarrow>
         rbind (unwrap_opt (mu_owner_cert UD)) (\<lambda>owner_cert.
         rmap_err (from_error di_SetHMAC) (voucher_extend L ov manufacturer_key None owner_cert)))"

definition handle_set_hmac ::
  "'z plib_scheme \<Rightarrow> 's http_lib \<Rightarrow> manufacturing_ud \<Rightarrow> ('e, string, voucher, 't) store_ops \<Rightarrow> 'e \<Rightarrow>
     's request_info \<Rightarrow> set_hmac \<Rightarrow> ('t \<times> 'p, rejection, di_done \<times> 's request_info) st" where
  "handle_set_hmac L H UD ops E info msg =
     (let session = ri_session info in
     sbind (fail_if_no_di_and_not_from_diun H di_SetHMAC session UD) (\<lambda>_.
     case get_string H session OV_HEADER_SES_KEY of
       None \<Rightarrow> reject InvalidMessageError diun_RequestKeyParameters ''Sequence error: no ownership voucher header''
     | Some hdr \<Rightarrow>
     sbind (lift (ok_or (hex_decode L hdr) (from_error di_SetHMAC ()))) (\<lambda>hdr.
     sbind (or_internal di_SetHMAC (ov_header_des L hdr)) (\<lambda>hdr.
     case get_chain H session DEVICE_CERTIFICATE_SES_KEY of
       None \<Rightarrow> reject InvalidMessageError diun_RequestKeyParameters ''Sequence error: no device certificate''
     | Some dev_chain \<Rightarrow>
     sbind (lift (make_voucher L UD hdr (sh_hmac msg) dev_chain)) (\<lambda>ov.
     sbind (smap_err (from_error di_SetHMAC) (on_store (store_device L ops E (oh_guid hdr) ov))) (\<lambda>_.
     lift (Ok (DiDone, info))))))))"

end
