(* ===== verification/Manufacturing_Vouchers.thy ===== *)
theory Manufacturing_Vouchers
  imports Manufacturing
begin

text \<open>
  What the manufacturing server produces: the voucher that \<open>set_hmac\<close> stores has the header that
  \<open>app_start\<close> sent to the device, the HMAC of the device, a certificate for the key of the device, and, when
  the server is configured to, one entry that hands it to the owner.
\<close>

section \<open>Headers that went through the session\<close>

lemma same_header_sym: "same_header h h' \<Longrightarrow> same_header h' h"
  by (cases h; cases h') (auto simp: same_header_def same_array_def)

lemma same_header_trans: "same_header a b \<Longrightarrow> same_header b c \<Longrightarrow> same_header a c"
  by (cases a; cases b; cases c) (auto simp: same_header_def same_array_def)

lemma same_array_ser: "same_array a b \<Longrightarrow> serialize_to_writer L b = serialize_to_writer L a"
  by (simp add: same_array_def serialize_to_writer_def)

lemma same_header_same:
  assumes "same_header h h'"
  shows "ov_header_ser L h' = ov_header_ser L h"
    and "manufacturer_public_key_hash L h' ht = manufacturer_public_key_hash L h ht"
    and "oh_guid h' = oh_guid h" "oh_device_info h' = oh_device_info h"
    and "oh_manufacturer_public_key h' = oh_manufacturer_public_key h"
    and "oh_rendezvous_info h' = oh_rendezvous_info h"
proof -
  from assms have c: "same_array (oh_contents h) (oh_contents h')" and e: "h' = h\<lparr>oh_contents := oh_contents h'\<rparr>"
    by (simp_all add: same_header_def)
  from e show d: "oh_guid h' = oh_guid h" "oh_device_info h' = oh_device_info h"
    "oh_manufacturer_public_key h' = oh_manufacturer_public_key h" "oh_rendezvous_info h' = oh_rendezvous_info h"
    by (metis ov_header.surjective ov_header.update_convs(1) ov_header.select_convs)+
  show "ov_header_ser L h' = ov_header_ser L h"
    by (simp add: ov_header_ser_def d same_array_ser [OF c])
  show "manufacturer_public_key_hash L h' ht = manufacturer_public_key_hash L h ht"
    by (simp add: manufacturer_public_key_hash_def same_array_ops [OF c])
qed

lemma voucher_new_same:
  assumes "same_header h h'" "voucher_new L h' hmac dc = Ok v'"
  shows "voucher_new L h hmac dc = Ok (v'\<lparr>ov_header := h\<rparr>)"
  using assms same_array_ser [of "oh_contents h" "oh_contents h'" L]
  by (auto simp: voucher_new_def Let_def res_simps same_header_def)

lemma sendable_header:
  assumes "sendable_voucher L v" "same_header (ov_header v) h"
  shows "sendable_voucher L (v\<lparr>ov_header := h\<rparr>)"
  using assms same_header_trans [OF same_header_sym [OF assms(2)]]
  by (auto simp: sendable_voucher_def equiv_voucher_def)

lemma voucher_new_raw:
  assumes "item_codec (c_bytebuf L)" "voucher_new L hdr hmac dc = Ok v"
  shows "header_raw L v = serialize_to_writer L (oh_contents hdr)"
    and "ov_header v = hdr" "ov_header_hmac v = hmac" "ov_device_certificate_chain v = dc" "ov_entries v = new_empty"
proof -
  from assms(2) obtain hb w0 w1 w2 w3 w4 where w: "serialize_to_writer L (oh_contents hdr) = Ok hb"
    "serde_ser (c_bytebuf L) hb = Ok w1"
    "v = \<lparr>ov_contents = \<lparr>tag = None, header = None, contents = [w0, w1, w2, w3, w4]\<rparr>,
      ov_protocol_version = Version1_1, ov_header = hdr, ov_header_hmac = hmac,
      ov_device_certificate_chain = dc, ov_entries = new_empty\<rparr>"
    by (rule voucher_new_contents)
  then show "header_raw L v = serialize_to_writer L (oh_contents hdr)"
    "ov_header v = hdr" "ov_header_hmac v = hmac" "ov_device_certificate_chain v = dc" "ov_entries v = new_empty"
    using serde_item_roundtrip [OF assms(1) w(2)] by (simp_all add: header_raw_def array_get_nth)
qed

lemma extend_keeps_raw:
  assumes "voucher_extend L v k ex np = Ok v'"
  shows "header_raw L v' = header_raw L v" "ov_header v' = ov_header v" "ov_header_hmac v' = ov_header_hmac v"
    "ov_device_certificate_chain v' = ov_device_certificate_chain v"
proof -
  from assms obtain bs where e: "extends_with L v v' bs" by (rule extend_Ok)
  then show "header_raw L v' = header_raw L v" "ov_header v' = ov_header v" "ov_header_hmac v' = ov_header_hmac v"
    "ov_device_certificate_chain v' = ov_device_certificate_chain v"
    by (auto simp: extends_with_def header_raw_def array_get_def array_get_raw_def check_bounds_def nth_or_panic_def)
qed

lemma equiv_voucher_raw: "equiv_voucher v v' \<Longrightarrow> header_raw L v' = header_raw L v"
  by (simp add: equiv_voucher_def header_raw_def same_array_ops(1) [of "ov_contents v" "ov_contents v'"])

section \<open>The voucher of a new device\<close>

text \<open>The chain that the server makes: the certificate of the device before the chain of the CA.\<close>

lemma new_device_header_Ok:
  assumes "new_device_header L M UD serial_rnd guid_rnd mfg_info key = Ok (hdr, dchain)" "build_doc L M"
  obtains pk signer cert guid mk ch where "public_key_from_der L key = Some pk"
    "leaf_certificate (mu_device_cert_chain UD) = Some signer"
    "dchain = X5Chain (cert # chain (mu_device_cert_chain UD))" "x509_public_key L cert = Some pk"
    "x509_issued L signer cert"
    "\<And>ck. public_eq L ck (public_of L (mu_device_cert_key UD)) \<Longrightarrow> x509_verify L cert ck = Some True"
    "guid_rnd = Some guid" "public_key_from_x509 L (mu_manufacturer_cert UD) = Ok mk"
    "ov_header_new L Version1_1 (Guid guid) (mu_rendezvous_info UD) mfg_info mk (Some ch) = Ok hdr"
proof -
  from assms(1) obtain pk signer cert guid mk ch where n: "public_key_from_der L key = Some pk"
    "leaf_certificate (mu_device_cert_chain UD) = Some signer"
    "create_device_certificate M serial_rnd signer (mu_device_cert_key UD) mfg_info pk = Ok cert"
    "dchain = X5Chain (cert # chain (mu_device_cert_chain UD))"
    "guid_rnd = Some guid" "public_key_from_x509 L (mu_manufacturer_cert UD) = Ok mk"
    "ov_header_new L Version1_1 (Guid guid) (mu_rendezvous_info UD) mfg_info mk (Some ch) = Ok hdr"
    by (auto simp: new_device_header_def res_simps create_device_cert_chain_def x5chain_new_def guid_new_def
        new_nonce_or_guid_val_def)
  from n(3) obtain r where r: "x509_build M r (mu_device_cert_key UD) MdSha384 = Some cert" "cr_pubkey r = pk"
    "cr_issuer_name r = x509_subject_name M signer"
    by (auto simp: create_device_certificate_def res_simps)
  with assms(2) have "x509_public_key L cert = Some pk" "x509_issued L signer cert"
    "\<And>ck. public_eq L ck (public_of L (mu_device_cert_key UD)) \<Longrightarrow> x509_verify L cert ck = Some True"
    unfolding build_doc_def by metis+
  with n that show ?thesis by blast
qed

lemma find_device_key_session:
  assumes "find_device_key H pks E s mfg st = (st', Ok (Some key))" "get_bytes H s DEVICE_KEY_FROM_DIUN_SES_KEY = Some k"
  shows "key = k"
  using assms by (auto simp: find_device_key_def)

lemma app_start_answered:
  assumes "handle_app_start L M H UD pks E serial_rnd guid_rnd info msg st = (st1, Ok (res, info1))"
  obtains mfg key hdr dchain bs s1 where
    "find_device_key H pks E (ri_session info) mfg st = (st1, Ok (Some key))"
    "new_device_header L M UD serial_rnd guid_rnd mfg key = Ok (hdr, dchain)"
    "ov_header_ser L hdr = Ok bs" "res = SetCredentials hdr"
    "ses_insert H (ri_session info) OV_HEADER_SES_KEY (SString (hex_encode L bs)) = Some s1"
    "ses_insert H s1 DEVICE_CERTIFICATE_SES_KEY (SChain dchain) = Some (ri_session info1)"
    "mu_enable_di UD \<or> get_bool H (ri_session info) PERFORMED_DIUN_SES_KEY \<noteq> None"
  using assms that
  by (auto simp: handle_app_start_def fail_if_no_di_and_not_from_diun_def res_simps split: option.splits if_splits)

lemma set_hmac_answered:
  assumes "handle_set_hmac L H UD ops E info msg st = (st1, Ok (res, info1))"
  obtains t bs hdr dchain v where "get_string H (ri_session info) OV_HEADER_SES_KEY = Some t" "hex_decode L t = Some bs"
    "ov_header_des L bs = Ok hdr" "get_chain H (ri_session info) DEVICE_CERTIFICATE_SES_KEY = Some dchain"
    "make_voucher L UD hdr (sh_hmac msg) dchain = Ok v"
    "store_device L ops E (oh_guid hdr) v (fst st) = (fst st1, Ok ())" "info1 = info"
    "mu_enable_di UD \<or> get_bool H (ri_session info) PERFORMED_DIUN_SES_KEY \<noteq> None"
  using assms that
  by (auto simp: handle_set_hmac_def Let_def fail_if_no_di_and_not_from_diun_def res_simps split: option.splits if_splits)

text \<open>A voucher that is made from a header with the contents of a new one.\<close>

lemma make_voucher_ok:
  assumes docs: "voucher_codecs L" "cose_doc L" "memcmp_doc L" "codec_doc (c_entry L)"
    and hdr: "length (guid_bytes guid) = 16" "wf_public_key L mk" "check_device_info (trim info) = Ok ()"
      "ov_header_new L ver guid rv info mk (Some ch) = Ok hdr" "same_header hdr hdr'"
    and owner: "\<And>pk. mu_owner_cert UD = Some pk \<Longrightarrow> wf_public_key L pk"
    and mv: "make_voucher L UD hdr' hmac dchain = Ok v"
  shows "sendable_voucher L v" "header_raw L v = serialize_to_writer L (oh_contents hdr)"
    and "ov_header v = hdr'" "ov_header_hmac v = hmac" "ov_device_certificate_chain v = Some dchain"
    and "\<exists>ps. chain_ok L v ps \<and> (case mu_manufacturer_key UD of
       None \<Rightarrow> ps = [] | Some k \<Rightarrow> \<exists>p. ps = [p] \<and> mu_owner_cert UD = Some (public_key p))"
proof -
  from mv obtain v0 where v0: "voucher_new L hdr' hmac (Some dchain) = Ok v0" by (auto simp: make_voucher_def res_simps)
  from docs(1) have buf: "item_codec (c_bytebuf L)" by (simp add: voucher_codecs_def)
  note raw = voucher_new_raw [OF buf v0]
  have "fresh_voucher L (v0\<lparr>ov_header := hdr\<rparr>)"
    unfolding fresh_voucher_def using docs(1) hdr(1-4) voucher_new_same [OF hdr(5) v0] by blast
  from sendable_header [OF fresh_sendable [OF this], of hdr'] have s0: "sendable_voucher L v0"
    using hdr(5) raw(2) by (cases v0) simp
  have c0: "chain_ok L v0 []" by (simp add: chain_ok_def raw(5) array_len_def new_empty_def)
  have ser: "serialize_to_writer L (oh_contents hdr') = serialize_to_writer L (oh_contents hdr)"
    using hdr(5) by (simp add: same_header_def same_array_ser)
  have "sendable_voucher L v \<and> header_raw L v = serialize_to_writer L (oh_contents hdr) \<and> ov_header v = hdr' \<and>
    ov_header_hmac v = hmac \<and> ov_device_certificate_chain v = Some dchain \<and>
    (\<exists>ps. chain_ok L v ps \<and> (case mu_manufacturer_key UD of
       None \<Rightarrow> ps = [] | Some k \<Rightarrow> \<exists>p. ps = [p] \<and> mu_owner_cert UD = Some (public_key p)))"
  proof (cases "mu_manufacturer_key UD")
    case None
    with mv v0 have "v = v0" by (simp add: make_voucher_def)
    with None s0 c0 raw ser show ?thesis by auto
  next
    case (Some k)
    with mv v0 obtain pk where pk: "mu_owner_cert UD = Some pk" "voucher_extend L v0 k None pk = Ok v"
      by (auto simp: make_voucher_def res_simps)
    from extend_chain [OF docs(2-4) owner [OF pk(1)] c0 pk(2)] obtain p where "chain_ok L v [p]" "public_key p = pk"
      by auto
    moreover have "sendable_voucher L v"
      by (rule extend_sendable [OF s0 docs(2) _ pk(2)]) (simp add: raw(5) array_len_def new_empty_def)
    ultimately show ?thesis using Some pk(1) raw ser extend_keeps_raw [OF pk(2)] by auto
  qed
  then show "sendable_voucher L v" "header_raw L v = serialize_to_writer L (oh_contents hdr)"
    "ov_header v = hdr'" "ov_header_hmac v = hmac" "ov_device_certificate_chain v = Some dchain"
    "\<exists>ps. chain_ok L v ps \<and> (case mu_manufacturer_key UD of
       None \<Rightarrow> ps = [] | Some k \<Rightarrow> \<exists>p. ps = [p] \<and> mu_owner_cert UD = Some (public_key p))"
    by blast+
qed

lemma voucher_storable:
  assumes "sendable_voucher L v"
  shows "storable_by (voucher_ser L) (voucher_read L) equiv_voucher v"
  using sent_vouchers.send_receive [OF assms] by (auto simp: storable_by_def)

text \<open>The header of a device as it is found again in the session.\<close>

lemma new_header_read:
  assumes "voucher_codecs L" "build_doc L M" "length guid = 16"
    and "new_device_header L M UD serial_rnd (Some guid) mfg key = Ok (hdr, dchain)" "ov_header_ser L hdr = Ok bs"
    and "ov_header_des L bs = Ok hdr'"
  obtains mk ch where "wf_public_key L mk" "check_device_info (trim mfg) = Ok ()"
    "ov_header_new L Version1_1 (Guid guid) (mu_rendezvous_info UD) mfg mk (Some ch) = Ok hdr"
    "serialize_to_writer L (oh_contents hdr) = Ok bs" "same_header hdr hdr'"
proof -
  obtain mk ch where mk: "public_key_from_x509 L (mu_manufacturer_cert UD) = Ok mk"
    "ov_header_new L Version1_1 (Guid guid) (mu_rendezvous_info UD) mfg mk (Some ch) = Ok hdr"
    using assms(4,2) by (rule new_device_header_Ok) auto
  have "oh_device_info hdr = trim mfg" using mk(2) by (auto simp: ov_header_new_def Let_def res_simps)
  then have info: "check_device_info (trim mfg) = Ok ()" and bs: "serialize_to_writer L (oh_contents hdr) = Ok bs"
    using assms(5) by (auto simp: ov_header_ser_def res_simps)
  have wf: "wf_public_key L mk" using mk(1) assms(1) by (intro public_key_from_x509_wf) (simp_all add: voucher_codecs_def)
  have len: "length (guid_bytes (Guid guid)) = 16" using assms(3) by simp
  from ov_header_roundtrip [OF assms(1) len wf info mk(2)] bs have
    "\<exists>h'. ov_header_read L (bs @ []) = Ok (h', []) \<and> same_header hdr h'" by (metis res.inject(1))
  then obtain h' where "ov_header_read L bs = Ok (h', [])" "same_header hdr h'" by auto
  with assms(6) have "same_header hdr hdr'" by (simp add: ov_header_des_def)
  with that wf info mk(2) bs show ?thesis by blast
qed

lemma set_hmac_after_app_start:
  assumes "text_doc L" "session_doc H"
    and "ses_insert H s OV_HEADER_SES_KEY (SString (hex_encode L bs)) = Some s1"
      "ses_insert H s1 DEVICE_CERTIFICATE_SES_KEY (SChain dchain) = Some s2"
    and session: "\<And>k. k \<in> {OV_HEADER_SES_KEY, DEVICE_CERTIFICATE_SES_KEY} \<Longrightarrow> ses_get H (ri_session info2) k = ses_get H s2 k"
    and "handle_set_hmac L H UD ops E' info2 (SetHMAC hmac) st2 = (st3, Ok res)"
  obtains hdr' v where "ov_header_des L bs = Ok hdr'" "make_voucher L UD hdr' hmac dchain = Ok v"
    "store_device L ops E' (oh_guid hdr') v (fst st2) = (fst st3, Ok ())"
proof -
  note get = ses_insert_get(2) [OF assms(2,4)] ses_insert_get(2) [OF assms(2,3)]
  have ses: "get_string H (ri_session info2) OV_HEADER_SES_KEY = Some (hex_encode L bs)"
    "get_chain H (ri_session info2) DEVICE_CERTIFICATE_SES_KEY = Some dchain"
    using session by (simp_all add: get_string_def get_chain_def get) (simp_all add: mfg_ses_keys)
  obtain r i where "res = (r, i)" by fastforce
  from assms(6) [unfolded this] obtain t bs' hdr' dchain' v where
    "get_string H (ri_session info2) OV_HEADER_SES_KEY = Some t" "hex_decode L t = Some bs'"
    "ov_header_des L bs' = Ok hdr'" "get_chain H (ri_session info2) DEVICE_CERTIFICATE_SES_KEY = Some dchain'"
    "make_voucher L UD hdr' hmac dchain' = Ok v"
    "store_device L ops E' (oh_guid hdr') v (fst st2) = (fst st3, Ok ())"
    by (rule set_hmac_answered) simp
  with ses assms(1) that show ?thesis by (auto simp: text_doc_def)
qed

lemma stored_voucher_held:
  assumes "store_device L (voucher_ops L) E g v d = (d', Ok ())" "tmp_plain d" "text_doc L" "sendable_voucher L v"
  obtains k v' where "guid_key L g = Some k" "equiv_voucher v v'" "dir_held (voucher_read L) d' k = Some (v', None)"
proof -
  obtain k where k: "guid_key L g = Some k" "so_store (voucher_ops L) E d k v = (d', Ok ())"
    using assms(1) by (cases "guid_key L g") (auto simp: store_device_def guid_fmt_def sbind_lift_Ok)
  from directory.store_holds [OF assms(2) guid_key_plain [OF assms(3) k(1)] voucher_storable [OF assms(4)] k(2)]
  show ?thesis using that k(1) by blast
qed

lemma issued_chain_verifies:
  assumes "leaf_certificate c = Some signer" "x509_issued L signer cert" "x509_public_key L signer = Some ck"
    and "x509_verify L cert ck = Some True"
  shows "insecure_verify_without_root_verification L (X5Chain (cert # chain c)) = Ok cert"
proof -
  from assms(1) obtain rest where c: "chain c = signer # rest"
    by (auto simp: leaf_certificate_def split: list.splits)
  have "trusted_at L (\<lambda>_. Ok True) (cert # signer # rest) 0"
    unfolding trusted_at_0 signed_by_def using assms by auto
  then show ?thesis
    by (auto simp: insecure_verify_without_root_verification_def x5chain_verify_def c verify_links_Ok_iff
        simp del: verify_links.simps)
qed

text \<open>The voucher in the store after AppStart and SetHMAC of one session.\<close>

lemma di_voucher:
  assumes docs: "voucher_codecs L" "cose_doc L" "memcmp_doc L" "codec_doc (c_entry L)" "text_doc L" "build_doc L M"
      "session_doc H"
    and app_start: "handle_app_start L M H UD pks E serial_rnd (Some guid) info msg st = (st1, Ok (SetCredentials hdr, info1))"
    and session: "\<And>k. k \<in> {OV_HEADER_SES_KEY, DEVICE_CERTIFICATE_SES_KEY} \<Longrightarrow>
      ses_get H (ri_session info2) k = ses_get H (ri_session info1) k"
    and set_hmac: "handle_set_hmac L H UD (voucher_ops L) E' info2 (SetHMAC hmac) st2 = (st3, Ok res)"
    and "length guid = 16" "tmp_plain (fst st2)"
    and "\<And>pk. mu_owner_cert UD = Some pk \<Longrightarrow> wf_public_key L pk"
  shows "\<exists>k v bs cert pk ps. guid_key L (oh_guid hdr) = Some k \<and>
    dir_held (voucher_read L) (fst st3) k = Some (v, None) \<and> ov_header_ser L hdr = Ok bs \<and>
    header_raw L v = Ok bs \<and> same_header hdr (ov_header v) \<and> ov_header_hmac v = hmac \<and>
    ov_device_certificate_chain v = Some (X5Chain (cert # chain (mu_device_cert_chain UD))) \<and>
    device_key L v = Ok pk \<and>
    (\<forall>key. get_bytes H (ri_session info) DEVICE_KEY_FROM_DIUN_SES_KEY = Some key \<longrightarrow> public_key_from_der L key = Some pk) \<and>
    (\<forall>signer. leaf_certificate (mu_device_cert_chain UD) = Some signer \<longrightarrow> x509_issued L signer cert) \<and>
    (\<forall>ck. public_eq L ck (public_of L (mu_device_cert_key UD)) \<longrightarrow> x509_verify L cert ck = Some True) \<and>
    chain_ok L v ps \<and> (case mu_manufacturer_key UD of
       None \<Rightarrow> ps = [] | Some mk \<Rightarrow> \<exists>p. ps = [p] \<and> mu_owner_cert UD = Some (public_key p))"
proof -
  obtain mfg key dchain bs s1 where as: "find_device_key H pks E (ri_session info) mfg st = (st1, Ok (Some key))"
    "new_device_header L M UD serial_rnd (Some guid) mfg key = Ok (hdr, dchain)" "ov_header_ser L hdr = Ok bs"
    "ses_insert H (ri_session info) OV_HEADER_SES_KEY (SString (hex_encode L bs)) = Some s1"
    "ses_insert H s1 DEVICE_CERTIFICATE_SES_KEY (SChain dchain) = Some (ri_session info1)"
    using app_start by (rule app_start_answered) auto
  obtain pk signer cert where n: "public_key_from_der L key = Some pk"
    "leaf_certificate (mu_device_cert_chain UD) = Some signer"
    "dchain = X5Chain (cert # chain (mu_device_cert_chain UD))" "x509_public_key L cert = Some pk"
    "x509_issued L signer cert"
    "\<And>ck. public_eq L ck (public_of L (mu_device_cert_key UD)) \<Longrightarrow> x509_verify L cert ck = Some True"
    using as(2) docs(6) by (rule new_device_header_Ok) auto
  obtain hdr' v where sh: "ov_header_des L bs = Ok hdr'" "make_voucher L UD hdr' hmac dchain = Ok v"
    "store_device L (voucher_ops L) E' (oh_guid hdr') v (fst st2) = (fst st3, Ok ())"
    by (rule set_hmac_after_app_start [OF docs(5,7) as(4,5) session set_hmac])
  obtain mk ch where h: "wf_public_key L mk" "check_device_info (trim mfg) = Ok ()"
    "ov_header_new L Version1_1 (Guid guid) (mu_rendezvous_info UD) mfg mk (Some ch) = Ok hdr"
    "serialize_to_writer L (oh_contents hdr) = Ok bs" "same_header hdr hdr'"
    by (rule new_header_read [OF docs(1,6) assms(11) as(2,3) sh(1)])
  have len: "length (guid_bytes (Guid guid)) = 16" using assms(11) by simp
  note mv = make_voucher_ok [OF docs(1-4) len h(1-3,5) assms(13) sh(2)]
  obtain k v' where v': "guid_key L (oh_guid hdr') = Some k" "equiv_voucher v v'"
    "dir_held (voucher_read L) (fst st3) k = Some (v', None)"
    by (rule stored_voucher_held [OF sh(3) assms(12) docs(5) mv(1)])
  have "same_header hdr (ov_header v')" using h(5) mv(3) v'(2) same_header_trans by (auto simp: equiv_voucher_def)
  moreover have dc: "ov_device_certificate_chain v' = Some (X5Chain (cert # chain (mu_device_cert_chain UD)))"
    "ov_header_hmac v' = hmac" using v'(2) mv(4,5) n(3) by (simp_all add: equiv_voucher_fields)
  moreover have "device_key L v' = Ok pk" by (simp add: device_key_def dc leaf_certificate_def n(4))
  moreover have "header_raw L v' = Ok bs" using equiv_voucher_raw [OF v'(2), of L] mv(2) h(4) by simp
  moreover have "public_key_from_der L key' = Some pk"
    if "get_bytes H (ri_session info) DEVICE_KEY_FROM_DIUN_SES_KEY = Some key'" for key'
    using find_device_key_session [OF as(1) that] n(1) by simp
  moreover have "guid_key L (oh_guid hdr) = Some k" using v'(1) same_header_same(3) [OF h(5)] by simp
  moreover obtain ps where "chain_ok L v' ps" "case mu_manufacturer_key UD of
       None \<Rightarrow> ps = [] | Some mk \<Rightarrow> \<exists>p. ps = [p] \<and> mu_owner_cert UD = Some (public_key p)"
    using mv(6) chain_ok_equiv [OF v'(2), of L] by blast
  moreover have "\<forall>signer. leaf_certificate (mu_device_cert_chain UD) = Some signer \<longrightarrow> x509_issued L signer cert"
    using n(2,5) by simp
  moreover have "\<forall>ck. public_eq L ck (public_of L (mu_device_cert_key UD)) \<longrightarrow> x509_verify L cert ck = Some True"
    using n(6) by blast
  ultimately show ?thesis using v'(3) as(3) by blast
qed

section \<open>Properties\<close>


end
