(* ===== verification/Manufacturing_Client.thy ===== *)
theory Manufacturing_Client
  imports Device_Client Manufacturing_Vouchers
begin

text \<open>
  The manufacturing client: \<open>manufacturing-client/src/main.rs\<close> and
  \<open>util/src/device_identification.rs\<close>. It runs DIUN and DI against the manufacturing server and leaves a
  device credential in the file system. The host is the record \<open>mfg_host\<close>: environment variables, the text
  files under \<open>/sys\<close> and \<open>/proc\<close>, and which calls on ordinary files succeed; ordinary files are a map, as in
  \<open>Device_Credential\<close>. Key generation, the conversions of TPM keys and PEM are the record \<open>key_lib\<close>.
  Errors of \<open>anyhow\<close> carry no information here.
\<close>

section \<open>The host\<close>

record mfg_host =
  mh_env :: "string \<rightharpoonup> string option"
  mh_text :: "string \<rightharpoonup> string"
  mh_exists :: "string \<Rightarrow> bool"
  mh_routes :: "string option list option"
  mh_files :: file_env

record key_lib =
  ec_generate :: "ecc_curve \<Rightarrow> privkey option"
  private_key_to_der :: "privkey \<Rightarrow> bytes option"
  tpm_create :: "tpm_public \<Rightarrow> (bytes \<times> bytes) option"
  rsa_tpm_der :: "bytes \<Rightarrow> bytes option"
  ecc_tpm_der :: "ecc_curve \<Rightarrow> bytes \<Rightarrow> bytes option"
  stack_from_pem :: "bytes \<Rightarrow> x509 list option"

text \<open>\<open>env::var\<close>: absent and not text are both errors; \<open>env::var_os(..).into_string().unwrap()\<close> panics on
  the latter.\<close>

definition env_var :: "mfg_host \<Rightarrow> string \<Rightarrow> string option" where
  "env_var h v = (case mh_env h v of Some (Some s) \<Rightarrow> Some s | _ \<Rightarrow> None)"

definition env_var_os :: "mfg_host \<Rightarrow> string \<Rightarrow> (unit, string option) res" where
  "env_var_os h v = (case mh_env h v of None \<Rightarrow> Ok None | Some (Some s) \<Rightarrow> Ok (Some s) | Some None \<Rightarrow> Panic)"

section \<open>Identification of the device\<close>

definition check_device_identifier :: "string \<Rightarrow> (unit, unit) res" where
  "check_device_identifier identifier = (if length identifier > 64 then Err () else Ok ())"

definition is_hex_digit :: "char \<Rightarrow> bool" where
  "is_hex_digit c \<longleftrightarrow> c \<in> set ''0123456789ABCDEFabcdef''"

text \<open>The regular expression \<open>^([0-9A-Fa-f]{2}[:-]){5}([0-9A-Fa-f]{2})$\<close>: \<open>n\<close> groups with their separators,
  then the last one.\<close>

fun mac_groups :: "nat \<Rightarrow> string \<Rightarrow> bool" where
  "mac_groups 0 [a, b] = (is_hex_digit a \<and> is_hex_digit b)"
| "mac_groups (Suc n) (a # b # c # s) = (is_hex_digit a \<and> is_hex_digit b \<and> c \<in> set '':-'' \<and> mac_groups n s)"
| "mac_groups _ _ = False"

definition valid_mac :: "string \<Rightarrow> bool" where
  "valid_mac mac \<longleftrightarrow> mac_groups 5 mac \<and> mac \<noteq> ''00:00:00:00:00:00''"

definition mfg_identifier :: "mfg_host \<Rightarrow> mfg_string_type \<Rightarrow> string option \<Rightarrow> (unit, string) res" where
  "mfg_identifier h mfg_string_type iface =
     (case mfg_string_type of
        SerialNumber \<Rightarrow>
          (case mh_text h ''/sys/devices/virtual/dmi/id/product_serial'' of
             Some s \<Rightarrow> Ok s
           | None \<Rightarrow> ok_or (mh_text h ''/sys/devices/virtual/dmi/id/chassis_serial'') ())
      | MACAddress \<Rightarrow>
          rbind (ok_or iface ()) (\<lambda>given_iface.
          if \<not> mh_exists h (''/sys/class/net/'' @ given_iface) then Err ()
          else
            rbind (ok_or (mh_text h (''/sys/class/net/'' @ given_iface @ ''/address'')) ()) (\<lambda>mac.
            if \<not> valid_mac (trim mac) then Err () else Ok (trim mac))))"

definition get_mfg_info :: "mfg_host \<Rightarrow> mfg_string_type \<Rightarrow> string option \<Rightarrow> (unit, cbor_value) res" where
  "get_mfg_info h mfg_string_type iface =
     rbind (env_var_os h ''MANUFACTURING_INFO'') (\<lambda>given.
     case given of
       Some mfg_info \<Rightarrow> Ok (Text mfg_info)
     | None \<Rightarrow>
         rbind (mfg_identifier h mfg_string_type iface) (\<lambda>mfg_iden.
         rbind (check_device_identifier mfg_iden) (\<lambda>_. Ok (Text mfg_iden))))"

text \<open>\<open>str::split_whitespace\<close>, with the word read so far.\<close>

fun split_words :: "string \<Rightarrow> string \<Rightarrow> string list" where
  "split_words w [] = (if w = [] then [] else [w])"
| "split_words w (c # s) =
     (if is_space c then (if w = [] then split_words [] s else w # split_words [] s)
      else split_words (w @ [c]) s)"

definition split_whitespace :: "string \<Rightarrow> string list" where
  "split_whitespace s = split_words [] s"

definition IPV4_DEFAULT :: string where "IPV4_DEFAULT = ''00000000''"

text \<open>The lines of the routing table after the first one; a line that cannot be read is an error.
  \<open>fields[1]\<close> panics on a line with one field.\<close>

fun default_iface :: "string option list \<Rightarrow> (unit, string option) res" where
  "default_iface [] = Ok None"
| "default_iface (None # ls) = Err ()"
| "default_iface (Some line # ls) =
     (case split_whitespace line of
        [] \<Rightarrow> default_iface ls
      | [_] \<Rightarrow> Panic
      | name # dest # _ \<Rightarrow> if dest = IPV4_DEFAULT \<and> name \<noteq> ''lo'' then Ok (Some name) else default_iface ls)"

definition get_default_network_iface :: "mfg_host \<Rightarrow> (unit, string option) res" where
  "get_default_network_iface h = rbind (ok_or (mh_routes h) ()) (\<lambda>ls. default_iface (drop 1 ls))"

section \<open>Keys\<close>

datatype key_reference =
  KeyFileSystem (kr_sign_key: privkey) (kr_hmac_key: bytes)
| KeySemiTpm (kr_signing_public: bytes) (kr_signing_private: bytes) (kr_hmac_public: bytes) (kr_hmac_private: bytes)

fun semi_tpm_hmac_key_template :: "public_key_type \<Rightarrow> (unit, tpm_public) res" where
  "semi_tpm_hmac_key_template SECP256R1 = Ok (TpmKeyedHash True TpmSha256)"
| "semi_tpm_hmac_key_template SECP384R1 = Ok (TpmKeyedHash True TpmSha384)"
| "semi_tpm_hmac_key_template _ = Err ()"

fun semi_tpm_signing_key_template :: "public_key_type \<Rightarrow> (unit, tpm_public) res" where
  "semi_tpm_signing_key_template SECP256R1 = Ok (TpmEcc (EcDsa TpmSha256) NistP256)"
| "semi_tpm_signing_key_template SECP384R1 = Ok (TpmEcc (EcDsa TpmSha384) NistP384)"
| "semi_tpm_signing_key_template _ = Err ()"

fun key_curve :: "public_key_type \<Rightarrow> (unit, ecc_curve) res" where
  "key_curve SECP256R1 = Ok NistP256"
| "key_curve SECP384R1 = Ok NistP384"
| "key_curve _ = Err ()"

definition get_new_key_filesystem :: "key_lib \<Rightarrow> bytes option \<Rightarrow> public_key_type \<Rightarrow> (unit, key_reference) res" where
  "get_new_key_filesystem K hmac_rnd keytype =
     rbind (ok_or hmac_rnd ()) (\<lambda>hmac_key_buf.
     rbind (key_curve keytype) (\<lambda>curve.
     rbind (ok_or (ec_generate K curve) ()) (\<lambda>sign_key.
     Ok (KeyFileSystem sign_key hmac_key_buf))))"

definition get_new_key_tpm :: "'z devlib_scheme \<Rightarrow> key_lib \<Rightarrow> public_key_type \<Rightarrow> (unit, key_reference) res" where
  "get_new_key_tpm L K keytype =
     (if \<not> tpm_available L then Err ()
      else
        rbind (semi_tpm_signing_key_template keytype) (\<lambda>signing_template.
        rbind (semi_tpm_hmac_key_template keytype) (\<lambda>hmac_template.
        rbind (ok_or (tpm_create K signing_template) ()) (\<lambda>(spub, spriv).
        rbind (ok_or (tpm_create K hmac_template) ()) (\<lambda>(hpub, hpriv).
        Ok (KeySemiTpm spub spriv hpub hpriv))))))"

fun first_key ::
  "'z devlib_scheme \<Rightarrow> key_lib \<Rightarrow> bytes option \<Rightarrow> public_key_type \<Rightarrow> key_storage_type list \<Rightarrow> (unit, key_reference) res" where
  "first_key L K hmac_rnd keytype [] = Err ()"
| "first_key L K hmac_rnd keytype (t # ts) =
     (case (case t of
              key_storage_type.Tpm \<Rightarrow> get_new_key_tpm L K keytype
            | FileSystem \<Rightarrow> get_new_key_filesystem K hmac_rnd keytype) of
        Ok keyref \<Rightarrow> Ok keyref
      | Err e \<Rightarrow> first_key L K hmac_rnd keytype ts
      | Panic \<Rightarrow> Panic)"

definition get_new_key ::
  "'z devlib_scheme \<Rightarrow> key_lib \<Rightarrow> bytes option \<Rightarrow> public_key_type \<Rightarrow> key_storage_type list option \<Rightarrow>
     (unit, key_reference) res" where
  "get_new_key L K hmac_rnd keytype allowed =
     (case allowed of
        Some [] \<Rightarrow> Err ()
      | Some storage_types \<Rightarrow> first_key L K hmac_rnd keytype storage_types
      | None \<Rightarrow> first_key L K hmac_rnd keytype [FileSystem])"

definition env_key_filesystem :: "'z devlib_scheme \<Rightarrow> mfg_host \<Rightarrow> files \<Rightarrow> (unit, key_reference) res" where
  "env_key_filesystem L h fs =
     rbind (ok_or (env_var h ''DI_SIGN_KEY_PATH'') ()) (\<lambda>sign_key_path.
     rbind (ok_or (env_var h ''DI_HMAC_KEY_PATH'') ()) (\<lambda>hmac_key_path.
     rbind (read_file (mh_files h) fs sign_key_path) (\<lambda>sign_key.
     rbind (read_file (mh_files h) fs hmac_key_path) (\<lambda>hmac_key.
     rbind (ok_or (private_key_from_der L sign_key) ()) (\<lambda>sign_key.
     Ok (KeyFileSystem sign_key hmac_key))))))"

definition str_key :: "'z devlib_scheme \<Rightarrow> mfg_host \<Rightarrow> files \<Rightarrow> string \<Rightarrow> (unit, key_reference) res" where
  "str_key L h fs key =
     rbind (rmap_err (\<lambda>_. ()) (key_storage_type_from_str key)) (\<lambda>key_storage_type.
     case key_storage_type of
       FileSystem \<Rightarrow> env_key_filesystem L h fs
     | key_storage_type.Tpm \<Rightarrow> Err ())"

definition env_key :: "'z devlib_scheme \<Rightarrow> mfg_host \<Rightarrow> files \<Rightarrow> (unit, key_reference) res" where
  "env_key L h fs = rbind (ok_or (env_var h ''DI_KEY_STORAGE_TYPE'') ()) (str_key L h fs)"

fun get_public_key_as_der :: "'z devlib_scheme \<Rightarrow> key_lib \<Rightarrow> key_reference \<Rightarrow> (unit, bytes) res" where
  "get_public_key_as_der L K (KeyFileSystem sign_key hmac_key) = ok_or (public_key_to_der L (public_of L sign_key)) ()"
| "get_public_key_as_der L K (KeySemiTpm spub spriv hpub hpriv) =
     rbind (ok_or (tpm_unmarshall L spub) ()) (\<lambda>signing_public.
     case signing_public of
       TpmRsa \<Rightarrow> ok_or (rsa_tpm_der K spub) ()
     | TpmEcc scheme curve \<Rightarrow> if curve = OtherCurve then Err () else ok_or (ecc_tpm_der K curve spub) ()
     | _ \<Rightarrow> Err ())"

fun get_public_key_storage_type :: "key_reference \<Rightarrow> key_storage_type" where
  "get_public_key_storage_type (KeyFileSystem _ _) = FileSystem"
| "get_public_key_storage_type (KeySemiTpm _ _ _ _) = key_storage_type.Tpm"

fun key_perform_hmac :: "'z devlib_scheme \<Rightarrow> key_reference \<Rightarrow> bytes \<Rightarrow> (unit, hash) res" where
  "key_perform_hmac L (KeyFileSystem sign_key hmac_key) data =
     rbind (ok_or (hmac_sign L hmac_key MdSha384 data) ()) (\<lambda>hmac.
     rmap_err (\<lambda>_. ()) (hash_from_digest HmacSha384 hmac))"
| "key_perform_hmac L (KeySemiTpm spub spriv hpub hpriv) data =
     rbind (ok_or (tpm_unmarshall L hpub) ()) (\<lambda>hmac_public.
     rbind (rmap_err (\<lambda>_. ()) (hmac_scheme hmac_public)) (\<lambda>(hash_algo, ht).
     rbind (ok_or (tpm_hmac L hpriv hmac_public hash_algo data) ()) (\<lambda>hmac.
     rmap_err (\<lambda>_. ()) (hash_from_digest ht hmac))))"

section \<open>The credential\<close>

definition DEVICE_CREDENTIAL_FILESYSTEM_PATH :: string where
  "DEVICE_CREDENTIAL_FILESYSTEM_PATH = ''/etc/device-credentials''"

fun key_storage_of :: "key_lib \<Rightarrow> key_reference \<Rightarrow> (unit, key_storage) res" where
  "key_storage_of K (KeyFileSystem sign_key hmac_key) =
     rbind (ok_or (private_key_to_der K sign_key) ()) (\<lambda>private_key. Ok (Plain hmac_key private_key))"
| "key_storage_of K (KeySemiTpm spub spriv hpub hpriv) = Ok (key_storage.Tpm spub spriv hpub hpriv)"

definition credential_filename :: "mfg_host \<Rightarrow> (unit, string) res" where
  "credential_filename h =
     rbind (env_var_os h ''DEVICE_CREDENTIAL_FILENAME'') (\<lambda>f.
     Ok (case f of Some filename \<Rightarrow> filename | None \<Rightarrow> DEVICE_CREDENTIAL_FILESYSTEM_PATH))"

definition write_file :: "file_env \<Rightarrow> string \<Rightarrow> bytes \<Rightarrow> (files, unit, unit) st" where
  "write_file E p bs fs = (if call_ok E WriteFile then (fs(p \<mapsto> bs), Ok ()) else (fs(p := torn E), Err ()))"

definition save_to_credential ::
  "'z devlib_scheme \<Rightarrow> key_lib \<Rightarrow> mfg_host \<Rightarrow> key_reference \<Rightarrow> string \<Rightarrow> guid \<Rightarrow> rendezvous_info \<Rightarrow> hash \<Rightarrow>
     (files, unit, unit) st" where
  "save_to_credential L K h keyref device_info guid rvinfo pubkey_hash =
     sbind (lift (key_storage_of K keyref)) (\<lambda>storage.
     sbind (lift (rmap_err (\<lambda>_. ()) (credential_ser L
       \<lparr>dc_active = True, dc_protver = Version1_1, dc_device_info = device_info, dc_guid = guid, dc_rvinfo = rvinfo,
        dc_pubkey_hash = pubkey_hash, dc_key_storage = storage\<rparr>))) (\<lambda>cred.
     sbind (lift (credential_filename h)) (\<lambda>filename.
     write_file (mh_files h) filename cred)))"

section \<open>DIUN\<close>

datatype diun_public_key_verification_mode = DiunHash hash | DiunCerts x5bag | DiunInsecure

definition get_X5Bag_from_rootcerts_path ::
  "'z devlib_scheme \<Rightarrow> key_lib \<Rightarrow> mfg_host \<Rightarrow> files \<Rightarrow> string \<Rightarrow> (unit, x5bag) res" where
  "get_X5Bag_from_rootcerts_path L K h fs rootcerts_path =
     rbind (read_file (mh_files h) fs rootcerts_path) (\<lambda>pem.
     rbind (ok_or (stack_from_pem K pem) ()) (\<lambda>cs.
     rmap_err (\<lambda>_. ()) (with_certs L cs)))"

definition verification_mode_from_env ::
  "'z devlib_scheme \<Rightarrow> key_lib \<Rightarrow> mfg_host \<Rightarrow> files \<Rightarrow> (unit, diun_public_key_verification_mode) res" where
  "verification_mode_from_env L K h fs =
     (case env_var h ''DIUN_PUB_KEY_ROOTCERTS'' of
        Some rootcerts_path \<Rightarrow> rmap DiunCerts (get_X5Bag_from_rootcerts_path L K h fs rootcerts_path)
      | None \<Rightarrow>
          (case env_var h ''DIUN_PUB_KEY_HASH'' of
             Some hash \<Rightarrow> rmap DiunHash (rmap_err (\<lambda>_. ()) (hash_from_str L hash))
           | None \<Rightarrow> if env_var h ''DIUN_PUB_KEY_INSECURE'' \<noteq> None then Ok DiunInsecure else Err ()))"

fun verify_diun_chain :: "'z openssl_scheme \<Rightarrow> diun_public_key_verification_mode \<Rightarrow> x5chain \<Rightarrow> x509 result" where
  "verify_diun_chain L (DiunHash hash) c = verify_from_digest L c hash"
| "verify_diun_chain L (DiunCerts bag) c = verify_from_x5bag L c bag"
| "verify_diun_chain L DiunInsecure c = insecure_verify_without_root_verification L c"

definition or_any :: "('e, 'a) res \<Rightarrow> ('s, unit, 'a) st" where
  "or_any r = lift (rmap_err (\<lambda>_. ()) r)"

definition connect_ser :: "mfg_lib \<Rightarrow> diun_connect \<Rightarrow> bytes result" where
  "connect_ser M m = serde_ser (c_connect M)
     (nonce_bytes (dcn_nonce_diun_1 m), dcn_kex_suite m, dcn_cipher_suite m, dcn_key_exchange m)"

definition accept_payload_des :: "mfg_lib \<Rightarrow> bytes \<Rightarrow> accept_payload result" where
  "accept_payload_des M bs = rmap AcceptPayload (serde_des (c_accept_payload M) bs)"

definition key_parameters_des :: "mfg_lib \<Rightarrow> bytes \<Rightarrow> provide_key_parameters result" where
  "key_parameters_des M bs =
     rmap (\<lambda>(t, a). \<lparr>pkp_key_type = t, pkp_key_storage_types_allowed = a\<rparr>) (serde_des (c_key_parameters M) bs)"

definition provide_key_ser :: "mfg_lib \<Rightarrow> provide_key \<Rightarrow> bytes result" where
  "provide_key_ser M m = serde_ser (c_provide_key M) (prk_public_key m, prk_public_key_storage m)"

text \<open>The checks of the Accept message: the key that the server proves to have, and its payload.\<close>

definition check_accept ::
  "'z plib_scheme \<Rightarrow> mfg_lib \<Rightarrow> diun_public_key_verification_mode \<Rightarrow> nonce \<Rightarrow> cosesign \<Rightarrow> (unit, accept_payload) res" where
  "check_accept L M mode nonce_diun_1 token =
     rbind (rmap_err (\<lambda>_. ()) (get_unprotected_value L (v_public_key L) token CUPHOwnerPubKey)) (\<lambda>k.
     rbind (ok_or k ()) (\<lambda>k.
     rbind (ok_or (certs k) ()) (\<lambda>diun_pubchain.
     rbind (rmap_err (\<lambda>_. ()) (verify_diun_chain L mode diun_pubchain)) (\<lambda>cert.
     rbind (ok_or (x509_public_key L cert) ()) (\<lambda>diun_pubkey.
     rbind (rmap_err (\<lambda>_. ()) (get_protected_value L (v_nonce L) token CUPHNonce diun_pubkey)) (\<lambda>n.
     rbind (ok_or n ()) (\<lambda>nonce_from_server.
     rbind (unwrap (nonce_eq L nonce_diun_1 nonce_from_server)) (\<lambda>same.
     if \<not> same then Err ()
     else rmap_err (\<lambda>_. ()) (get_payload L (accept_payload_des M) token diun_pubkey)))))))))"

record diun_random =
  dr_nonce :: "bytes option"
  dr_kex_gen :: "bytes option"
  dr_kex_random :: "nat \<Rightarrow> bytes option"
  dr_hmac_key :: "bytes option"

text \<open>Connect and Accept: the keys of the session. The requirement of a key derivation is read after the
  chain of the server was found and before it is verified; both are only tests that may fail.\<close>

definition diun_connect_step ::
  "'z plib_scheme \<Rightarrow> mfg_lib \<Rightarrow> 's http_lib \<Rightarrow> 'w poster \<Rightarrow> diun_random \<Rightarrow> diun_public_key_verification_mode \<Rightarrow>
     ('w \<times> service_client, unit, encryption_keys) st" where
  "diun_connect_step L M H post R mode =
     sbind (or_any (nonce_new (dr_nonce R))) (\<lambda>nonce_diun_1.
     sbind (or_any (key_exchange_new Ecdh384 (dr_kex_gen R) (dr_kex_random R))) (\<lambda>key_exchange.
     sbind (or_any (get_public L key_exchange)) (\<lambda>pub.
     sbind (smap_err (\<lambda>_. ()) (send_request L H post diun_Connect diun_Accept (connect_ser M)
       (\<lambda>bs. rmap Accept (cosesign_des L bs))
       \<lparr>dcn_nonce_diun_1 = nonce_diun_1, dcn_kex_suite = Ecdh384, dcn_cipher_suite = A256Gcm, dcn_key_exchange = pub\<rparr>
       None)) (\<lambda>accept.
     sbind the_client (\<lambda>client.
     sbind (lift (ok_or (sc_non_interoperable_kdf_required client) ())) (\<lambda>non_interop.
     sbind (lift (check_accept L M mode nonce_diun_1 (dac_token accept))) (\<lambda>accept_payload.
     sbind (or_any (derive_key L key_exchange Device A256Gcm (ap_key_exchange accept_payload) non_interop)) (\<lambda>new_keys.
     lift (Ok (keys_from_derived A256Gcm new_keys))))))))))"

definition perform_diun ::
  "'z devlib_scheme \<Rightarrow> mfg_lib \<Rightarrow> key_lib \<Rightarrow> 's http_lib \<Rightarrow> 'w poster \<Rightarrow> diun_random \<Rightarrow>
     diun_public_key_verification_mode \<Rightarrow> ('w \<times> service_client, unit, key_reference \<times> mfg_string_type) st" where
  "perform_diun L M K H post R mode =
     sbind (diun_connect_step L M H post R mode) (\<lambda>new_keys.
     sbind (smap_err (\<lambda>_. ()) (send_request L H post diun_RequestKeyParameters diun_ProvideKeyParameters
       (\<lambda>m. serde_ser (c_key_request M) (rkp_tenant_id m)) (key_parameters_des M) (RequestKeyParameters None)
       (Some new_keys))) (\<lambda>key_parameters.
     sbind (lift (get_new_key L K (dr_hmac_key R) (pkp_key_type key_parameters)
       (pkp_key_storage_types_allowed key_parameters))) (\<lambda>key_ref.
     sbind (lift (get_public_key_as_der L K key_ref)) (\<lambda>der.
     sbind (smap_err (\<lambda>_. ()) (send_request L H post diun_ProvideKey diun_Done (provide_key_ser M)
       (\<lambda>bs. rmap DiunDone (serde_des (c_diun_done M) bs))
       \<lparr>prk_public_key = der, prk_public_key_storage = get_public_key_storage_type key_ref\<rparr> None)) (\<lambda>done.
     lift (Ok (key_ref, dd_mfg_string_type done)))))))"

section \<open>DI\<close>

text \<open>A network that does not touch the files of the client.\<close>

definition net :: "'w poster \<Rightarrow> ('w \<times> files) poster" where
  "net post ws rq = (case post (fst ws) rq of (w, r) \<Rightarrow> ((w, snd ws), r))"

text \<open>What the client does between the two requests: the HMAC of the header, and the credential that it
  saves.\<close>

definition initialise_credential ::
  "'z devlib_scheme \<Rightarrow> key_lib \<Rightarrow> mfg_host \<Rightarrow> key_reference \<Rightarrow> ov_header \<Rightarrow> (files, unit, hash) st" where
  "initialise_credential L K h key_reference hdr =
     sbind (or_any (ov_header_ser L hdr)) (\<lambda>ov_header_buf.
     sbind (lift (key_perform_hmac L key_reference ov_header_buf)) (\<lambda>hmac.
     sbind (or_any (manufacturer_public_key_hash L hdr Sha384)) (\<lambda>pubkey_hash.
     sbind (save_to_credential L K h key_reference (oh_device_info hdr) (oh_guid hdr) (oh_rendezvous_info hdr)
       pubkey_hash) (\<lambda>_.
     lift (Ok hmac)))))"

definition perform_di ::
  "'z devlib_scheme \<Rightarrow> mfg_lib \<Rightarrow> key_lib \<Rightarrow> 's http_lib \<Rightarrow> 'w poster \<Rightarrow> mfg_host \<Rightarrow> key_reference \<Rightarrow> mfg_string_type \<Rightarrow>
     string option \<Rightarrow> (('w \<times> files) \<times> service_client, unit, unit) st" where
  "perform_di L M K H post h key_reference mfg_string_type iface =
     sbind (lift (get_mfg_info h mfg_string_type iface)) (\<lambda>mfg_info.
     sbind (or_any (app_start_new L mfg_info)) (\<lambda>app_start.
     sbind (smap_err (\<lambda>_. ()) (send_request L H (net post) di_AppStart di_SetCredentials
       (\<lambda>m. serde_ser (c_app_start M) (as_mfg_info m)) (\<lambda>bs. rmap SetCredentials (ov_header_des L bs)) app_start None))
       (\<lambda>set_credentials.
     sbind (on_world (on_data (initialise_credential L K h key_reference (scr_ov_header set_credentials)))) (\<lambda>hmac.
     sbind (smap_err (\<lambda>_. ()) (send_request L H (net post) di_SetHMAC di_Done
       (\<lambda>m. serde_ser (c_set_hmac M) (hash_tuple (sh_hmac m)))
       (\<lambda>bs. rmap (\<lambda>_. DiDone) (serde_des (c_di_done M) bs)) (SetHMAC hmac) None)) (\<lambda>_.
     lift (Ok ()))))))"

section \<open>The program\<close>

datatype command =
  PlainDI (pd_url: string) (pd_mfg_string_type: mfg_string_type) (pd_iface: "string option") (pd_key_ref: string)
| NoPlainDI (npd_url: string) (npd_rootcerts: "string option") (npd_hash: "string option") (npd_insecure: bool)
    (npd_iface: "string option")

definition some_default_iface :: "mfg_host \<Rightarrow> (unit, string) res" where
  "some_default_iface h = rbind (get_default_network_iface h) (\<lambda>i. ok_or i ())"

text \<open>The network interface, which is needed for MAC addresses only: the one that was given, or the default
  one.\<close>

definition choose_iface :: "mfg_host \<Rightarrow> mfg_string_type \<Rightarrow> string option \<Rightarrow> (unit, string option) res" where
  "choose_iface h t given =
     (if t \<noteq> MACAddress then Ok None
      else case given of Some i \<Rightarrow> Ok (Some i) | None \<Rightarrow> rmap Some (some_default_iface h))"

definition command_mode ::
  "'z devlib_scheme \<Rightarrow> key_lib \<Rightarrow> mfg_host \<Rightarrow> files \<Rightarrow> string option \<Rightarrow> string option \<Rightarrow> bool \<Rightarrow>
     (unit, diun_public_key_verification_mode) res" where
  "command_mode L K h fs rootcerts hash insecure =
     (case rootcerts of
        Some p \<Rightarrow> rmap DiunCerts (get_X5Bag_from_rootcerts_path L K h fs p)
      | None \<Rightarrow>
          (case hash of
             Some s \<Rightarrow> rmap DiunHash (rmap_err (\<lambda>_. ()) (hash_from_str L s))
           | None \<Rightarrow> if insecure then Ok DiunInsecure else Err ()))"

text \<open>A computation with a new client, and the files of the host.\<close>

definition with_client ::
  "string \<Rightarrow> (('w \<times> files) \<times> service_client, unit, 'a) st \<Rightarrow> ('w \<times> files, unit, 'a) st" where
  "with_client url m ws = (case m (ws, service_client_new Version1_1 url) of ((ws', c), r) \<Rightarrow> (ws', r))"

definition the_files :: "(('w \<times> files) \<times> service_client, unit, files) st" where
  "the_files s = (s, Ok (snd (fst s)))"

fun run_command ::
  "'z devlib_scheme \<Rightarrow> mfg_lib \<Rightarrow> key_lib \<Rightarrow> 's http_lib \<Rightarrow> 'w poster \<Rightarrow> mfg_host \<Rightarrow> diun_random \<Rightarrow> command \<Rightarrow>
     (('w \<times> files) \<times> service_client, unit, unit) st" where
  "run_command L M K H post h R (PlainDI url mfg_string_type iface key_ref) =
     sbind the_files (\<lambda>fs.
     sbind (lift (choose_iface h mfg_string_type iface)) (\<lambda>iface.
     sbind (lift (str_key L h fs key_ref)) (\<lambda>keyref.
     perform_di L M K H post h keyref mfg_string_type iface)))"
| "run_command L M K H post h R (NoPlainDI url rootcerts hash insecure iface) =
     sbind the_files (\<lambda>fs.
     sbind (lift (command_mode L K h fs rootcerts hash insecure)) (\<lambda>mode.
     sbind (perform_diun L M K H (net post) R mode) (\<lambda>(keyref, mfg_string_type).
     sbind (lift (choose_iface h mfg_string_type iface)) (\<lambda>iface.
     perform_di L M K H post h keyref mfg_string_type iface))))"

definition run_plain_from_env ::
  "'z devlib_scheme \<Rightarrow> mfg_lib \<Rightarrow> key_lib \<Rightarrow> 's http_lib \<Rightarrow> 'w poster \<Rightarrow> mfg_host \<Rightarrow>
     (('w \<times> files) \<times> service_client, unit, unit) st" where
  "run_plain_from_env L M K H post h =
     sbind the_files (\<lambda>fs.
     sbind (or_any (mfg_string_type_from_str
       (case env_var h ''DI_MFG_STRING_TYPE'' of Some s \<Rightarrow> s | None \<Rightarrow> ''serialnumber''))) (\<lambda>mfg_string_type.
     sbind (lift (choose_iface h mfg_string_type (env_var h ''DI_MFG_STRING_TYPE_MAC_IFACE''))) (\<lambda>iface.
     sbind (lift (env_key L h fs)) (\<lambda>keyref.
     perform_di L M K H post h keyref mfg_string_type iface))))"

definition run_diun_from_env ::
  "'z devlib_scheme \<Rightarrow> mfg_lib \<Rightarrow> key_lib \<Rightarrow> 's http_lib \<Rightarrow> 'w poster \<Rightarrow> mfg_host \<Rightarrow> diun_random \<Rightarrow>
     (('w \<times> files) \<times> service_client, unit, unit) st" where
  "run_diun_from_env L M K H post h R =
     sbind the_files (\<lambda>fs.
     sbind (lift (verification_mode_from_env L K h fs)) (\<lambda>mode.
     let iface = env_var h ''DI_MFG_STRING_TYPE_MAC_IFACE'' in
     sbind (perform_diun L M K H (net post) R mode) (\<lambda>(keyref, mfg_string_type).
     sbind (lift (if mfg_string_type = MACAddress \<and> iface = None then rmap Some (some_default_iface h)
                  else Ok iface)) (\<lambda>iface.
     perform_di L M K H post h keyref mfg_string_type iface))))"

text \<open>\<open>main\<close>: nothing is done when an active credential is found.\<close>

definition mfg_main ::
  "'z devlib_scheme \<Rightarrow> mfg_lib \<Rightarrow> key_lib \<Rightarrow> 's http_lib \<Rightarrow> 'w poster \<Rightarrow> mfg_host \<Rightarrow> diun_random \<Rightarrow> command option \<Rightarrow>
     ('w \<times> files, unit, unit) st" where
  "mfg_main L M K H post h R args ws =
     sbind (lift (case find_credential (snd ws) (mh_env h) of
              None \<Rightarrow> Ok False
            | Some (Err e) \<Rightarrow> Err ()
            | Some Panic \<Rightarrow> Panic
            | Some (Ok loc) \<Rightarrow> rmap dc_active (read_credential L (mh_files h) (snd ws) loc))) (\<lambda>active.
     if active then lift (Ok ())
     else
       (case args of
          Some command \<Rightarrow>
            with_client (case command of PlainDI url _ _ _ \<Rightarrow> url | NoPlainDI url _ _ _ _ \<Rightarrow> url)
              (run_command L M K H post h R command)
        | None \<Rightarrow>
            sbind (lift (ok_or (env_var h ''MANUFACTURING_SERVER_URL'') ())) (\<lambda>url.
            with_client url
              (if env_var h ''USE_PLAIN_DI'' = Some ''true'' then run_plain_from_env L M K H post h
               else run_diun_from_env L M K H post h R)))) ws"

end
