(* ===== verification/Manufacturing_Sessions.thy ===== *)
theory Manufacturing_Sessions
  imports Manufacturing_Vouchers
begin

text \<open>
  What the manufacturing server guarantees over all its runs: a session in which DIUN was performed is
  encrypted, and it holds the key that the device sent over the encrypted session. When plain DI is
  disabled, certificates and vouchers are made in such sessions only.
\<close>

section \<open>The endpoints\<close>

definition connect_des :: "mfg_lib \<Rightarrow> bytes \<Rightarrow> diun_connect result" where
  "connect_des M bs =
     rbind (serde_des (c_connect M) bs) (\<lambda>(n, kex, cipher, pub).
     rbind (rmap_err (\<lambda>_. SerdeCborError) (nonce_try_from n)) (\<lambda>n.
     Ok \<lparr>dcn_nonce_diun_1 = n, dcn_kex_suite = kex, dcn_cipher_suite = cipher, dcn_key_exchange = pub\<rparr>))"

definition key_parameters_ser :: "mfg_lib \<Rightarrow> provide_key_parameters \<Rightarrow> bytes result" where
  "key_parameters_ser M m = serde_ser (c_key_parameters M) (pkp_key_type m, pkp_key_storage_types_allowed m)"

definition provide_key_des :: "mfg_lib \<Rightarrow> bytes \<Rightarrow> provide_key result" where
  "provide_key_des M bs =
     rmap (\<lambda>(k, t). \<lparr>prk_public_key = k, prk_public_key_storage = t\<rparr>) (serde_des (c_provide_key M) bs)"

inductive_set mfg_endpoints ::
  "'z plib_scheme \<Rightarrow> mfg_lib \<Rightarrow> 's http_lib \<Rightarrow> manufacturing_ud \<Rightarrow> ('e, string, voucher, 't) store_ops \<Rightarrow>
     ('e, string, bytes, 'p) store_ops option \<Rightarrow> ('s, 't \<times> 'p) endpoint set"
  for L M H UD ops pks where
  ep_app_start: "endpoint L di_AppStart di_SetCredentials (\<lambda>bs. rmap AppStart (serde_des (c_app_start M) bs))
     (\<lambda>m. ov_header_ser L (scr_ov_header m)) (handle_app_start L M H UD pks E serial_rnd guid_rnd)
     \<in> mfg_endpoints L M H UD ops pks"
| ep_set_hmac: "endpoint L di_SetHMAC di_Done (\<lambda>bs. rmap (\<lambda>h. SetHMAC (tuple_hash h)) (serde_des (c_set_hmac M) bs))
     (\<lambda>_. serde_ser (c_di_done M) ()) (handle_set_hmac L H UD ops E) \<in> mfg_endpoints L M H UD ops pks"
| ep_connect: "endpoint L diun_Connect diun_Accept (connect_des M) (\<lambda>m. cosesign_ser L (dac_token m))
     (handle_diun_connect L M H UD gen kexrnd) \<in> mfg_endpoints L M H UD ops pks"
| ep_request_key_parameters: "endpoint L diun_RequestKeyParameters diun_ProvideKeyParameters
     (\<lambda>bs. rmap RequestKeyParameters (serde_des (c_key_request M) bs)) (key_parameters_ser M)
     (handle_request_key_parameters H UD) \<in> mfg_endpoints L M H UD ops pks"
| ep_provide_key: "endpoint L diun_ProvideKey diun_Done (provide_key_des M)
     (\<lambda>m. serde_ser (c_diun_done M) (dd_mfg_string_type m)) (handle_provide_key H UD) \<in> mfg_endpoints L M H UD ops pks"

section \<open>What the handlers do to a session\<close>

lemma fail_if_no_diun_Ok_iff [res_simps]:
  "fail_if_no_diun IM UD t = (t', Ok u) \<longleftrightarrow> t' = t \<and> mu_diun_configuration UD \<noteq> None"
  by (auto simp: fail_if_no_diun_def res_simps)

lemma app_start_session:
  assumes "handle_app_start L M H UD pks E srnd grnd info msg st = (st', Ok (res, info'))" "session_doc H"
  shows "ses_id H (ri_session info') = ses_id H (ri_session info)"
    and "k \<notin> {OV_HEADER_SES_KEY, DEVICE_CERTIFICATE_SES_KEY} \<Longrightarrow> ses_get H (ri_session info') k = ses_get H (ri_session info) k"
proof -
  obtain t c s1 where s: "ses_insert H (ri_session info) OV_HEADER_SES_KEY t = Some s1"
    "ses_insert H s1 DEVICE_CERTIFICATE_SES_KEY c = Some (ri_session info')"
    using assms(1) by (rule app_start_answered) blast
  note get = ses_insert_get [OF assms(2) s(1)] ses_insert_get [OF assms(2) s(2)]
  show "ses_id H (ri_session info') = ses_id H (ri_session info)" by (simp add: get)
  show "k \<notin> {OV_HEADER_SES_KEY, DEVICE_CERTIFICATE_SES_KEY} \<Longrightarrow> ses_get H (ri_session info') k = ses_get H (ri_session info) k"
    by (simp add: get)
qed

lemma set_hmac_session: "handle_set_hmac L H UD ops E info msg st = (st', Ok (res, info')) \<Longrightarrow> info' = info"
  by (rule set_hmac_answered) auto

lemma connect_session:
  assumes "handle_diun_connect L M H UD gen kexrnd info msg t = (t', Ok (res, info'))" "session_doc H"
  shows "ses_id H (ri_session info') = ses_id H (ri_session info)"
    and "k \<noteq> DIUN_KEYS_SES_KEY \<Longrightarrow> ses_get H (ri_session info') k = ses_get H (ri_session info) k"
    and "\<exists>c d. ses_get H (ri_session info') DIUN_KEYS_SES_KEY = Some (SKeys (keys_from_derived c d))"
proof -
  from assms(1) obtain c d where
    s: "ses_insert H (ri_session info) DIUN_KEYS_SES_KEY (SKeys (keys_from_derived c d)) = Some (ri_session info')"
    by (auto simp: handle_diun_connect_def Let_def res_simps)
  note get = ses_insert_get [OF assms(2) s]
  show "ses_id H (ri_session info') = ses_id H (ri_session info)"
    "k \<noteq> DIUN_KEYS_SES_KEY \<Longrightarrow> ses_get H (ri_session info') k = ses_get H (ri_session info) k"
    "\<exists>c d. ses_get H (ri_session info') DIUN_KEYS_SES_KEY = Some (SKeys (keys_from_derived c d))"
    by (auto simp: get)
qed

lemma request_key_parameters_session:
  assumes "handle_request_key_parameters H UD info msg t = (t', Ok (res, info'))" "session_doc H"
  shows "ses_id H (ri_session info') = ses_id H (ri_session info)"
    and "k \<notin> {DIUN_KEYS_SES_KEY, ENCRYPTION_KEYS_SES_KEY} \<Longrightarrow> ses_get H (ri_session info') k = ses_get H (ri_session info) k"
    and "ses_get H (ri_session info') DIUN_KEYS_SES_KEY = None"
    and "\<exists>keys. get_keys H (ri_session info) DIUN_KEYS_SES_KEY = Some keys \<and> session_keys H (ri_session info') = keys"
proof -
  from assms(1) obtain keys where k: "get_keys H (ri_session info) DIUN_KEYS_SES_KEY = Some keys"
    and s: "ses_insert H (ses_remove H (ri_session info) DIUN_KEYS_SES_KEY) ENCRYPTION_KEYS_SES_KEY (SKeys keys) =
      Some (ri_session info')"
    by (auto simp: handle_request_key_parameters_def Let_def res_simps set_encryption_keys_def split: option.splits)
  note get = ses_insert_get [OF assms(2) s] ses_remove_get [OF assms(2)]
  show "ses_id H (ri_session info') = ses_id H (ri_session info)"
    "k \<notin> {DIUN_KEYS_SES_KEY, ENCRYPTION_KEYS_SES_KEY} \<Longrightarrow> ses_get H (ri_session info') k = ses_get H (ri_session info) k"
    by (auto simp: get)
  show "ses_get H (ri_session info') DIUN_KEYS_SES_KEY = None" by (simp add: get) (simp add: mfg_ses_keys)
  show "\<exists>keys. get_keys H (ri_session info) DIUN_KEYS_SES_KEY = Some keys \<and> session_keys H (ri_session info') = keys"
    using k by (simp add: session_keys_def get_keys_def get)
qed

lemma provide_key_session:
  assumes "handle_provide_key H UD info msg t = (t', Ok (res, info'))" "session_doc H"
  shows "ses_id H (ri_session info') = ses_id H (ri_session info)"
    and "k \<notin> {DEVICE_KEY_FROM_DIUN_SES_KEY, PERFORMED_DIUN_SES_KEY} \<Longrightarrow>
      ses_get H (ri_session info') k = ses_get H (ri_session info) k"
    and "get_bytes H (ri_session info') DEVICE_KEY_FROM_DIUN_SES_KEY = Some (prk_public_key msg)"
proof -
  from assms(1) obtain s1 where s:
    "ses_insert H (ri_session info) DEVICE_KEY_FROM_DIUN_SES_KEY (SBytes (prk_public_key msg)) = Some s1"
    "ses_insert H s1 PERFORMED_DIUN_SES_KEY (SBool True) = Some (ri_session info')"
    by (auto simp: handle_provide_key_def res_simps)
  note get = ses_insert_get [OF assms(2) s(1)] ses_insert_get [OF assms(2) s(2)]
  show "ses_id H (ri_session info') = ses_id H (ri_session info)"
    "k \<notin> {DEVICE_KEY_FROM_DIUN_SES_KEY, PERFORMED_DIUN_SES_KEY} \<Longrightarrow> ses_get H (ri_session info') k = ses_get H (ri_session info) k"
    by (auto simp: get)
  show "get_bytes H (ri_session info') DEVICE_KEY_FROM_DIUN_SES_KEY = Some (prk_public_key msg)"
    by (simp add: get_bytes_def get) (simp add: mfg_ses_keys)
qed

lemma mfg_endpoints_ok:
  assumes "session_doc H" "ep \<in> mfg_endpoints L M H UD ops pks"
  shows "endpoint_ok H ep"
  using assms(2)
  by cases (auto simp: message_defs intro!: endpoint_okI dest: app_start_session(1) [OF _ assms(1)] set_hmac_session
      connect_session(1) [OF _ assms(1)] request_key_parameters_session(1) [OF _ assms(1)]
      provide_key_session(1) [OF _ assms(1)])

section \<open>The session invariant\<close>

definition mfg_session_ok :: "'s http_lib \<Rightarrow> 's \<Rightarrow> bool" where
  "mfg_session_ok H s \<longleftrightarrow>
     (\<forall>k. get_keys H s DIUN_KEYS_SES_KEY = Some k \<longrightarrow> keys_is_some k) \<and>
     (get_bool H s PERFORMED_DIUN_SES_KEY \<noteq> None \<longrightarrow>
        keys_is_some (session_keys H s) \<and> get_bytes H s DEVICE_KEY_FROM_DIUN_SES_KEY \<noteq> None)"

lemmas mfg_reads = mfg_session_ok_def get_bool_def get_bytes_def get_keys_def session_keys_def

abbreviation mfg_keys :: "string set" where
  "mfg_keys \<equiv> {DIUN_KEYS_SES_KEY, PERFORMED_DIUN_SES_KEY, DEVICE_KEY_FROM_DIUN_SES_KEY, ENCRYPTION_KEYS_SES_KEY}"

lemma mfg_session_ok_cong:
  assumes "\<And>k. k \<in> mfg_keys \<Longrightarrow> ses_get H s' k = ses_get H s k" "mfg_session_ok H s"
  shows "mfg_session_ok H s'"
  using assms by (simp add: mfg_reads)

lemma mfg_session_new: "session_doc H \<Longrightarrow> mfg_session_ok H (ses_new H r)"
  by (simp add: mfg_reads session_doc_def)

lemma mfg_session_noted:
  assumes "session_doc H" "mfg_session_ok H s" "ses_insert H s LAST_MSG_SES_KEY (SMsgType t) = Some s'"
  shows "mfg_session_ok H s'"
  by (rule mfg_session_ok_cong [OF _ assms(2)]) (auto simp: ses_insert_get [OF assms(1,3)] mfg_ses_keys)

lemma keys_from_derived_some: "keys_is_some (keys_from_derived c d)"
  by (simp add: keys_is_some_def keys_is_none_def keys_from_derived_def)

lemma connect_keeps_ok:
  assumes "handle_diun_connect L M H UD gen kexrnd info msg t = (t', Ok (res, info'))" "session_doc H"
    and "mfg_session_ok H (ri_session info)"
  shows "mfg_session_ok H (ri_session info')"
proof -
  have "ses_get H (ri_session info') k = ses_get H (ri_session info) k"
    if "k \<in> {PERFORMED_DIUN_SES_KEY, DEVICE_KEY_FROM_DIUN_SES_KEY, ENCRYPTION_KEYS_SES_KEY}" for k
    by (rule connect_session(2) [OF assms(1,2)]) (use that in \<open>auto simp: mfg_ses_keys\<close>)
  with connect_session(3) [OF assms(1,2)] assms(3) show ?thesis
    by (auto simp: mfg_reads keys_from_derived_some)
qed

lemma request_key_parameters_keeps_ok:
  assumes "handle_request_key_parameters H UD info msg t = (t', Ok (res, info'))" "session_doc H"
    and "mfg_session_ok H (ri_session info)"
  shows "mfg_session_ok H (ri_session info')"
proof -
  have get: "ses_get H (ri_session info') k = ses_get H (ri_session info) k"
    if "k \<in> {PERFORMED_DIUN_SES_KEY, DEVICE_KEY_FROM_DIUN_SES_KEY}" for k
    by (rule request_key_parameters_session(2) [OF assms(1,2)]) (use that in \<open>auto simp: mfg_ses_keys\<close>)
  have "keys_is_some (session_keys H (ri_session info'))"
    using request_key_parameters_session(4) [OF assms(1,2)] assms(3) by (auto simp: mfg_session_ok_def)
  with request_key_parameters_session(3) [OF assms(1,2)] assms(3) show ?thesis
    by (simp add: mfg_session_ok_def get_bool_def get_bytes_def get) (simp add: get_keys_def)
qed

lemma provide_key_keeps_ok:
  assumes "handle_provide_key H UD info msg t = (t', Ok (res, info'))" "session_doc H"
    and "mfg_session_ok H (ri_session info)" "encryption_met diun_ProvideKey (session_keys H (ri_session info))"
  shows "mfg_session_ok H (ri_session info')"
proof -
  have get: "ses_get H (ri_session info') k = ses_get H (ri_session info) k"
    if "k \<in> {DIUN_KEYS_SES_KEY, ENCRYPTION_KEYS_SES_KEY}" for k
    by (rule provide_key_session(2) [OF assms(1,2)]) (use that in \<open>auto simp: mfg_ses_keys\<close>)
  have "keys_is_some (session_keys H (ri_session info'))"
    using assms(4) by (simp add: session_keys_def get_keys_def get encryption_met_def diun_ProvideKey_def keys_is_some_def)
  with provide_key_session(3) [OF assms(1,2)] assms(3) show ?thesis
    by (simp add: mfg_session_ok_def) (simp add: get_keys_def get)
qed

lemma mfg_endpoints_keep_ok:
  assumes "ep \<in> mfg_endpoints L M H UD ops pks" "session_doc H" "mfg_session_ok H (ri_session info)"
    and "encryption_met (ep_in ep) (session_keys H (ri_session info))"
    and "ep_handle ep info body u = (u', Ok (res, info'))"
  shows "mfg_session_ok H (ri_session info')"
  using assms(1)
proof cases
  case ep_app_start
  with assms(5) obtain E srnd grnd msg r where
    a: "handle_app_start L M H UD pks E srnd grnd info msg u = (u', Ok (r, info'))" by (auto simp: endpoint_handled)
  have "ses_get H (ri_session info') k = ses_get H (ri_session info) k" if "k \<in> mfg_keys" for k
    by (rule app_start_session(2) [OF a assms(2)]) (use that in \<open>auto simp: mfg_ses_keys\<close>)
  then show ?thesis by (rule mfg_session_ok_cong [OF _ assms(3)])
next
  case ep_provide_key
  with assms(2-5) show ?thesis by (auto simp: endpoint_handled intro: provide_key_keeps_ok)
qed (use assms(2,3,5) in \<open>auto simp: endpoint_handled dest: set_hmac_session
    intro: connect_keeps_ok request_key_parameters_keeps_ok\<close>)

text \<open>The initial states of a server whose sessions are in a directory: without sessions, or with sessions
  that an earlier run left.\<close>

definition mfg_start :: "'s http_lib \<Rightarrow> (bytes \<Rightarrow> ('s \<times> bytes) result) \<Rightarrow> (dir \<times> 'u \<Rightarrow> bool) \<Rightarrow> bool" where
  "mfg_start H srd start \<longleftrightarrow>
     (\<forall>st. start st \<longrightarrow> tmp_plain (fst st) \<and>
        (\<forall>k s e. plain_key k \<longrightarrow> dir_held srd (fst st) k = Some (s, e) \<longrightarrow> mfg_session_ok H s))"

lemma mfg_reachable:
  assumes "server_run L H (directory_ops sser srd) (mfg_endpoints L M H UD ops pks) env_ok start st hist"
    and "session_env H (storable_by sser srd same) same" "same_values H same"
    and "mfg_start H srd start" "\<And>E. env_ok E \<Longrightarrow> clock_ok (now E)"
    and "plain_key k" "dir_held srd (fst st) k = Some (s, e)"
  shows "mfg_session_ok H s"
proof -
  have doc: "session_doc H" using assms(2) by (simp add: session_env_def)
  have "directory_sessions.sessions_all srd (mfg_session_ok H) (fst st) \<and> True"
  proof (rule directory_sessions.run_sessions_all [OF assms(1), where P = "\<lambda>_. True"])
    show "directory_sessions.sessions_all srd (mfg_session_ok H) (fst st) \<and> True" if "start st" for st
      using assms(4) that unfolding directory_sessions.sessions_all_def mfg_start_def by blast
    show "mfg_session_ok H s'" if "mfg_session_ok H s" "same s s'" for s s'
      by (rule mfg_session_ok_cong [OF _ that(1)]) (use assms(3) that(2) in \<open>auto simp: same_values_def\<close>)
    show "mfg_session_ok H (ri_session info')"
      if "ep \<in> mfg_endpoints L M H UD ops pks" "mfg_session_ok H (ri_session info)"
        "encryption_met (ep_in ep) (session_keys H (ri_session info))"
        "ep_handle ep info body u = (u', Ok (res, info'))" for ep info body u u' res info'
      using that(1) doc that(2-4) by (rule mfg_endpoints_keep_ok)
  qed (simp_all add: preserves_def assms(2,5) mfg_session_new [OF doc] mfg_session_noted [OF doc])
  with assms(6,7) show ?thesis by (auto simp: directory_sessions.sessions_all_def)
qed

section \<open>Properties\<close>

text \<open>C12: with plain DI disabled, devices are initialised only after DIUN: when the server answers AppStart in
  a reachable state, for a session of the store, the session is encrypted, the device has sent its key in
  it, and the certificate that the server made is for exactly that key; the store of public keys is not
  consulted. An answer to SetHMAC, which stores the voucher, needs such a session too.\<close>

theorem no_di_without_diun:
  assumes "server_run L H (directory_ops sser srd) (mfg_endpoints L M H UD ops pks) env_ok start st hist"
    and "session_env H (storable_by sser srd same) same" "same_values H same" "build_doc L M"
    and "mfg_start H srd start" "\<And>E. env_ok E \<Longrightarrow> clock_ok (now E)"
    and "plain_key sid" "dir_held srd (fst st) sid = Some (ri_session info, e)" "\<not> mu_enable_di UD"
  shows "(handle_app_start L M H UD pks E srnd grnd info msg (snd st) = (u', Ok (res, info')) \<longrightarrow>
      keys_is_some (session_keys H (ri_session info)) \<and> u' = snd st \<and>
      (\<exists>key pk cert. get_bytes H (ri_session info) DEVICE_KEY_FROM_DIUN_SES_KEY = Some key \<and>
        public_key_from_der L key = Some pk \<and> x509_public_key L cert = Some pk \<and>
        get_chain H (ri_session info') DEVICE_CERTIFICATE_SES_KEY = Some (X5Chain (cert # chain (mu_device_cert_chain UD))))) \<and>
    (handle_set_hmac L H UD ops E info hm (snd st) = (u2, Ok res2) \<longrightarrow>
      keys_is_some (session_keys H (ri_session info)) \<and>
      get_bytes H (ri_session info) DEVICE_KEY_FROM_DIUN_SES_KEY \<noteq> None)"
proof (intro conjI impI)
  have doc: "session_doc H" using assms(2) by (simp add: session_env_def)
  note ok = mfg_reachable [OF assms(1-3,5-8), unfolded mfg_session_ok_def]
  {
    assume "handle_app_start L M H UD pks E srnd grnd info msg (snd st) = (u', Ok (res, info'))"
    then obtain mfg key hdr dchain s1 where a: "find_device_key H pks E (ri_session info) mfg (snd st) = (u', Ok (Some key))"
      "new_device_header L M UD srnd grnd mfg key = Ok (hdr, dchain)"
      "ses_insert H s1 DEVICE_CERTIFICATE_SES_KEY (SChain dchain) = Some (ri_session info')"
      "get_bool H (ri_session info) PERFORMED_DIUN_SES_KEY \<noteq> None"
      using assms(9) by (auto elim!: app_start_answered)
    then obtain key' where k: "keys_is_some (session_keys H (ri_session info))"
      "get_bytes H (ri_session info) DEVICE_KEY_FROM_DIUN_SES_KEY = Some key'" using ok by auto
    show "keys_is_some (session_keys H (ri_session info))" by (rule k)
    have key: "key = key'" "u' = snd st" using a(1) k(2) by (auto simp: find_device_key_def)
    then show "u' = snd st" by simp
    obtain pk cert where "public_key_from_der L key = Some pk" "x509_public_key L cert = Some pk"
      "dchain = X5Chain (cert # chain (mu_device_cert_chain UD))"
      using a(2) assms(4) by (rule new_device_header_Ok) blast
    moreover have "get_chain H (ri_session info') DEVICE_CERTIFICATE_SES_KEY = Some dchain"
      by (simp add: get_chain_def ses_insert_get [OF doc a(3)])
    ultimately show "\<exists>key pk cert. get_bytes H (ri_session info) DEVICE_KEY_FROM_DIUN_SES_KEY = Some key \<and>
        public_key_from_der L key = Some pk \<and> x509_public_key L cert = Some pk \<and>
        get_chain H (ri_session info') DEVICE_CERTIFICATE_SES_KEY = Some (X5Chain (cert # chain (mu_device_cert_chain UD)))"
      using k(2) key(1) by blast
  next
    assume "handle_set_hmac L H UD ops E info hm (snd st) = (u2, Ok res2)"
    then have "get_bool H (ri_session info) PERFORMED_DIUN_SES_KEY \<noteq> None"
      using assms(9) by (cases res2) (auto elim!: set_hmac_answered)
    then show "keys_is_some (session_keys H (ri_session info))"
      "get_bytes H (ri_session info) DEVICE_KEY_FROM_DIUN_SES_KEY \<noteq> None" using ok by auto
  }
qed

end
