(* ===== verification/Device_Initialisation.thy ===== *)
theory Device_Initialisation
  imports Manufacturing_Client Manufacturing_Sessions
begin

text \<open>
  The two sides of device initialisation together: the credential that the manufacturing client saves
  accepts, in TO2, the voucher that the manufacturing server stores; and the manufacturing client goes on
  only with a server that proves to have a key it was told to trust.
\<close>

lemma or_any_Ok_iff [res_simps]: "or_any r s = (s', Ok x) \<longleftrightarrow> s' = s \<and> r = Ok x"
  by (auto simp: or_any_def rmap_err_Ok_iff)

section \<open>The credential\<close>

lemma key_storage_hmac:
  assumes "key_storage_of K kr = Ok ks" "key_perform_hmac L kr data = Ok hmac"
    and "get_public_key_storage_type kr = key_storage_type.Tpm \<Longrightarrow> tpm_available L"
  shows "perform_hmac L ks data (hash_type hmac) = Ok hmac"
  using assms
  by (cases kr) (auto simp: res_simps semi_tpm_def hash_from_digest_def digest_size.simps split: if_splits)

lemma hash_eq_refl: "memcmp_doc L \<Longrightarrow> hash_eq L a a = Ok True"
  by (simp add: hash_eq_def memcmp_def memcmp_doc_def)

lemma initialise_credential_saved:
  assumes "initialise_credential L K h kr hdr fs = (fs', Ok hmac)" "codec_doc (c_credential L)" "memcmp_doc L"
    and "length (guid_bytes (oh_guid hdr)) = 16"
    and "get_public_key_storage_type kr = key_storage_type.Tpm \<Longrightarrow> tpm_available L"
  obtains p c bs buf where "credential_filename h = Ok p" "fs' p = Some bs" "credential_des L bs = Ok c"
    "dc_active c" "dc_guid c = oh_guid hdr" "dc_device_info c = oh_device_info hdr"
    "manufacturer_public_key_hash L hdr Sha384 = Ok (dc_pubkey_hash c)"
    "ov_header_ser L hdr = Ok buf" "verify_hmac L c buf hmac = Ok ()"
proof -
  from assms(1) obtain buf ph ks p bs where i: "ov_header_ser L hdr = Ok buf" "key_perform_hmac L kr buf = Ok hmac"
    "manufacturer_public_key_hash L hdr Sha384 = Ok ph" "key_storage_of K kr = Ok ks"
    "credential_ser L \<lparr>dc_active = True, dc_protver = Version1_1, dc_device_info = oh_device_info hdr,
       dc_guid = oh_guid hdr, dc_rvinfo = oh_rendezvous_info hdr, dc_pubkey_hash = ph, dc_key_storage = ks\<rparr> = Ok bs"
    "credential_filename h = Ok p" "fs' = fs(p \<mapsto> bs)"
    unfolding initialise_credential_def save_to_credential_def res_simps
    by (elim exE conjE) (auto simp: res_simps write_file_def split: if_splits)
  let ?c = "\<lparr>dc_active = True, dc_protver = Version1_1, dc_device_info = oh_device_info hdr,
       dc_guid = oh_guid hdr, dc_rvinfo = oh_rendezvous_info hdr, dc_pubkey_hash = ph, dc_key_storage = ks\<rparr>"
  have "credential_des L bs = Ok ?c" using credential_roundtrip [OF assms(2) i(5)] assms(4) by simp
  moreover have "verify_hmac L ?c buf hmac = Ok ()"
    using key_storage_hmac [OF i(4,2) assms(5)] hash_eq_refl [OF assms(3)] by (simp add: verify_hmac_def)
  ultimately show ?thesis using i(1,3,6,7) that [of p bs ?c buf] by simp
qed

section \<open>DIUN\<close>

lemma check_accept_Ok:
  assumes "check_accept L M mode n token = Ok pl" "memcmp_doc L"
  obtains k c cert pk where "get_unprotected_value L (v_public_key L) token CUPHOwnerPubKey = Ok (Some k)"
    "certs k = Some c" "verify_diun_chain L mode c = Ok cert" "x509_public_key L cert = Some pk"
    "get_protected_value L (v_nonce L) token CUPHNonce pk = Ok (Some n)"
    "get_payload L (accept_payload_des M) token pk = Ok pl"
proof -
  from assms(1) obtain k c cert pk n' where "get_unprotected_value L (v_public_key L) token CUPHOwnerPubKey = Ok (Some k)"
    "certs k = Some c" "verify_diun_chain L mode c = Ok cert" "x509_public_key L cert = Some pk"
    "get_protected_value L (v_nonce L) token CUPHNonce pk = Ok (Some n')" "nonce_eq L n n' = Ok True"
    "get_payload L (accept_payload_des M) token pk = Ok pl"
    by (auto simp: check_accept_def res_simps split: if_splits)
  with nonce_eq_True [OF _ assms(2)] that show ?thesis by blast
qed

text \<open>What a message with protected headers carries.\<close>

lemma protected_payload:
  assumes "cose_doc L" "cosesign_new_with_protected L p pr un key = Ok cs" "get_payload L des cs pk = Ok x"
  shows "\<exists>bs. p = Ok bs \<and> des bs = Ok x"
proof -
  from assms(2) obtain bs inner pr' un' where p: "p = Ok bs" "cose_sign L bs pr' un' key = Some inner"
      "new_from_inner L inner = Ok cs"
    by (auto simp: cosesign_new_with_protected_def Let_def res_simps)
  then have "cached_inner cs = inner" by (auto simp: new_from_inner_def res_simps)
  with p(2) assms(1) obtain hm where "cose_get L (cached_inner cs) None = Some (hm, bs)" unfolding cose_doc_def by blast
  moreover from assms(3) obtain z where z: "cose_get L (cached_inner cs) (Some pk) = Some z" "des (snd z) = Ok x"
    by (auto simp: get_payload_def res_simps)
  moreover from z(1) assms(1) have "cose_get L (cached_inner cs) None = Some z" unfolding cose_doc_def by blast
  ultimately show ?thesis using p(1) by simp
qed

text \<open>The server that the client accepts: its chain verifies as the mode demands, and the key of the leaf
  signed the nonce of the client together with the public value of the key exchange.\<close>

definition diun_server_accepted ::
  "'z plib_scheme \<Rightarrow> mfg_lib \<Rightarrow> diun_public_key_verification_mode \<Rightarrow> nonce \<Rightarrow> accept_payload \<Rightarrow> bool" where
  "diun_server_accepted L M mode n pl \<longleftrightarrow>
     (\<exists>token k c cert pk. get_unprotected_value L (v_public_key L) token CUPHOwnerPubKey = Ok (Some k) \<and>
        certs k = Some c \<and> verify_diun_chain L mode c = Ok cert \<and> x509_public_key L cert = Some pk \<and>
        get_protected_value L (v_nonce L) token CUPHNonce pk = Ok (Some n) \<and>
        get_payload L (accept_payload_des M) token pk = Ok pl)"

lemma diun_connected:
  assumes "diun_connect_step L M H post R mode s = (s', Ok keys)" "memcmp_doc L"
  shows "\<exists>n kex pl ni ks. nonce_new (dr_nonce R) = Ok n \<and>
    key_exchange_new Ecdh384 (dr_kex_gen R) (dr_kex_random R) = Ok kex \<and> diun_server_accepted L M mode n pl \<and>
    derive_key L kex Device A256Gcm (ap_key_exchange pl) ni = Ok ks \<and> keys = keys_from_derived A256Gcm ks"
proof -
  from assms(1) obtain n kex accept pl ni ks where d: "nonce_new (dr_nonce R) = Ok n"
    "key_exchange_new Ecdh384 (dr_kex_gen R) (dr_kex_random R) = Ok kex"
    "check_accept L M mode n (dac_token accept) = Ok pl"
    "derive_key L kex Device A256Gcm (ap_key_exchange pl) ni = Ok ks" "keys = keys_from_derived A256Gcm ks"
    by (auto simp: diun_connect_step_def res_simps)
  from check_accept_Ok [OF d(3) assms(2)] have "diun_server_accepted L M mode n pl"
    unfolding diun_server_accepted_def by metis
  with d show ?thesis by blast
qed

section \<open>Properties\<close>


text \<open>C9: device initialisation fits together: when the server answers AppStart with a header, the client
  reads the bytes of that header, saves its credential and sends its HMAC, and the server answers SetHMAC in
  the same session, then the client's file holds an active credential and the server's store holds, under
  the GUID of that credential, a voucher that passes the two checks of the device in TO2: the HMAC over the
  header bytes, and the hash of the manufacturer's key.\<close>

theorem initialised_device_accepts_voucher:
  assumes docs: "voucher_codecs L" "cose_doc L" "memcmp_doc L" "codec_doc (c_entry L)" "text_doc L" "build_doc L M"
      "session_doc H"
    and app_start: "handle_app_start L M H UD pks E serial_rnd (Some guid) info msg st = (st1, Ok (SetCredentials hdr, info1))"
    and session: "\<And>k. k \<in> {OV_HEADER_SES_KEY, DEVICE_CERTIFICATE_SES_KEY} \<Longrightarrow>
      ses_get H (ri_session info2) k = ses_get H (ri_session info1) k"
    and set_hmac: "handle_set_hmac L H UD (voucher_ops L) E' info2 (SetHMAC hmac) st2 = (st3, Ok res)"
    and server: "length guid = 16" "tmp_plain (fst st2)" "\<And>pk. mu_owner_cert UD = Some pk \<Longrightarrow> wf_public_key L pk"
    and client: "ov_header_ser L hdr = Ok bs" "ov_header_des L bs = Ok hdr'"
      "initialise_credential L K h key_ref hdr' fs = (fs', Ok hmac)"
    and "codec_doc (c_credential L)" "get_public_key_storage_type key_ref = key_storage_type.Tpm \<Longrightarrow> tpm_available L"
    and "call_ok RE ReadFile"
  shows "\<exists>p c k v raw. credential_filename h = Ok p \<and>
    read_credential L RE fs' \<lparr>fp_path = p, fp_deactivation_method = m\<rparr> = Ok c \<and> dc_active c \<and>
    guid_key L (dc_guid c) = Some k \<and> dir_held (voucher_read L) (fst st3) k = Some (v, None) \<and>
    header_raw L v = Ok raw \<and> verify_hmac L c raw (ov_header_hmac v) = Ok () \<and> check_manufacturer_key L c raw = Ok ()"
proof -
  from di_voucher [OF docs app_start session set_hmac server] obtain k v where
    v: "guid_key L (oh_guid hdr) = Some k" "dir_held (voucher_read L) (fst st3) k = Some (v, None)"
    "header_raw L v = Ok bs" "ov_header_hmac v = hmac"
    using client(1) by auto
  obtain mfg key dchain bs' where as: "new_device_header L M UD serial_rnd (Some guid) mfg key = Ok (hdr, dchain)"
    using app_start by (rule app_start_answered) auto
  have same: "same_header hdr hdr'"
    by (rule new_header_read [OF docs(1,6) server(1) as client(1,2)])
  note h = same_header_same [OF same]
  have len: "length (guid_bytes (oh_guid hdr')) = 16"
    using v(1) h(3) by (simp add: guid_key_def split: if_splits)
  obtain p c cb buf where c: "credential_filename h = Ok p" "fs' p = Some cb" "credential_des L cb = Ok c" "dc_active c"
    "dc_guid c = oh_guid hdr'" "manufacturer_public_key_hash L hdr' Sha384 = Ok (dc_pubkey_hash c)"
    "ov_header_ser L hdr' = Ok buf" "verify_hmac L c buf hmac = Ok ()"
    by (rule initialise_credential_saved [OF client(3) assms(17) docs(3) len assms(18)])
  have "buf = bs" using c(7) client(1) h(1) [of L] by simp
  moreover have "hash_type (dc_pubkey_hash c) = Sha384"
    using c(6) by (auto simp: manufacturer_public_key_hash_def array_get_hash_def res_simps dest: hash_from_data_Ok(1))
  then have "check_manufacturer_key L c bs = Ok ()"
    using c(6) client(2) hash_compare_refl [OF docs(3)] by (simp add: check_manufacturer_key_def)
  moreover have "read_credential L RE fs' \<lparr>fp_path = p, fp_deactivation_method = m\<rparr> = Ok c"
    using c(2,3) assms(19) by (simp add: read_credential_def read_file_def)
  ultimately show ?thesis using c v h(3) by metis
qed


end
