(* ===== verification/Manufacturing_Witnesses.thy ===== *)
theory Manufacturing_Witnesses
  imports Device_Witness Device_Initialisation
begin

text \<open>
  Applications of the theorems about device initialisation to concrete data: a device with the key of
  \<open>PrivKey [4]\<close>, made by a server whose CA is \<open>X509 [7]\<close> and whose manufacturer has the key \<open>PKey [9]\<close>.
\<close>

section \<open>Codecs from tables\<close>

definition table :: "('a \<times> bytes) list \<Rightarrow> 'a codec" where
  "table t = \<lparr>enc = map_of t, dec = map_of (map prod.swap t)\<rparr>"

lemma table_doc: "distinct (map snd t) \<Longrightarrow> codec_doc (table t)"
proof -
  assume "distinct (map snd t)"
  then have "distinct (map fst (map prod.swap t))" by (simp add: comp_def)
  then show ?thesis by (force simp: codec_doc_def table_def dest: map_of_SomeD intro: map_of_is_SomeI)
qed

text \<open>A premise that follows from its own assumption.\<close>

lemma trivial_premise:
  "((\<And>x. P x \<Longrightarrow> P x) \<Longrightarrow> PROP Q) \<equiv> PROP Q" "((A \<Longrightarrow> A) \<Longrightarrow> PROP Q) \<equiv> PROP Q"
proof (rule equal_intr_rule)
  assume q: "(\<And>x. P x \<Longrightarrow> P x) \<Longrightarrow> PROP Q" show "PROP Q" by (rule q)
next
  assume q: "PROP Q" show "PROP Q" by (rule q)
next
  show "((A \<Longrightarrow> A) \<Longrightarrow> PROP Q) \<equiv> PROP Q"
  proof (rule equal_intr_rule)
    assume q: "(A \<Longrightarrow> A) \<Longrightarrow> PROP Q" show "PROP Q" by (rule q)
  next
    assume q: "PROP Q" show "PROP Q" by (rule q)
  qed
qed

section \<open>The library of the factory\<close>

abbreviation mfg_chain :: x5chain where "mfg_chain \<equiv> X5Chain [X509 [4], X509 [7]]"

definition mfg_chain_hash :: hash where
  "mfg_chain_hash = \<lparr>hash_type = Sha384, hash_value = [4, 7] @ replicate 46 0\<rparr>"

definition mfg_key_hash :: hash where
  "mfg_key_hash = \<lparr>hash_type = Sha384, hash_value = [0x83, 3, 1] @ bstr [9] @ replicate 35 0\<rparr>"

definition mfg_sample :: devlib where
  "mfg_sample = sample\<lparr>
     c_value := table [(Text ''dev'', [0x63, 0x64, 0x65, 0x76])],
     c_opt_x5chain := table [(None, [0xf6]), (Some [[4], [7]], 0x82 # bstr [4] @ bstr [7])],
     c_credential := table [((True, Version1_1, ''dev'', replicate 16 0, [], hash_tuple mfg_key_hash, Plain [3] [4]), [1])]\<rparr>"

definition sample_mfg :: mfg_lib where
  "sample_mfg = \<lparr>
     c_connect = codec_of (\<lambda>_. Some [0x80]) (\<lambda>_. None),
     c_accept_payload = bytes_codec,
     c_key_request = codec_of (\<lambda>_. Some [0x80]) (\<lambda>_. None),
     c_key_parameters = table [((SECP256R1, None), [0x80])],
     c_provide_key = codec_of (\<lambda>_. Some [0x80]) (\<lambda>_. None),
     c_diun_done = table [(SerialNumber, [0x80])],
     c_app_start = bytes_codec,
     c_set_hmac = codec_of hash_enc hash_dec,
     c_di_done = codec_of (\<lambda>_. Some [0x80]) (\<lambda>_. Some ((), [])),
     name_with_cn = (\<lambda>s. Some (X509Name (ascii s))),
     x509_not_after = (\<lambda>_. Asn1Time [9]),
     x509_subject_name = (\<lambda>c. X509Name (x509_bytes c)),
     days_from_now = (\<lambda>_. Some (Asn1Time [1])),
     x509_build = (\<lambda>r _ _. Some (X509 (pkey_bytes (cr_pubkey r))))\<rparr>"

lemma mfg_sample_fields:
  "md_hash mfg_sample = pad" "memcmp_eq mfg_sample = memcmp_eq sample" "public_key_from_der mfg_sample b = Some (PKey b)"
  "x509_public_key mfg_sample c = Some (PKey (x509_bytes c))" "x509_to_der mfg_sample c = Some (x509_bytes c)"
  "x509_issued mfg_sample c c'" "x509_verify mfg_sample c k = Some True" "pkey_kind mfg_sample k = Some EcP256"
  "public_key_to_der mfg_sample k = Some (pkey_bytes k)"
  "hmac_sign mfg_sample = hmac_sign sample" "hmac_sign sample s md b = Some (replicate (md_size md) (hd s))"
  "uuid_fmt mfg_sample = uuid_fmt sample"
  "hex_encode mfg_sample = hex_encode sample" "hex_decode mfg_sample = hex_decode sample"
  by (simp_all add: mfg_sample_def sample_def)

lemma mfg_sample_docs:
  "voucher_codecs mfg_sample" "cose_doc mfg_sample" "memcmp_doc mfg_sample" "codec_doc (c_entry mfg_sample)"
  "text_doc mfg_sample" "codec_doc (c_credential mfg_sample)" "build_doc mfg_sample sample_mfg"
proof -
  let ?c = "table [(None, [0xf6]), (Some [[4], [7]], 0x82 # bstr [4] @ bstr [7])] :: bytes list option codec"
  have "codec_doc ?c" by (rule table_doc) simp
  moreover have "one_item (0x82 # bstr [4] @ bstr [7])"
    using array_header_one_item [OF small_arrays(3), of "[bstr [4], bstr [7]]"] one_item_bstr [of "[4]"] one_item_bstr [of "[7]"]
    by simp
  ultimately have "opt_codec ?c" by (auto simp: opt_codec_def) (auto simp: table_def split: if_splits)
  then show "voucher_codecs mfg_sample"
    using sample_codecs by (simp add: voucher_codecs_def mfg_sample_def byteorder_doc_def der_doc_def)
  show "cose_doc mfg_sample" using sample_cose by (simp add: cose_doc_def mfg_sample_def)
  show "memcmp_doc mfg_sample" using sample_memcmp by (simp add: memcmp_doc_def mfg_sample_def)
  show "codec_doc (c_entry mfg_sample)" using sample_entry by (simp add: mfg_sample_def)
  show "text_doc mfg_sample" using sample_text by (simp add: text_doc_def mfg_sample_def)
  show "codec_doc (c_credential mfg_sample)" by (simp add: mfg_sample_def table_doc)
  have "PKey (pkey_bytes k) = k" for k by (cases k) simp
  then show "build_doc mfg_sample sample_mfg" by (simp add: build_doc_def sample_mfg_def mfg_sample_fields)
qed

section \<open>The header of the device\<close>

definition mfg_ws :: "bytes list" where
  "mfg_ws = [[1], bstr (replicate 16 0), [0x80], bstr (ascii ''dev''),
     [0x83, 3, 1] @ bstr [9], [0x82, 1] @ bstr ([4, 7] @ replicate 46 0)]"

definition mfg_header :: ov_header where
  "mfg_header =
     \<lparr>oh_contents = \<lparr>tag = None, header = None, contents = mfg_ws\<rparr>, oh_protocol_version = Version1_1,
      oh_guid = Guid (replicate 16 0), oh_rendezvous_info = [], oh_device_info = ''dev'',
      oh_manufacturer_public_key = sample_key [9], oh_device_certificate_chain_hash = Some mfg_chain_hash\<rparr>"

definition mfg_header_bytes :: bytes where
  "mfg_header_bytes = 0x86 # concat mfg_ws"

lemma mfg_header_new:
  "ov_header_new mfg_sample Version1_1 (Guid (replicate 16 0)) [] ''dev'' (sample_key [9]) (Some mfg_chain_hash) = Ok mfg_header"
proof -
  have "trim ''dev'' = ''dev''" by (simp add: trim_def is_space_def)
  then show ?thesis
    by (simp add: ov_header_new_def Let_def build_array_rtraverse guid_ser_def public_key_ser_def mfg_sample_def
        opt_hash_ser_def sample_codec_defs key_tuple_def sample_key_def hash_tuple_def mfg_chain_hash_def
        mfg_header_def mfg_ws_def ascii_def)
qed

lemma mfg_header_ser:
  "serialize_to_writer L (oh_contents mfg_header) = Ok mfg_header_bytes" "ov_header_ser L mfg_header = Ok mfg_header_bytes"
proof -
  show "serialize_to_writer L (oh_contents mfg_header) = Ok mfg_header_bytes"
    by (simp add: serialize_to_writer_def mfg_header_def mfg_header_bytes_def mfg_ws_def encode_item_start_def MASK_VAL_def)
  moreover have "check_device_info ''dev'' = Ok ()" by code_simp
  moreover have "oh_device_info mfg_header = ''dev''" by (simp add: mfg_header_def)
  ultimately show "ov_header_ser L mfg_header = Ok mfg_header_bytes" by (simp add: ov_header_ser_def)
qed

lemma mfg_header_length: "length mfg_header_bytes < 2 ^ 63"
  by (simp add: mfg_header_bytes_def mfg_ws_def bstr_def ascii_def)

lemma mfg_header_des:
  obtains hdr where "ov_header_des mfg_sample mfg_header_bytes = Ok hdr" "same_header mfg_header hdr"
proof -
  have wf: "wf_public_key mfg_sample (sample_key [9])"
    by (simp add: wf_public_key_def sample_key_def public_key_new_def parse_data_def mfg_sample_fields)
  have "check_device_info (trim ''dev'') = Ok ()" by code_simp
  from ov_header_roundtrip [OF mfg_sample_docs(1) _ wf this mfg_header_new] mfg_header_ser(1) [of mfg_sample]
  have "\<forall>r. \<exists>hdr'. ov_header_read mfg_sample (mfg_header_bytes @ r) = Ok (hdr', r) \<and> same_header mfg_header hdr'"
    by simp
  then obtain hdr where "ov_header_read mfg_sample (mfg_header_bytes @ []) = Ok (hdr, [])" "same_header mfg_header hdr"
    by blast
  with that show ?thesis by (simp add: ov_header_des_def)
qed

section \<open>AppStart\<close>

definition mfg_ud :: manufacturing_ud where
  "mfg_ud = \<lparr>mu_manufacturer_cert = X509 [9], mu_manufacturer_key = None, mu_device_cert_key = PrivKey [7],
     mu_device_cert_chain = X5Chain [X509 [7]], mu_owner_cert = None, mu_rendezvous_info = [], mu_enable_di = False,
     mu_diun_configuration = None\<rparr>"

lemma mfg_new_header:
  "new_device_header mfg_sample sample_mfg mfg_ud (Some [1]) (Some (replicate 16 0)) ''dev'' [4] = Ok (mfg_header, mfg_chain)"
proof -
  have h: "hash_from_data mfg_sample Sha384 [4, 7] = Ok mfg_chain_hash"
    by (simp add: hash_from_data_def mfg_sample_fields pad_short mfg_chain_hash_def)
  have k: "public_key_from_x509 mfg_sample (X509 [9]) = Ok (sample_key [9])"
    by (simp add: public_key_from_x509_def key_type_from_pkey_def mfg_sample_fields sample_key_def)
  have c: "create_device_certificate sample_mfg (Some [1]) (X509 [7]) (PrivKey [7]) ''dev'' (PKey [4]) = Ok (X509 [4])"
    by (simp add: create_device_certificate_def) (simp add: sample_mfg_def)
  show ?thesis
    by (simp add: new_device_header_def mfg_ud_def leaf_certificate_def c create_device_cert_chain_def x5chain_new_def h k
        mfg_header_new guid_new_def new_nonce_or_guid_val_def mfg_sample_fields)
qed

definition diun_ses :: sample_session where
  "diun_ses = (''AAAA'', [(PERFORMED_DIUN_SES_KEY, SBool True), (DEVICE_KEY_FROM_DIUN_SES_KEY, SBytes [4]),
     (LAST_MSG_SES_KEY, SMsgType DIUNDone), (ENCRYPTION_KEYS_SES_KEY, SKeys proven_keys)])"

definition diun_info :: "sample_session request_info" where
  "diun_info = \<lparr>ri_session = diun_ses, ri_req_hash = \<lparr>hash_type = Sha256, hash_value = []\<rparr>, ri_headers = Map.empty\<rparr>"

definition di_ses :: sample_session where
  "di_ses = (''AAAA'', [(DEVICE_CERTIFICATE_SES_KEY, SChain mfg_chain),
     (OV_HEADER_SES_KEY, SString (hex_encode sample mfg_header_bytes))] @ snd diun_ses)"

abbreviation di_info :: "sample_session request_info" where
  "di_info \<equiv> diun_info\<lparr>ri_session := di_ses\<rparr>"

abbreviation no_keys :: "(fs_env, string, bytes, dir) store_ops option" where "no_keys \<equiv> None"

lemma mfg_app_start:
  "handle_app_start mfg_sample sample_mfg sample_http mfg_ud no_keys E (Some [1]) (Some (replicate 16 0)) diun_info
     (AppStart [0x63, 0x64, 0x65, 0x76]) st = (st, Ok (SetCredentials mfg_header, di_info))"
proof -
  have v: "app_start_mfg_info mfg_sample (AppStart [0x63, 0x64, 0x65, 0x76]) = Ok (Text ''dev'')"
    by (simp add: app_start_mfg_info_def serde_des_def mfg_sample_def table_def)
  have s: "get_bool sample_http diun_ses PERFORMED_DIUN_SES_KEY = Some True"
    "get_bytes sample_http diun_ses DEVICE_KEY_FROM_DIUN_SES_KEY = Some [4]"
    by (simp_all add: get_bool_def get_bytes_def diun_ses_def sample_session_ops) (simp_all add: mfg_ses_keys)
  have i: "ses_insert sample_http diun_ses k v = Some (''AAAA'', (k, v) # snd diun_ses)" for k v
    by (simp add: diun_ses_def sample_session_ops)
  have ud: "\<not> mu_enable_di mfg_ud" by (simp add: mfg_ud_def)
  have f: "find_device_key sample_http no_keys E diun_ses m st = (st, Ok (Some [4]))" for m
    by (simp add: find_device_key_def s)
  show ?thesis
    by (simp add: handle_app_start_def fail_if_no_di_and_not_from_diun_def ud s v diun_info_def or_internal_def sbind_def
        lift_def f mfg_new_header mfg_header_ser session_put_def i sample_session_ops di_ses_def mfg_sample_fields)
qed

section \<open>SetHMAC\<close>

definition mfg_hmac :: hash where
  "mfg_hmac = \<lparr>hash_type = HmacSha384, hash_value = replicate 48 3\<rparr>"

lemma mfg_voucher_new:
  assumes "same_header mfg_header hdr"
  shows "\<exists>v bs. voucher_new mfg_sample hdr mfg_hmac (Some mfg_chain) = Ok v \<and> voucher_ser mfg_sample v = Ok bs"
proof -
  have "serialize_to_writer mfg_sample (oh_contents hdr) = Ok mfg_header_bytes"
    using same_array_ser [of "oh_contents mfg_header" "oh_contents hdr" mfg_sample] assms mfg_header_ser(1) [of mfg_sample]
    by (simp add: same_header_def)
  moreover have c: "enc (c_version mfg_sample) Version1_1 = Some [1]" "enc (c_bytebuf mfg_sample) = bstr_opt"
    "enc (c_hash mfg_sample) = hash_enc" "enc (c_opt_x5chain mfg_sample) (Some [[4], [7]]) = Some (0x82 # bstr [4] @ bstr [7])"
    by (simp_all add: mfg_sample_def table_def) (simp_all add: sample_def version_codec_def bytes_codec_def codec_of_def)
  ultimately obtain v ws where v: "voucher_new mfg_sample hdr mfg_hmac (Some mfg_chain) = Ok v"
    "ov_contents v = \<lparr>tag = None, header = None, contents = ws\<rparr>" "length ws = 5"
    using mfg_header_length
    by (simp add: voucher_new_def Let_def new_empty_bytes build_array_rtraverse hash_ser_def opt_x5chain_ser_def
        x5chain_ders_def mfg_sample_fields serde_ser_def bstr_opt_def hash_enc_def hash_tuple_def mfg_hmac_def)
  then have "\<exists>bs. voucher_ser mfg_sample v = Ok bs"
    by (simp add: voucher_ser_def serialize_to_writer_def encode_item_start_def MASK_VAL_def)
  with v(1) show ?thesis by blast
qed

lemma mfg_set_hmac:
  "\<exists>d. handle_set_hmac mfg_sample sample_http mfg_ud (voucher_ops mfg_sample) (calm_fs 5 []) di_info (SetHMAC mfg_hmac)
     (Map.empty, p) = ((d, p), Ok (DiDone, di_info))"
proof -
  obtain hdr where hdr: "ov_header_des mfg_sample mfg_header_bytes = Ok hdr" "same_header mfg_header hdr"
    by (rule mfg_header_des)
  obtain v bs where v: "voucher_new mfg_sample hdr mfg_hmac (Some mfg_chain) = Ok v" "voucher_ser mfg_sample v = Ok bs"
    using mfg_voucher_new [OF hdr(2)] by blast
  have mv: "make_voucher mfg_sample mfg_ud hdr mfg_hmac mfg_chain = Ok v"
    by (simp add: make_voucher_def v(1) mfg_ud_def)
  have g: "guid_key mfg_sample (oh_guid hdr) = Some sample_guid_text"
    using same_header_same(3) [OF hdr(2)] sample_guid_key by (simp add: mfg_header_def guid_key_def mfg_sample_fields)
  obtain d where "so_store (voucher_ops mfg_sample) (calm_fs 5 []) Map.empty sample_guid_text v = (d, Ok ())"
    using calm_store [of "voucher_ser mfg_sample" v bs] v(2) by blast
  then have st: "store_device mfg_sample (voucher_ops mfg_sample) (calm_fs 5 []) (oh_guid hdr) v Map.empty = (d, Ok ())"
    by (simp add: store_device_def guid_fmt_def g sbind_lift_Ok)
  have s: "get_bool sample_http di_ses PERFORMED_DIUN_SES_KEY = Some True"
    "get_string sample_http di_ses OV_HEADER_SES_KEY = Some (hex_encode sample mfg_header_bytes)"
    "get_chain sample_http di_ses DEVICE_CERTIFICATE_SES_KEY = Some mfg_chain"
    by (simp_all add: get_bool_def get_string_def get_chain_def di_ses_def diun_ses_def sample_session_ops)
       (simp_all add: mfg_ses_keys)
  have x: "hex_decode mfg_sample (hex_encode sample mfg_header_bytes) = Some mfg_header_bytes"
    using sample_text by (simp add: text_doc_def mfg_sample_fields)
  show ?thesis
    by (simp add: handle_set_hmac_def Let_def fail_if_no_di_and_not_from_diun_def s x hdr mv sbind_def lift_def
        or_internal_def smap_err_def on_store_def st)
qed



text \<open>A server that starts with the session of a device that has performed DIUN.\<close>

abbreviation diun_sessions :: dir where
  "diun_sessions \<equiv> one_file ''AAAA'' (min_be (to_nat diun_ses))"

lemma diun_ses_reads:
  "get_bool sample_http diun_ses PERFORMED_DIUN_SES_KEY = Some True"
  "get_bytes sample_http diun_ses DEVICE_KEY_FROM_DIUN_SES_KEY = Some [4]"
  "get_keys sample_http diun_ses DIUN_KEYS_SES_KEY = None"
  "session_keys sample_http diun_ses = proven_keys"
  by (simp_all add: session_keys_def get_keys_def get_bool_def get_bytes_def diun_ses_def sample_session_ops)
     (simp_all add: mfg_ses_keys)

lemma proven_keys_some: "keys_is_some proven_keys"
proof -
  obtain ks where "derive_key sample owner_kex OwnerService A256Gcm device_pub False = Ok ks"
    using sample_derive [of "[1]"] unfolding owner_kex_def by blast
  then show ?thesis by (simp add: proven_keys_def keys_from_derived_some)
qed

lemma diun_start: "mfg_start sample_http full_rd (\<lambda>st. st = (diun_sessions, u))"
proof -
  have "s = diun_ses" if "dir_held full_rd diun_sessions k = Some (s, e)" for k s e
    using that full_read [of diun_ses]
    by (auto simp: dir_held_def one_file_def read_value_def split: if_splits)
  moreover have "mfg_session_ok sample_http diun_ses"
    by (simp add: mfg_session_ok_def diun_ses_reads proven_keys_some)
  ultimately show ?thesis unfolding mfg_start_def
    by (intro allI impI, elim ssubst, intro conjI allI impI) (simp add: one_file_plain, fastforce)
qed

theorem no_di_without_diun_witness:
  "handle_app_start mfg_sample sample_mfg sample_http mfg_ud no_keys (calm_fs 5 []) (Some [1]) (Some (replicate 16 0))
      diun_info (AppStart [0x63, 0x64, 0x65, 0x76]) (Map.empty :: dir, Map.empty) =
      ((Map.empty, Map.empty), Ok (SetCredentials mfg_header, di_info)) \<and>
    keys_is_some (session_keys sample_http diun_ses) \<and>
    (\<exists>cert. x509_public_key mfg_sample cert = Some (PKey [4]) \<and>
       get_chain sample_http di_ses DEVICE_CERTIFICATE_SES_KEY = Some (X5Chain [cert, X509 [7]]))"
proof -
  let ?u = "(Map.empty, Map.empty) :: dir \<times> dir"
  have run: "server_run mfg_sample sample_http (directory_ops full_ser full_rd)
     (mfg_endpoints mfg_sample sample_mfg sample_http mfg_ud (voucher_ops mfg_sample) no_keys) (\<lambda>E. clock_ok (now E))
     (\<lambda>st. st = (diun_sessions, ?u)) (diun_sessions, ?u) []"
    by (rule run_start) simp
  have h: "dir_held full_rd (fst (diun_sessions, ?u)) ''AAAA'' = Some (ri_session diun_info, None)"
    by (simp add: diun_info_def one_file_held [OF full_read])
  have p: "plain_key ''AAAA''" by (simp add: plain_key_def)
  have ud: "\<not> mu_enable_di mfg_ud" "mu_device_cert_chain mfg_ud = X5Chain [X509 [7]]" by (simp_all add: mfg_ud_def)
  note as = mfg_app_start [of "calm_fs 5 []" "snd (diun_sessions, ?u)"]
  from no_di_without_diun [OF run full_env mfg_sample_docs(7) diun_start _ p h ud(1), THEN conjunct1, rule_format, OF _ as]
  have "\<exists>key pk cert. get_bytes sample_http (ri_session diun_info) DEVICE_KEY_FROM_DIUN_SES_KEY = Some key \<and>
        public_key_from_der mfg_sample key = Some pk \<and> x509_public_key mfg_sample cert = Some pk \<and>
        get_chain sample_http (ri_session di_info) DEVICE_CERTIFICATE_SES_KEY =
          Some (X5Chain (cert # chain (mu_device_cert_chain mfg_ud)))"
    and "keys_is_some (session_keys sample_http (ri_session diun_info))" by blast+
  with as ud(2) show ?thesis by (auto simp: diun_info_def diun_ses_reads mfg_sample_fields)
qed

section \<open>The credential of the device\<close>

definition sample_keys :: key_lib where
  "sample_keys = \<lparr>ec_generate = (\<lambda>_. Some (PrivKey [4])), private_key_to_der = (\<lambda>k. Some (privkey_bytes k)),
     tpm_create = (\<lambda>_. None), rsa_tpm_der = (\<lambda>_. None), ecc_tpm_der = (\<lambda>_ _. None), stack_from_pem = (\<lambda>_. None)\<rparr>"

definition sample_host :: mfg_host where
  "sample_host = \<lparr>mh_env = Map.empty, mh_text = Map.empty, mh_exists = (\<lambda>_. False), mh_routes = None,
     mh_files = \<lparr>call_ok = (\<lambda>_. True), torn = None\<rparr>\<rparr>"

lemma mfg_initialise:
  assumes "same_header mfg_header hdr"
  shows "initialise_credential mfg_sample sample_keys sample_host (KeyFileSystem (PrivKey [4]) [3]) hdr Map.empty =
    ([DEVICE_CREDENTIAL_FILESYSTEM_PATH \<mapsto> [1]], Ok mfg_hmac)"
proof -
  note f = same_header_same [OF assms]
  have d: "oh_guid mfg_header = Guid (replicate 16 0)" "oh_device_info mfg_header = ''dev''" "oh_rendezvous_info mfg_header = []"
    "contents (oh_contents mfg_header) = mfg_ws" by (simp_all add: mfg_header_def)
  have "length ([0x83, 3, 1] @ bstr [9]) = 13" by (simp add: bstr_def)
  then have "pad MdSha384 ([0x83, 3, 1] @ bstr [9]) = Some ([0x83, 3, 1] @ bstr [9] @ replicate 35 0)"
    using pad_short [of "[0x83, 3, 1] @ bstr [9]" MdSha384] by simp
  then have k: "manufacturer_public_key_hash mfg_sample mfg_header Sha384 = Ok mfg_key_hash"
    by (simp add: manufacturer_public_key_hash_def array_get_hash_def array_get_raw_def check_bounds_def nth_or_panic_def
        d mfg_ws_def hash_from_data_def mfg_sample_fields mfg_key_hash_def)
  have h: "key_perform_hmac mfg_sample (KeyFileSystem (PrivKey [4]) [3]) b = Ok mfg_hmac" for b
    by (simp add: mfg_sample_fields hash_from_digest_def mfg_hmac_def)
  have s: "key_storage_of sample_keys (KeyFileSystem (PrivKey [4]) [3]) = Ok (Plain [3] [4])"
    by (simp add: sample_keys_def)
  have c: "serde_ser (c_credential mfg_sample)
      (True, Version1_1, ''dev'', replicate 16 0, [], hash_tuple mfg_key_hash, Plain [3] [4]) = Ok [1]"
    by (simp add: serde_ser_def mfg_sample_def table_def)
  have n: "credential_filename sample_host = Ok DEVICE_CREDENTIAL_FILESYSTEM_PATH"
    by (simp add: credential_filename_def env_var_os_def sample_host_def)
  have o: "call_ok (mh_files sample_host) q" for q by (simp add: sample_host_def)
  show ?thesis
    by (simp add: initialise_credential_def save_to_credential_def or_any_def sbind_def lift_def f d mfg_header_ser k h s
        credential_ser_def c n write_file_def o del: key_perform_hmac.simps key_storage_of.simps)
qed

theorem initialised_device_accepts_voucher_witness:
  "\<exists>d c v hdr k raw. handle_set_hmac mfg_sample sample_http mfg_ud (voucher_ops mfg_sample) (calm_fs 5 []) di_info (SetHMAC mfg_hmac)
      (Map.empty, Map.empty :: dir) = ((d, Map.empty), Ok (DiDone, di_info)) \<and>
    ov_header_des mfg_sample mfg_header_bytes = Ok hdr \<and>
    initialise_credential mfg_sample sample_keys sample_host (KeyFileSystem (PrivKey [4]) [3]) hdr Map.empty =
      ([DEVICE_CREDENTIAL_FILESYSTEM_PATH \<mapsto> [1]], Ok mfg_hmac) \<and>
    read_credential mfg_sample \<lparr>call_ok = (\<lambda>_. True), torn = None\<rparr> [DEVICE_CREDENTIAL_FILESYSTEM_PATH \<mapsto> [1]]
      \<lparr>fp_path = DEVICE_CREDENTIAL_FILESYSTEM_PATH, fp_deactivation_method = Deactivate\<rparr> = Ok c \<and> dc_active c \<and>
    guid_key mfg_sample (dc_guid c) = Some k \<and> dir_held (voucher_read mfg_sample) d k = Some (v, None) \<and>
    header_raw mfg_sample v = Ok raw \<and> verify_hmac mfg_sample c raw (ov_header_hmac v) = Ok () \<and>
    check_manufacturer_key mfg_sample c raw = Ok ()"
proof -
  obtain d where sh: "handle_set_hmac mfg_sample sample_http mfg_ud (voucher_ops mfg_sample) (calm_fs 5 []) di_info (SetHMAC mfg_hmac)
      (Map.empty, Map.empty :: dir) = ((d, Map.empty), Ok (DiDone, di_info))"
    using mfg_set_hmac [of "Map.empty :: dir"] by (elim exE)
  obtain hdr where hdr: "ov_header_des mfg_sample mfg_header_bytes = Ok hdr" "same_header mfg_header hdr"
    by (rule mfg_header_des)
  note as = mfg_app_start [of "calm_fs 5 []" "(Map.empty :: dir, Map.empty :: dir)"]
  have w: "tmp_plain (fst (Map.empty, Map.empty :: dir))" "length (replicate 16 0 :: bytes) = 16" "mu_owner_cert mfg_ud = None"
    "credential_filename sample_host = Ok DEVICE_CREDENTIAL_FILESYSTEM_PATH"
    by (simp_all add: tmp_plain_def mfg_ud_def credential_filename_def env_var_os_def sample_host_def)
  have g: "guid_key mfg_sample (oh_guid mfg_header) = Some sample_guid_text"
    using sample_guid_key by (simp add: mfg_header_def guid_key_def mfg_sample_fields)
  note i = mfg_initialise [OF hdr(2)]
  have own: "\<And>pk. mu_owner_cert mfg_ud = Some pk \<Longrightarrow> wf_public_key mfg_sample pk" by (simp add: w(3))
  have key: "get_public_key_storage_type (KeyFileSystem (PrivKey [4]) [3]) = key_storage_type.Tpm \<Longrightarrow> tpm_available mfg_sample"
    "call_ok \<lparr>call_ok = (\<lambda>_. True), torn = None\<rparr> ReadFile" by simp_all
  from initialised_device_accepts_voucher [OF mfg_sample_docs(1-5,7) sample_http_doc(1) as refl sh w(2,1) own mfg_header_ser(2)
      hdr(1) i mfg_sample_docs(6) key, of Deactivate, unfolded trivial_premise]
  obtain p c k v raw where c: "credential_filename sample_host = Ok p"
    "read_credential mfg_sample \<lparr>call_ok = (\<lambda>_. True), torn = None\<rparr> [DEVICE_CREDENTIAL_FILESYSTEM_PATH \<mapsto> [1]]
      \<lparr>fp_path = p, fp_deactivation_method = Deactivate\<rparr> = Ok c" "dc_active c" "guid_key mfg_sample (dc_guid c) = Some k"
    "dir_held (voucher_read mfg_sample) (fst (d, Map.empty :: dir)) k = Some (v, None)" "header_raw mfg_sample v = Ok raw"
    "verify_hmac mfg_sample c raw (ov_header_hmac v) = Ok ()" "check_manufacturer_key mfg_sample c raw = Ok ()"
    by (elim exE conjE) (rule that; assumption)
  have "p = DEVICE_CREDENTIAL_FILESYSTEM_PATH" using c(1) w(4) by simp
  with c i sh hdr(1) show ?thesis
    by (intro exI [of _ d] exI [of _ c] exI [of _ v] exI [of _ hdr] exI [of _ k] exI [of _ raw] conjI) simp_all
qed

end
