(* ===== verification/Diun_Witnesses.thy ===== *)
theory Diun_Witnesses
  imports Manufacturing_Witnesses
begin

text \<open>
  A complete DIUN on concrete data: a server with the key \<open>PrivKey [8]\<close> and the chain \<open>X509 [8]\<close>, and a
  device that knows the hash of that certificate. The COSE library knows one message, the Accept of this
  exchange.
\<close>

section \<open>The Accept message\<close>

definition diun_nonce :: bytes where "diun_nonce = replicate 16 9"

definition accept_bytes :: bytes where "accept_bytes = bstr owner_pub"

definition accept_items :: "bytes list" where
  "accept_items = [bstr diun_nonce, bstr [8], bstr accept_bytes, bstr [8]]"

definition accept_cose :: cose_sign1 where
  "accept_cose = CoseSign1 (0x84 # concat accept_items)"

definition diun_sample :: devlib where
  "diun_sample = sample\<lparr>
     cose_sign := (\<lambda>p _ _ k. if p = accept_bytes \<and> k = PrivKey [8] then Some accept_cose else None),
     cose_verify := (\<lambda>c k. Some (c = accept_cose \<and> k = PKey [8])),
     cose_get := (\<lambda>c k. if c = accept_cose \<and> (k = None \<or> k = Some (PKey [8]))
       then Some ([Integer 256 \<mapsto> Bytes diun_nonce, Integer 1 \<mapsto> Integer (-7)], accept_bytes) else None),
     cose_unprotected := (\<lambda>_. [Integer 257 \<mapsto> Bytes [8]]),
     v_key := \<lparr>to_value = (\<lambda>_. Some (Bytes [8])),
       from_value = (\<lambda>_. Some (SECP256R1, EncX5CHAIN, 0x81 # bstr [8]))\<rparr>\<rparr>"

lemma diun_sample_fields:
  "cose_get diun_sample accept_cose (Some (PKey [8])) =
     Some ([Integer 256 \<mapsto> Bytes diun_nonce, Integer 1 \<mapsto> Integer (-7)], accept_bytes)"
  "cose_unprotected diun_sample c = [Integer 257 \<mapsto> Bytes [8]]"
  "to_value (v_key diun_sample) k = Some (Bytes [8])"
  "from_value (v_key diun_sample) v = Some (SECP256R1, EncX5CHAIN, 0x81 # bstr [8])"
  "v_bytes diun_sample = v_bytes sample" "c_x5chain diun_sample = codec_of ders_enc ders_dec"
  "cose_sign diun_sample accept_bytes pr un (PrivKey [8]) = Some accept_cose" "cose_sig_alg diun_sample sk = Some (-7)"
  "cose_to_bytes diun_sample c = Some (cose_bytes c)" "cose_from_bytes diun_sample (0xd2 # b) = Some (CoseSign1 b)"
  "x509_from_der diun_sample b = Some (X509 b)" "x509_public_key diun_sample x = Some (PKey (x509_bytes x))"
  "x509_digest diun_sample md x = pad md (x509_bytes x)" "memcmp_eq diun_sample = memcmp_eq sample"
  "public_of diun_sample sk = PKey (privkey_bytes sk)" "public_key_to_der diun_sample pk = Some (pkey_bytes pk)"
  by (simp_all add: diun_sample_def sample_def)

lemma accept_items_ok: "length accept_items = 4" "list_all one_item accept_items"
proof -
  have "length accept_bytes < 2 ^ 63" using sample_publics_length [of 5] by (simp add: accept_bytes_def bstr_def)
  then show "length accept_items = 4" "list_all one_item accept_items"
    by (simp_all add: accept_items_def diun_nonce_def one_item_bstr)
qed

lemma diun_sample_docs:
  "memcmp_doc diun_sample" "bn_doc diun_sample" "ec_doc diun_sample" "dh_doc diun_sample" "cose_doc diun_sample"
proof -
  show "memcmp_doc diun_sample" using sample_memcmp by (simp add: memcmp_doc_def diun_sample_def)
  show "bn_doc diun_sample" using sample_bn by (simp add: bn_doc_def diun_sample_def)
  show "ec_doc diun_sample" using sample_ec by (simp add: ec_doc_def diun_sample_def)
  show "dh_doc diun_sample" using sample_dh by (simp add: dh_doc_def diun_sample_def)
  have "\<exists>items. length items = 4 \<and> list_all one_item items \<and> cose_bytes accept_cose = 0x84 # concat items \<and>
      CoseSign1 (0x84 # concat items) = accept_cose"
    using accept_items_ok by (intro exI [of _ accept_items]) (simp add: accept_cose_def)
  then show "cose_doc diun_sample"
    unfolding cose_doc_def by (simp add: diun_sample_def split: if_splits) (simp add: sample_def)
qed

abbreviation accept_key :: public_key where
  "accept_key \<equiv> \<lparr>key_type = SECP256R1, encoding = EncX5CHAIN, key_data = 0x81 # bstr [8], pk_pkey = PKey [8],
     certs = Some (X5Chain [X509 [8]])\<rparr>"

definition accept_mode :: diun_public_key_verification_mode where
  "accept_mode = DiunHash \<lparr>hash_type = Sha256, hash_value = [8] @ replicate 31 0\<rparr>"

lemma accept_checked:
  assumes "cached_inner token = accept_cose"
  shows "check_accept diun_sample sample_mfg accept_mode (Nonce diun_nonce) token = Ok (AcceptPayload owner_pub)"
proof -
  have "dec (codec_of ders_enc ders_dec) (0x81 # bstr [8]) = Some [[8]]"
    by (simp add: codec_of_def ders_dec_def unbstr_item)
  then have "visit_key diun_sample (SECP256R1, EncX5CHAIN, 0x81 # bstr [8]) = Ok accept_key"
    by (simp add: visit_key_def public_key_new_def parse_data_def x5chain_from_slice_def serde_des_def diun_sample_fields
        x5chain_visit_def leaf_certificate_def)
  then have u: "get_unprotected_value diun_sample (v_public_key diun_sample) token CUPHOwnerPubKey = Ok (Some accept_key)"
    by (simp add: get_unprotected_value_def header_value_def cbor_value_of_def v_public_key_def diun_sample_fields)
  have m: "memcmp_eq sample a a = Some True" for a by (simp add: sample_def)
  have v: "verify_diun_chain diun_sample accept_mode (X5Chain [X509 [8]]) = Ok (X509 [8])"
    by (simp add: accept_mode_def verify_from_digest_def x5chain_verify_def diun_sample_fields
        pad_short memcmp_def m)
  have "from_value (v_bytes sample) (Bytes b) = Some b" for b by (simp add: sample_def)
  then have n: "get_protected_value diun_sample (v_nonce diun_sample) token CUPHNonce (PKey [8]) = Ok (Some (Nonce diun_nonce))"
    by (simp add: get_protected_value_def assms header_value_def cbor_value_of_def v_nonce_def nonce_of_value_def
        nonce_try_from_def bstr16_check_def diun_sample_fields diun_nonce_def)
  have "length owner_pub < 2 ^ 63" using sample_publics_length [of 5] by simp
  then have p: "get_payload diun_sample (accept_payload_des sample_mfg) token (PKey [8]) = Ok (AcceptPayload owner_pub)"
    by (simp add: get_payload_def assms diun_sample_fields accept_payload_des_def serde_des_def sample_mfg_def
        bytes_codec_def codec_of_def accept_bytes_def unbstr_item)
  have e: "nonce_eq diun_sample (Nonce diun_nonce) (Nonce diun_nonce) = Ok True"
    by (simp add: nonce_eq_def memcmp_def diun_sample_fields m)
  show ?thesis by (simp add: check_accept_def u v n p e diun_sample_fields)
qed

lemma accept_sent:
  "cosesign_des diun_sample (0xd2 # 0x84 # concat accept_items) =
     Ok \<lparr>cs_contents = \<lparr>tag = Some COSESIGN_TAG, header = Some [0xd2, 0x84], contents = accept_items\<rparr>,
         cached_inner = accept_cose\<rparr>"
  using cosesign_read_items [OF accept_items_ok, of diun_sample accept_cose "[]"]
  by (simp add: cosesign_des_def diun_sample_fields accept_cose_def)

section \<open>Keys\<close>

lemma diun_public:
  "get_public diun_sample owner_kex = Ok owner_pub" "get_public diun_sample device_kex = Ok device_pub"
  by (simp_all add: owner_kex_def device_kex_def ossl_def diun_sample_def) (simp_all add: sample_def)

lemma diun_derive:
  assumes "s \<in> {[1], [2]}"
  shows "\<exists>k. derive_key diun_sample (Ecdh Ecdh384 s (replicate 48 r)) side A256Gcm
    (encode_ecdh_bstr (min_be 1) (min_be 2) (replicate 48 r')) ni = Ok (Combined k)"
proof -
  have "decode_ecdh_bstr (encode_ecdh_bstr (min_be 1) (min_be 2) (replicate 48 r')) = Ok (min_be 1, min_be 2, replicate 48 r')"
    by (rule decode_encode_ecdh) (simp_all add: min_be_small)
  moreover have s: "bn_from_slice diun_sample b = Some (from_be_bytes b)" "ec_from_affine diun_sample g x y = Some (EcPoint x y)"
    "ec_check_key diun_sample g p" "ec_private_from_der diun_sample b = Some (EcPriv b)"
    "ec_mul diun_sample g p k = Some (EcPoint 3 4)" "\<not> ec_is_infinity diun_sample g (EcPoint 3 4)"
    "ec_is_on_curve diun_sample g p = Some True" "ec_affine diun_sample g (EcPoint x y) = Some (x, y)"
    "perform_kdf diun_sample a n = Some (replicate n 7)" for b g x y p k a n
    by (simp_all add: diun_sample_def sample_def)
  ultimately show ?thesis by (cases side) (simp_all add: derive_key_def ossl_def Let_def)
qed

section \<open>The device\<close>

definition diun_rnd :: diun_random where
  "diun_rnd = \<lparr>dr_nonce = Some diun_nonce, dr_kex_gen = Some [2], dr_kex_random = fixed_random 6,
     dr_hmac_key = Some (replicate 32 1)\<rparr>"

abbreviation mclient0 :: service_client where "mclient0 \<equiv> service_client_new Version1_1 ''http://factory''"
abbreviation mclient1 :: service_client where "mclient1 \<equiv> answered diun_Accept None mclient0"
abbreviation mclient2 :: "encryption_keys \<Rightarrow> service_client" where
  "mclient2 keys \<equiv> answered diun_ProvideKeyParameters (Some keys) mclient1"
abbreviation mclient3 :: "encryption_keys \<Rightarrow> service_client" where
  "mclient3 keys \<equiv> answered diun_Done None (mclient2 keys)"

lemma mclient_states:
  "sc_encryption_keys mclient0 = keys_unencrypted" "sc_last_message_type mclient0 = None"
  "sc_encryption_keys mclient1 = keys_unencrypted" "sc_last_message_type mclient1 = Some DIUNAccept"
  "sc_non_interoperable_kdf_required mclient1 = Some False"
  "sc_encryption_keys (mclient2 keys) = keys" "sc_last_message_type (mclient2 keys) = Some DIUNProvideKeyParameters"
  by (simp_all add: service_client_new_def answered_def message_defs)

lemma diun_rules:
  "request_encryption diun_Connect keys_unencrypted = Ok ()" "response_encryption diun_Accept keys_unencrypted None = Ok ()"
  "request_encryption diun_RequestKeyParameters keys_unencrypted = Ok ()"
  "response_encryption diun_ProvideKeyParameters keys_unencrypted (Some (keys_from_derived c k)) = Ok ()"
  "request_encryption diun_ProvideKey (keys_from_derived c k) = Ok ()"
  "response_encryption diun_Done (keys_from_derived c k) None = Ok ()"
  "is_valid_previous_message diun_Connect None" "is_valid_previous_message diun_Accept (Some DIUNConnect)"
  "is_valid_previous_message diun_RequestKeyParameters (Some DIUNAccept)"
  "is_valid_previous_message diun_ProvideKeyParameters (Some DIUNRequestKeyParameters)"
  "is_valid_previous_message diun_ProvideKey (Some DIUNProvideKeyParameters)"
  "is_valid_previous_message diun_Done (Some DIUNProvideKey)"
  "message_spec.message_type diun_Connect = DIUNConnect" "message_spec.message_type diun_RequestKeyParameters = DIUNRequestKeyParameters"
  "message_spec.message_type diun_ProvideKey = DIUNProvideKey"
  by (simp_all add: request_encryption_def response_encryption_def message_defs keys_unencrypted_def keys_is_none_def
      keys_is_some_def keys_from_derived_def)

lemma diun_sealed:
  "keys_encrypt sample_http (keys_from_derived c (Combined k)) b = Ok (rev b)"
  "keys_decrypt sample_http (keys_from_derived c (Combined k)) b = Ok (rev b)"
  by (simp_all add: keys_encrypt_def keys_decrypt_def keys_from_derived_def) (simp_all add: sample_http_def)

lemma sample_mfg_codes:
  "connect_ser sample_mfg m = Ok [0x80]" "serde_ser (c_key_request sample_mfg) t = Ok [0x80]"
  "key_parameters_des sample_mfg [0x80] = Ok \<lparr>pkp_key_type = SECP256R1, pkp_key_storage_types_allowed = None\<rparr>"
  "provide_key_ser sample_mfg pm = Ok [0x80]" "serde_des (c_diun_done sample_mfg) [0x80] = Ok SerialNumber"
  by (simp_all add: connect_ser_def serde_ser_def serde_des_def key_parameters_des_def provide_key_ser_def sample_mfg_def
      codec_of_def table_def)

lemma diun_device_connects:
  assumes "derive_key diun_sample device_kex Device A256Gcm owner_pub False = Ok (Combined k)"
  shows "diun_connect_step diun_sample sample_mfg sample_http scripted diun_rnd accept_mode
    (reply diun_Accept (0xd2 # 0x84 # concat accept_items) # w, mclient0) =
    ((w, mclient1), Ok (keys_from_derived A256Gcm (Combined k)))"
proof -
  let ?t = "\<lparr>cs_contents = \<lparr>tag = Some COSESIGN_TAG, header = Some [0xd2, 0x84], contents = accept_items\<rparr>,
         cached_inner = accept_cose\<rparr>"
  have s: "send_request diun_sample sample_http scripted diun_Connect diun_Accept (connect_ser sample_mfg)
      (\<lambda>bs. rmap Accept (cosesign_des diun_sample bs)) m None
      (reply diun_Accept (0xd2 # 0x84 # concat accept_items) # w, mclient0) = ((w, mclient1), Ok (Accept ?t))" for m
    by (rule scripted_request [where rplain = "0xd2 # 0x84 # concat accept_items" and plain = "[0x80]" and body = "[0x80]"])
       (simp_all add: mclient_states diun_rules request_rules sample_mfg_codes accept_sent)
  have c: "check_accept diun_sample sample_mfg accept_mode (Nonce diun_nonce) ?t = Ok (AcceptPayload owner_pub)"
    by (rule accept_checked) simp
  have n: "nonce_new (Some diun_nonce) = Ok (Nonce diun_nonce)"
    by (simp add: nonce_new_def new_nonce_or_guid_val_def)
  show ?thesis
    by (simp add: diun_connect_step_def or_any_def sbind_def lift_def smap_err_def diun_rnd_def n sample_kex_new diun_public
        s c the_client_def mclient_states assms del: One_nat_def)
qed

lemma diun_device_done:
  assumes "derive_key diun_sample device_kex Device A256Gcm owner_pub False = Ok (Combined k)"
  shows "perform_diun diun_sample sample_mfg sample_keys sample_http scripted diun_rnd accept_mode
    ([reply diun_Accept (0xd2 # 0x84 # concat accept_items), reply diun_ProvideKeyParameters [0x80], reply diun_Done [0x80]],
     mclient0) =
    (([], mclient3 (keys_from_derived A256Gcm (Combined k))), Ok (KeyFileSystem (PrivKey [4]) (replicate 32 1), SerialNumber))"
proof -
  let ?keys = "keys_from_derived A256Gcm (Combined k)"
  have p: "send_request diun_sample sample_http scripted diun_RequestKeyParameters diun_ProvideKeyParameters
      (\<lambda>m. serde_ser (c_key_request sample_mfg) (rkp_tenant_id m)) (key_parameters_des sample_mfg) m (Some ?keys)
      (reply diun_ProvideKeyParameters [0x80] # w, mclient1) =
      ((w, mclient2 ?keys), Ok \<lparr>pkp_key_type = SECP256R1, pkp_key_storage_types_allowed = None\<rparr>)" for m w
    by (rule scripted_request [where rplain = "[0x80]" and plain = "[0x80]" and body = "[0x80]"])
       (simp_all add: mclient_states diun_rules request_rules sample_mfg_codes diun_sealed)
  have d: "send_request diun_sample sample_http scripted diun_ProvideKey diun_Done (provide_key_ser sample_mfg)
      (\<lambda>bs. rmap DiunDone (serde_des (c_diun_done sample_mfg) bs)) m None (reply diun_Done [0x80] # w, mclient2 ?keys) =
      ((w, mclient3 ?keys), Ok (DiunDone SerialNumber))" for m w
    by (rule scripted_request [where rplain = "[0x80]" and plain = "[0x80]" and body = "[0x80]"])
       (simp_all add: mclient_states diun_rules sample_mfg_codes diun_sealed)
  have k: "get_new_key diun_sample sample_keys (Some (replicate 32 1)) SECP256R1 None =
      Ok (KeyFileSystem (PrivKey [4]) (replicate 32 1))"
    by (simp add: get_new_key_def get_new_key_filesystem_def sample_keys_def)
  have r: "dr_hmac_key diun_rnd = Some (replicate 32 1)" by (simp add: diun_rnd_def)
  show ?thesis
    using diun_device_connects [OF assms]
    by (simp add: perform_diun_def sbind_def lift_def smap_err_def p d k r diun_sample_fields)
qed


section \<open>The server\<close>

definition diun_ud :: manufacturing_ud where
  "diun_ud = mfg_ud\<lparr>mu_diun_configuration := Some \<lparr>dc_mfg_string_type = SerialNumber, dc_key_type = SECP256R1,
     dc_allowed_key_storage_types = [], dc_key = PrivKey [8], dc_public_keys = accept_key\<rparr>\<rparr>"

definition connect_message :: diun_connect where
  "connect_message = \<lparr>dcn_nonce_diun_1 = Nonce diun_nonce, dcn_kex_suite = Ecdh384, dcn_cipher_suite = A256Gcm,
     dcn_key_exchange = device_pub\<rparr>"

abbreviation accept_token :: cosesign where
  "accept_token \<equiv> \<lparr>cs_contents = \<lparr>tag = Some COSESIGN_TAG, header = Some [0x84], contents = accept_items\<rparr>,
     cached_inner = accept_cose\<rparr>"

lemma diun_server_connects:
  assumes "derive_key diun_sample owner_kex OwnerService A256Gcm device_pub False = Ok (Combined k)"
  shows "handle_diun_connect diun_sample sample_mfg sample_http diun_ud (Some [1]) (fixed_random 5) new_info connect_message t =
    (t, Ok (Accept accept_token,
      new_info\<lparr>ri_session := (''AAAA'', [(DIUN_KEYS_SES_KEY, SKeys (keys_from_derived A256Gcm (Combined k)))])\<rparr>))"
proof -
  have "new_from_inner diun_sample accept_cose = Ok accept_token"
    by (rule new_from_inner_items [OF accept_items_ok]) (simp add: diun_sample_fields accept_cose_def)
  moreover have "accept_payload_ser sample_mfg (AcceptPayload owner_pub) = Ok accept_bytes"
    using sample_publics_length [of 5]
    by (simp add: accept_payload_ser_def serde_ser_def sample_mfg_def bytes_codec_def codec_of_def bstr_opt_def accept_bytes_def)
  ultimately have c: "cosesign_new_with_protected diun_sample (accept_payload_ser sample_mfg (AcceptPayload owner_pub)) pr un (PrivKey [8]) =
      Ok accept_token" for pr un
    by (simp add: cosesign_new_with_protected_def Let_def diun_sample_fields)
  have v: "\<exists>x. to_value (v_nonce diun_sample) n = Some x" for n
    by (simp add: v_nonce_def diun_sample_fields) (simp add: sample_def)
  have u: "\<exists>x. to_value (v_public_key diun_sample) n = Some x" for n
    by (simp add: v_public_key_def diun_sample_fields)
  obtain x y where xy: "to_value (v_nonce diun_sample) (Nonce diun_nonce) = Some x"
    "to_value (v_public_key diun_sample) accept_key = Some y" using u v by blast
  have h: "header_true (ri_headers new_info) b = False" for b by (simp add: header_true_def new_info_def)
  have s: "ri_session new_info = (''AAAA'', [])" by (simp add: new_info_def)
  show ?thesis
    by (simp add: handle_diun_connect_def Let_def fail_if_no_diun_def diun_ud_def sbind_def lift_def or_internal_def h s
        connect_message_def sample_kex_new assms session_put_def sample_session_ops diun_public chm_insert_def xy c del: One_nat_def)
qed


end
