(* ===== verification/Spec2Isabelle.thy ===== *)
theory Spec2Isabelle
  imports Diun_Witnesses
begin

text \<open>
  A verification of the protocol core of \<open>fido-device-onboard-rs\<close>, an implementation of FIDO Device
  Onboard in Rust. File names below are relative to \<open>src/\<close>.

  \<^bold>\<open>The program.\<close> A device is made in a factory with a credential (a GUID, an HMAC secret, a private key and
  the hash of the manufacturer's public key) and an ownership voucher, a CBOR array with a header, an HMAC
  of the header under the device's secret, the device's certificate chain and a chain of signed entries,
  each naming the next owner's key. The manufacturing server proves itself to the manufacturing client on the
  device and receives the key of the device (protocol DIUN), then makes the voucher and the client saves
  the credential (DI). The owner registers the device with a rendezvous server (protocol TO0),
  the device asks the rendezvous server for its owner (TO1) and onboards with the owner (TO2), where both
  sides prove themselves, agree on session keys and exchange service info. The servers share an HTTP
  wrapper that keeps a session per client, checks the order of messages and their encryption, and stores
  sessions, vouchers and registrations in a \<open>Store\<close>.

  \<^bold>\<open>Conventions.\<close> A Rust function is a HOL function with outcome \<open>('e, 'a) res\<close>: \<open>Ok\<close>, \<open>Err\<close> or \<open>Panic\<close>
  (an \<open>unwrap\<close> of an error, an index out of range, a failed assertion). Stateful code is a function from a
  state to a state and an outcome (\<open>st\<close> of \<open>Prelude\<close>). Bytes are \<open>8 word\<close>; fixed-width integers are words, or
  naturals with the wrap-around or the bound written out. The third-party crates (OpenSSL, COSE, serde,
  TSS, reqwest, warp-sessions) are fields of one library record \<open>L\<close> (\<open>Libs\<close>, extended along the
  development) or of \<open>H\<close> (\<open>Http_Server\<close>); what a theorem assumes of them is a predicate named \<open>..._doc\<close>.
  Random values, clocks, system calls that may fail and the network are arguments.

  \<^bold>\<open>Theories.\<close>
  \<^item> \<open>Prelude\<close>, \<open>Errors\<close>, \<open>Libs\<close>: outcomes, state computations, big-endian numbers; \<open>data-formats/src/errors.rs\<close>;
    the library record.
  \<^item> \<open>Cbor_Parser\<close>, \<open>Cbor_Correct\<close>, \<open>Serializable\<close>: \<open>data-formats/src/cborparser.rs\<close> and the traits of
    \<open>serializable.rs\<close>. The parser loop is equivalent to a grammar of CBOR items, it terminates, and what is
    written is read back; the locale \<open>deserializable_many\<close> carries the round trip of streams.
  \<^item> \<open>Constants\<close>, \<open>Messages\<close>: the enumerations and the messages of version 1.1 with their types, predecessors and
    encryption requirements; the runs of the protocols.
  \<^item> \<open>Types\<close>, \<open>PublicKey\<close>, \<open>KeyExchange\<close>, \<open>Cose\<close>, \<open>Payloads\<close>: \<open>data-formats/src/types.rs\<close>, \<open>publickey.rs\<close>, \<open>enhanced_types.rs\<close>:
    hashes, nonces, service info, certificate chains and bags, key derivation, signed messages, attestation
    tokens and the contents of the messages.
  \<^item> \<open>OwnershipVoucher\<close>, \<open>Voucher_Transport\<close>: \<open>ownershipvoucher.rs\<close>. The iterator accepts exactly the unbroken
    chains, \<open>extend\<close> needs the current owner's key and keeps the chain valid, and vouchers survive transport.
  \<^item> \<open>Store\<close>: \<open>store/src/lib.rs\<close> and \<open>directory.rs\<close>. The locale \<open>store_contract\<close> says what a store with expiry
    promises; the directory store, on an explicit directory with files, temporary files and extended
    attributes, is an interpretation of it.
  \<^item> \<open>Http_Server\<close>, \<open>Http_Sessions\<close>, \<open>Http_Client\<close>: \<open>http-wrapper/src/lib.rs\<close>, \<open>server.rs\<close>, \<open>client.rs\<close>. The locale
    \<open>session_server\<close> proves, over every store with the contract, that the messages of a session come in
    protocol order and that invariants of sessions hold over all runs (\<open>server_run\<close>, an inductive predicate).
  \<^item> \<open>Rendezvous\<close>, \<open>Registration\<close>: \<open>rendezvous-server/src\<close> and the owner's side of TO0.
  \<^item> \<open>Owner_Onboarding\<close>, \<open>Owner_Sessions\<close>: \<open>owner-onboarding-server/src/handlers.rs\<close> and the endpoints of \<open>main.rs\<close>; the
    locale \<open>voucher_store\<close> is the part of a store the invariant of sessions needs.
  \<^item> \<open>Device_Credential\<close>, \<open>Device_Client\<close>: \<open>data-formats/src/devicecredential/file.rs\<close>, \<open>util/src/device_credential_locations.rs\<close>
    and TO1 and TO2 of \<open>client-linuxapp/src/main.rs\<close>.
  \<^item> \<open>To2_Keys\<close>: both sides of TO2 together.
  \<^item> \<open>Manufacturing\<close>, \<open>Manufacturing_Vouchers\<close>, \<open>Manufacturing_Sessions\<close>: \<open>manufacturing-server/src/handlers/di.rs\<close>, \<open>diun.rs\<close>
    and the endpoints of \<open>main.rs\<close>. DI stores the right voucher, and with plain DI disabled only after DIUN.
  \<^item> \<open>Manufacturing_Client\<close>, \<open>Device_Initialisation\<close>: \<open>manufacturing-client/src/main.rs\<close> and
    \<open>util/src/device_identification.rs\<close>. The client goes on only with a server that it was told to trust, both
    sides of DIUN have the same keys, and the saved credential accepts the stored voucher.
  \<^item> \<open>Sample_Library\<close>, \<open>Witnesses\<close>, \<open>Server_Witnesses\<close>, \<open>To2_Witnesses\<close>, \<open>Device_Witness\<close>,
    \<open>Manufacturing_Witnesses\<close>, \<open>Diun_Witnesses\<close>: a concrete library record
    with the documented behaviour, and the theorems applied to concrete data.

  \<^bold>\<open>Bounds and fuel.\<close> No definition takes fuel. The parser loop of CBOR arrays recurses on the rest of the
  input, which every round shortens; reading many objects from a stream is a \<open>partial_function\<close>, and its
  results are shown to exist; iteration over the entries of a voucher and over service info recurses on the
  number of elements left. Lengths are 64 bits wide where the code computes with them, and a voucher has at
  most 65535 entries where the code casts their number to 16 bits.

  \<^bold>\<open>Not modelled.\<close> Configuration files, process set-up and logging; the routes of the manufacturing server that
  export vouchers; the attributes and contexts of TPM objects and disk encryption commands; the execution of
  service info modules on the device; the owner and admin tools; the service info API server; the
  database crate, whose functions are SQL queries; the C bindings; the messages of version 1.0, which are not part of the build. HTTP routing and TLS are behind the argument \<open>post\<close> of
  the client and the choice of endpoints of the servers.
\<close>

end
